(* ===== verification/Prelude.thy ===== *)
theory Prelude
  imports Main
begin

text \<open>
  Shared vocabulary of the development: programs that read and write a state and may raise
  (\<open>return_p\<close>, \<open>raise_p\<close>, \<open>bind_p\<close>, \<open>catch_p\<close>), their weakest
  precondition \<open>wp\<close> with one rewrite rule per construct (collection \<open>wp_simps\<close>),
  the notion of a program that keeps a predicate (\<open>keeps\<close>, collection
  \<open>keeps_intros\<close>), and the list lemmas about tables of rows with a key that the
  repositories share.
\<close>

named_theorems wp_simps "weakest preconditions of program constructs and operations"
named_theorems keeps_intros "programs that keep a predicate of the state"
named_theorems wf_intros "operations that keep the database constraints"

section \<open>Programs with state and exceptions\<close>

text \<open>
  A Python routine is a function from the state to a result, \<open>Inl\<close> of the exception it
  raised or \<open>Inr\<close> of the value it returned, and the state it left. An exception does
  not undo what was done before it.
\<close>

type_synonym ('s, 'e, 'a) prog = "'s \<Rightarrow> ('e + 'a) \<times> 's"

definition return_p :: "'a \<Rightarrow> ('s, 'e, 'a) prog" where
  "return_p x = (\<lambda>s. (Inr x, s))"

definition raise_p :: "'e \<Rightarrow> ('s, 'e, 'a) prog" where
  "raise_p e = (\<lambda>s. (Inl e, s))"

definition bind_p :: "('s, 'e, 'a) prog \<Rightarrow> ('a \<Rightarrow> ('s, 'e, 'b) prog) \<Rightarrow> ('s, 'e, 'b) prog" where
  "bind_p m f = (\<lambda>s. case m s of (Inl e, s') \<Rightarrow> (Inl e, s') | (Inr x, s') \<Rightarrow> f x s')"

definition then_p :: "('s, 'e, 'a) prog \<Rightarrow> ('s, 'e, 'b) prog \<Rightarrow> ('s, 'e, 'b) prog" where
  "then_p m k = bind_p m (\<lambda>_. k)"

text \<open>\<open>try: m except ...: h\<close>; the handler decides which exceptions it takes.\<close>

definition catch_p :: "('s, 'e, 'a) prog \<Rightarrow> ('e \<Rightarrow> ('s, 'e, 'a) prog) \<Rightarrow> ('s, 'e, 'a) prog" where
  "catch_p m h = (\<lambda>s. case m s of (Inl e, s') \<Rightarrow> h e s' | (Inr x, s') \<Rightarrow> (Inr x, s'))"

definition gets_p :: "('s \<Rightarrow> 'a) \<Rightarrow> ('s, 'e, 'a) prog" where
  "gets_p f = (\<lambda>s. (Inr (f s), s))"

definition modify_p :: "('s \<Rightarrow> 's) \<Rightarrow> ('s, 'e, unit) prog" where
  "modify_p f = (\<lambda>s. (Inr (), f s))"

text \<open>A pure computation that may raise.\<close>

definition lift_p :: "'e + 'a \<Rightarrow> ('s, 'e, 'a) prog" where
  "lift_p r = (\<lambda>s. (r, s))"

section \<open>Weakest preconditions\<close>

text \<open>
  \<open>wp m Q E s\<close>: run from \<open>s\<close>, the program ends in a state that satisfies
  \<open>Q\<close> of its value if it returns and \<open>E\<close> of its exception if it raises.
\<close>

definition wp :: "('s, 'e, 'a) prog \<Rightarrow> ('a \<Rightarrow> 's \<Rightarrow> bool) \<Rightarrow> ('e \<Rightarrow> 's \<Rightarrow> bool) \<Rightarrow> 's \<Rightarrow> bool" where
  "wp m Q E s = (case m s of (Inl e, s') \<Rightarrow> E e s' | (Inr x, s') \<Rightarrow> Q x s')"

lemma wp_return [wp_simps, simp]: "wp (return_p x) Q E = Q x"
  by (rule ext) (simp add: wp_def return_p_def)

lemma wp_raise [wp_simps, simp]: "wp (raise_p e) Q E = E e"
  by (rule ext) (simp add: wp_def raise_p_def)

lemma wp_bind [wp_simps, simp]: "wp (bind_p m f) Q E = wp m (\<lambda>x. wp (f x) Q E) E"
  by (rule ext) (simp add: wp_def bind_p_def split: prod.splits sum.splits)

lemma wp_then [wp_simps, simp]: "wp (then_p m k) Q E = wp m (\<lambda>_. wp k Q E) E"
  by (rule ext) (simp add: then_p_def)

lemma wp_catch [wp_simps, simp]: "wp (catch_p m h) Q E = wp m Q (\<lambda>e. wp (h e) Q E)"
  by (rule ext) (simp add: wp_def catch_p_def split: prod.splits sum.splits)

lemma wp_gets [wp_simps, simp]: "wp (gets_p f) Q E s = Q (f s) s"
  by (simp add: wp_def gets_p_def)

lemma wp_modify [wp_simps, simp]: "wp (modify_p f) Q E s = Q () (f s)"
  by (simp add: wp_def modify_p_def)

lemma wp_lift [wp_simps, simp]: "wp (lift_p r) Q E s = (case r of Inl e \<Rightarrow> E e s | Inr x \<Rightarrow> Q x s)"
  by (simp add: wp_def lift_p_def)

lemma wp_if [wp_simps, simp]:
  "wp (if b then m else n) Q E s = (if b then wp m Q E s else wp n Q E s)"
  by simp

lemma wp_case_option [wp_simps, simp]:
  "wp (case x of None \<Rightarrow> m | Some y \<Rightarrow> f y) Q E s =
   (case x of None \<Rightarrow> wp m Q E s | Some y \<Rightarrow> wp (f y) Q E s)"
  by (simp split: option.splits)

lemma wp_case_sum [wp_simps, simp]:
  "wp (case x of Inl y \<Rightarrow> g y | Inr y \<Rightarrow> f y) Q E s =
   (case x of Inl y \<Rightarrow> wp (g y) Q E s | Inr y \<Rightarrow> wp (f y) Q E s)"
  by (simp split: sum.splits)

lemma wp_case_prod [wp_simps, simp]:
  "wp (case x of (a, b) \<Rightarrow> f a b) Q E s = (case x of (a, b) \<Rightarrow> wp (f a b) Q E s)"
  by (simp split: prod.splits)

lemma wp_Let [wp_simps, simp]: "wp (Let x f) Q E s = wp (f x) Q E s"
  by simp

lemma wp_mono:
  "wp m Q E s \<Longrightarrow> (\<And>x s'. Q x s' \<Longrightarrow> Q' x s') \<Longrightarrow> (\<And>e s'. E e s' \<Longrightarrow> E' e s') \<Longrightarrow> wp m Q' E' s"
  by (auto simp: wp_def split: prod.splits sum.splits)

lemma wp_conj:
  "wp m (\<lambda>x s. Q x s \<and> Q' x s) (\<lambda>e s. E e s \<and> E' e s) s \<longleftrightarrow> wp m Q E s \<and> wp m Q' E' s"
  by (auto simp: wp_def split: prod.splits sum.splits)

lemma wp_Inr: "wp m Q E s \<Longrightarrow> m s = (Inr x, s') \<Longrightarrow> Q x s'"
  by (simp add: wp_def)

lemma wp_run: "m s = (Inr x, s') \<Longrightarrow> wp m Q E s = Q x s'"
  by (simp add: wp_def)

lemma wp_Inl: "wp m Q E s \<Longrightarrow> m s = (Inl e, s') \<Longrightarrow> E e s'"
  by (simp add: wp_def)

text \<open>The result of a run, read back from a weakest precondition.\<close>

lemma wp_eqI: "wp m (\<lambda>x s'. r = Inr x \<and> t = s') (\<lambda>e s'. r = Inl e \<and> t = s') s \<Longrightarrow> m s = (r, t)"
  by (auto simp: wp_def split: prod.splits sum.splits)

lemma run_eq_wp:
  "m s = (Inr x, s') \<longleftrightarrow> wp m (\<lambda>y t. y = x \<and> t = s') (\<lambda>_ _. False) s"
  "m s = (Inl e, s') \<longleftrightarrow> wp m (\<lambda>_ _. False) (\<lambda>f t. f = e \<and> t = s') s"
  by (auto simp: wp_def split: prod.splits sum.splits)

section \<open>Evaluation of a run\<close>

lemma run_return [simp]: "return_p x s = (Inr x, s)"
  by (simp add: return_p_def)

lemma run_raise [simp]: "raise_p e s = (Inl e, s)"
  by (simp add: raise_p_def)

lemma run_bind [simp]:
  "bind_p m f s = (case m s of (Inl e, s') \<Rightarrow> (Inl e, s') | (Inr x, s') \<Rightarrow> f x s')"
  by (simp add: bind_p_def)

lemma run_then [simp]:
  "then_p m k s = (case m s of (Inl e, s') \<Rightarrow> (Inl e, s') | (Inr x, s') \<Rightarrow> k s')"
  by (simp add: then_p_def)

lemma run_catch [simp]:
  "catch_p m h s = (case m s of (Inl e, s') \<Rightarrow> h e s' | (Inr x, s') \<Rightarrow> (Inr x, s'))"
  by (simp add: catch_p_def)

lemma run_gets [simp]: "gets_p f s = (Inr (f s), s)"
  by (simp add: gets_p_def)

lemma run_modify [simp]: "modify_p f s = (Inr (), f s)"
  by (simp add: modify_p_def)

lemma run_lift [simp]: "lift_p r s = (r, s)"
  by (simp add: lift_p_def)

lemma bind_assoc: "bind_p (bind_p m f) g = bind_p m (\<lambda>x. bind_p (f x) g)"
  by (rule ext) (simp split: prod.splits sum.splits)

lemma bind_return_right: "bind_p m return_p = m"
  by (rule ext) (simp split: prod.splits sum.splits)

section \<open>Programs that keep a predicate\<close>

text \<open>A program keeps \<open>I\<close> when it holds afterwards, however the program ends.\<close>

definition keeps :: "('s \<Rightarrow> bool) \<Rightarrow> ('s, 'e, 'a) prog \<Rightarrow> bool" where
  "keeps I m \<longleftrightarrow> (\<forall>s. I s \<longrightarrow> I (snd (m s)))"

lemma keepsI: "(\<And>s. I s \<Longrightarrow> I (snd (m s))) \<Longrightarrow> keeps I m"
  by (simp add: keeps_def)

lemma keepsD: "keeps I m \<Longrightarrow> I s \<Longrightarrow> m s = (r, s') \<Longrightarrow> I s'"
  by (metis keeps_def snd_conv)

lemma wp_same: "wp m (\<lambda>_. I) (\<lambda>_. I) s \<longleftrightarrow> I (snd (m s))"
  by (simp add: wp_def split: prod.split sum.split)

lemma keeps_wp: "keeps I m \<longleftrightarrow> (\<forall>s. I s \<longrightarrow> wp m (\<lambda>_. I) (\<lambda>_. I) s)"
  by (simp add: keeps_def wp_same)

lemma keeps_return [keeps_intros, simp]: "keeps I (return_p x)"
  by (simp add: keeps_def)

lemma keeps_raise [keeps_intros, simp]: "keeps I (raise_p e)"
  by (simp add: keeps_def)

lemma keeps_gets [keeps_intros, simp]: "keeps I (gets_p f)"
  by (simp add: keeps_def)

lemma keeps_lift [keeps_intros, simp]: "keeps I (lift_p r)"
  by (simp add: keeps_def)

lemma keeps_modify: "(\<And>s. I s \<Longrightarrow> I (f s)) \<Longrightarrow> keeps I (modify_p f)"
  by (simp add: keeps_def)

lemma keeps_bind [keeps_intros]:
  "keeps I m \<Longrightarrow> (\<And>x. keeps I (f x)) \<Longrightarrow> keeps I (bind_p m f)"
  unfolding keeps_wp by (auto intro: wp_mono)

lemma keeps_bind_lift:
  "(\<And>x. r = Inr x \<Longrightarrow> keeps I (f x)) \<Longrightarrow> keeps I (bind_p (lift_p r) f)"
  by (cases r) (simp_all add: keeps_def)

lemma keeps_then [keeps_intros]: "keeps I m \<Longrightarrow> keeps I k \<Longrightarrow> keeps I (then_p m k)"
  unfolding then_p_def by (rule keeps_bind)

lemma keeps_catch [keeps_intros]:
  "keeps I m \<Longrightarrow> (\<And>e. keeps I (h e)) \<Longrightarrow> keeps I (catch_p m h)"
  unfolding keeps_wp by (auto intro: wp_mono)

lemma keeps_if [keeps_intros]:
  "(b \<Longrightarrow> keeps I m) \<Longrightarrow> (\<not> b \<Longrightarrow> keeps I n) \<Longrightarrow> keeps I (if b then m else n)"
  by simp

lemma keeps_case_option [keeps_intros]:
  "(x = None \<Longrightarrow> keeps I m) \<Longrightarrow> (\<And>y. x = Some y \<Longrightarrow> keeps I (f y)) \<Longrightarrow>
   keeps I (case x of None \<Rightarrow> m | Some y \<Rightarrow> f y)"
  by (simp split: option.splits)

lemma keeps_case_sum [keeps_intros]:
  "(\<And>y. x = Inl y \<Longrightarrow> keeps I (g y)) \<Longrightarrow> (\<And>y. x = Inr y \<Longrightarrow> keeps I (f y)) \<Longrightarrow>
   keeps I (case x of Inl y \<Rightarrow> g y | Inr y \<Rightarrow> f y)"
  by (simp split: sum.splits)

lemma keeps_case_prod [keeps_intros]:
  "(\<And>a b. x = (a, b) \<Longrightarrow> keeps I (f a b)) \<Longrightarrow> keeps I (case x of (a, b) \<Rightarrow> f a b)"
  by (simp split: prod.splits)

lemma keeps_Let [keeps_intros]: "keeps I (f x) \<Longrightarrow> keeps I (Let x f)"
  by simp

section \<open>Tables as lists of rows\<close>

text \<open>
  A row found by its key, and the rows of one key changed in place. The lemmas hold for a
  change that keeps the key; \<open>row_change\<close> states that contract.
\<close>

definition find_row :: "('r \<Rightarrow> 'k) \<Rightarrow> 'k \<Rightarrow> 'r list \<Rightarrow> 'r option" where
  "find_row key k rows = find (\<lambda>r. key r = k) rows"

definition update_rows :: "('r \<Rightarrow> 'k) \<Rightarrow> 'k \<Rightarrow> ('r \<Rightarrow> 'r) \<Rightarrow> 'r list \<Rightarrow> 'r list" where
  "update_rows key k f rows = map (\<lambda>r. if key r = k then f r else r) rows"

lemma find_row_Nil [simp]: "find_row key k [] = None"
  by (simp add: find_row_def)

lemma find_row_Cons [simp]:
  "find_row key k (r # rs) = (if key r = k then Some r else find_row key k rs)"
  by (simp add: find_row_def)

lemma find_row_append:
  "find_row key k (rs @ ss) = (case find_row key k rs of None \<Rightarrow> find_row key k ss | Some r \<Rightarrow> Some r)"
  by (induction rs) auto

lemma find_row_None: "find_row key k rows = None \<longleftrightarrow> k \<notin> key ` set rows"
  by (induction rows) auto

lemma find_row_SomeD: "find_row key k rows = Some r \<Longrightarrow> r \<in> set rows \<and> key r = k"
  by (induction rows) (auto split: if_splits)

lemma find_row_distinct:
  "distinct (map key rows) \<Longrightarrow> r \<in> set rows \<Longrightarrow> find_row key (key r) rows = Some r"
  by (induction rows) auto

lemma find_row_iff:
  "distinct (map key rows) \<Longrightarrow> find_row key k rows = Some r \<longleftrightarrow> r \<in> set rows \<and> key r = k"
  by (auto dest: find_row_SomeD intro: find_row_distinct)

lemma filter_absent: "k \<notin> key ` set rows \<Longrightarrow> filter (\<lambda>r. key r = k) rows = []"
  by (induction rows) auto

lemma filter_key:
  "distinct (map key rows) \<Longrightarrow>
   filter (\<lambda>r. key r = k) rows = (case find_row key k rows of None \<Rightarrow> [] | Some r \<Rightarrow> [r])"
  by (induction rows) (auto simp: filter_absent)

text \<open>With a second condition, which the one row of the key meets or not.\<close>

lemma filter_key_and:
  assumes "distinct (map key rows)"
  shows "filter (\<lambda>r. key r = k \<and> P r) rows =
     (case find_row key k rows of None \<Rightarrow> [] | Some r \<Rightarrow> if P r then [r] else [])"
proof -
  have "filter (\<lambda>r. key r = k \<and> P r) rows = filter P (filter (\<lambda>r. key r = k) rows)"
    by (simp add: conj_commute)
  then show ?thesis by (simp add: filter_key [OF assms] split: option.split)
qed

lemma update_rows_Nil [simp]: "update_rows key k f [] = []"
  by (simp add: update_rows_def)

lemma update_rows_Cons [simp]:
  "update_rows key k f (r # rs) = (if key r = k then f r else r) # update_rows key k f rs"
  by (simp add: update_rows_def)

lemma length_update_rows [simp]: "length (update_rows key k f rows) = length rows"
  by (simp add: update_rows_def)

lemma set_update_rows:
  "set (update_rows key k f rows) =
   {f r |r. r \<in> set rows \<and> key r = k} \<union> {r \<in> set rows. key r \<noteq> k}"
  by (auto simp: update_rows_def)

lemma update_rows_append:
  "update_rows key k f (rs @ ss) = update_rows key k f rs @ update_rows key k f ss"
  by (simp add: update_rows_def)

lemma update_rows_absent: "k \<notin> key ` set rows \<Longrightarrow> update_rows key k f rows = rows"
  by (induction rows) auto

lemma map_update_rows_frame:
  "(\<And>r. g (f r) = g r) \<Longrightarrow> map g (update_rows key k f rows) = map g rows"
  by (simp add: update_rows_def)

text \<open>Every row still satisfies what the change does not break.\<close>

lemma ball_update_rows:
  "(\<And>r. r \<in> set rows \<Longrightarrow> key r = k \<Longrightarrow> P r \<Longrightarrow> P (f r)) \<Longrightarrow> \<forall>r \<in> set rows. P r \<Longrightarrow>
   \<forall>r \<in> set (update_rows key k f rows). P r"
  by (auto simp: update_rows_def)

locale row_change =
  fixes key :: "'r \<Rightarrow> 'k"
    and change :: "'r \<Rightarrow> 'r"
  assumes key_change: "key (change r) = key r"
begin

lemma keys_update: "map key (update_rows key k change rows) = map key rows"
  by (rule map_update_rows_frame) (rule key_change)

lemma find_update_same:
  "find_row key k (update_rows key k change rows) = map_option change (find_row key k rows)"
  by (induction rows) (auto simp: key_change)

lemma find_update_other:
  "k' \<noteq> k \<Longrightarrow> find_row key k' (update_rows key k change rows) = find_row key k' rows"
  by (induction rows) (auto simp: key_change)

lemma find_update:
  "find_row key k' (update_rows key k change rows) =
   (if k' = k then map_option change (find_row key k' rows) else find_row key k' rows)"
  by (simp add: find_update_same find_update_other)

end

lemma image_key_neq [simp]: "key ` {x \<in> A. key x \<noteq> k} = key ` A - {k}"
  by auto

text \<open>Inserting a row whose key is new keeps the keys distinct.\<close>

lemma distinct_snoc: "distinct (map key rows) \<Longrightarrow> k \<notin> key ` set rows \<Longrightarrow> key r = k \<Longrightarrow> distinct (map key (rows @ [r]))"
  by auto

text \<open>Replacing the row of one key by a row whose second key is not used elsewhere.\<close>

lemma distinct_update_key2:
  assumes "distinct (map key rows)" "distinct (map key2 rows)"
    and "\<forall>r \<in> set rows. key r \<noteq> k \<longrightarrow> key2 r \<noteq> key2 x"
  shows "distinct (map key2 (update_rows key k (\<lambda>_. x) rows))"
  using assms
proof (induction rows)
  case (Cons r rs)
  have keep: "\<forall>s \<in> set rs. key s \<noteq> key r" using Cons.prems(1) by (auto simp: image_iff)
  show ?case
  proof (cases "key r = k")
    case True
    with keep have "k \<notin> key ` set rs" by force
    with Cons.prems True keep show ?thesis by (auto simp: update_rows_absent)
  next
    case False
    with Cons show ?thesis by (fastforce simp: update_rows_def)
  qed
qed simp

end
