(* ===== verification/PyStr.thy ===== *)
theory PyStr
  imports Prelude "HOL-Library.Char_ord"
begin

text \<open>
  The operations of Python's \<open>str\<close> and \<open>int\<close> that the program uses, on strings as
  lists of characters: truthiness of optional strings (\<open>a or b\<close>), \<open>startswith\<close>,
  \<open>endswith\<close>, \<open>replace\<close>, \<open>strip\<close>, \<open>split\<close>, \<open>splitlines\<close>, \<open>lower\<close>,
  \<open>int(s, base)\<close> and \<open>str(int)\<close>. Characters are the 256 code points of
  \<open>char\<close>; text beyond them is outside the model.
\<close>

section \<open>Truthiness\<close>

text \<open>\<open>x or d\<close> for \<open>x : str | None\<close>: the empty string is as false as \<open>None\<close>.\<close>

definition truthy :: "string option \<Rightarrow> bool" where
  "truthy x = (case x of None \<Rightarrow> False | Some s \<Rightarrow> s \<noteq> [])"

definition str_or :: "string option \<Rightarrow> string \<Rightarrow> string" where
  "str_or x d = (case x of None \<Rightarrow> d | Some s \<Rightarrow> if s = [] then d else s)"

text \<open>\<open>s or None\<close>.\<close>

definition or_none :: "string \<Rightarrow> string option" where
  "or_none s = (if s = [] then None else Some s)"

lemma str_or_simps [simp]:
  "str_or None d = d" "str_or (Some []) d = d" "str_or (Some (c # s)) d = c # s"
  by (simp_all add: str_or_def)

lemma truthy_simps [simp]: "\<not> truthy None" "\<not> truthy (Some [])" "truthy (Some (c # s))"
  by (simp_all add: truthy_def)

lemma str_or_truthy: "truthy x \<Longrightarrow> str_or x d = the x"
  by (auto simp: truthy_def str_or_def split: option.splits)

lemma str_or_falsy: "\<not> truthy x \<Longrightarrow> str_or x d = d"
  by (auto simp: truthy_def str_or_def split: option.splits)

section \<open>Characters\<close>

text \<open>The characters below code point 256 for which \<open>str.isspace\<close> holds.\<close>

definition is_space :: "char \<Rightarrow> bool" where
  "is_space c = (of_char c \<in> set [9, 10, 11, 12, 13, 28, 29, 30, 31, 32, 133, 160 :: nat])"

text \<open>The characters below code point 256 at which \<open>str.splitlines\<close> breaks.\<close>

definition is_linebreak :: "char \<Rightarrow> bool" where
  "is_linebreak c = (of_char c \<in> set [10, 11, 12, 13, 28, 29, 30, 133 :: nat])"

definition to_lower :: "char \<Rightarrow> char" where
  "to_lower c = (let n = of_char c :: nat in
     if 65 \<le> n \<and> n \<le> 90 \<or> 192 \<le> n \<and> n \<le> 222 \<and> n \<noteq> 215 then char_of (n + 32) else c)"

definition lower :: "string \<Rightarrow> string" where
  "lower s = map to_lower s"

text \<open>\<open>str.upper\<close> on ASCII letters, the only ones the program relies on.\<close>

definition to_upper :: "char \<Rightarrow> char" where
  "to_upper c = (let n = of_char c :: nat in if 97 \<le> n \<and> n \<le> 122 then char_of (n - 32) else c)"

definition upper :: "string \<Rightarrow> string" where
  "upper s = map to_upper s"

text \<open>The value of a digit in a base up to 36.\<close>

definition digit_val :: "char \<Rightarrow> nat option" where
  "digit_val c = (let n = of_char c :: nat in
     if 48 \<le> n \<and> n \<le> 57 then Some (n - 48)
     else if 97 \<le> n \<and> n \<le> 122 then Some (n - 87)
     else if 65 \<le> n \<and> n \<le> 90 then Some (n - 55)
     else None)"

lemma length_lower [simp]: "length (lower s) = length s"
  by (simp add: lower_def)

lemma length_upper [simp]: "length (upper s) = length s"
  by (simp add: upper_def)

section \<open>Searching, replacing, stripping\<close>

fun starts_with :: "string \<Rightarrow> string \<Rightarrow> bool" where
  "starts_with s [] = True"
| "starts_with [] (p # ps) = False"
| "starts_with (c # cs) (p # ps) = (c = p \<and> starts_with cs ps)"

definition ends_with :: "string \<Rightarrow> string \<Rightarrow> bool" where
  "ends_with s suf = starts_with (rev s) (rev suf)"

fun contains_str :: "string \<Rightarrow> string \<Rightarrow> bool" where
  "contains_str [] pat = (pat = [])"
| "contains_str (c # cs) pat = (starts_with (c # cs) pat \<or> contains_str cs pat)"

lemma starts_with_append [simp]: "starts_with (p @ s) p"
  by (induction p) auto

lemma starts_with_iff: "starts_with s p \<longleftrightarrow> (\<exists>t. s = p @ t)"
proof (induction s p rule: starts_with.induct)
  case (3 c cs p ps)
  then show ?case by auto
qed auto

text \<open>\<open>s.replace(c, "")\<close> for a one-character pattern.\<close>

definition remove_char :: "char \<Rightarrow> string \<Rightarrow> string" where
  "remove_char c s = filter (\<lambda>d. d \<noteq> c) s"

text \<open>\<open>s.replace(pat, "")\<close>: leftmost non-overlapping occurrences.\<close>

function remove_all :: "string \<Rightarrow> string \<Rightarrow> string" where
  "remove_all pat s =
     (if pat = [] then s
      else case s of
        [] \<Rightarrow> []
      | c # cs \<Rightarrow> if starts_with s pat then remove_all pat (drop (length pat) s)
                   else c # remove_all pat cs)"
  by pat_completeness auto
termination
  by (relation "measure (\<lambda>(pat, s). length s)") (auto simp: neq_Nil_conv)

declare remove_all.simps [simp del]

lemma remove_all_absent: "c \<notin> set s \<Longrightarrow> remove_all (c # pat) s = s"
  by (induction s) (auto simp: remove_all.simps)

definition lstrip_by :: "(char \<Rightarrow> bool) \<Rightarrow> string \<Rightarrow> string" where
  "lstrip_by p s = dropWhile p s"

definition strip_by :: "(char \<Rightarrow> bool) \<Rightarrow> string \<Rightarrow> string" where
  "strip_by p s = rev (dropWhile p (rev (dropWhile p s)))"

definition strip :: "string \<Rightarrow> string" where
  "strip s = strip_by is_space s"

lemma strip_Nil [simp]: "strip [] = []"
  by (simp add: strip_def strip_by_def)

section \<open>Splitting\<close>

text \<open>\<open>s.split(c)\<close> with a one-character separator; never empty.\<close>

fun split_on :: "char \<Rightarrow> string \<Rightarrow> string list" where
  "split_on c [] = [[]]"
| "split_on c (d # ds) =
     (if d = c then [] # split_on c ds
      else case split_on c ds of [] \<Rightarrow> [[d]] | w # ws \<Rightarrow> (d # w) # ws)"

text \<open>\<open>s.split()\<close>: maximal runs of characters that are not space.\<close>

fun split_ws_aux :: "string \<Rightarrow> string \<Rightarrow> string list" where
  "split_ws_aux acc [] = (if acc = [] then [] else [rev acc])"
| "split_ws_aux acc (c # cs) =
     (if is_space c then (if acc = [] then split_ws_aux [] cs else rev acc # split_ws_aux [] cs)
      else split_ws_aux (c # acc) cs)"

definition split_ws :: "string \<Rightarrow> string list" where
  "split_ws s = split_ws_aux [] s"

text \<open>\<open>s.splitlines()\<close>: a carriage return and the line feed after it are one break, and a
  break at the end of the text starts no further line.\<close>

fun splitlines_aux :: "string \<Rightarrow> string \<Rightarrow> string list" where
  "splitlines_aux acc [] = (if acc = [] then [] else [rev acc])"
| "splitlines_aux acc (c # cs) =
     (if c = CHR 0x0D then
        rev acc # (case cs of
                     [] \<Rightarrow> splitlines_aux [] cs
                   | d # ds \<Rightarrow> if d = CHR 0x0A then splitlines_aux [] ds
                                else splitlines_aux [] (d # ds))
      else if is_linebreak c then rev acc # splitlines_aux [] cs
      else splitlines_aux (c # acc) cs)"

definition splitlines :: "string \<Rightarrow> string list" where
  "splitlines s = splitlines_aux [] s"

lemma split_on_nonempty [simp]: "split_on c s \<noteq> []"
  by (cases s) (auto split: list.splits)

lemma split_on_no_sep: "\<forall>w \<in> set (split_on c s). c \<notin> set w"
  by (induction s) (auto split: list.splits)

text \<open>Joining the pieces with the separator gives the text back.\<close>

fun join_on :: "char \<Rightarrow> string list \<Rightarrow> string" where
  "join_on c [] = []"
| "join_on c [w] = w"
| "join_on c (w # ws) = w @ c # join_on c ws"

lemma join_on_Cons: "ws \<noteq> [] \<Longrightarrow> join_on c (w # ws) = w @ c # join_on c ws"
  by (cases ws) auto

lemma join_on_Cons_head: "join_on c ((d # w) # ws) = d # join_on c (w # ws)"
  by (cases ws) auto

lemma join_split_on: "join_on c (split_on c s) = s"
proof (induction s)
  case (Cons d ds)
  then show ?case
    by (auto simp: join_on_Cons join_on_Cons_head split: list.splits)
qed simp

lemma split_on_no_occurrence: "c \<notin> set s \<Longrightarrow> split_on c s = [s]"
  by (induction s) auto

lemma split_on_append: "c \<notin> set w \<Longrightarrow> split_on c (w @ c # s) = w # split_on c s"
  by (induction w) auto

lemma split_join_on: "ws \<noteq> [] \<Longrightarrow> \<forall>w \<in> set ws. c \<notin> set w \<Longrightarrow> split_on c (join_on c ws) = ws"
  by (induction c ws rule: join_on.induct) (auto simp: split_on_no_occurrence split_on_append)

lemma split_ws_aux_pieces:
  "\<forall>c \<in> set acc. \<not> is_space c \<Longrightarrow> w \<in> set (split_ws_aux acc s) \<Longrightarrow> w \<noteq> [] \<and> (\<forall>c \<in> set w. \<not> is_space c)"
proof (induction acc s rule: split_ws_aux.induct)
  case (1 acc)
  then show ?case by (simp split: if_splits)
next
  case (2 acc c cs)
  show ?case
  proof (cases "is_space c")
    case True
    with "2.prems"(2) have "w = rev acc \<and> acc \<noteq> [] \<or> w \<in> set (split_ws_aux [] cs)"
      by (auto split: if_splits)
    then show ?thesis
    proof
      assume "w = rev acc \<and> acc \<noteq> []"
      with "2.prems"(1) show ?thesis by auto
    next
      assume w: "w \<in> set (split_ws_aux [] cs)"
      have none: "\<forall>d \<in> set []. \<not> is_space d" by simp
      show ?thesis
        by (cases "acc = []") (rule "2.IH"(1) [OF True _ none w] "2.IH"(2) [OF True _ none w], assumption)+
    qed
  next
    case False
    with "2.prems" have "\<forall>d \<in> set (c # acc). \<not> is_space d" and "w \<in> set (split_ws_aux (c # acc) cs)"
      by auto
    with False show ?thesis by (rule "2.IH"(3))
  qed
qed

lemma split_ws_pieces: "w \<in> set (split_ws s) \<Longrightarrow> w \<noteq> [] \<and> (\<forall>c \<in> set w. \<not> is_space c)"
  unfolding split_ws_def by (rule split_ws_aux_pieces) auto

section \<open>Numbers\<close>

text \<open>\<open>str(n)\<close>.\<close>

fun show_nat :: "nat \<Rightarrow> string" where
  "show_nat n = (if n < 10 then [char_of (48 + n)] else show_nat (n div 10) @ [char_of (48 + n mod 10)])"

declare show_nat.simps [simp del]

definition show_int :: "int \<Rightarrow> string" where
  "show_int i = (if i < 0 then CHR ''-'' # show_nat (nat (- i)) else show_nat (nat i))"

text \<open>
  The digits of a literal, most significant first, as \<open>int(s, base)\<close> accepts them: at least
  one digit, single underscores between digits.
\<close>

fun digits_val :: "nat \<Rightarrow> nat \<Rightarrow> string \<Rightarrow> nat option" where
  "digits_val b acc [] = Some acc"
| "digits_val b acc (c # cs) =
     (if c = CHR ''_'' then
        (case cs of
           [] \<Rightarrow> None
         | d # ds \<Rightarrow> (case digit_val d of
                         None \<Rightarrow> None
                       | Some v \<Rightarrow> if v < b then digits_val b (acc * b + v) ds else None))
      else (case digit_val c of
              None \<Rightarrow> None
            | Some v \<Rightarrow> if v < b then digits_val b (acc * b + v) cs else None))"

definition nat_literal :: "nat \<Rightarrow> string \<Rightarrow> nat option" where
  "nat_literal b s = (case s of [] \<Rightarrow> None | c # cs \<Rightarrow> if c = CHR ''_'' then None else digits_val b 0 s)"

text \<open>The optional \<open>0x\<close> prefix of base 16; after it one underscore is allowed.\<close>

definition strip_0x :: "string \<Rightarrow> string" where
  "strip_0x s =
     (if starts_with (lower s) ''0x''
      then (case drop 2 s of [] \<Rightarrow> [] | c # cs \<Rightarrow> if c = CHR ''_'' then cs else c # cs)
      else s)"

text \<open>\<open>int(s, base)\<close> for base 10 and 16; \<open>None\<close> is \<open>ValueError\<close>.\<close>

definition py_int :: "nat \<Rightarrow> string \<Rightarrow> int option" where
  "py_int b s =
     (let t = strip s;
          neg = starts_with t ''-'';
          u = (if neg \<or> starts_with t ''+'' then tl t else t);
          v = (if b = 16 then strip_0x u else u)
      in map_option (\<lambda>n. if neg then - int n else int n) (nat_literal b v))"

lemma digit_val_char_of [simp]: "d < 10 \<Longrightarrow> digit_val (char_of (48 + d)) = Some d"
  by (simp add: digit_val_def Let_def)

lemma digit_not_underscore [simp]: "d < 10 \<Longrightarrow> char_of (48 + d :: nat) \<noteq> CHR ''_''"
proof
  assume "d < 10" and "char_of (48 + d :: nat) = CHR ''_''"
  then have "digit_val (CHR ''_'') = Some d" by (metis digit_val_char_of)
  then show False by (simp add: digit_val_def)
qed

text \<open>\<open>int(str(n))\<close> is \<open>n\<close>.\<close>

definition is_digit :: "char \<Rightarrow> bool" where
  "is_digit c = (let n = of_char c :: nat in 48 \<le> n \<and> n < 58)"

lemma is_digit_iff: "is_digit c \<longleftrightarrow> (\<exists>d < 10. c = char_of (48 + d :: nat))"
proof
  assume "is_digit c"
  then obtain n :: nat where n: "n = of_char c" "48 \<le> n" "n < 58" by (auto simp: is_digit_def Let_def)
  then have "c = char_of (48 + (n - 48))" "n - 48 < 10" by simp_all
  then show "\<exists>d < 10. c = char_of (48 + d :: nat)" by blast
qed (auto simp: is_digit_def)

lemma show_nat_step: "10 \<le> n \<Longrightarrow> show_nat n = show_nat (n div 10) @ [char_of (48 + n mod 10)]"
  by (subst show_nat.simps) simp

lemma show_nat_small: "n < 10 \<Longrightarrow> show_nat n = [char_of (48 + n)]"
  by (subst show_nat.simps) simp

lemma digits_val_snoc:
  assumes "\<forall>c \<in> set xs. is_digit c" and "d < 10"
  shows "digits_val 10 acc (xs @ [char_of (48 + d)]) = map_option (\<lambda>a. a * 10 + d) (digits_val 10 acc xs)"
  using assms by (induction xs arbitrary: acc) (auto simp: is_digit_iff)

lemma show_nat_digits: "\<forall>c \<in> set (show_nat n). is_digit c"
proof (induction n rule: show_nat.induct)
  case (1 n)
  have "is_digit (char_of (48 + n mod 10))"
    unfolding is_digit_iff by (rule exI [of _ "n mod 10"]) simp
  with 1 show ?case
    by (cases "n < 10") (auto simp: show_nat_small show_nat_step is_digit_iff)
qed

lemma digits_val_show_nat: "digits_val 10 0 (show_nat n) = Some n"
proof (induction n rule: show_nat.induct)
  case (1 n)
  show ?case
  proof (cases "n < 10")
    case True
    then show ?thesis by (simp add: show_nat_small)
  next
    case False
    with 1 show ?thesis
      by (simp add: show_nat_step digits_val_snoc show_nat_digits)
  qed
qed

lemma show_nat_nonempty [simp]: "show_nat n \<noteq> []"
  by (subst show_nat.simps) simp

lemma strip_no_space:
  assumes "\<forall>c \<in> set s. \<not> is_space c"
  shows "strip s = s"
proof -
  have "dropWhile is_space t = t" if "\<forall>c \<in> set t. \<not> is_space c" for t
    using that by (cases t) auto
  from this [of s] this [of "rev s"] assms show ?thesis
    by (simp add: strip_def strip_by_def)
qed

lemma of_digit: "d < 10 \<Longrightarrow> of_char (char_of (48 + d :: nat)) = 48 + d"
  by simp

lemma digit_facts:
  assumes "is_digit c"
  shows "\<not> is_space c" "c \<noteq> CHR ''_''" "c \<noteq> CHR ''-''" "c \<noteq> CHR ''+''"
proof -
  from assms obtain d where c: "c = char_of (48 + d :: nat)" and d: "d < 10"
    by (auto simp: is_digit_iff)
  have n: "of_char c = (48 + d :: nat)" using c d by simp
  show "\<not> is_space c" using d by (simp add: is_space_def n)
  have "of_char (CHR ''_'') = (95 :: nat)" "of_char (CHR ''-'') = (45 :: nat)" "of_char (CHR ''+'') = (43 :: nat)"
    by simp_all
  then show "c \<noteq> CHR ''_''" "c \<noteq> CHR ''-''" "c \<noteq> CHR ''+''"
    using n d by auto
qed

lemma nat_literal_show_nat: "nat_literal 10 (show_nat n) = Some n"
proof -
  obtain c cs where s: "show_nat n = c # cs" by (cases "show_nat n") auto
  then have "is_digit c" using show_nat_digits [of n] by simp
  with s show ?thesis
    using digits_val_show_nat [of n] digit_facts(2) by (simp add: nat_literal_def)
qed

theorem py_int_show_int: "py_int 10 (show_int i) = Some i"
proof -
  obtain c cs where s: "show_nat (nat \<bar>i\<bar>) = c # cs" by (cases "show_nat (nat \<bar>i\<bar>)") auto
  have digits: "\<forall>c \<in> set (show_nat n). \<not> is_space c" for n
    using show_nat_digits digit_facts(1) by blast
  have "is_digit c" using s show_nat_digits [of "nat \<bar>i\<bar>"] by simp
  note c = digit_facts [OF this]
  have lit: "nat_literal 10 (c # cs) = Some (nat \<bar>i\<bar>)"
    using nat_literal_show_nat [of "nat \<bar>i\<bar>"] s by simp
  have minus: "\<not> is_space CHR ''-''" by (simp add: is_space_def)
  show ?thesis
  proof (cases "i < 0")
    case True
    then have t: "show_int i = CHR ''-'' # c # cs" using s by (simp add: show_int_def)
    have "strip (show_int i) = show_int i"
      using digits [of "nat \<bar>i\<bar>"] minus unfolding t s by (intro strip_no_space) simp
    then show ?thesis using True lit by (simp add: py_int_def t Let_def)
  next
    case False
    then have t: "show_int i = c # cs" using s by (simp add: show_int_def)
    have "strip (show_int i) = show_int i"
      using digits [of "nat \<bar>i\<bar>"] unfolding t s by (intro strip_no_space) simp
    then show ?thesis using False lit c by (simp add: py_int_def t Let_def)
  qed
qed

end
