(* ===== verification/Domain.thy ===== *)
theory Domain
  imports PyStr
begin

text \<open>
  \<open>app/domain\<close>: the enumerations and entities (\<open>machine.py\<close>, \<open>probe.py\<close>,
  \<open>wake_attempt.py\<close>) and the records that cross the repository ports (\<open>ports.py\<close>).
  The lemmas show that the status machine of a wake attempt ends: its terminal statuses are
  exactly those with no successor, and every run from \<open>pending\<close> makes at most three
  transitions. The interface \<open>status_machine\<close> states that contract once; the job queue
  interprets it as well.
\<close>

section \<open>Shared value types\<close>

text \<open>Instants and durations are integers in microseconds, the resolution of \<open>datetime\<close>.\<close>

type_synonym datetime = int

definition seconds :: "int \<Rightarrow> int" where
  "seconds n = n * 1000000"

text \<open>
  JSON values, as stored in a \<open>JSONB\<close> column; a number that is not an integer keeps the text
  Python prints for it.
\<close>

datatype jval =
    JNull
  | JBool bool
  | JInt int
  | JReal string
  | JStr string
  | JArr "jval list"
  | JObj "(string \<times> jval) list"

type_synonym dict = "(string \<times> jval) list"

text \<open>\<open>d.get(k)\<close>, \<open>d[k] = v\<close> and \<open>d.pop(k, None)\<close> on a dictionary with string keys.\<close>

definition dict_get :: "dict \<Rightarrow> string \<Rightarrow> jval option" where
  "dict_get d k = map_of d k"

fun dict_set :: "dict \<Rightarrow> string \<Rightarrow> jval \<Rightarrow> dict" where
  "dict_set [] k v = [(k, v)]"
| "dict_set ((k', v') # d) k v = (if k' = k then (k, v) # d else (k', v') # dict_set d k v)"

definition dict_pop :: "dict \<Rightarrow> string \<Rightarrow> dict" where
  "dict_pop d k = filter (\<lambda>(k', _). k' \<noteq> k) d"

lemma dict_get_set [simp]: "dict_get (dict_set d k v) k' = (if k' = k then Some v else dict_get d k')"
  by (induction d k v rule: dict_set.induct) (auto simp: dict_get_def)

lemma dict_get_pop [simp]: "dict_get (dict_pop d k) k' = (if k' = k then None else dict_get d k')"
  by (induction d) (auto simp: dict_get_def dict_pop_def)

lemma dict_get_Nil [simp]: "dict_get [] k = None"
  by (simp add: dict_get_def)

section \<open>machine.py\<close>

datatype WakeStrategy = ETHERWAKE | UDP_BROADCAST

fun WakeStrategy_value :: "WakeStrategy \<Rightarrow> string" where
  "WakeStrategy_value ETHERWAKE = ''etherwake''"
| "WakeStrategy_value UDP_BROADCAST = ''udp_broadcast''"

datatype MachineState = MS_UNKNOWN | MS_OFFLINE | MS_WAKING | MS_ONLINE

fun MachineState_value :: "MachineState \<Rightarrow> string" where
  "MachineState_value MS_UNKNOWN = ''unknown''"
| "MachineState_value MS_OFFLINE = ''offline''"
| "MachineState_value MS_WAKING = ''waking''"
| "MachineState_value MS_ONLINE = ''online''"

record Machine =
  mc_id :: string
  mc_name :: string
  mc_ip_address :: string
  mc_mac_address :: string
  mc_ssh_port :: int
  mc_hostname :: "string option"
  mc_wake_interface :: "string option"
  mc_wake_strategy :: WakeStrategy
  mc_broadcast_address :: "string option"
  mc_enabled :: bool

text \<open>The constructor with only the required fields given.\<close>

definition new_Machine :: "string \<Rightarrow> string \<Rightarrow> string \<Rightarrow> string \<Rightarrow> Machine" where
  "new_Machine i n ip mac =
     \<lparr>mc_id = i, mc_name = n, mc_ip_address = ip, mc_mac_address = mac, mc_ssh_port = 22,
      mc_hostname = None, mc_wake_interface = None, mc_wake_strategy = ETHERWAKE,
      mc_broadcast_address = None, mc_enabled = True\<rparr>"

definition wake_target :: "Machine \<Rightarrow> string" where
  "wake_target m = mc_mac_address m"

definition probe_host :: "Machine \<Rightarrow> string" where
  "probe_host m = str_or (mc_hostname m) (mc_ip_address m)"

section \<open>probe.py\<close>

datatype ProbeState = PS_ONLINE | PS_OFFLINE | PS_UNKNOWN

fun ProbeState_value :: "ProbeState \<Rightarrow> string" where
  "ProbeState_value PS_ONLINE = ''online''"
| "ProbeState_value PS_OFFLINE = ''offline''"
| "ProbeState_value PS_UNKNOWN = ''unknown''"

record ProbeResult =
  pr_machine_id :: string
  pr_ping_ok :: bool
  pr_tcp_ssh_ok :: bool
  pr_observed_at :: datetime

definition derived_state :: "ProbeResult \<Rightarrow> ProbeState" where
  "derived_state r = (if pr_ping_ok r \<or> pr_tcp_ssh_ok r then PS_ONLINE else PS_OFFLINE)"

lemma derived_state_online [simp]: "derived_state r = PS_ONLINE \<longleftrightarrow> pr_ping_ok r \<or> pr_tcp_ssh_ok r"
  by (simp add: derived_state_def)

section \<open>wake_attempt.py\<close>

datatype AttemptStatus = PENDING | SENT | WAKING | ONLINE | FAILED | TIMEOUT

fun AttemptStatus_value :: "AttemptStatus \<Rightarrow> string" where
  "AttemptStatus_value PENDING = ''pending''"
| "AttemptStatus_value SENT = ''sent''"
| "AttemptStatus_value WAKING = ''waking''"
| "AttemptStatus_value ONLINE = ''online''"
| "AttemptStatus_value FAILED = ''failed''"
| "AttemptStatus_value TIMEOUT = ''timeout''"

text \<open>The dictionary that \<open>can_transition_to\<close> builds; \<open>None\<close> is a missing key.\<close>

definition attempt_transitions :: "string \<Rightarrow> string list option" where
  "attempt_transitions s = map_of
     [(''pending'', [''sent'', ''failed'']),
      (''sent'', [''waking'', ''online'', ''failed'', ''timeout'']),
      (''waking'', [''online'', ''failed'', ''timeout'']),
      (''online'', []),
      (''failed'', []),
      (''timeout'', [])] s"

definition can_transition_to :: "AttemptStatus \<Rightarrow> AttemptStatus \<Rightarrow> bool" where
  "can_transition_to s t =
     (AttemptStatus_value t \<in> set (case attempt_transitions (AttemptStatus_value s) of
                                     None \<Rightarrow> [] | Some ts \<Rightarrow> ts))"

definition is_terminal :: "AttemptStatus \<Rightarrow> bool" where
  "is_terminal s = (s \<in> set [ONLINE, FAILED, TIMEOUT])"

record WakeAttempt =
  at_id :: string
  at_machine_id :: string
  at_actor_type :: string
  at_actor_id :: string
  at_strategy :: string
  at_status :: AttemptStatus
  at_ensure_online :: bool
  at_poll_timeout_s :: int
  at_error :: "string option"
  at_started_at :: "datetime option"
  at_finished_at :: "datetime option"

instantiation AttemptStatus :: enum
begin
definition "enum_AttemptStatus = [PENDING, SENT, WAKING, ONLINE, FAILED, TIMEOUT]"
definition "enum_all_AttemptStatus P \<longleftrightarrow> list_all P [PENDING, SENT, WAKING, ONLINE, FAILED, TIMEOUT]"
definition "enum_ex_AttemptStatus P \<longleftrightarrow> list_ex P [PENDING, SENT, WAKING, ONLINE, FAILED, TIMEOUT]"
instance
proof
  show "(UNIV :: AttemptStatus set) = set enum_class.enum"
    by (auto simp: enum_AttemptStatus_def) (metis AttemptStatus.exhaust)
  show "distinct (enum_class.enum :: AttemptStatus list)"
    by (simp add: enum_AttemptStatus_def)
  fix P :: "AttemptStatus \<Rightarrow> bool"
  show "enum_class.enum_all P \<longleftrightarrow> Ball UNIV P"
    by (auto simp: enum_all_AttemptStatus_def) (metis AttemptStatus.exhaust)
  show "enum_class.enum_ex P \<longleftrightarrow> Bex UNIV P"
    by (auto simp: enum_ex_AttemptStatus_def) (metis AttemptStatus.exhaust)
qed
end

section \<open>Status machines that end\<close>

text \<open>
  The contract of a status column: a transition lowers the rank, and the statuses without
  successor are the terminal ones. Then no run is longer than the rank of its first status.
\<close>

fun chain_of :: "('s \<Rightarrow> 's \<Rightarrow> bool) \<Rightarrow> 's \<Rightarrow> 's list \<Rightarrow> bool" where
  "chain_of r a [] = True"
| "chain_of r a (b # bs) = (r a b \<and> chain_of r b bs)"

locale status_machine =
  fixes trans :: "'s \<Rightarrow> 's \<Rightarrow> bool"
    and terminal :: "'s \<Rightarrow> bool"
    and rank :: "'s \<Rightarrow> nat"
  assumes rank_decreases: "trans a b \<Longrightarrow> rank b < rank a"
    and terminal_iff: "terminal a \<longleftrightarrow> (\<forall>b. \<not> trans a b)"
begin

lemma chain_length: "chain_of trans a bs \<Longrightarrow> length bs + rank (last (a # bs)) \<le> rank a"
proof (induction bs arbitrary: a)
  case (Cons b bs)
  then have "length bs + rank (last (b # bs)) \<le> rank b" and "rank b < rank a"
    by (auto dest: rank_decreases)
  then show ?case by simp
qed simp

lemma terminal_stuck: "terminal a \<Longrightarrow> chain_of trans a bs \<Longrightarrow> bs = []"
  by (cases bs) (auto simp: terminal_iff)

lemma chain_below: "chain_of trans a bs \<Longrightarrow> b \<in> set bs \<Longrightarrow> rank b < rank a"
proof (induction bs arbitrary: a)
  case (Cons c bs)
  then have "rank c < rank a" and "b = c \<or> rank b < rank c"
    by (auto dest: rank_decreases)
  then show ?case by auto
qed simp

lemma chain_no_repeat: "chain_of trans a bs \<Longrightarrow> a \<notin> set bs"
  using chain_below by blast

end

definition attempt_rank :: "AttemptStatus \<Rightarrow> nat" where
  "attempt_rank s = (case s of PENDING \<Rightarrow> 3 | SENT \<Rightarrow> 2 | WAKING \<Rightarrow> 1 | _ \<Rightarrow> 0)"

lemma can_transition_cases:
  "can_transition_to s t \<longleftrightarrow>
   (s, t) \<in> {(PENDING, SENT), (PENDING, FAILED), (SENT, WAKING), (SENT, ONLINE), (SENT, FAILED),
             (SENT, TIMEOUT), (WAKING, ONLINE), (WAKING, FAILED), (WAKING, TIMEOUT)}"
  by (cases s; cases t) (simp_all add: can_transition_to_def attempt_transitions_def)

interpretation attempt: status_machine can_transition_to is_terminal attempt_rank
proof
  show "can_transition_to a b \<Longrightarrow> attempt_rank b < attempt_rank a" for a b
    by (auto simp: can_transition_cases attempt_rank_def)
  show "is_terminal a \<longleftrightarrow> (\<forall>b. \<not> can_transition_to a b)" for a
    by (cases a) (auto simp: can_transition_cases is_terminal_def)
qed

section \<open>ports.py: the records that cross the repository ports\<close>

record UserRecord =
  u_id :: string
  u_username :: string
  u_password_hash :: string
  u_role :: string
  u_created_at :: datetime
  u_last_login_at :: "datetime option"

record MachineRecord =
  m_id :: string
  m_name :: string
  m_hostname :: "string option"
  m_ip_address :: string
  m_mac_address :: string
  m_ssh_port :: int
  m_wake_interface :: "string option"
  m_wake_strategy :: string
  m_broadcast_address :: "string option"
  m_enabled :: bool
  m_created_at :: datetime
  m_updated_at :: datetime

record WakeAttemptRecord =
  wa_id :: string
  wa_machine_id :: string
  wa_actor_type :: string
  wa_actor_id :: string
  wa_strategy :: string
  wa_status :: string
  wa_ensure_online :: bool
  wa_poll_timeout_s :: int
  wa_error :: "string option"
  wa_started_at :: datetime
  wa_finished_at :: "datetime option"

record SessionRecord =
  s_id :: string
  s_user_id :: string
  s_csrf_secret :: string
  s_ip :: "string option"
  s_user_agent :: "string option"
  s_expires_at :: datetime
  s_revoked :: bool
  s_created_at :: datetime

record ApiTokenRecord =
  t_id :: string
  t_user_id :: string
  t_machine_id :: "string option"
  t_name :: string
  t_token_hash :: string
  t_prefix :: string
  t_scopes :: dict
  t_last_used_at :: "datetime option"
  t_revoked_at :: "datetime option"
  t_created_at :: datetime

record SetupStateRecord =
  ss_id :: int
  ss_completed :: bool
  ss_current_step :: string
  ss_completed_steps :: dict
  ss_updated_at :: datetime

end
