(* ===== verification/Sha256.thy ===== *)
theory Sha256
  imports PyStr "HOL-Library.Word"
begin

unbundle bit_operations_syntax

text \<open>
  \<open>hashlib.sha256(s.encode()).hexdigest()\<close>, the standard-library hash that
  \<open>app/security/tokens.py\<close> applies to API tokens: UTF-8 encoding, FIPS 180-4 padding and
  compression on 32-bit words, and the lower-case hexadecimal digest.
\<close>

type_synonym byte = "8 word"
type_synonym w32 = "32 word"

section \<open>Bytes\<close>

text \<open>UTF-8 of a character: one byte below 128, two bytes up to 255.\<close>

definition utf8_char :: "char \<Rightarrow> byte list" where
  "utf8_char c = (let n = of_char c :: nat in
     if n < 128 then [word_of_nat n]
     else [word_of_nat (192 + n div 64), word_of_nat (128 + n mod 64)])"

definition encode :: "string \<Rightarrow> byte list" where
  "encode s = List.concat (map utf8_char s)"

definition hex_digit :: "nat \<Rightarrow> char" where
  "hex_digit n = (if n < 10 then char_of (48 + n) else char_of (87 + n))"

definition hex_byte :: "byte \<Rightarrow> string" where
  "hex_byte b = [hex_digit (unat b div 16), hex_digit (unat b mod 16)]"

definition hex_bytes :: "byte list \<Rightarrow> string" where
  "hex_bytes bs = List.concat (map hex_byte bs)"

text \<open>The \<open>n\<close> low bytes of a number, most significant first.\<close>

primrec be_bytes :: "nat \<Rightarrow> nat \<Rightarrow> byte list" where
  "be_bytes 0 n = []"
| "be_bytes (Suc k) n = be_bytes k (n div 256) @ [word_of_nat (n mod 256)]"

fun be_words :: "byte list \<Rightarrow> w32 list" where
  "be_words (a # b # c # d # bs) =
     (push_bit 24 (ucast a) OR push_bit 16 (ucast b) OR push_bit 8 (ucast c) OR ucast d) # be_words bs"
| "be_words _ = []"

section \<open>The hash\<close>

text \<open>
  The round constants are the first 32 fractional bits of the cube roots of the first 64 primes,
  the initial state those of the square roots of the first eight. \<open>root_bits e b n r\<close> settles
  the \<open>b\<close> low bits of the integer part of the \<open>e\<close>-th root of \<open>n\<close>, given the higher ones.
\<close>

primrec root_bits :: "nat \<Rightarrow> nat \<Rightarrow> nat \<Rightarrow> nat \<Rightarrow> nat" where
  "root_bits e 0 n r = r"
| "root_bits e (Suc b) n r = root_bits e b n (if (r + 2 ^ b) ^ e \<le> n then r + 2 ^ b else r)"

definition small_primes :: "nat list" where
  "small_primes = filter (\<lambda>p. list_all (\<lambda>d. p mod d \<noteq> 0) [2..<p]) [2..<312]"

definition root_fraction :: "nat \<Rightarrow> nat \<Rightarrow> w32" where
  "root_fraction e p = word_of_nat (root_bits e 37 (p * 2 ^ (32 * e)) 0)"

definition sha_k :: "w32 list" where
  "sha_k = map (root_fraction 3) small_primes"

definition rotr :: "nat \<Rightarrow> w32 \<Rightarrow> w32" where
  "rotr n x = drop_bit n x OR push_bit (32 - n) x"

record sha_state =
  hash_a :: w32
  hash_b :: w32
  hash_c :: w32
  hash_d :: w32
  hash_e :: w32
  hash_f :: w32
  hash_g :: w32
  hash_h :: w32

definition sha_init :: sha_state where
  "sha_init =
     (let h = (\<lambda>i. root_fraction 2 (small_primes ! i))
      in \<lparr>hash_a = h 0, hash_b = h 1, hash_c = h 2, hash_d = h 3,
          hash_e = h 4, hash_f = h 5, hash_g = h 6, hash_h = h 7\<rparr>)"

text \<open>The message schedule, kept as a window of the last sixteen words.\<close>

definition schedule_next :: "w32 list \<Rightarrow> w32" where
  "schedule_next win =
     (let s0 = (let x = win ! 1 in rotr 7 x XOR rotr 18 x XOR drop_bit 3 x);
          s1 = (let x = win ! 14 in rotr 17 x XOR rotr 19 x XOR drop_bit 10 x)
      in win ! 0 + s0 + win ! 9 + s1)"

definition sha_round :: "sha_state \<Rightarrow> w32 \<Rightarrow> w32 \<Rightarrow> sha_state" where
  "sha_round st k w =
     (let s1 = rotr 6 (hash_e st) XOR rotr 11 (hash_e st) XOR rotr 25 (hash_e st);
          ch = (hash_e st AND hash_f st) XOR (NOT (hash_e st) AND hash_g st);
          t1 = hash_h st + s1 + ch + k + w;
          s0 = rotr 2 (hash_a st) XOR rotr 13 (hash_a st) XOR rotr 22 (hash_a st);
          maj = (hash_a st AND hash_b st) XOR (hash_a st AND hash_c st) XOR (hash_b st AND hash_c st);
          t2 = s0 + maj
      in \<lparr>hash_a = t1 + t2, hash_b = hash_a st, hash_c = hash_b st, hash_d = hash_c st,
          hash_e = hash_d st + t1, hash_f = hash_e st, hash_g = hash_f st, hash_h = hash_g st\<rparr>)"

fun sha_rounds :: "sha_state \<Rightarrow> w32 list \<Rightarrow> w32 list \<Rightarrow> sha_state" where
  "sha_rounds st [] win = st"
| "sha_rounds st (k # ks) win =
     sha_rounds (sha_round st k (hd win)) ks (tl win @ [schedule_next win])"

definition sha_block :: "sha_state \<Rightarrow> w32 list \<Rightarrow> sha_state" where
  "sha_block st blk =
     (let r = sha_rounds st sha_k blk
      in \<lparr>hash_a = hash_a st + hash_a r, hash_b = hash_b st + hash_b r, hash_c = hash_c st + hash_c r, hash_d = hash_d st + hash_d r,
          hash_e = hash_e st + hash_e r, hash_f = hash_f st + hash_f r, hash_g = hash_g st + hash_g r, hash_h = hash_h st + hash_h r\<rparr>)"

function sha_blocks :: "sha_state \<Rightarrow> w32 list \<Rightarrow> sha_state" where
  "sha_blocks st ws =
     (if length ws < 16 then st else sha_blocks (sha_block st (take 16 ws)) (drop 16 ws))"
  by pat_completeness auto
termination
  by (relation "measure (\<lambda>(st, ws). length ws)") auto

declare sha_blocks.simps [simp del]

definition sha_pad :: "byte list \<Rightarrow> byte list" where
  "sha_pad bs =
     (let n = length bs; z = (119 - n mod 64) mod 64
      in bs @ [0x80] @ replicate z 0 @ be_bytes 8 (8 * n))"

definition word_bytes :: "w32 \<Rightarrow> byte list" where
  "word_bytes x = [ucast (drop_bit 24 x), ucast (drop_bit 16 x), ucast (drop_bit 8 x), ucast x]"

definition sha256 :: "byte list \<Rightarrow> byte list" where
  "sha256 bs =
     (let r = sha_blocks sha_init (be_words (sha_pad bs))
      in List.concat (map word_bytes [hash_a r, hash_b r, hash_c r, hash_d r, hash_e r, hash_f r, hash_g r, hash_h r]))"

definition sha256_hex :: "string \<Rightarrow> string" where
  "sha256_hex s = hex_bytes (sha256 (encode s))"

section \<open>Shape of the digest\<close>

lemma length_be_bytes [simp]: "length (be_bytes k n) = k"
  by (induction k arbitrary: n) auto

lemma length_sha256 [simp]: "length (sha256 bs) = 32"
  by (simp add: sha256_def word_bytes_def Let_def)

lemma length_hex_bytes [simp]: "length (hex_bytes bs) = 2 * length bs"
  by (induction bs) (auto simp: hex_bytes_def hex_byte_def)

lemma length_sha256_hex [simp]: "length (sha256_hex s) = 64"
  by (simp add: sha256_hex_def)

text \<open>The padded message is a whole number of 64-byte blocks.\<close>

lemma sha_pad_blocks: "length (sha_pad bs) mod 64 = 0"
proof -
  define n where "n = length bs"
  define m where "m = n mod 64"
  have m: "m < 64" and n: "n = 64 * (n div 64) + m"
    by (simp_all add: m_def)
  have "(119 - m) mod 64 = (if m \<le> 55 then 55 - m else 119 - m)"
    using m by (simp add: mod_if)
  then have "m + (1 + ((119 - m) mod 64 + 8)) = (if m \<le> 55 then 64 else 128)"
    using m by simp
  then have "(m + (1 + ((119 - m) mod 64 + 8))) mod 64 = 0"
    by simp
  then have "(n + (1 + ((119 - m) mod 64 + 8))) mod 64 = 0"
    by (subst n) (metis add.assoc mod_mult_self4)
  then show ?thesis
    by (simp add: sha_pad_def Let_def n_def m_def)
qed

text \<open>The lower-case hexadecimal digits.\<close>

definition is_hex :: "char \<Rightarrow> bool" where
  "is_hex c = (let n = of_char c :: nat in 48 \<le> n \<and> n \<le> 57 \<or> 97 \<le> n \<and> n \<le> 102)"

lemma code_hex_digit: "n < 16 \<Longrightarrow> of_char (hex_digit n) = (if n < 10 then 48 + n else 87 + n :: nat)"
  by (simp add: hex_digit_def)

lemma is_hex_digit: "n < 16 \<Longrightarrow> is_hex (hex_digit n)"
  by (simp add: is_hex_def Let_def code_hex_digit)

lemma hex_bytes_is_hex: "\<forall>c \<in> set (hex_bytes bs). is_hex c"
proof -
  have "is_hex (hex_digit (unat b div 16)) \<and> is_hex (hex_digit (unat b mod 16))" for b :: byte
    using unsigned_less [of b, where 'a = nat] by (auto intro!: is_hex_digit)
  then show ?thesis
    by (induction bs) (auto simp: hex_bytes_def hex_byte_def)
qed

section \<open>repr and bytes.fromhex\<close>

text \<open>\<open>repr(s)\<close> of a string: single quotes unless only they occur in it, escapes as Python writes them.\<close>

definition repr_char :: "char \<Rightarrow> char \<Rightarrow> string" where
  "repr_char q c =
     (let n = of_char c :: nat in
      if c = q \<or> n = 92 then [char_of (92::nat), c]
      else if n = 9 then [char_of (92::nat), CHR ''t'']
      else if n = 10 then [char_of (92::nat), CHR ''n'']
      else if n = 13 then [char_of (92::nat), CHR ''r'']
      else if n < 32 \<or> 127 \<le> n \<and> n \<le> 160 \<or> n = 173
        then [char_of (92::nat), CHR ''x'', hex_digit (n div 16), hex_digit (n mod 16)]
      else [c])"

definition py_repr :: "string \<Rightarrow> string" where
  "py_repr s =
     (let q = (if CHR 0x27 \<in> set s \<and> CHR 0x22 \<notin> set s then CHR 0x22 else CHR 0x27)
      in [q] @ List.concat (map (repr_char q) s) @ [q])"

text \<open>
  \<open>bytes.fromhex\<close>: pairs of hexadecimal digits, with ASCII white space allowed between the
  pairs; \<open>None\<close> is \<open>ValueError\<close>.
\<close>

definition is_ascii_space :: "char \<Rightarrow> bool" where
  "is_ascii_space c = (of_char c \<in> set [9, 10, 11, 12, 13, 32 :: nat])"

definition nibble :: "char \<Rightarrow> nat option" where
  "nibble c = (case digit_val c of None \<Rightarrow> None | Some v \<Rightarrow> if v < 16 then Some v else None)"

fun fromhex :: "string \<Rightarrow> byte list option" where
  "fromhex [] = Some []"
| "fromhex (c # cs) =
     (if is_ascii_space c then fromhex cs
      else case cs of
        [] \<Rightarrow> None
      | d # ds \<Rightarrow> (case (nibble c, nibble d) of
          (Some h, Some l) \<Rightarrow> map_option ((#) (word_of_nat (16 * h + l))) (fromhex ds)
        | _ \<Rightarrow> None))"

lemma nibble_hex_digit [simp]: "n < 16 \<Longrightarrow> nibble (hex_digit n) = Some n"
  by (simp add: nibble_def digit_val_def Let_def code_hex_digit)

lemma code_upper_hex_digit:
  "n < 16 \<Longrightarrow> of_char (to_upper (hex_digit n)) = (if n < 10 then 48 + n else 55 + n :: nat)"
  by (simp add: to_upper_def Let_def code_hex_digit)

lemma hex_digit_facts:
  assumes "n < 16"
  shows "\<not> is_ascii_space (hex_digit n)" "hex_digit n \<noteq> CHR '':''" "hex_digit n \<noteq> CHR ''-''"
    "nibble (to_upper (hex_digit n)) = Some n" "\<not> is_ascii_space (to_upper (hex_digit n))"
proof -
  have "of_char (CHR '':'') = (58 :: nat)" "of_char (CHR ''-'') = (45 :: nat)" by simp_all
  then show "hex_digit n \<noteq> CHR '':''" "hex_digit n \<noteq> CHR ''-''"
    using code_hex_digit [OF assms] assms by (auto split: if_splits)
  show "nibble (to_upper (hex_digit n)) = Some n"
    using assms by (simp add: nibble_def digit_val_def Let_def code_upper_hex_digit)
  show "\<not> is_ascii_space (hex_digit n)" "\<not> is_ascii_space (to_upper (hex_digit n))"
    using assms by (simp_all add: is_ascii_space_def code_hex_digit code_upper_hex_digit)
qed

lemma unat_byte_less: "unat (b :: byte) div 16 < 16" "unat (b :: byte) mod 16 < 16"
  using unsigned_less [of b, where 'a = nat] by auto

lemma byte_of_nibbles: "word_of_nat (16 * (unat b div 16) + unat b mod 16) = (b :: byte)"
proof -
  have "16 * (unat b div 16) + unat b mod 16 = unat b" by (rule mult_div_mod_eq)
  then show ?thesis by (simp only: of_nat_unat ucast_id)
qed

lemma upper_append [simp]: "upper (s @ t) = upper s @ upper t"
  by (simp add: upper_def)

text \<open>The hexadecimal text of bytes, in either case, reads back.\<close>

lemma fromhex_upper_byte: "fromhex (upper (hex_byte b) @ s) = map_option ((#) b) (fromhex s)"
proof -
  define h l where "h = unat b div 16" and "l = unat b mod 16"
  have hl: "h < 16" "l < 16" unfolding h_def l_def by (rule unat_byte_less)+
  have b: "word_of_nat (16 * h + l) = b" unfolding h_def l_def by (rule byte_of_nibbles)
  have "upper (hex_byte b) @ s = to_upper (hex_digit h) # to_upper (hex_digit l) # s"
    by (simp add: hex_byte_def upper_def h_def l_def)
  then show ?thesis
    using hl by (simp only: fromhex.simps hex_digit_facts list.case option.case prod.case if_False b)
qed

lemma fromhex_upper_hex_bytes: "fromhex (upper (hex_bytes bs)) = Some bs"
proof (induction bs)
  case (Cons b bs)
  have "hex_bytes (b # bs) = hex_byte b @ hex_bytes bs" by (simp add: hex_bytes_def)
  with Cons show ?case by (simp add: fromhex_upper_byte)
qed (simp add: hex_bytes_def upper_def)

lemma fromhex_length: "fromhex s = Some bs \<Longrightarrow> 2 * length bs \<le> length s"
proof (induction s arbitrary: bs rule: fromhex.induct)
  case (2 c cs)
  show ?case
  proof (cases "is_ascii_space c")
    case True
    with 2 show ?thesis by fastforce
  next
    case False
    with "2.prems" obtain d ds cs' where "cs = d # ds" "fromhex ds = Some cs'" "length bs = Suc (length cs')"
      by (auto split: list.splits option.splits)
    moreover from False this "2.prems" have "2 * length cs' \<le> length ds"
      using "2.IH"(2) by (auto split: option.splits)
    ultimately show ?thesis by simp
  qed
qed simp

end
