(* ===== verification/World.thy ===== *)
theory World
  imports Domain Sha256
begin

text \<open>
  What the program's routines read and change: the database as seen by the current session
  and as last committed (\<open>app/persistence/database.py\<close>), the services outside \<open>src/\<close>
  as an environment of functions, the exceptions, and the primitive effects (clock, random
  values, commit, rollback).
\<close>

section \<open>Exceptions\<close>

text \<open>
  The exceptions the program raises or catches; the database errors are those of the
  SQLAlchemy documentation.
\<close>

datatype exn =
    ValueError string
  | RuntimeError string
  | IndexError
  | TypeError
  | OSError string
  | HTTPException int string
  | AuthenticationError string
  | WakeError string
  | InvalidHashError
  | BadSignature string
  | IntegrityError string
  | DataError string
  | PendingRollbackError
  | MultipleResultsFound
  | ValidationError

text \<open>\<open>str(exc)\<close>, used only for messages stored or returned.\<close>

fun exn_str :: "exn \<Rightarrow> string" where
  "exn_str (ValueError m) = m"
| "exn_str (RuntimeError m) = m"
| "exn_str IndexError = ''list index out of range''"
| "exn_str TypeError = ''TypeError''"
| "exn_str (OSError m) = m"
| "exn_str (HTTPException c m) = show_int c @ '': '' @ m"
| "exn_str (AuthenticationError m) = m"
| "exn_str (WakeError m) = m"
| "exn_str InvalidHashError = ''InvalidHashError''"
| "exn_str (BadSignature m) = m"
| "exn_str (IntegrityError m) = m"
| "exn_str (DataError m) = m"
| "exn_str PendingRollbackError = ''PendingRollbackError''"
| "exn_str MultipleResultsFound = ''Multiple rows were found when one or none was required''"
| "exn_str ValidationError = ''ValidationError''"

section \<open>Tables\<close>

record WakeJob =
  j_id :: string
  j_machine_id :: string
  j_attempt_id :: string
  j_job_type :: string
  j_status :: string
  j_payload :: dict
  j_claimed_at :: "datetime option"
  j_created_at :: datetime

record Setting =
  sg_key :: string
  sg_value :: dict
  sg_updated_at :: datetime

text \<open>
  The tables of \<open>app/persistence/models.py\<close> the code reads or writes, as lists of rows in
  insertion order; \<open>setup_state\<close> holds at most the row whose id is 1. The tables
  \<open>probe_results\<close> and \<open>audit_events\<close> are never used by the code.
\<close>

record db =
  users :: "UserRecord list"
  machines :: "MachineRecord list"
  attempts :: "WakeAttemptRecord list"
  jobs :: "WakeJob list"
  sessions :: "SessionRecord list"
  tokens :: "ApiTokenRecord list"
  settings :: "Setting list"
  setup_state :: "SetupStateRecord option"

definition empty_db :: db where
  "empty_db = \<lparr>users = [], machines = [], attempts = [], jobs = [], sessions = [], tokens = [],
               settings = [], setup_state = None\<rparr>"

section \<open>Services outside src\<close>

text \<open>The end of a subprocess, or the exception that starting it raised.\<close>

datatype exec_result = ExecRaises exn | ExecDone int string

datatype verify_result = Verified | Mismatch | VerifyRaises exn

text \<open>
  The environment. Every reading of the clock, every random value and every contact with the
  network takes the number of effects so far (the tick), so that two readings may differ.
  \<open>pg_uuid\<close>, \<open>pg_inet\<close> and \<open>pg_macaddr\<close> are PostgreSQL's input conversions: the canonical
  text of the value, or \<open>None\<close> for \<open>DataError\<close>. The \<open>ph_\<close> functions are argon2-cffi's
  \<open>PasswordHasher\<close>, the \<open>its_\<close> functions itsdangerous' \<open>URLSafeTimedSerializer\<close> (secret, salt,
  value or token, instant); \<open>read_file\<close> is the content of a readable file, and \<open>set_order\<close> the order
  in which Python iterates over a set.
\<close>

record env =
  clock :: "nat \<Rightarrow> datetime"
  monotonic :: "nat \<Rightarrow> int"
  uuid4 :: "nat \<Rightarrow> string"
  token_hex :: "nat \<Rightarrow> nat \<Rightarrow> string"
  pg_uuid :: "string \<Rightarrow> string option"
  pg_inet :: "string \<Rightarrow> string option"
  pg_macaddr :: "string \<Rightarrow> string option"
  ph_hash :: "string \<Rightarrow> nat \<Rightarrow> string"
  ph_verify :: "string \<Rightarrow> string \<Rightarrow> verify_result"
  ph_needs_rehash :: "string \<Rightarrow> bool"
  its_dumps :: "string \<Rightarrow> string \<Rightarrow> jval \<Rightarrow> datetime \<Rightarrow> string"
  its_loads :: "string \<Rightarrow> string \<Rightarrow> string \<Rightarrow> datetime \<Rightarrow> int \<Rightarrow> exn + jval"
  app_secret :: string
  ping_exec :: "string list \<Rightarrow> nat \<Rightarrow> exec_result"
  tcp_open :: "string \<Rightarrow> int \<Rightarrow> nat \<Rightarrow> exn option"
  wake_exec :: "string list \<Rightarrow> nat \<Rightarrow> exec_result"
  udp_send :: "nat \<Rightarrow> exn option"
  read_file :: "string \<Rightarrow> nat \<Rightarrow> string option"
  set_order :: "string list \<Rightarrow> string list"

section \<open>The state\<close>

text \<open>What left the host: a command run, or a datagram with its target and port.\<close>

datatype sent = SentCommand "string list" | SentDatagram "byte list" string int

text \<open>
  \<open>w_db\<close> is what the session of the current request sees, \<open>w_committed\<close> what other sessions
  see; \<open>w_dead\<close> is set by a flush that failed, after which the session refuses everything but
  a rollback. \<open>w_slept\<close> is the time spent in \<open>asyncio.sleep\<close>, which every clock adds to its
  reading, so that a sleep is never shorter than asked. \<open>w_sent\<close> records the wake commands and datagrams, newest first, and
  \<open>w_buckets\<close> is the login rate limiter's table.
\<close>

record world =
  w_db :: db
  w_committed :: db
  w_dead :: bool
  w_tick :: nat
  w_slept :: int
  w_sent :: "sent list"
  w_buckets :: "string \<Rightarrow> int list"

definition world_of :: "db \<Rightarrow> nat \<Rightarrow> world" where
  "world_of d n = \<lparr>w_db = d, w_committed = d, w_dead = False, w_tick = n, w_slept = 0, w_sent = [],
                   w_buckets = (\<lambda>_. [])\<rparr>"

lemma world_of_simps [simp]:
  "w_db (world_of d n) = d" "w_committed (world_of d n) = d" "\<not> w_dead (world_of d n)"
  "w_tick (world_of d n) = n" "w_slept (world_of d n) = 0" "w_sent (world_of d n) = []" "w_buckets (world_of d n) ip = []"
  by (simp_all add: world_of_def)

type_synonym 'a io = "(world, exn, 'a) prog"

section \<open>Primitive effects\<close>

text \<open>Use the current tick in a service of the environment.\<close>

definition effect :: "(nat \<Rightarrow> 'a) \<Rightarrow> 'a io" where
  "effect f = (\<lambda>w. (Inr (f (w_tick w)), w\<lparr>w_tick := Suc (w_tick w)\<rparr>))"

text \<open>\<open>datetime.now(UTC)\<close>, \<open>time.monotonic()\<close> and \<open>asyncio.sleep\<close> (in microseconds).\<close>

definition now :: "env \<Rightarrow> datetime io" where
  "now env = (\<lambda>w. (Inr (clock env (w_tick w) + w_slept w), w\<lparr>w_tick := Suc (w_tick w)\<rparr>))"

definition time_monotonic :: "env \<Rightarrow> int io" where
  "time_monotonic env = (\<lambda>w. (Inr (monotonic env (w_tick w) + w_slept w), w\<lparr>w_tick := Suc (w_tick w)\<rparr>))"

definition sleep :: "int \<Rightarrow> unit io" where
  "sleep d = modify_p (\<lambda>w. w\<lparr>w_slept := w_slept w + d\<rparr>)"

lemma wp_effect [wp_simps, simp]:
  "wp (effect f) Q E w = Q (f (w_tick w)) (w\<lparr>w_tick := Suc (w_tick w)\<rparr>)"
  by (simp add: wp_def effect_def)

lemma wp_now [wp_simps, simp]:
  "wp (now env) Q E w = Q (clock env (w_tick w) + w_slept w) (w\<lparr>w_tick := Suc (w_tick w)\<rparr>)"
  by (simp add: wp_def now_def)

lemma wp_time_monotonic [wp_simps, simp]:
  "wp (time_monotonic env) Q E w = Q (monotonic env (w_tick w) + w_slept w) (w\<lparr>w_tick := Suc (w_tick w)\<rparr>)"
  by (simp add: wp_def time_monotonic_def)

lemma wp_sleep [wp_simps, simp]: "wp (sleep d) Q E w = Q () (w\<lparr>w_slept := w_slept w + d\<rparr>)"
  by (simp add: sleep_def)

lemma run_sleep [simp]: "sleep d w = (Inr (), w\<lparr>w_slept := w_slept w + d\<rparr>)"
  by (simp add: sleep_def)

lemma run_effect [simp]: "effect f w = (Inr (f (w_tick w)), w\<lparr>w_tick := Suc (w_tick w)\<rparr>)"
  by (simp add: effect_def)

lemma run_now [simp]:
  "now env w = (Inr (clock env (w_tick w) + w_slept w), w\<lparr>w_tick := Suc (w_tick w)\<rparr>)"
  by (simp add: now_def)

lemma run_time_monotonic [simp]:
  "time_monotonic env w = (Inr (monotonic env (w_tick w) + w_slept w), w\<lparr>w_tick := Suc (w_tick w)\<rparr>)"
  by (simp add: time_monotonic_def)

definition record_sent :: "sent \<Rightarrow> unit io" where
  "record_sent p = modify_p (\<lambda>w. w\<lparr>w_sent := p # w_sent w\<rparr>)"

lemma wp_record_sent [wp_simps, simp]:
  "wp (record_sent p) Q E w = Q () (w\<lparr>w_sent := p # w_sent w\<rparr>)"
  by (simp add: record_sent_def)

lemma run_record_sent [simp]: "record_sent p w = (Inr (), w\<lparr>w_sent := p # w_sent w\<rparr>)"
  by (simp add: record_sent_def)

section \<open>The database session\<close>

text \<open>A statement; a session whose flush failed refuses it.\<close>

definition alive :: "unit io" where
  "alive = (\<lambda>w. if w_dead w then (Inl PendingRollbackError, w) else (Inr (), w))"

definition query :: "(db \<Rightarrow> 'a) \<Rightarrow> 'a io" where
  "query f = then_p alive (gets_p (\<lambda>w. f (w_db w)))"

definition execute :: "(db \<Rightarrow> db) \<Rightarrow> unit io" where
  "execute f = then_p alive (modify_p (\<lambda>w. w\<lparr>w_db := f (w_db w)\<rparr>))"

text \<open>
  \<open>session.flush()\<close> of a change that the database accepts, with the row to refresh, or refuses
  with an error. An \<open>UPDATE\<close> whose constraint fails aborts the transaction in the same way.
\<close>

definition flush :: "(db \<Rightarrow> exn + 'a \<times> db) \<Rightarrow> 'a io" where
  "flush f = then_p alive (\<lambda>w. case f (w_db w) of
     Inl e \<Rightarrow> (Inl e, w\<lparr>w_dead := True\<rparr>)
   | Inr (x, d) \<Rightarrow> (Inr x, w\<lparr>w_db := d\<rparr>))"

definition commit :: "unit io" where
  "commit = then_p alive (modify_p (\<lambda>w. w\<lparr>w_committed := w_db w\<rparr>))"

definition rollback :: "unit io" where
  "rollback = modify_p (\<lambda>w. w\<lparr>w_db := w_committed w, w_dead := False\<rparr>)"

text \<open>
  \<open>get_db_session\<close>: the session of a request starts from what is committed; it commits when
  the handler returns, and rolls back and raises again when anything raised.
\<close>

definition get_db_session :: "'a io \<Rightarrow> 'a io" where
  "get_db_session handler =
     then_p (modify_p (\<lambda>w. w\<lparr>w_db := w_committed w, w_dead := False\<rparr>))
       (catch_p (bind_p handler (\<lambda>x. then_p commit (return_p x)))
          (\<lambda>e. then_p rollback (raise_p e)))"

lemma wp_alive [wp_simps, simp]:
  "wp alive Q E w = (if w_dead w then E PendingRollbackError w else Q () w)"
  by (simp add: wp_def alive_def)

lemma wp_query [wp_simps, simp]:
  "wp (query f) Q E w = (if w_dead w then E PendingRollbackError w else Q (f (w_db w)) w)"
  by (simp add: query_def)

lemma wp_execute [wp_simps, simp]:
  "wp (execute f) Q E w =
   (if w_dead w then E PendingRollbackError w else Q () (w\<lparr>w_db := f (w_db w)\<rparr>))"
  by (simp add: execute_def)

lemma wp_flush [wp_simps, simp]:
  "wp (flush f) Q E w =
   (if w_dead w then E PendingRollbackError w
    else case f (w_db w) of Inl e \<Rightarrow> E e (w\<lparr>w_dead := True\<rparr>) | Inr (x, d) \<Rightarrow> Q x (w\<lparr>w_db := d\<rparr>))"
  by (simp add: flush_def) (simp add: wp_def split: sum.split prod.split)

lemma wp_commit [wp_simps, simp]:
  "wp commit Q E w =
   (if w_dead w then E PendingRollbackError w else Q () (w\<lparr>w_committed := w_db w\<rparr>))"
  by (simp add: commit_def)

lemma wp_rollback [wp_simps, simp]:
  "wp rollback Q E w = Q () (w\<lparr>w_db := w_committed w, w_dead := False\<rparr>)"
  by (simp add: rollback_def)

lemma run_alive [simp]: "alive w = (if w_dead w then Inl PendingRollbackError else Inr (), w)"
  by (simp add: alive_def)

lemma run_query [simp]:
  "query f w = (if w_dead w then Inl PendingRollbackError else Inr (f (w_db w)), w)"
  by (simp add: query_def)

lemma run_execute [simp]:
  "execute f w = (if w_dead w then (Inl PendingRollbackError, w) else (Inr (), w\<lparr>w_db := f (w_db w)\<rparr>))"
  by (simp add: execute_def)

lemma run_flush [simp]:
  "flush f w =
   (if w_dead w then (Inl PendingRollbackError, w)
    else case f (w_db w) of Inl e \<Rightarrow> (Inl e, w\<lparr>w_dead := True\<rparr>) | Inr (x, d) \<Rightarrow> (Inr x, w\<lparr>w_db := d\<rparr>))"
  by (simp add: flush_def split: sum.split prod.split)

lemma run_commit [simp]:
  "commit w = (if w_dead w then (Inl PendingRollbackError, w) else (Inr (), w\<lparr>w_committed := w_db w\<rparr>))"
  by (simp add: commit_def)

lemma run_rollback [simp]: "rollback w = (Inr (), w\<lparr>w_db := w_committed w, w_dead := False\<rparr>)"
  by (simp add: rollback_def)

section \<open>Programs that leave the committed database alone\<close>

abbreviation uncommitting :: "'a io \<Rightarrow> bool" where
  "uncommitting m \<equiv> \<forall>c. keeps (\<lambda>w. w_committed w = c) m"

lemma keeps_effect:
  "(\<And>w n. I w \<Longrightarrow> I (w\<lparr>w_tick := n\<rparr>)) \<Longrightarrow> keeps I (effect f)"
  by (simp add: keeps_def)

lemma keeps_now:
  "(\<And>w n. I w \<Longrightarrow> I (w\<lparr>w_tick := n\<rparr>)) \<Longrightarrow> keeps I (now env)"
  by (simp add: keeps_def)

lemma keeps_alive: "keeps I alive"
  by (simp add: keeps_def)

lemma keeps_query: "keeps I (query f)"
  by (simp add: keeps_def)

lemma keeps_execute:
  "(\<And>w. I w \<Longrightarrow> I (w\<lparr>w_db := f (w_db w)\<rparr>)) \<Longrightarrow> keeps I (execute f)"
  by (simp add: keeps_def)

lemma keeps_flush:
  assumes "\<And>w. I w \<Longrightarrow> I (w\<lparr>w_dead := True\<rparr>)"
    and "\<And>w x d. I w \<Longrightarrow> f (w_db w) = Inr (x, d) \<Longrightarrow> I (w\<lparr>w_db := d\<rparr>)"
  shows "keeps I (flush f)"
  using assms by (auto simp: keeps_def split: sum.split)

lemma keeps_record_sent:
  "(\<And>w. I w \<Longrightarrow> I (w\<lparr>w_sent := p # w_sent w\<rparr>)) \<Longrightarrow> keeps I (record_sent p)"
  by (simp add: keeps_def)

text \<open>Predicates that say nothing of the session's own view, such as \<open>w_committed w = c\<close>.\<close>

definition session_free :: "(world \<Rightarrow> bool) \<Rightarrow> bool" where
  "session_free I \<longleftrightarrow> (\<forall>w n b d. I w \<longrightarrow>
     I (w\<lparr>w_tick := n\<rparr>) \<and> I (w\<lparr>w_dead := b\<rparr>) \<and> I (w\<lparr>w_db := d\<rparr>))"

lemma session_free_simps [simp]:
  "session_free (\<lambda>w. w_committed w = c)" "session_free (\<lambda>w. w_sent w = s)"
  "session_free (\<lambda>w. P (w_sent w))" "session_free (\<lambda>w. w_buckets w = b)"
  by (simp_all add: session_free_def)

lemma session_free_keeps:
  assumes "session_free I"
  shows "keeps I (effect f)" "keeps I (now env)" "keeps I (query g)" "keeps I (execute h)"
    "keeps I (flush k)"
  using assms by (auto simp: session_free_def keeps_def split: sum.split prod.split)

text \<open>Programs that only read: all they change is the count of effects.\<close>

definition only_clock :: "world \<Rightarrow> world \<Rightarrow> bool" where
  "only_clock w v \<longleftrightarrow> (\<exists>n. v = w\<lparr>w_tick := n\<rparr>)"

lemma only_clock_refl [simp]: "only_clock w w"
  by (auto simp: only_clock_def intro: exI [of _ "w_tick w"])

lemma only_clock_tick: "only_clock w v \<Longrightarrow> only_clock w (v\<lparr>w_tick := n\<rparr>)"
  by (auto simp: only_clock_def)

lemma only_clock_keeps:
  "keeps (only_clock w) (effect f)" "keeps (only_clock w) (now env)" "keeps (only_clock w) (query g)"
  by (intro keeps_effect keeps_now keeps_query only_clock_tick; assumption?)+

lemma wp_reader:
  assumes "keeps (only_clock w) m" "\<And>x n. Q x (w\<lparr>w_tick := n\<rparr>)" "\<And>e n. E e (w\<lparr>w_tick := n\<rparr>)"
  shows "wp m Q E w"
proof -
  have "wp m (\<lambda>_. only_clock w) (\<lambda>_. only_clock w) w" using assms(1) by (simp add: keeps_wp)
  then show ?thesis by (rule wp_mono) (use assms(2,3) in \<open>auto simp: only_clock_def\<close>)
qed

text \<open>
  Predicates on which a program that works on the attempts only has no influence: they say
  nothing of the table of attempts, nor of the clock and of what was sent.
\<close>

definition attempt_free :: "(world \<Rightarrow> bool) \<Rightarrow> bool" where
  "attempt_free I \<longleftrightarrow> (\<forall>w n b as s t. I w \<longrightarrow>
     I (w\<lparr>w_tick := n\<rparr>) \<and> I (w\<lparr>w_dead := b\<rparr>) \<and> I (w\<lparr>w_db := (w_db w)\<lparr>attempts := as\<rparr>\<rparr>) \<and>
     I (w\<lparr>w_sent := s\<rparr>) \<and> I (w\<lparr>w_slept := t\<rparr>))"

lemma attempt_free_simps [simp]:
  "attempt_free (\<lambda>w. w_committed w = c)" "attempt_free (\<lambda>w. w_buckets w = b)"
  "attempt_free (\<lambda>w. jobs (w_db w) = j \<and> w_committed w = c)"
  "attempt_free (\<lambda>w. (w_db w)\<lparr>attempts := []\<rparr> = d)"
  by (simp_all add: attempt_free_def)

lemma attempt_free_keeps:
  assumes "attempt_free I"
  shows "keeps I (effect f)" "keeps I (now env)" "keeps I (query g)" "keeps I (record_sent p)"
    "keeps I (sleep t)"
  using assms by (auto simp: attempt_free_def keeps_def)

lemma attempt_free_world:
  assumes "attempt_free I" "I w"
  shows "I (w\<lparr>w_tick := n\<rparr>)" "I (w\<lparr>w_tick := n, w_sent := ps\<rparr>)"
  using assms by (auto simp: attempt_free_def)

text \<open>
  The contract of a handler that never commits on its own. Under \<open>get_db_session\<close> it is all
  or nothing: what it raised is rolled back, what it returned is committed.
\<close>

locale transaction =
  fixes handler :: "'a io"
  assumes handler_uncommitting: "keeps (\<lambda>w. w_committed w = c) handler"
begin

lemma raise_rolls_back:
  assumes "get_db_session handler w = (Inl e, w')"
  shows "w_committed w' = w_committed w \<and> w_db w' = w_committed w"
proof -
  have "wp handler (\<lambda>_ v. w_committed v = w_committed w) (\<lambda>_ v. w_committed v = w_committed w)
          (w\<lparr>w_db := w_committed w, w_dead := False\<rparr>)"
    using handler_uncommitting [of "w_committed w"] by (simp add: keeps_wp)
  then have "wp (get_db_session handler) (\<lambda>_ _. True)
      (\<lambda>_ v. w_committed v = w_committed w \<and> w_db v = w_committed w) w"
    by (auto simp: get_db_session_def elim: wp_mono)
  with assms show ?thesis by (auto dest: wp_Inl)
qed

lemma return_commits:
  assumes "get_db_session handler w = (Inr x, w')"
  shows "\<exists>v. handler (w\<lparr>w_db := w_committed w, w_dead := False\<rparr>) = (Inr x, v) \<and>
             \<not> w_dead v \<and> w' = v\<lparr>w_committed := w_db v\<rparr>"
  using assms
  by (auto simp: get_db_session_def split: prod.splits sum.splits if_splits)

lemma wp_request:
  assumes "wp handler P (\<lambda>_ _. True) (w\<lparr>w_db := w_committed w, w_dead := False\<rparr>)"
    and "\<And>x v. P x v \<Longrightarrow> w_committed v = w_committed w \<Longrightarrow> \<not> w_dead v \<Longrightarrow> Q x (v\<lparr>w_committed := w_db v\<rparr>)"
  shows "wp (get_db_session handler) Q (\<lambda>_ v. w_committed v = w_committed w \<and> w_db v = w_committed w) w"
proof -
  have "wp handler (\<lambda>_ v. w_committed v = w_committed w) (\<lambda>_ v. w_committed v = w_committed w)
          (w\<lparr>w_db := w_committed w, w_dead := False\<rparr>)"
    using handler_uncommitting [of "w_committed w"] by (simp add: keeps_wp)
  with assms(1) have "wp handler (\<lambda>x v. P x v \<and> w_committed v = w_committed w)
      (\<lambda>_ v. True \<and> w_committed v = w_committed w) (w\<lparr>w_db := w_committed w, w_dead := False\<rparr>)"
    unfolding wp_conj by simp
  then show ?thesis
    unfolding get_db_session_def wp_then wp_modify wp_catch wp_bind
    by (rule wp_mono) (use assms(2) in auto)
qed

end

end
