(* ===== verification/Schema.thy ===== *)
theory Schema
  imports World
begin

text \<open>
  The tables of \<open>app/persistence/models.py\<close>: column types, defaults, unique, check and
  foreign-key constraints, as the insertions and updates that the database accepts or refuses.
  \<open>wf_db\<close> says that a database satisfies every constraint; the lemmas show that each accepted
  change keeps it, whatever values the program sends.
\<close>

section \<open>Column types\<close>

definition int4 :: "int \<Rightarrow> bool" where
  "int4 i \<longleftrightarrow> -2147483648 \<le> i \<and> i \<le> 2147483647"

definition varchar :: "nat \<Rightarrow> string \<Rightarrow> bool" where
  "varchar n s \<longleftrightarrow> length s \<le> n"

definition varchar_opt :: "nat \<Rightarrow> string option \<Rightarrow> bool" where
  "varchar_opt n x = (case x of None \<Rightarrow> True | Some s \<Rightarrow> length s \<le> n)"

definition conv :: "string \<Rightarrow> (string \<Rightarrow> string option) \<Rightarrow> string \<Rightarrow> exn + string" where
  "conv what f s = (case f s of None \<Rightarrow> Inl (DataError what) | Some v \<Rightarrow> Inr v)"

definition conv_opt :: "string \<Rightarrow> (string \<Rightarrow> string option) \<Rightarrow> string option \<Rightarrow> exn + string option" where
  "conv_opt what f x = (case x of None \<Rightarrow> Inr None | Some s \<Rightarrow> map_sum id Some (conv what f s))"

text \<open>A \<open>UUID\<close> parameter of a statement.\<close>

definition uuid_param :: "env \<Rightarrow> string \<Rightarrow> exn + string" where
  "uuid_param env s = conv ''invalid UUID'' (pg_uuid env) s"

lemma conv_Inr [simp]: "conv what f s = Inr v \<longleftrightarrow> f s = Some v"
  by (simp add: conv_def split: option.splits)

lemma uuid_param_Inr [simp]: "uuid_param env s = Inr k \<longleftrightarrow> pg_uuid env s = Some k"
  by (simp add: uuid_param_def)

text \<open>Checks in sequence: the first that fails decides the error.\<close>

definition check :: "bool \<Rightarrow> exn \<Rightarrow> exn + unit" where
  "check b e = (if b then Inr () else Inl e)"

definition and_then :: "'e + 'a \<Rightarrow> ('a \<Rightarrow> 'e + 'b) \<Rightarrow> 'e + 'b" where
  "and_then m f = (case m of Inl e \<Rightarrow> Inl e | Inr x \<Rightarrow> f x)"

lemma check_Inr [simp]: "check b e = Inr u \<longleftrightarrow> b"
  by (simp add: check_def)

lemma and_then_Inr [simp]: "and_then m f = Inr y \<longleftrightarrow> (\<exists>x. m = Inr x \<and> f x = Inr y)"
  by (simp add: and_then_def split: sum.splits)

lemma and_then_simps [simp]: "and_then (Inl e) f = Inl e" "and_then (Inr x) f = f x"
  by (simp_all add: and_then_def)

lemma check_simps [simp]: "check True e = Inr ()" "check False e = Inl e"
  by (simp_all add: check_def)

section \<open>users\<close>

definition insert_user :: "env \<Rightarrow> UserRecord \<Rightarrow> db \<Rightarrow> exn + UserRecord \<times> db" where
  "insert_user env r d =
     and_then (uuid_param env (u_id r)) (\<lambda>i.
     and_then (check (varchar 150 (u_username r)) (DataError ''users.username'')) (\<lambda>_.
     and_then (check (varchar 50 (u_role r)) (DataError ''users.role'')) (\<lambda>_.
     and_then (check (i \<notin> u_id ` set (users d)) (IntegrityError ''users_pkey'')) (\<lambda>_.
     and_then (check (u_username r \<notin> u_username ` set (users d)) (IntegrityError ''uq_users_username'')) (\<lambda>_.
       let row = r\<lparr>u_id := i\<rparr> in Inr (row, d\<lparr>users := users d @ [row]\<rparr>))))))"

section \<open>machines\<close>

text \<open>The columns a caller gives; id and timestamps have defaults.\<close>

record MachineFields =
  f_name :: string
  f_ip_address :: string
  f_mac_address :: string
  f_ssh_port :: int
  f_hostname :: "string option"
  f_wake_interface :: "string option"
  f_wake_strategy :: string
  f_broadcast_address :: "string option"
  f_enabled :: bool

definition wake_strategies :: "string list" where
  "wake_strategies = [''etherwake'', ''udp_broadcast'']"

definition new_machine_row :: "string \<Rightarrow> datetime \<Rightarrow> MachineFields \<Rightarrow> MachineRecord" where
  "new_machine_row i t f =
     \<lparr>m_id = i, m_name = f_name f, m_hostname = f_hostname f, m_ip_address = f_ip_address f,
      m_mac_address = f_mac_address f, m_ssh_port = f_ssh_port f,
      m_wake_interface = f_wake_interface f, m_wake_strategy = f_wake_strategy f,
      m_broadcast_address = f_broadcast_address f, m_enabled = f_enabled f,
      m_created_at = t, m_updated_at = t\<rparr>"

text \<open>
  The column types and constraints of one row beside the other rows; the row as stored. The id
  is checked where the row is inserted.
\<close>

definition check_machine :: "env \<Rightarrow> MachineRecord list \<Rightarrow> MachineRecord \<Rightarrow> exn + MachineRecord" where
  "check_machine env others r =
     and_then (conv ''invalid inet'' (pg_inet env) (m_ip_address r)) (\<lambda>ip.
     and_then (conv ''invalid macaddr'' (pg_macaddr env) (m_mac_address r)) (\<lambda>mac.
     and_then (conv_opt ''invalid inet'' (pg_inet env) (m_broadcast_address r)) (\<lambda>bc.
     and_then (check (varchar 255 (m_name r) \<and> varchar_opt 255 (m_hostname r) \<and>
                      varchar_opt 50 (m_wake_interface r) \<and> varchar 20 (m_wake_strategy r))
                 (DataError ''value too long'')) (\<lambda>_.
     and_then (check (int4 (m_ssh_port r)) (DataError ''integer out of range'')) (\<lambda>_.
     and_then (check (1 \<le> m_ssh_port r \<and> m_ssh_port r \<le> 65535) (IntegrityError ''ck_machines_ssh_port'')) (\<lambda>_.
     and_then (check (m_wake_strategy r \<in> set wake_strategies) (IntegrityError ''ck_machines_wake_strategy'')) (\<lambda>_.
     and_then (check (mac \<notin> m_mac_address ` set others) (IntegrityError ''uq_machines_mac_address'')) (\<lambda>_.
       Inr (r\<lparr>m_ip_address := ip, m_mac_address := mac, m_broadcast_address := bc\<rparr>)))))))))"

definition insert_machine :: "env \<Rightarrow> MachineRecord \<Rightarrow> db \<Rightarrow> exn + MachineRecord \<times> db" where
  "insert_machine env r d =
     and_then (uuid_param env (m_id r)) (\<lambda>i.
     and_then (check_machine env (machines d) (r\<lparr>m_id := i\<rparr>)) (\<lambda>row.
     and_then (check (i \<notin> m_id ` set (machines d)) (IntegrityError ''machines_pkey'')) (\<lambda>_.
       Inr (row, d\<lparr>machines := machines d @ [row]\<rparr>))))"

text \<open>
  An \<open>UPDATE\<close> of a loaded row: none is sent when no attribute changed, so \<open>updated_at\<close> moves
  only with a change.
\<close>

definition update_machine :: "env \<Rightarrow> string \<Rightarrow> (MachineRecord \<Rightarrow> MachineRecord) \<Rightarrow> datetime \<Rightarrow>
    db \<Rightarrow> exn + MachineRecord option \<times> db" where
  "update_machine env k f t d =
     (case find_row m_id k (machines d) of
        None \<Rightarrow> Inr (None, d)
      | Some m \<Rightarrow>
          let m' = f m in
          if m' = m then Inr (Some m, d)
          else and_then (check_machine env (filter (\<lambda>x. m_id x \<noteq> k) (machines d)) (m'\<lparr>m_updated_at := t\<rparr>)) (\<lambda>row.
               Inr (Some row, d\<lparr>machines := update_rows m_id k (\<lambda>_. row) (machines d)\<rparr>)))"

text \<open>
  \<open>session.delete(machine)\<close>: the relationship \<open>wake_attempts\<close> has neither a delete cascade nor
  \<open>passive_deletes\<close>, so the ORM first sets \<open>machine_id\<close> of the machine's attempts to NULL,
  which the column refuses. Where there is no attempt the row goes, the jobs of the machine
  with it, and \<open>machine_id\<close> of its tokens becomes NULL (\<open>ON DELETE\<close> of the foreign keys).
\<close>

definition detach_token :: "string \<Rightarrow> ApiTokenRecord \<Rightarrow> ApiTokenRecord" where
  "detach_token k t = (if t_machine_id t = Some k then t\<lparr>t_machine_id := None\<rparr> else t)"

lemma detach_token_simps [simp]:
  "t_id (detach_token k t) = t_id t"
  "t_token_hash (detach_token k t) = t_token_hash t"
  "t_user_id (detach_token k t) = t_user_id t"
  "t_revoked_at (detach_token k t) = t_revoked_at t"
  "t_machine_id (detach_token k t) = Some m \<longleftrightarrow> t_machine_id t = Some m \<and> m \<noteq> k"
  by (auto simp: detach_token_def)

definition delete_machine_row :: "string \<Rightarrow> db \<Rightarrow> exn + unit \<times> db" where
  "delete_machine_row k d =
     and_then (check (k \<notin> wa_machine_id ` set (attempts d))
                 (IntegrityError ''null value in column machine_id of relation wake_attempts'')) (\<lambda>_.
       Inr ((), d\<lparr>machines := filter (\<lambda>m. m_id m \<noteq> k) (machines d),
                  jobs := filter (\<lambda>j. j_machine_id j \<noteq> k) (jobs d),
                  tokens := map (detach_token k) (tokens d)\<rparr>))"

section \<open>wake\_attempts\<close>

definition attempt_statuses :: "string list" where
  "attempt_statuses = [''pending'', ''sent'', ''waking'', ''online'', ''failed'', ''timeout'']"

definition insert_attempt :: "env \<Rightarrow> WakeAttemptRecord \<Rightarrow> db \<Rightarrow> exn + WakeAttemptRecord \<times> db" where
  "insert_attempt env r d =
     and_then (uuid_param env (wa_id r)) (\<lambda>i.
     and_then (uuid_param env (wa_machine_id r)) (\<lambda>mid.
     and_then (check (varchar 20 (wa_actor_type r) \<and> varchar 255 (wa_actor_id r) \<and>
                      varchar 20 (wa_strategy r) \<and> varchar 20 (wa_status r)) (DataError ''value too long'')) (\<lambda>_.
     and_then (check (int4 (wa_poll_timeout_s r)) (DataError ''integer out of range'')) (\<lambda>_.
     and_then (check (wa_status r \<in> set attempt_statuses) (IntegrityError ''ck_wake_attempts_status'')) (\<lambda>_.
     and_then (check (i \<notin> wa_id ` set (attempts d)) (IntegrityError ''wake_attempts_pkey'')) (\<lambda>_.
     and_then (check (mid \<in> m_id ` set (machines d)) (IntegrityError ''wake_attempts_machine_id_fkey'')) (\<lambda>_.
       let row = r\<lparr>wa_id := i, wa_machine_id := mid\<rparr> in
       Inr (row, d\<lparr>attempts := attempts d @ [row]\<rparr>))))))))"

text \<open>\<open>UPDATE wake_attempts SET ... WHERE id = k\<close> with the values that are not \<open>None\<close>.\<close>

definition set_status :: "string \<Rightarrow> string option \<Rightarrow> datetime option \<Rightarrow> WakeAttemptRecord \<Rightarrow> WakeAttemptRecord" where
  "set_status st err fin r =
     (let r1 = r\<lparr>wa_status := st\<rparr>;
          r2 = (case err of None \<Rightarrow> r1 | Some e \<Rightarrow> r1\<lparr>wa_error := Some e\<rparr>)
      in case fin of None \<Rightarrow> r2 | Some t \<Rightarrow> r2\<lparr>wa_finished_at := Some t\<rparr>)"

definition update_attempt :: "string \<Rightarrow> string \<Rightarrow> string option \<Rightarrow> datetime option \<Rightarrow> db \<Rightarrow> exn + unit \<times> db" where
  "update_attempt k st err fin d =
     and_then (check (k \<notin> wa_id ` set (attempts d) \<or> st \<in> set attempt_statuses)
                 (IntegrityError ''ck_wake_attempts_status'')) (\<lambda>_.
       Inr ((), d\<lparr>attempts := update_rows wa_id k (set_status st err fin) (attempts d)\<rparr>))"

section \<open>wake\_jobs\<close>

definition job_statuses :: "string list" where
  "job_statuses = [''queued'', ''running'', ''done'', ''error'']"

definition job_types :: "string list" where
  "job_types = [''wake'', ''ensure_online'']"

definition insert_job :: "env \<Rightarrow> WakeJob \<Rightarrow> db \<Rightarrow> exn + WakeJob \<times> db" where
  "insert_job env r d =
     and_then (uuid_param env (j_id r)) (\<lambda>i.
     and_then (uuid_param env (j_machine_id r)) (\<lambda>mid.
     and_then (uuid_param env (j_attempt_id r)) (\<lambda>aid.
     and_then (check (varchar 20 (j_job_type r) \<and> varchar 20 (j_status r)) (DataError ''value too long'')) (\<lambda>_.
     and_then (check (j_status r \<in> set job_statuses) (IntegrityError ''ck_wake_jobs_status'')) (\<lambda>_.
     and_then (check (j_job_type r \<in> set job_types) (IntegrityError ''ck_wake_jobs_type'')) (\<lambda>_.
     and_then (check (i \<notin> j_id ` set (jobs d)) (IntegrityError ''wake_jobs_pkey'')) (\<lambda>_.
     and_then (check (aid \<notin> j_attempt_id ` set (jobs d)) (IntegrityError ''wake_jobs_attempt_id_key'')) (\<lambda>_.
     and_then (check (mid \<in> m_id ` set (machines d)) (IntegrityError ''wake_jobs_machine_id_fkey'')) (\<lambda>_.
     and_then (check (aid \<in> wa_id ` set (attempts d)) (IntegrityError ''wake_jobs_attempt_id_fkey'')) (\<lambda>_.
       let row = r\<lparr>j_id := i, j_machine_id := mid, j_attempt_id := aid\<rparr> in
       Inr (row, d\<lparr>jobs := jobs d @ [row]\<rparr>)))))))))))"

section \<open>sessions\<close>

definition insert_session :: "env \<Rightarrow> SessionRecord \<Rightarrow> db \<Rightarrow> exn + SessionRecord \<times> db" where
  "insert_session env r d =
     and_then (uuid_param env (s_id r)) (\<lambda>i.
     and_then (uuid_param env (s_user_id r)) (\<lambda>uid.
     and_then (conv_opt ''invalid inet'' (pg_inet env) (s_ip r)) (\<lambda>ip.
     and_then (check (varchar 128 (s_csrf_secret r)) (DataError ''value too long'')) (\<lambda>_.
     and_then (check (i \<notin> s_id ` set (sessions d)) (IntegrityError ''sessions_pkey'')) (\<lambda>_.
     and_then (check (uid \<in> u_id ` set (users d)) (IntegrityError ''sessions_user_id_fkey'')) (\<lambda>_.
       let row = r\<lparr>s_id := i, s_user_id := uid, s_ip := ip\<rparr> in
       Inr (row, d\<lparr>sessions := sessions d @ [row]\<rparr>)))))))"

section \<open>api\_tokens\<close>

definition insert_token :: "env \<Rightarrow> ApiTokenRecord \<Rightarrow> db \<Rightarrow> exn + ApiTokenRecord \<times> db" where
  "insert_token env r d =
     and_then (uuid_param env (t_id r)) (\<lambda>i.
     and_then (uuid_param env (t_user_id r)) (\<lambda>uid.
     and_then (conv_opt ''invalid UUID'' (pg_uuid env) (t_machine_id r)) (\<lambda>mid.
     and_then (check (varchar 255 (t_name r) \<and> varchar 128 (t_token_hash r) \<and> varchar 16 (t_prefix r))
                 (DataError ''value too long'')) (\<lambda>_.
     and_then (check (i \<notin> t_id ` set (tokens d)) (IntegrityError ''api_tokens_pkey'')) (\<lambda>_.
     and_then (check (t_token_hash r \<notin> t_token_hash ` set (tokens d)) (IntegrityError ''uq_api_tokens_hash'')) (\<lambda>_.
     and_then (check (uid \<in> u_id ` set (users d)) (IntegrityError ''api_tokens_user_id_fkey'')) (\<lambda>_.
     and_then (check (case mid of None \<Rightarrow> True | Some m \<Rightarrow> m \<in> m_id ` set (machines d))
                 (IntegrityError ''api_tokens_machine_id_fkey'')) (\<lambda>_.
       let row = r\<lparr>t_id := i, t_user_id := uid, t_machine_id := mid\<rparr> in
       Inr (row, d\<lparr>tokens := tokens d @ [row]\<rparr>)))))))))"

section \<open>settings and setup\_state\<close>

text \<open>Writing a key: a new row, or the value of the existing one.\<close>

definition upsert_setting :: "string \<Rightarrow> dict \<Rightarrow> datetime \<Rightarrow> db \<Rightarrow> exn + unit \<times> db" where
  "upsert_setting k v t d =
     (case find_row sg_key k (settings d) of
        None \<Rightarrow>
          and_then (check (varchar 100 k) (DataError ''value too long'')) (\<lambda>_.
            Inr ((), d\<lparr>settings := settings d @ [\<lparr>sg_key = k, sg_value = v, sg_updated_at = t\<rparr>]\<rparr>))
      | Some r \<Rightarrow>
          Inr ((), if sg_value r = v then d
                   else d\<lparr>settings := update_rows sg_key k (\<lambda>r. r\<lparr>sg_value := v, sg_updated_at := t\<rparr>) (settings d)\<rparr>))"

definition default_setup_row :: "datetime \<Rightarrow> SetupStateRecord" where
  "default_setup_row t = \<lparr>ss_id = 1, ss_completed = False, ss_current_step = ''welcome'',
                          ss_completed_steps = [], ss_updated_at = t\<rparr>"

definition write_setup :: "SetupStateRecord \<Rightarrow> db \<Rightarrow> exn + SetupStateRecord \<times> db" where
  "write_setup r d =
     and_then (check (varchar 50 (ss_current_step r)) (DataError ''value too long'')) (\<lambda>_.
     and_then (check (ss_id r = 1) (IntegrityError ''ck_setup_state_singleton'')) (\<lambda>_.
       Inr (r, d\<lparr>setup_state := Some r\<rparr>)))"

section \<open>Databases that satisfy every constraint\<close>

definition wf_users :: "db \<Rightarrow> bool" where
  "wf_users d \<longleftrightarrow> distinct (map u_id (users d)) \<and> distinct (map u_username (users d)) \<and>
     (\<forall>u \<in> set (users d). varchar 150 (u_username u))"

definition wf_machines :: "db \<Rightarrow> bool" where
  "wf_machines d \<longleftrightarrow> distinct (map m_id (machines d)) \<and> distinct (map m_mac_address (machines d)) \<and>
     (\<forall>m \<in> set (machines d). 1 \<le> m_ssh_port m \<and> m_ssh_port m \<le> 65535 \<and>
        m_wake_strategy m \<in> set wake_strategies)"

definition wf_attempts :: "db \<Rightarrow> bool" where
  "wf_attempts d \<longleftrightarrow> distinct (map wa_id (attempts d)) \<and>
     (\<forall>a \<in> set (attempts d). wa_status a \<in> set attempt_statuses \<and> wa_machine_id a \<in> m_id ` set (machines d))"

definition wf_jobs :: "db \<Rightarrow> bool" where
  "wf_jobs d \<longleftrightarrow> distinct (map j_id (jobs d)) \<and> distinct (map j_attempt_id (jobs d)) \<and>
     (\<forall>j \<in> set (jobs d). j_status j \<in> set job_statuses \<and> j_job_type j \<in> set job_types \<and>
        j_machine_id j \<in> m_id ` set (machines d) \<and> j_attempt_id j \<in> wa_id ` set (attempts d))"

definition wf_sessions :: "db \<Rightarrow> bool" where
  "wf_sessions d \<longleftrightarrow> distinct (map s_id (sessions d)) \<and>
     (\<forall>s \<in> set (sessions d). s_user_id s \<in> u_id ` set (users d))"

definition wf_tokens :: "db \<Rightarrow> bool" where
  "wf_tokens d \<longleftrightarrow> distinct (map t_id (tokens d)) \<and> distinct (map t_token_hash (tokens d)) \<and>
     (\<forall>t \<in> set (tokens d). t_user_id t \<in> u_id ` set (users d) \<and>
        (\<forall>m. t_machine_id t = Some m \<longrightarrow> m \<in> m_id ` set (machines d)))"

definition wf_settings :: "db \<Rightarrow> bool" where
  "wf_settings d \<longleftrightarrow> distinct (map sg_key (settings d))"

definition wf_setup :: "db \<Rightarrow> bool" where
  "wf_setup d \<longleftrightarrow> (\<forall>r. setup_state d = Some r \<longrightarrow> ss_id r = 1)"

definition wf_db :: "db \<Rightarrow> bool" where
  "wf_db d \<longleftrightarrow> wf_users d \<and> wf_machines d \<and> wf_attempts d \<and> wf_jobs d \<and> wf_sessions d \<and>
     wf_tokens d \<and> wf_settings d \<and> wf_setup d"

lemmas wf_table_defs = wf_users_def wf_machines_def wf_attempts_def wf_jobs_def wf_sessions_def
  wf_tokens_def wf_settings_def wf_setup_def

lemma wf_empty_db: "wf_db empty_db"
  by (simp add: wf_db_def wf_table_defs empty_db_def)

text \<open>
  A change that removes no user, machine or attempt breaks no foreign key, so only the tables
  it wrote need to be looked at.
\<close>

lemma wf_db_grow:
  assumes wf: "wf_db d"
    and sub: "u_id ` set (users d) \<subseteq> u_id ` set (users d')" "m_id ` set (machines d) \<subseteq> m_id ` set (machines d')"
      "wa_id ` set (attempts d) \<subseteq> wa_id ` set (attempts d')"
    and "users d' = users d \<or> wf_users d'" "machines d' = machines d \<or> wf_machines d'"
      "attempts d' = attempts d \<or> wf_attempts d'" "jobs d' = jobs d \<or> wf_jobs d'"
      "sessions d' = sessions d \<or> wf_sessions d'" "tokens d' = tokens d \<or> wf_tokens d'"
      "settings d' = settings d \<or> wf_settings d'" "setup_state d' = setup_state d \<or> wf_setup d'"
  shows "wf_db d'"
proof -
  have d: "wf_users d" "wf_machines d" "wf_attempts d" "wf_jobs d" "wf_sessions d" "wf_tokens d"
      "wf_settings d" "wf_setup d"
    using wf by (simp_all add: wf_db_def)
  have "wf_users d'" using assms(5) d(1) by (auto simp: wf_users_def)
  moreover have "wf_machines d'" using assms(6) d(2) by (auto simp: wf_machines_def)
  moreover have "wf_attempts d'" if eq: "attempts d' = attempts d"
    using d(3) subsetD [OF sub(2)] unfolding wf_attempts_def eq by meson
  moreover have "wf_jobs d'" if eq: "jobs d' = jobs d"
    using d(4) subsetD [OF sub(2)] subsetD [OF sub(3)] unfolding wf_jobs_def eq by meson
  moreover have "wf_sessions d'" if eq: "sessions d' = sessions d"
    using d(5) subsetD [OF sub(1)] unfolding wf_sessions_def eq by meson
  moreover have "wf_tokens d'" if eq: "tokens d' = tokens d"
    using d(6) subsetD [OF sub(1)] subsetD [OF sub(2)] unfolding wf_tokens_def eq by meson
  moreover have "wf_settings d'" using assms(11) d(7) by (auto simp: wf_settings_def)
  moreover have "wf_setup d'" using assms(12) d(8) by (auto simp: wf_setup_def)
  ultimately show ?thesis using assms(7-10) unfolding wf_db_def by blast
qed

lemma insert_user_wf: "insert_user env r d = Inr (x, d') \<Longrightarrow> wf_db d \<Longrightarrow> wf_db d'"
  by (rule wf_db_grow [of d]) (auto simp: insert_user_def Let_def wf_db_def wf_users_def)

lemma check_machine_InrD:
  "check_machine env others r = Inr x \<Longrightarrow>
   m_id x = m_id r \<and> m_mac_address x \<notin> m_mac_address ` set others \<and>
   pg_macaddr env (m_mac_address r) = Some (m_mac_address x) \<and>
   1 \<le> m_ssh_port x \<and> m_ssh_port x \<le> 65535 \<and> m_wake_strategy x \<in> set wake_strategies"
  by (auto simp: check_machine_def)

lemma insert_machine_wf:
  assumes "insert_machine env r d = Inr (x, d')" and wf: "wf_db d"
  shows "wf_db d'"
proof -
  from assms(1) obtain i where ck: "check_machine env (machines d) (r\<lparr>m_id := i\<rparr>) = Inr x"
    and d': "d' = d\<lparr>machines := machines d @ [x]\<rparr>" and i: "i \<notin> m_id ` set (machines d)"
    by (auto simp: insert_machine_def)
  have "wf_machines d'"
    using wf i check_machine_InrD [OF ck] by (auto simp: d' wf_db_def wf_machines_def)
  then show ?thesis by (intro wf_db_grow [OF wf]) (auto simp: d')
qed

lemma insert_attempt_wf: "insert_attempt env r d = Inr (x, d') \<Longrightarrow> wf_db d \<Longrightarrow> wf_db d'"
  by (rule wf_db_grow [of d]) (auto simp: insert_attempt_def Let_def wf_db_def wf_attempts_def)

lemma insert_job_wf: "insert_job env r d = Inr (x, d') \<Longrightarrow> wf_db d \<Longrightarrow> wf_db d'"
  by (rule wf_db_grow [of d]) (auto simp: insert_job_def Let_def wf_db_def wf_jobs_def)

lemma insert_session_wf: "insert_session env r d = Inr (x, d') \<Longrightarrow> wf_db d \<Longrightarrow> wf_db d'"
  by (rule wf_db_grow [of d]) (auto simp: insert_session_def Let_def wf_db_def wf_sessions_def)

lemma insert_token_wf:
  assumes "insert_token env r d = Inr (x, d')" and wf: "wf_db d"
  shows "wf_db d'"
proof -
  from assms(1) have d': "d' = d\<lparr>tokens := tokens d @ [x]\<rparr>" and x: "t_id x \<notin> t_id ` set (tokens d)"
      "t_token_hash x \<notin> t_token_hash ` set (tokens d)" "t_user_id x \<in> u_id ` set (users d)"
      "\<forall>m. t_machine_id x = Some m \<longrightarrow> m \<in> m_id ` set (machines d)"
    by (auto simp: insert_token_def Let_def)
  have "wf_tokens d'"
    using wf x by (simp add: d' wf_db_def wf_tokens_def)
  then show ?thesis by (intro wf_db_grow [OF wf]) (simp_all add: d')
qed

lemma write_setup_wf: "write_setup r d = Inr (x, d') \<Longrightarrow> wf_db d \<Longrightarrow> wf_db d'"
  by (rule wf_db_grow [of d]) (auto simp: write_setup_def wf_setup_def)

lemma set_status_simps [simp]:
  "wa_id (set_status st err fin r) = wa_id r"
  "wa_machine_id (set_status st err fin r) = wa_machine_id r"
  "wa_status (set_status st err fin r) = st"
  "wa_strategy (set_status st err fin r) = wa_strategy r"
  "wa_ensure_online (set_status st err fin r) = wa_ensure_online r"
  "wa_poll_timeout_s (set_status st err fin r) = wa_poll_timeout_s r"
  "wa_started_at (set_status st err fin r) = wa_started_at r"
  "wa_actor_type (set_status st err fin r) = wa_actor_type r"
  "wa_actor_id (set_status st err fin r) = wa_actor_id r"
  "wa_error (set_status st err fin r) = (case err of None \<Rightarrow> wa_error r | Some e \<Rightarrow> Some e)"
  "wa_finished_at (set_status st err fin r) = (case fin of None \<Rightarrow> wa_finished_at r | Some t \<Rightarrow> Some t)"
  by (simp_all add: set_status_def Let_def split: option.split)

interpretation attempt_rows: row_change wa_id "set_status st err fin"
  by unfold_locales simp

lemma update_attempt_wf:
  assumes "update_attempt k st err fin d = Inr (x, d')" and "wf_db d"
  shows "wf_db d'"
proof -
  let ?rows = "update_rows wa_id k (set_status st err fin) (attempts d)"
  from assms(1) have d': "d' = d\<lparr>attempts := ?rows\<rparr>"
    and st: "k \<notin> wa_id ` set (attempts d) \<or> st \<in> set attempt_statuses"
    by (auto simp: update_attempt_def)
  have ids: "map wa_id ?rows = map wa_id (attempts d)" by (rule attempt_rows.keys_update)
  then have idset: "wa_id ` set ?rows = wa_id ` set (attempts d)" by (metis set_map)
  have "\<forall>a \<in> set ?rows. wa_status a \<in> set attempt_statuses \<and> wa_machine_id a \<in> m_id ` set (machines d)"
    using assms(2) st by (intro ball_update_rows) (auto simp: wf_db_def wf_attempts_def)
  with assms(2) show ?thesis
    unfolding d' by (simp add: wf_db_def wf_table_defs ids idset)
qed

lemma upsert_setting_wf:
  assumes "upsert_setting k v t d = Inr (x, d')" and "wf_db d"
  shows "wf_db d'"
proof -
  have "map sg_key (update_rows sg_key k (\<lambda>r. r\<lparr>sg_value := v, sg_updated_at := t\<rparr>) (settings d)) =
        map sg_key (settings d)"
    by (rule map_update_rows_frame) simp
  with assms show ?thesis
    by (auto simp: upsert_setting_def wf_db_def wf_table_defs find_row_None split: option.splits if_splits)
qed

lemma delete_machine_row_InrD:
  assumes "delete_machine_row k d = Inr (x, d')"
  shows "k \<notin> wa_machine_id ` set (attempts d) \<and>
    d' = d\<lparr>machines := filter (\<lambda>m. m_id m \<noteq> k) (machines d),
            jobs := filter (\<lambda>j. j_machine_id j \<noteq> k) (jobs d),
            tokens := map (detach_token k) (tokens d)\<rparr>"
  using assms by (auto simp: delete_machine_row_def)

lemma delete_machine_row_wf:
  assumes del: "delete_machine_row k d = Inr (x, d')" and wf: "wf_db d"
  shows "wf_db d'"
proof -
  let ?del = "map (detach_token k) (tokens d)"
  note d' = delete_machine_row_InrD [OF del]
  have "wf_machines d" "wf_attempts d" "wf_jobs d" "wf_tokens d" "wf_users d" "wf_sessions d"
    "wf_settings d" "wf_setup d"
    using wf by (simp_all add: wf_db_def)
  note tables = this
  have "wf_machines d'"
    using tables(1) d' by (simp add: wf_machines_def distinct_map_filter)
  moreover have "wf_attempts d'"
    using tables(2) d' by (auto simp: wf_attempts_def)
  moreover have "wf_jobs d'"
    using tables(3) d' by (auto simp: wf_jobs_def distinct_map_filter)
  moreover have "wf_tokens d'"
    using tables(4) d' by (simp add: wf_tokens_def comp_def)
  moreover have "wf_users d'" "wf_sessions d'" "wf_settings d'" "wf_setup d'"
    using tables(5-8) d' by (simp_all add: wf_users_def wf_sessions_def wf_settings_def wf_setup_def)
  ultimately show ?thesis by (simp add: wf_db_def)
qed

lemma update_machine_wf:
  assumes upd: "update_machine env k f t d = Inr (x, d')" and wf: "wf_db d"
    and ids: "\<And>m. m_id (f m) = m_id m"
  shows "wf_db d'"
proof (cases "find_row m_id k (machines d)")
  case None
  with upd wf show ?thesis by (simp add: update_machine_def)
next
  case (Some m)
  let ?others = "filter (\<lambda>x. m_id x \<noteq> k) (machines d)"
  from Some have m: "m \<in> set (machines d)" "m_id m = k" by (auto dest: find_row_SomeD)
  show ?thesis
  proof (cases "f m = m")
    case True
    with Some upd wf show ?thesis by (simp add: update_machine_def)
  next
    case False
    with Some upd obtain row where row: "check_machine env ?others ((f m)\<lparr>m_updated_at := t\<rparr>) = Inr row"
      and d': "d' = d\<lparr>machines := update_rows m_id k (\<lambda>_. row) (machines d)\<rparr>"
      by (auto simp: update_machine_def Let_def)
    note ck = check_machine_InrD [OF row]
    have rid: "m_id row = k" using ck m ids by simp
    have keys: "map m_id (update_rows m_id k (\<lambda>_. row) (machines d)) = map m_id (machines d)"
      using rid by (simp add: update_rows_def)
    then have keyset: "m_id ` set (update_rows m_id k (\<lambda>_. row) (machines d)) = m_id ` set (machines d)"
      by (metis set_map)
    have "\<forall>r \<in> set (machines d). m_id r \<noteq> k \<longrightarrow> m_mac_address r \<noteq> m_mac_address row"
      using ck by (metis (mono_tags, lifting) imageI mem_Collect_eq set_filter)
    then have "distinct (map m_mac_address (update_rows m_id k (\<lambda>_. row) (machines d)))"
      using wf by (intro distinct_update_key2) (auto simp: wf_db_def wf_machines_def)
    moreover have "\<forall>m \<in> set (update_rows m_id k (\<lambda>_. row) (machines d)).
        1 \<le> m_ssh_port m \<and> m_ssh_port m \<le> 65535 \<and> m_wake_strategy m \<in> set wake_strategies"
      using wf ck by (intro ball_update_rows) (auto simp: wf_db_def wf_machines_def)
    ultimately show ?thesis
      using wf by (simp add: d' wf_db_def wf_table_defs keys keyset)
  qed
qed

end
