(* ===== verification/Repositories.thy ===== *)
theory Repositories
  imports Schema
begin

text \<open>
  \<open>app/persistence/repositories.py\<close>: the SQL repositories, one group per class, each method
  a program over the session. A method that takes an id first asks \<open>_is_valid_uuid\<close> where the
  code does; the id then goes to PostgreSQL, which compares UUID values. The lemmas give each
  method's effect (collection \<open>wp_simps\<close>) and show that every method keeps \<open>wf_db\<close>.
\<close>

section \<open>Helpers\<close>

text \<open>
  \<open>uuid.UUID(value)\<close>: without \<open>urn:\<close>, \<open>uuid:\<close>, outer braces and hyphens, 32 characters
  that \<open>int(_, 16)\<close> reads as a number that fits.
\<close>

definition is_valid_uuid :: "string \<Rightarrow> bool" where
  "is_valid_uuid v =
     (let h = remove_char CHR ''-'' (strip_by (\<lambda>c. c = CHR 0x7B \<or> c = CHR 0x7D)
                (remove_all ''uuid:'' (remove_all ''urn:'' v)))
      in length h = 32 \<and>
         (case py_int 16 h of None \<Rightarrow> False | Some n \<Rightarrow> 0 \<le> n \<and> n < 2 ^ 128))"

definition user_to_record :: "UserRecord \<Rightarrow> UserRecord" where
  "user_to_record m =
     \<lparr>u_id = u_id m, u_username = u_username m, u_password_hash = u_password_hash m,
      u_role = u_role m, u_created_at = u_created_at m, u_last_login_at = u_last_login_at m\<rparr>"

definition machine_to_record :: "MachineRecord \<Rightarrow> MachineRecord" where
  "machine_to_record m =
     \<lparr>m_id = m_id m, m_name = m_name m, m_hostname = m_hostname m, m_ip_address = m_ip_address m,
      m_mac_address = m_mac_address m, m_ssh_port = m_ssh_port m,
      m_wake_interface = m_wake_interface m, m_wake_strategy = m_wake_strategy m,
      m_broadcast_address = (if truthy (m_broadcast_address m) then m_broadcast_address m else None),
      m_enabled = m_enabled m, m_created_at = m_created_at m, m_updated_at = m_updated_at m\<rparr>"

definition attempt_to_record :: "WakeAttemptRecord \<Rightarrow> WakeAttemptRecord" where
  "attempt_to_record m =
     \<lparr>wa_id = wa_id m, wa_machine_id = wa_machine_id m, wa_actor_type = wa_actor_type m,
      wa_actor_id = wa_actor_id m, wa_strategy = wa_strategy m, wa_status = wa_status m,
      wa_ensure_online = wa_ensure_online m, wa_poll_timeout_s = wa_poll_timeout_s m,
      wa_error = wa_error m, wa_started_at = wa_started_at m, wa_finished_at = wa_finished_at m\<rparr>"

definition session_to_record :: "SessionRecord \<Rightarrow> SessionRecord" where
  "session_to_record m =
     \<lparr>s_id = s_id m, s_user_id = s_user_id m, s_csrf_secret = s_csrf_secret m,
      s_ip = (if truthy (s_ip m) then s_ip m else None), s_user_agent = s_user_agent m,
      s_expires_at = s_expires_at m, s_revoked = s_revoked m, s_created_at = s_created_at m\<rparr>"

definition token_to_record :: "ApiTokenRecord \<Rightarrow> ApiTokenRecord" where
  "token_to_record m =
     \<lparr>t_id = t_id m, t_user_id = t_user_id m, t_machine_id = t_machine_id m, t_name = t_name m,
      t_token_hash = t_token_hash m, t_prefix = t_prefix m, t_scopes = t_scopes m,
      t_last_used_at = t_last_used_at m, t_revoked_at = t_revoked_at m, t_created_at = t_created_at m\<rparr>"

definition setup_to_record :: "SetupStateRecord \<Rightarrow> SetupStateRecord" where
  "setup_to_record m =
     \<lparr>ss_id = ss_id m, ss_completed = ss_completed m, ss_current_step = ss_current_step m,
      ss_completed_steps = ss_completed_steps m, ss_updated_at = ss_updated_at m\<rparr>"

lemma to_record_id [simp]:
  "user_to_record u = u" "attempt_to_record a = a" "token_to_record t = t" "setup_to_record s = s"
  by (simp_all add: user_to_record_def attempt_to_record_def token_to_record_def setup_to_record_def)

lemma map_to_record_id [simp]:
  "map_option user_to_record x = x" "map_option attempt_to_record y = y"
  "map_option token_to_record z = z" "map attempt_to_record ys = ys" "map token_to_record zs = zs"
  by (cases x, simp_all) (cases y, simp_all, cases z, simp_all add: map_idI)

lemma machine_to_record_simps [simp]:
  "m_id (machine_to_record m) = m_id m" "m_ip_address (machine_to_record m) = m_ip_address m"
  "m_mac_address (machine_to_record m) = m_mac_address m" "m_enabled (machine_to_record m) = m_enabled m"
  "m_hostname (machine_to_record m) = m_hostname m" "m_ssh_port (machine_to_record m) = m_ssh_port m"
  "m_wake_strategy (machine_to_record m) = m_wake_strategy m"
  "m_wake_interface (machine_to_record m) = m_wake_interface m"
  "m_name (machine_to_record m) = m_name m"
  by (simp_all add: machine_to_record_def)

lemma session_to_record_simps [simp]:
  "s_id (session_to_record s) = s_id s" "s_user_id (session_to_record s) = s_user_id s"
  "s_csrf_secret (session_to_record s) = s_csrf_secret s" "s_revoked (session_to_record s) = s_revoked s"
  "s_expires_at (session_to_record s) = s_expires_at s"
  by (simp_all add: session_to_record_def)

text \<open>\<open>result.scalar_one_or_none()\<close>.\<close>

definition scalar_one_or_none :: "'a list \<Rightarrow> exn + 'a option" where
  "scalar_one_or_none rows =
     (case rows of [] \<Rightarrow> Inr None | [r] \<Rightarrow> Inr (Some r) | _ \<Rightarrow> Inl MultipleResultsFound)"

text \<open>\<open>ORDER BY key DESC\<close> and \<open>ORDER BY key\<close>.\<close>

definition order_desc :: "('a \<Rightarrow> int) \<Rightarrow> 'a list \<Rightarrow> 'a list" where
  "order_desc key rows = sort_key (\<lambda>r. - key r) rows"

definition order_asc :: "('a \<Rightarrow> int) \<Rightarrow> 'a list \<Rightarrow> 'a list" where
  "order_asc key rows = sort_key key rows"

text \<open>\<open>session.get(Model, id)\<close>: the row of that id; a text that is no UUID to PostgreSQL is a \<open>DataError\<close>.\<close>

definition get_row :: "env \<Rightarrow> (db \<Rightarrow> 'r list) \<Rightarrow> ('r \<Rightarrow> string) \<Rightarrow> string \<Rightarrow> 'r option io" where
  "get_row env table key i =
     bind_p (lift_p (uuid_param env i)) (\<lambda>k. query (\<lambda>d. find_row key k (table d)))"

section \<open>SqlUserRepository\<close>

definition user_get_by_id :: "env \<Rightarrow> string \<Rightarrow> UserRecord option io" where
  "user_get_by_id env user_id =
     (if \<not> is_valid_uuid user_id then return_p None
      else bind_p (get_row env users u_id user_id) (\<lambda>result.
        return_p (map_option user_to_record result)))"

definition user_get_by_username :: "string \<Rightarrow> UserRecord option io" where
  "user_get_by_username username =
     bind_p (query (\<lambda>d. filter (\<lambda>u. u_username u = username) (users d))) (\<lambda>rows.
     bind_p (lift_p (scalar_one_or_none rows)) (\<lambda>row.
       return_p (map_option user_to_record row)))"

definition user_create :: "env \<Rightarrow> string \<Rightarrow> string \<Rightarrow> string \<Rightarrow> UserRecord io" where
  "user_create env username password_hash role =
     bind_p (effect (uuid4 env)) (\<lambda>i.
     bind_p (now env) (\<lambda>t.
     bind_p (flush (insert_user env
        \<lparr>u_id = i, u_username = username, u_password_hash = password_hash, u_role = role,
         u_created_at = t, u_last_login_at = None\<rparr>)) (\<lambda>model.
       return_p (user_to_record model))))"

definition user_update_last_login :: "env \<Rightarrow> string \<Rightarrow> unit io" where
  "user_update_last_login env user_id =
     bind_p (now env) (\<lambda>t.
     bind_p (lift_p (uuid_param env user_id)) (\<lambda>k.
       execute (\<lambda>d. d\<lparr>users := update_rows u_id k (\<lambda>u. u\<lparr>u_last_login_at := Some t\<rparr>) (users d)\<rparr>)))"

definition user_update_password_hash :: "env \<Rightarrow> string \<Rightarrow> string \<Rightarrow> unit io" where
  "user_update_password_hash env user_id password_hash =
     bind_p (lift_p (uuid_param env user_id)) (\<lambda>k.
       execute (\<lambda>d. d\<lparr>users := update_rows u_id k (\<lambda>u. u\<lparr>u_password_hash := password_hash\<rparr>) (users d)\<rparr>))"

definition user_count :: "int io" where
  "user_count = query (\<lambda>d. int (length (users d)))"

section \<open>SqlMachineRepository\<close>

definition machine_get_by_id :: "env \<Rightarrow> string \<Rightarrow> MachineRecord option io" where
  "machine_get_by_id env machine_id =
     (if \<not> is_valid_uuid machine_id then return_p None
      else bind_p (get_row env machines m_id machine_id) (\<lambda>result.
        return_p (map_option machine_to_record result)))"

definition machine_list_all :: "bool \<Rightarrow> MachineRecord list io" where
  "machine_list_all enabled_only =
     bind_p (query (\<lambda>d. if enabled_only then filter m_enabled (machines d) else machines d)) (\<lambda>rows.
       return_p (map machine_to_record rows))"

definition machine_create :: "env \<Rightarrow> MachineFields \<Rightarrow> MachineRecord io" where
  "machine_create env kwargs =
     bind_p (effect (uuid4 env)) (\<lambda>i.
     bind_p (now env) (\<lambda>t.
     bind_p (flush (insert_machine env (new_machine_row i t kwargs))) (\<lambda>model.
       return_p (machine_to_record model))))"

text \<open>The keyword arguments of \<open>update\<close>, one per column, set on the model in order.\<close>

datatype machine_kwarg =
    KName string
  | KIpAddress string
  | KMacAddress string
  | KSshPort int
  | KHostname "string option"
  | KWakeInterface "string option"
  | KWakeStrategy string
  | KBroadcastAddress "string option"
  | KEnabled bool

fun setattr_machine :: "MachineRecord \<Rightarrow> machine_kwarg \<Rightarrow> MachineRecord" where
  "setattr_machine m (KName v) = m\<lparr>m_name := v\<rparr>"
| "setattr_machine m (KIpAddress v) = m\<lparr>m_ip_address := v\<rparr>"
| "setattr_machine m (KMacAddress v) = m\<lparr>m_mac_address := v\<rparr>"
| "setattr_machine m (KSshPort v) = m\<lparr>m_ssh_port := v\<rparr>"
| "setattr_machine m (KHostname v) = m\<lparr>m_hostname := v\<rparr>"
| "setattr_machine m (KWakeInterface v) = m\<lparr>m_wake_interface := v\<rparr>"
| "setattr_machine m (KWakeStrategy v) = m\<lparr>m_wake_strategy := v\<rparr>"
| "setattr_machine m (KBroadcastAddress v) = m\<lparr>m_broadcast_address := v\<rparr>"
| "setattr_machine m (KEnabled v) = m\<lparr>m_enabled := v\<rparr>"

definition apply_kwargs :: "machine_kwarg list \<Rightarrow> MachineRecord \<Rightarrow> MachineRecord" where
  "apply_kwargs kws m = foldl setattr_machine m kws"

definition machine_update :: "env \<Rightarrow> string \<Rightarrow> machine_kwarg list \<Rightarrow> MachineRecord option io" where
  "machine_update env machine_id kws =
     (if \<not> is_valid_uuid machine_id then return_p None
      else bind_p (lift_p (uuid_param env machine_id)) (\<lambda>k.
           bind_p (query (\<lambda>d. find_row m_id k (machines d))) (\<lambda>model.
           case model of
             None \<Rightarrow> return_p None
           | Some _ \<Rightarrow>
               bind_p (now env) (\<lambda>t.
               bind_p (flush (update_machine env k (apply_kwargs kws) t)) (\<lambda>row.
                 return_p (map_option machine_to_record row))))))"

definition machine_delete :: "env \<Rightarrow> string \<Rightarrow> bool io" where
  "machine_delete env machine_id =
     (if \<not> is_valid_uuid machine_id then return_p False
      else bind_p (lift_p (uuid_param env machine_id)) (\<lambda>k.
           bind_p (query (\<lambda>d. find_row m_id k (machines d))) (\<lambda>model.
           case model of
             None \<Rightarrow> return_p False
           | Some _ \<Rightarrow> then_p (flush (delete_machine_row k)) (return_p True))))"

definition machine_count :: "int io" where
  "machine_count = query (\<lambda>d. int (length (machines d)))"

section \<open>SqlWakeAttemptRepository\<close>

definition attempt_create :: "env \<Rightarrow> string \<Rightarrow> string \<Rightarrow> string \<Rightarrow> string \<Rightarrow> bool \<Rightarrow> int \<Rightarrow>
    WakeAttemptRecord io" where
  "attempt_create env machine_id actor_type actor_id strategy ensure_online poll_timeout_s =
     bind_p (effect (uuid4 env)) (\<lambda>i.
     bind_p (now env) (\<lambda>t.
     bind_p (flush (insert_attempt env
        \<lparr>wa_id = i, wa_machine_id = machine_id, wa_actor_type = actor_type, wa_actor_id = actor_id,
         wa_strategy = strategy, wa_status = ''pending'', wa_ensure_online = ensure_online,
         wa_poll_timeout_s = poll_timeout_s, wa_error = None, wa_started_at = t,
         wa_finished_at = None\<rparr>)) (\<lambda>model.
       return_p (attempt_to_record model))))"

definition attempt_get_by_id :: "env \<Rightarrow> string \<Rightarrow> WakeAttemptRecord option io" where
  "attempt_get_by_id env attempt_id =
     (if \<not> is_valid_uuid attempt_id then return_p None
      else bind_p (get_row env attempts wa_id attempt_id) (\<lambda>result.
        return_p (map_option attempt_to_record result)))"

definition attempt_update_status :: "env \<Rightarrow> string \<Rightarrow> string \<Rightarrow> string option \<Rightarrow> datetime option \<Rightarrow> unit io" where
  "attempt_update_status env attempt_id status error finished_at =
     bind_p (lift_p (uuid_param env attempt_id)) (\<lambda>k.
       flush (update_attempt k status error finished_at))"

definition attempt_list_for_machine :: "env \<Rightarrow> string \<Rightarrow> nat \<Rightarrow> WakeAttemptRecord list io" where
  "attempt_list_for_machine env machine_id limit =
     bind_p (lift_p (uuid_param env machine_id)) (\<lambda>k.
     bind_p (query (\<lambda>d. take limit (order_desc wa_started_at
                (filter (\<lambda>a. wa_machine_id a = k) (attempts d))))) (\<lambda>rows.
       return_p (map attempt_to_record rows)))"

definition active_statuses :: "string list" where
  "active_statuses = [''pending'', ''sent'', ''waking'']"

definition attempt_get_active_for_machine :: "env \<Rightarrow> string \<Rightarrow> WakeAttemptRecord option io" where
  "attempt_get_active_for_machine env machine_id =
     bind_p (lift_p (uuid_param env machine_id)) (\<lambda>k.
     bind_p (query (\<lambda>d. take 1 (order_desc wa_started_at
                (filter (\<lambda>a. wa_machine_id a = k \<and> wa_status a \<in> set active_statuses) (attempts d))))) (\<lambda>rows.
     bind_p (lift_p (scalar_one_or_none rows)) (\<lambda>row.
       return_p (map_option attempt_to_record row))))"

section \<open>SqlSessionRepository\<close>

definition session_create :: "env \<Rightarrow> string \<Rightarrow> string \<Rightarrow> datetime \<Rightarrow> string option \<Rightarrow> string option \<Rightarrow>
    SessionRecord io" where
  "session_create env user_id csrf_secret expires_at ip user_agent =
     bind_p (effect (uuid4 env)) (\<lambda>i.
     bind_p (now env) (\<lambda>t.
     bind_p (flush (insert_session env
        \<lparr>s_id = i, s_user_id = user_id, s_csrf_secret = csrf_secret, s_ip = ip,
         s_user_agent = user_agent, s_expires_at = expires_at, s_revoked = False,
         s_created_at = t\<rparr>)) (\<lambda>model.
       return_p (session_to_record model))))"

definition session_get_by_id :: "env \<Rightarrow> string \<Rightarrow> SessionRecord option io" where
  "session_get_by_id env session_id =
     (if \<not> is_valid_uuid session_id then return_p None
      else bind_p (get_row env sessions s_id session_id) (\<lambda>result.
        return_p (map_option session_to_record result)))"

definition session_revoke :: "env \<Rightarrow> string \<Rightarrow> unit io" where
  "session_revoke env session_id =
     bind_p (lift_p (uuid_param env session_id)) (\<lambda>k.
       execute (\<lambda>d. d\<lparr>sessions := update_rows s_id k (\<lambda>s. s\<lparr>s_revoked := True\<rparr>) (sessions d)\<rparr>))"

definition session_revoke_all_for_user :: "env \<Rightarrow> string \<Rightarrow> unit io" where
  "session_revoke_all_for_user env user_id =
     bind_p (lift_p (uuid_param env user_id)) (\<lambda>k.
       execute (\<lambda>d. d\<lparr>sessions := update_rows s_user_id k (\<lambda>s. s\<lparr>s_revoked := True\<rparr>) (sessions d)\<rparr>))"

definition session_delete_expired :: "env \<Rightarrow> int io" where
  "session_delete_expired env =
     bind_p (now env) (\<lambda>t.
     bind_p (query (\<lambda>d. int (length (filter (\<lambda>s. s_expires_at s < t) (sessions d))))) (\<lambda>rowcount.
     then_p (execute (\<lambda>d. d\<lparr>sessions := filter (\<lambda>s. \<not> s_expires_at s < t) (sessions d)\<rparr>))
       (return_p rowcount)))"

section \<open>SqlApiTokenRepository\<close>

definition token_create :: "env \<Rightarrow> string \<Rightarrow> string \<Rightarrow> string \<Rightarrow> dict \<Rightarrow> string \<Rightarrow> string option \<Rightarrow>
    ApiTokenRecord io" where
  "token_create env name token_hash prefix scopes user_id machine_id =
     bind_p (effect (uuid4 env)) (\<lambda>i.
     bind_p (now env) (\<lambda>t.
     bind_p (flush (insert_token env
        \<lparr>t_id = i, t_user_id = user_id, t_machine_id = machine_id, t_name = name,
         t_token_hash = token_hash, t_prefix = prefix, t_scopes = scopes, t_last_used_at = None,
         t_revoked_at = None, t_created_at = t\<rparr>)) (\<lambda>model.
       return_p (token_to_record model))))"

definition token_get_by_hash :: "string \<Rightarrow> ApiTokenRecord option io" where
  "token_get_by_hash token_hash =
     bind_p (query (\<lambda>d. filter (\<lambda>t. t_token_hash t = token_hash \<and> t_revoked_at t = None) (tokens d))) (\<lambda>rows.
     bind_p (lift_p (scalar_one_or_none rows)) (\<lambda>row.
       return_p (map_option token_to_record row)))"

definition token_list_active :: "ApiTokenRecord list io" where
  "token_list_active =
     bind_p (query (\<lambda>d. filter (\<lambda>t. t_revoked_at t = None) (tokens d))) (\<lambda>rows.
       return_p (map token_to_record rows))"

definition token_list_for_machine :: "env \<Rightarrow> string \<Rightarrow> ApiTokenRecord list io" where
  "token_list_for_machine env machine_id =
     (if \<not> is_valid_uuid machine_id then return_p []
      else bind_p (lift_p (uuid_param env machine_id)) (\<lambda>k.
           bind_p (query (\<lambda>d. filter (\<lambda>t. t_machine_id t = Some k \<and> t_revoked_at t = None) (tokens d))) (\<lambda>rows.
             return_p (map token_to_record rows))))"

definition token_revoke :: "env \<Rightarrow> string \<Rightarrow> unit io" where
  "token_revoke env token_id =
     bind_p (now env) (\<lambda>n.
     bind_p (lift_p (uuid_param env token_id)) (\<lambda>k.
       execute (\<lambda>d. d\<lparr>tokens := update_rows t_id k (\<lambda>t. t\<lparr>t_revoked_at := Some n\<rparr>) (tokens d)\<rparr>)))"

definition token_touch_last_used :: "env \<Rightarrow> string \<Rightarrow> unit io" where
  "token_touch_last_used env token_id =
     bind_p (now env) (\<lambda>n.
     bind_p (lift_p (uuid_param env token_id)) (\<lambda>k.
       execute (\<lambda>d. d\<lparr>tokens := update_rows t_id k (\<lambda>t. t\<lparr>t_last_used_at := Some n\<rparr>) (tokens d)\<rparr>)))"

section \<open>SqlSetupStateRepository\<close>

definition setup_get :: "env \<Rightarrow> SetupStateRecord io" where
  "setup_get env =
     bind_p (query setup_state) (\<lambda>model.
     case model of
       Some r \<Rightarrow> return_p (setup_to_record r)
     | None \<Rightarrow>
         bind_p (now env) (\<lambda>t.
         bind_p (flush (write_setup (default_setup_row t))) (\<lambda>r.
           return_p (setup_to_record r))))"

text \<open>\<open>update\<close> as the service calls it, with the three columns it sets.\<close>

definition setup_update :: "env \<Rightarrow> bool \<Rightarrow> string \<Rightarrow> dict \<Rightarrow> SetupStateRecord io" where
  "setup_update env completed current_step completed_steps =
     bind_p (query setup_state) (\<lambda>model.
     bind_p (now env) (\<lambda>t.
     let old = (case model of None \<Rightarrow> default_setup_row t | Some r \<Rightarrow> r);
         new = old\<lparr>ss_completed := completed, ss_current_step := current_step,
                   ss_completed_steps := completed_steps\<rparr>;
         row = (if model = Some new then new else new\<lparr>ss_updated_at := t\<rparr>)
     in bind_p (flush (write_setup row)) (\<lambda>r. return_p (setup_to_record r))))"

section \<open>SqlSettingsRepository\<close>

text \<open>\<open>model.value.get("v")\<close>; Python's \<open>None\<close> is both a missing key and JSON null.\<close>

definition setting_value :: "Setting \<Rightarrow> jval option" where
  "setting_value r = (case dict_get (sg_value r) ''v'' of
     None \<Rightarrow> None | Some v \<Rightarrow> if v = JNull then None else Some v)"

definition settings_repo_get :: "string \<Rightarrow> jval option io" where
  "settings_repo_get key =
     bind_p (query (\<lambda>d. find_row sg_key key (settings d))) (\<lambda>model.
     case model of
       None \<Rightarrow> return_p None
     | Some r \<Rightarrow> return_p (setting_value r))"

definition settings_repo_set :: "env \<Rightarrow> string \<Rightarrow> jval \<Rightarrow> unit io" where
  "settings_repo_set env key value =
     bind_p (now env) (\<lambda>t. flush (upsert_setting key [(''v'', value)] t))"

definition settings_repo_get_all :: "(string \<times> jval option) list io" where
  "settings_repo_get_all = query (\<lambda>d. map (\<lambda>r. (sg_key r, setting_value r)) (settings d))"

section \<open>Effect of the methods\<close>

lemmas repo_defs =
  user_get_by_id_def user_get_by_username_def user_create_def user_update_last_login_def
  user_update_password_hash_def user_count_def
  machine_get_by_id_def machine_list_all_def machine_create_def machine_update_def
  machine_delete_def machine_count_def
  attempt_create_def attempt_get_by_id_def attempt_update_status_def attempt_list_for_machine_def
  attempt_get_active_for_machine_def
  session_create_def session_get_by_id_def session_revoke_def session_revoke_all_for_user_def
  session_delete_expired_def
  token_create_def token_get_by_hash_def token_list_active_def token_list_for_machine_def
  token_revoke_def token_touch_last_used_def
  setup_get_def setup_update_def settings_repo_get_def settings_repo_set_def
  settings_repo_get_all_def get_row_def

text \<open>No method commits, sends anything or touches the rate limiter.\<close>

lemma repo_session_free:
  assumes I: "session_free I"
  shows "keeps I (user_get_by_id env i)" "keeps I (user_get_by_username n)"
    "keeps I (user_create env n p r)" "keeps I (user_update_last_login env i)"
    "keeps I (user_update_password_hash env i p)" "keeps I user_count"
    "keeps I (machine_get_by_id env i)" "keeps I (machine_list_all b)"
    "keeps I (machine_create env f)" "keeps I (machine_update env i kws)"
    "keeps I (machine_delete env i)" "keeps I machine_count"
    "keeps I (attempt_create env m at ai st eo pt)" "keeps I (attempt_get_by_id env i)"
    "keeps I (attempt_update_status env i st' er fi)" "keeps I (attempt_list_for_machine env m l)"
    "keeps I (attempt_get_active_for_machine env m)"
    "keeps I (session_create env u c e ip ua)" "keeps I (session_get_by_id env i)"
    "keeps I (session_revoke env i)" "keeps I (session_revoke_all_for_user env u)"
    "keeps I (session_delete_expired env)"
    "keeps I (token_create env n h p sc u mo)" "keeps I (token_get_by_hash h)"
    "keeps I token_list_active" "keeps I (token_list_for_machine env m)"
    "keeps I (token_revoke env i)" "keeps I (token_touch_last_used env i)"
    "keeps I (setup_get env)" "keeps I (setup_update env c' cs cp)"
    "keeps I (settings_repo_get k)" "keeps I (settings_repo_set env k v)"
    "keeps I settings_repo_get_all"
  unfolding repo_defs Let_def
  by (intro keeps_intros session_free_keeps [OF I])+

text \<open>The methods of the attempts' repository, and the lookup of a machine, change attempts only.\<close>

lemma attempts_only:
  assumes I: "attempt_free I"
  shows "keeps I (machine_get_by_id env i)" "keeps I (attempt_get_by_id env i)"
    "keeps I (attempt_create env m at ai st eo pt)" "keeps I (attempt_update_status env i st' er fi)"
    "keeps I (attempt_list_for_machine env m l)" "keeps I (attempt_get_active_for_machine env m)"
proof -
  have insert: "keeps I (flush (insert_attempt env a))" for a
    using I by (intro keeps_flush) (auto simp: attempt_free_def insert_attempt_def Let_def split: sum.splits if_splits)
  have update: "keeps I (flush (update_attempt j st er fi))" for j st er fi
    using I by (intro keeps_flush) (auto simp: attempt_free_def update_attempt_def split: if_splits)
  show "keeps I (machine_get_by_id env i)" "keeps I (attempt_get_by_id env i)"
    "keeps I (attempt_create env m at ai st eo pt)" "keeps I (attempt_update_status env i st' er fi)"
    "keeps I (attempt_list_for_machine env m l)" "keeps I (attempt_get_active_for_machine env m)"
    unfolding repo_defs Let_def
    by (intro keeps_intros attempt_free_keeps [OF I] insert update)+
qed

text \<open>The readings, as weakest preconditions.\<close>

lemma case_uuid_param [simp]:
  "(case uuid_param env i of Inl e \<Rightarrow> f e | Inr k \<Rightarrow> g k) =
   (case pg_uuid env i of None \<Rightarrow> f (DataError ''invalid UUID'') | Some k \<Rightarrow> g k)"
  by (simp add: uuid_param_def conv_def split: option.split)

lemma wp_get_row [wp_simps]:
  "wp (get_row env table key i) Q E w =
   (case pg_uuid env i of
      None \<Rightarrow> E (DataError ''invalid UUID'') w
    | Some k \<Rightarrow> if w_dead w then E PendingRollbackError w else Q (find_row key k (table (w_db w))) w)"
  by (simp add: get_row_def split: option.split)

lemma wp_machine_get_by_id [wp_simps]:
  "wp (machine_get_by_id env i) Q E w =
   (if \<not> is_valid_uuid i then Q None w
    else case pg_uuid env i of
      None \<Rightarrow> E (DataError ''invalid UUID'') w
    | Some k \<Rightarrow> if w_dead w then E PendingRollbackError w
               else Q (map_option machine_to_record (find_row m_id k (machines (w_db w)))) w)"
  by (simp add: machine_get_by_id_def wp_get_row split: option.split)

lemma wp_attempt_get_by_id [wp_simps]:
  "wp (attempt_get_by_id env i) Q E w =
   (if \<not> is_valid_uuid i then Q None w
    else case pg_uuid env i of
      None \<Rightarrow> E (DataError ''invalid UUID'') w
    | Some k \<Rightarrow> if w_dead w then E PendingRollbackError w
               else Q (find_row wa_id k (attempts (w_db w))) w)"
  by (simp add: attempt_get_by_id_def wp_get_row split: option.split)

lemma wp_session_get_by_id [wp_simps]:
  "wp (session_get_by_id env i) Q E w =
   (if \<not> is_valid_uuid i then Q None w
    else case pg_uuid env i of
      None \<Rightarrow> E (DataError ''invalid UUID'') w
    | Some k \<Rightarrow> if w_dead w then E PendingRollbackError w
               else Q (map_option session_to_record (find_row s_id k (sessions (w_db w)))) w)"
  by (simp add: session_get_by_id_def wp_get_row split: option.split)

lemma wp_user_get_by_id [wp_simps]:
  "wp (user_get_by_id env i) Q E w =
   (if \<not> is_valid_uuid i then Q None w
    else case pg_uuid env i of
      None \<Rightarrow> E (DataError ''invalid UUID'') w
    | Some k \<Rightarrow> if w_dead w then E PendingRollbackError w
               else Q (find_row u_id k (users (w_db w))) w)"
  by (simp add: user_get_by_id_def wp_get_row split: option.split)

lemma scalar_cases [simp]:
  "scalar_one_or_none (case x of None \<Rightarrow> [] | Some r \<Rightarrow> [r]) = Inr x"
  "scalar_one_or_none (case x of None \<Rightarrow> [] | Some r \<Rightarrow> if P r then [r] else []) =
     Inr (case x of None \<Rightarrow> None | Some r \<Rightarrow> if P r then Some r else None)"
  by (simp_all add: scalar_one_or_none_def split: option.split)

lemma wp_user_get_by_username:
  assumes "\<not> w_dead w" "wf_db (w_db w)"
  shows "wp (user_get_by_username n) Q E w = Q (find_row u_username n (users (w_db w))) w"
proof -
  have "distinct (map u_username (users (w_db w)))"
    using assms(2) by (simp add: wf_db_def wf_users_def)
  from filter_key [OF this] assms(1) show ?thesis
    by (simp add: user_get_by_username_def)
qed

text \<open>The token of a hash, unless it was revoked.\<close>

definition live_token :: "string \<Rightarrow> db \<Rightarrow> ApiTokenRecord option" where
  "live_token h d = (case find_row t_token_hash h (tokens d) of
     None \<Rightarrow> None | Some r \<Rightarrow> if t_revoked_at r = None then Some r else None)"

lemma wp_token_get_by_hash:
  assumes "\<not> w_dead w" "wf_db (w_db w)"
  shows "wp (token_get_by_hash h) Q E w = Q (live_token h (w_db w)) w"
proof -
  have "distinct (map t_token_hash (tokens (w_db w)))"
    using assms(2) by (simp add: wf_db_def wf_tokens_def)
  from filter_key_and [OF this] assms(1) show ?thesis
    by (simp add: token_get_by_hash_def live_token_def)
qed

text \<open>
  The ids PostgreSQL generated are canonical: it reads each back as itself, and Python accepts
  it as a UUID.
\<close>

definition canonical :: "env \<Rightarrow> string \<Rightarrow> bool" where
  "canonical env i \<longleftrightarrow> pg_uuid env i = Some i \<and> is_valid_uuid i"

definition pg_canonical :: "env \<Rightarrow> bool" where
  "pg_canonical env \<longleftrightarrow> (\<forall>s k. pg_uuid env s = Some k \<longrightarrow> canonical env k)"

definition canonical_machines :: "env \<Rightarrow> db \<Rightarrow> bool" where
  "canonical_machines env d \<longleftrightarrow> (\<forall>m \<in> set (machines d). canonical env (m_id m))"

section \<open>Every method keeps the constraints\<close>

definition wf_world :: "world \<Rightarrow> bool" where
  "wf_world w \<longleftrightarrow> wf_db (w_db w) \<and> wf_db (w_committed w)"

lemma wf_world_simps [simp]:
  "wf_world (w\<lparr>w_tick := n\<rparr>) = wf_world w" "wf_world (w\<lparr>w_dead := b\<rparr>) = wf_world w"
  "wf_world (w\<lparr>w_sent := s\<rparr>) = wf_world w" "wf_world (w\<lparr>w_slept := t\<rparr>) = wf_world w" "wf_world (w\<lparr>w_buckets := r\<rparr>) = wf_world w"
  "wf_world (w\<lparr>w_db := d\<rparr>) \<longleftrightarrow> wf_db d \<and> wf_db (w_committed w)"
  by (simp_all add: wf_world_def)

lemma keeps_wf_flush:
  "(\<And>d x d'. f d = Inr (x, d') \<Longrightarrow> wf_db d \<Longrightarrow> wf_db d') \<Longrightarrow> keeps wf_world (flush f)"
  by (rule keeps_flush) (auto simp: wf_world_def)

lemma keeps_wf_execute:
  "(\<And>d. wf_db d \<Longrightarrow> wf_db (f d)) \<Longrightarrow> keeps wf_world (execute f)"
  by (rule keeps_execute) (auto simp: wf_world_def)

lemma keeps_wf_effects [wf_intros]:
  "keeps wf_world (effect g)" "keeps wf_world (now env)" "keeps wf_world (query h)"
  "keeps wf_world commit" "keeps wf_world rollback" "keeps wf_world (record_sent p)"
  "keeps wf_world (sleep t)" "keeps wf_world (time_monotonic env)"
  by (auto simp: keeps_def wf_world_def)

text \<open>Changes of columns that carry no constraint.\<close>

lemma wf_db_users_frame:
  assumes "wf_db d" "map u_id us = map u_id (users d)" "map u_username us = map u_username (users d)"
    and "\<forall>u \<in> set us. varchar 150 (u_username u)"
  shows "wf_db (d\<lparr>users := us\<rparr>)"
proof (rule wf_db_grow [OF assms(1)])
  show "users (d\<lparr>users := us\<rparr>) = users d \<or> wf_users (d\<lparr>users := us\<rparr>)"
    using assms by (simp add: wf_db_def wf_users_def)
  show "u_id ` set (users d) \<subseteq> u_id ` set (users (d\<lparr>users := us\<rparr>))"
    using assms(2) by (metis db.select_convs(1) db.surjective db.update_convs(1) order_refl set_map)
qed simp_all

lemma varchar_names: "map u_username us = map u_username vs \<Longrightarrow> \<forall>u \<in> set vs. varchar 150 (u_username u) \<Longrightarrow>
  \<forall>u \<in> set us. varchar 150 (u_username u)"
proof -
  assume "map u_username us = map u_username vs" and "\<forall>u \<in> set vs. varchar 150 (u_username u)"
  then have "\<forall>x \<in> set (map u_username us). varchar 150 x" by simp
  then show ?thesis by simp
qed

lemma wf_db_update_user:
  assumes wf: "wf_db d" and f: "\<And>u. u_id (f u) = u_id u" "\<And>u. u_username (f u) = u_username u"
  shows "wf_db (d\<lparr>users := update_rows u_id k f (users d)\<rparr>)"
proof -
  have names: "map u_username (update_rows u_id k f (users d)) = map u_username (users d)"
    by (rule map_update_rows_frame) (rule f(2))
  show ?thesis
    using wf by (intro wf_db_users_frame map_update_rows_frame f varchar_names [OF names])
      (auto simp: wf_db_def wf_users_def)
qed

lemma wf_db_update_sessions:
  assumes wf: "wf_db d" and f: "\<And>s. s_id (f s) = s_id s" "\<And>s. s_user_id (f s) = s_user_id s"
  shows "wf_db (d\<lparr>sessions := update_rows key k f (sessions d)\<rparr>)"
proof (rule wf_db_grow [OF wf])
  have "map s_id (update_rows key k f (sessions d)) = map s_id (sessions d)"
    by (rule map_update_rows_frame) (rule f(1))
  moreover have "\<forall>s \<in> set (update_rows key k f (sessions d)). s_user_id s \<in> u_id ` set (users d)"
    using wf by (intro ball_update_rows) (auto simp: f wf_db_def wf_sessions_def)
  ultimately show "sessions (d\<lparr>sessions := update_rows key k f (sessions d)\<rparr>) = sessions d \<or>
      wf_sessions (d\<lparr>sessions := update_rows key k f (sessions d)\<rparr>)"
    using wf by (simp add: wf_db_def wf_sessions_def)
qed simp_all

lemma wf_sessions_filter: "wf_db d \<Longrightarrow> wf_sessions (d\<lparr>sessions := filter P (sessions d)\<rparr>)"
  by (simp add: wf_db_def wf_sessions_def distinct_map_filter)

lemma wf_db_filter_sessions: "wf_db d \<Longrightarrow> wf_db (d\<lparr>sessions := filter P (sessions d)\<rparr>)"
  by (rule wf_db_grow, assumption) (simp_all add: wf_sessions_filter)

lemma wf_db_update_tokens:
  assumes wf: "wf_db d" and f: "\<And>t. t_id (f t) = t_id t" "\<And>t. t_token_hash (f t) = t_token_hash t"
    "\<And>t. t_user_id (f t) = t_user_id t" "\<And>t. t_machine_id (f t) = t_machine_id t"
  shows "wf_db (d\<lparr>tokens := update_rows t_id k f (tokens d)\<rparr>)"
proof (rule wf_db_grow [OF wf])
  have "map t_id (update_rows t_id k f (tokens d)) = map t_id (tokens d)"
       "map t_token_hash (update_rows t_id k f (tokens d)) = map t_token_hash (tokens d)"
    by (rule map_update_rows_frame, rule f)+
  moreover have "\<forall>t \<in> set (update_rows t_id k f (tokens d)). t_user_id t \<in> u_id ` set (users d) \<and>
      (\<forall>m. t_machine_id t = Some m \<longrightarrow> m \<in> m_id ` set (machines d))"
    using wf unfolding wf_db_def wf_tokens_def
    by (intro ball_update_rows) (simp_all add: f)
  ultimately show "tokens (d\<lparr>tokens := update_rows t_id k f (tokens d)\<rparr>) = tokens d \<or>
      wf_tokens (d\<lparr>tokens := update_rows t_id k f (tokens d)\<rparr>)"
    using wf by (simp add: wf_db_def wf_tokens_def)
qed simp_all

lemma apply_kwargs_id [simp]: "m_id (apply_kwargs kws m) = m_id m"
proof -
  have "m_id (setattr_machine m kw) = m_id m" for m kw by (cases kw) auto
  then show ?thesis unfolding apply_kwargs_def by (induction kws arbitrary: m) auto
qed

lemma keeps_wf_changes [wf_intros]:
  "keeps wf_world (flush (insert_user env u))" "keeps wf_world (flush (insert_machine env m))"
  "keeps wf_world (flush (insert_attempt env a))" "keeps wf_world (flush (insert_session env s))"
  "keeps wf_world (flush (insert_token env t))" "keeps wf_world (flush (insert_job env j))"
  "keeps wf_world (flush (write_setup r))" "keeps wf_world (flush (upsert_setting k v n))"
  "keeps wf_world (flush (update_attempt i st er fi))" "keeps wf_world (flush (delete_machine_row i))"
  by (rule keeps_wf_flush, erule (1) insert_user_wf insert_machine_wf insert_attempt_wf
      insert_session_wf insert_token_wf insert_job_wf write_setup_wf upsert_setting_wf
      update_attempt_wf delete_machine_row_wf)+

lemma keeps_wf_updates [wf_intros]:
  "keeps wf_world (flush (update_machine env i (apply_kwargs kws) n))"
  "keeps wf_world (execute (\<lambda>d. d\<lparr>users := update_rows u_id i (\<lambda>u. u\<lparr>u_last_login_at := l\<rparr>) (users d)\<rparr>))"
  "keeps wf_world (execute (\<lambda>d. d\<lparr>users := update_rows u_id i (\<lambda>u. u\<lparr>u_password_hash := p\<rparr>) (users d)\<rparr>))"
  "keeps wf_world (execute (\<lambda>d. d\<lparr>sessions := update_rows key i (\<lambda>s. s\<lparr>s_revoked := b\<rparr>) (sessions d)\<rparr>))"
  "keeps wf_world (execute (\<lambda>d. d\<lparr>sessions := filter P (sessions d)\<rparr>))"
  "keeps wf_world (execute (\<lambda>d. d\<lparr>tokens := update_rows t_id i (\<lambda>t. t\<lparr>t_revoked_at := l\<rparr>) (tokens d)\<rparr>))"
  "keeps wf_world (execute (\<lambda>d. d\<lparr>tokens := update_rows t_id i (\<lambda>t. t\<lparr>t_last_used_at := l\<rparr>) (tokens d)\<rparr>))"
  by (rule keeps_wf_flush, erule (1) update_machine_wf, simp)
     (rule keeps_wf_execute, (erule wf_db_update_user wf_db_update_sessions wf_db_filter_sessions
        wf_db_update_tokens; simp))+

lemma repo_wf [wf_intros]:
  shows "keeps wf_world (user_get_by_id env i)" "keeps wf_world (user_get_by_username n)"
    "keeps wf_world (user_create env n p r)" "keeps wf_world (user_update_last_login env i)"
    "keeps wf_world (user_update_password_hash env i p)" "keeps wf_world user_count"
    "keeps wf_world (machine_get_by_id env i)" "keeps wf_world (machine_list_all b)"
    "keeps wf_world (machine_create env f)" "keeps wf_world (machine_update env i kws)"
    "keeps wf_world (machine_delete env i)" "keeps wf_world machine_count"
    "keeps wf_world (attempt_create env m at ai st eo pt)" "keeps wf_world (attempt_get_by_id env i)"
    "keeps wf_world (attempt_update_status env i st' er fi)" "keeps wf_world (attempt_list_for_machine env m l)"
    "keeps wf_world (attempt_get_active_for_machine env m)"
    "keeps wf_world (session_create env u c e ip ua)" "keeps wf_world (session_get_by_id env i)"
    "keeps wf_world (session_revoke env i)" "keeps wf_world (session_revoke_all_for_user env u)"
    "keeps wf_world (session_delete_expired env)"
    "keeps wf_world (token_create env n h p sc u mo)" "keeps wf_world (token_get_by_hash h)"
    "keeps wf_world token_list_active" "keeps wf_world (token_list_for_machine env m)"
    "keeps wf_world (token_revoke env i)" "keeps wf_world (token_touch_last_used env i)"
    "keeps wf_world (setup_get env)" "keeps wf_world (setup_update env c' cs cp)"
    "keeps wf_world (settings_repo_get k)" "keeps wf_world (settings_repo_set env k v)"
    "keeps wf_world settings_repo_get_all"
  unfolding repo_defs Let_def
  by (intro keeps_intros wf_intros)+

end
