(* ===== verification/Example.thy ===== *)
theory Example
  imports Repositories
begin

text \<open>
  A small concrete environment and database: the clock counts ticks, PostgreSQL accepts the
  UUIDs that Python accepts and every text as an address, the network answers nobody, and the
  cryptographic libraries are transparent stand-ins. Theorems with hypotheses are applied to it.
\<close>

definition uuid_a :: string where
  "uuid_a = ''00000000-0000-0000-0000-00000000000a''"

definition uuid_b :: string where
  "uuid_b = ''00000000-0000-0000-0000-00000000000b''"

definition uuid_c :: string where
  "uuid_c = ''00000000-0000-0000-0000-00000000000c''"

lemma uuid_distinct [simp]:
  "uuid_a \<noteq> uuid_b" "uuid_b \<noteq> uuid_a" "uuid_a \<noteq> uuid_c" "uuid_c \<noteq> uuid_a" "uuid_b \<noteq> uuid_c" "uuid_c \<noteq> uuid_b"
  by (simp_all add: uuid_a_def uuid_b_def uuid_c_def)

lemma uuid_hex_valid:
  assumes "remove_char CHR ''-'' (strip_by (\<lambda>c. c = CHR 0x7B \<or> c = CHR 0x7D) v) = replicate 31 CHR ''0'' @ [d]"
    and "CHR ''u'' \<notin> set v" and d: "digit_val d = Some n" "n < 16" "\<not> is_space d" "d \<noteq> CHR ''_''" "d \<noteq> CHR ''x''" "d \<noteq> CHR ''X''"
  shows "is_valid_uuid v"
proof -
  let ?h = "replicate 31 CHR ''0'' @ [d]"
  have rem: "remove_all ''uuid:'' (remove_all ''urn:'' v) = v"
    using assms(2) by (simp add: remove_all_absent)
  have "strip ?h = ?h"
    using d(3) by (simp add: strip_def strip_by_def lstrip_by_def is_space_def numeral_eq_Suc)
  moreover have "digit_val CHR ''0'' = Some 0" by (simp add: digit_val_def)
  ultimately have "py_int 16 ?h = Some (int n)"
    using d by (simp add: py_int_def nat_literal_def strip_0x_def lower_def to_lower_def numeral_eq_Suc Let_def)
  then show ?thesis
    using assms(1) d(2) by (simp add: is_valid_uuid_def rem Let_def)
qed

lemma uuid_valid [simp]: "is_valid_uuid uuid_a" "is_valid_uuid uuid_b" "is_valid_uuid uuid_c"
  by (rule uuid_hex_valid [of _ "CHR ''a''" 10] uuid_hex_valid [of _ "CHR ''b''" 11] uuid_hex_valid [of _ "CHR ''c''" 12];
      simp add: uuid_a_def uuid_b_def uuid_c_def remove_char_def strip_by_def lstrip_by_def digit_val_def is_space_def numeral_eq_Suc)+

text \<open>
  A transparent stand-in for the serializer: two strings and the instant, each character
  preceded by a mark and each string ended by a dot.
\<close>

definition mark :: "string \<Rightarrow> string" where
  "mark s = List.concat (map (\<lambda>c. [CHR ''c'', c]) s) @ ''.''"

fun unmark :: "string \<Rightarrow> (string \<times> string) option" where
  "unmark [] = None"
| "unmark [c] = (if c = CHR ''.'' then Some ([], []) else None)"
| "unmark (c # d # r) =
     (if c = CHR ''.'' then Some ([], d # r)
      else map_option (\<lambda>(a, b). (d # a, b)) (unmark r))"

lemma unmark_mark [simp]: "unmark (mark s @ r) = Some (s, r)"
proof (induction s)
  case Nil
  show ?case by (cases r) (simp_all add: mark_def)
qed (simp add: mark_def)

lemma unmark_mark_end [simp]: "unmark (mark s) = Some (s, [])"
  using unmark_mark [of s "[]"] by simp

definition demo_dumps :: "string \<Rightarrow> string \<Rightarrow> jval \<Rightarrow> datetime \<Rightarrow> string" where
  "demo_dumps secret salt v t =
     (case v of
        JObj [(k, JStr a), (k', JStr b)] \<Rightarrow> mark a @ mark b @ mark (show_int t)
      | _ \<Rightarrow> [])"

definition demo_loads :: "string \<Rightarrow> string \<Rightarrow> string \<Rightarrow> datetime \<Rightarrow> int \<Rightarrow> exn + jval" where
  "demo_loads secret salt tok now_t age =
     (case unmark tok of
        None \<Rightarrow> Inl (BadSignature ''no signature'')
      | Some (a, r) \<Rightarrow>
          (case unmark r of
             None \<Rightarrow> Inl (BadSignature ''no signature'')
           | Some (b, q) \<Rightarrow>
               (case unmark q of
                  None \<Rightarrow> Inl (BadSignature ''no signature'')
                | Some (ts, _) \<Rightarrow>
                    (case py_int 10 ts of
                       None \<Rightarrow> Inl (BadSignature ''no timestamp'')
                     | Some t \<Rightarrow> if now_t - t \<le> seconds age
                         then Inr (JObj [(''sid'', JStr a), (''sec'', JStr b)])
                         else Inl (BadSignature ''signature expired'')))))"

lemma demo_loads_dumps [simp]:
  "demo_loads s salt (demo_dumps s salt (JObj [(''sid'', JStr a), (''sec'', JStr b)]) t) t' age =
   (if t' - t \<le> seconds age then Inr (JObj [(''sid'', JStr a), (''sec'', JStr b)])
    else Inl (BadSignature ''signature expired''))"
  by (simp add: demo_loads_def demo_dumps_def py_int_show_int)

definition demo_env :: env where
  "demo_env =
     \<lparr>clock = int, monotonic = int,
      uuid4 = (\<lambda>n. if n < 10 then uuid_b else uuid_c),
      token_hex = (\<lambda>k n. replicate (2 * k) CHR ''7''),
      pg_uuid = (\<lambda>s. if is_valid_uuid s then Some s else None),
      pg_inet = Some, pg_macaddr = Some,
      ph_hash = (\<lambda>p _. CHR ''#'' # p),
      ph_verify = (\<lambda>h p. if h = CHR ''#'' # p then Verified else Mismatch),
      ph_needs_rehash = (\<lambda>_. False),
      its_dumps = demo_dumps, its_loads = demo_loads,
      app_secret = ''secret'',
      ping_exec = (\<lambda>_ _. ExecDone 1 []), tcp_open = (\<lambda>_ _ _. Some (OSError ''refused'')),
      wake_exec = (\<lambda>_ _. ExecDone 0 []), udp_send = (\<lambda>_. None), read_file = (\<lambda>_ _. None), set_order = (\<lambda>xs. xs)\<rparr>"

definition demo_machine :: MachineRecord where
  "demo_machine =
     \<lparr>m_id = uuid_a, m_name = ''nas'', m_hostname = None, m_ip_address = ''192.168.1.10'',
      m_mac_address = ''00:11:22:33:44:55'', m_ssh_port = 22, m_wake_interface = None,
      m_wake_strategy = ''udp_broadcast'', m_broadcast_address = None, m_enabled = True,
      m_created_at = 0, m_updated_at = 0\<rparr>"

definition demo_attempt :: WakeAttemptRecord where
  "demo_attempt =
     \<lparr>wa_id = uuid_b, wa_machine_id = uuid_a, wa_actor_type = ''user'', wa_actor_id = ''u'',
      wa_strategy = ''udp_broadcast'', wa_status = ''sent'', wa_ensure_online = True,
      wa_poll_timeout_s = 10, wa_error = None, wa_started_at = 0, wa_finished_at = None\<rparr>"

definition demo_db :: db where
  "demo_db = empty_db\<lparr>machines := [demo_machine]\<rparr>"

definition demo_db_attempt :: db where
  "demo_db_attempt = demo_db\<lparr>attempts := [demo_attempt]\<rparr>"

lemma demo_env_simps [simp]:
  "clock demo_env = int" "monotonic demo_env = int"
  "uuid4 demo_env n = (if n < 10 then uuid_b else uuid_c)"
  "pg_uuid demo_env s = (if is_valid_uuid s then Some s else None)"
  "pg_inet demo_env = Some" "pg_macaddr demo_env = Some"
  "ph_verify demo_env h p = (if h = CHR ''#'' # p then Verified else Mismatch)"
  "ph_hash demo_env p n = CHR ''#'' # p"
  "\<not> ph_needs_rehash demo_env h" "token_hex demo_env k n = replicate (2 * k) CHR ''7''"
  "ping_exec demo_env c n = ExecDone 1 []" "tcp_open demo_env h q n = Some (OSError ''refused'')"
  "its_dumps demo_env = demo_dumps" "its_loads demo_env = demo_loads" "app_secret demo_env = ''secret''"
  "wake_exec demo_env c n = ExecDone 0 []" "udp_send demo_env n = None"
  by (simp_all add: demo_env_def)

lemma demo_pg_canonical [simp]: "pg_canonical demo_env"
  by (simp add: pg_canonical_def canonical_def)

lemma demo_canonical [simp]: "canonical demo_env uuid_a" "canonical demo_env uuid_b" "canonical demo_env uuid_c"
  by (simp_all add: canonical_def)

lemma demo_machine_simps [simp]:
  "m_id demo_machine = uuid_a" "m_enabled demo_machine" "m_hostname demo_machine = None"
  "m_ip_address demo_machine = ''192.168.1.10''" "m_mac_address demo_machine = ''00:11:22:33:44:55''"
  "m_ssh_port demo_machine = 22" "m_wake_strategy demo_machine = ''udp_broadcast''"
  by (simp_all add: demo_machine_def)

lemma demo_attempt_simps [simp]:
  "wa_id demo_attempt = uuid_b" "wa_machine_id demo_attempt = uuid_a" "wa_status demo_attempt = ''sent''"
  "wa_started_at demo_attempt = 0" "wa_poll_timeout_s demo_attempt = 10"
  by (simp_all add: demo_attempt_def)

lemma demo_db_simps [simp]:
  "machines demo_db = [demo_machine]" "attempts demo_db = []" "users demo_db = []" "jobs demo_db = []"
  "sessions demo_db = []" "tokens demo_db = []" "settings demo_db = []" "setup_state demo_db = None"
  by (simp_all add: demo_db_def empty_db_def)

lemma demo_db_attempt_simps [simp]:
  "machines demo_db_attempt = [demo_machine]" "attempts demo_db_attempt = [demo_attempt]"
  "users demo_db_attempt = []" "jobs demo_db_attempt = []" "sessions demo_db_attempt = []"
  "tokens demo_db_attempt = []" "settings demo_db_attempt = []" "setup_state demo_db_attempt = None"
  by (simp_all add: demo_db_attempt_def)

lemma demo_wf [simp]: "wf_db demo_db" "wf_db demo_db_attempt"
  by (simp_all add: wf_db_def wf_table_defs wake_strategies_def attempt_statuses_def)

text \<open>A user with a session and an API token.\<close>

definition demo_user :: UserRecord where
  "demo_user =
     \<lparr>u_id = uuid_a, u_username = ''admin'', u_password_hash = ''#pw'', u_role = ''admin'',
      u_created_at = 0, u_last_login_at = None\<rparr>"

definition demo_session :: SessionRecord where
  "demo_session =
     \<lparr>s_id = uuid_b, s_user_id = uuid_a, s_csrf_secret = ''k'', s_ip = None, s_user_agent = None,
      s_expires_at = seconds 100, s_revoked = False, s_created_at = 0\<rparr>"

definition demo_db_auth :: db where
  "demo_db_auth = demo_db\<lparr>users := [demo_user], sessions := [demo_session]\<rparr>"

lemma demo_user_simps [simp]:
  "u_id demo_user = uuid_a" "u_username demo_user = ''admin''" "u_password_hash demo_user = ''#pw''"
  by (simp_all add: demo_user_def)

lemma demo_session_simps [simp]:
  "s_id demo_session = uuid_b" "s_user_id demo_session = uuid_a" "s_csrf_secret demo_session = ''k''"
  "\<not> s_revoked demo_session" "s_expires_at demo_session = seconds 100" "s_ip demo_session = None"
  by (simp_all add: demo_session_def)

lemma demo_db_auth_simps [simp]:
  "machines demo_db_auth = [demo_machine]" "attempts demo_db_auth = []" "users demo_db_auth = [demo_user]"
  "jobs demo_db_auth = []" "sessions demo_db_auth = [demo_session]" "tokens demo_db_auth = []"
  "settings demo_db_auth = []" "setup_state demo_db_auth = None"
  by (simp_all add: demo_db_auth_def)

lemma demo_wf_auth [simp]: "wf_db demo_db_auth"
  by (simp add: wf_db_def wf_table_defs wake_strategies_def varchar_def)

end
