(* ===== verification/Security.thy ===== *)
theory Security
  imports Repositories Example
begin

text \<open>
  \<open>app/security/password.py\<close>, \<open>csrf.py\<close> and \<open>tokens.py\<close>: password hashes (argon2-cffi is
  a parameter), CSRF tokens (itsdangerous is a parameter) and API tokens. The lemmas show that
  a CSRF token is good for its session and for no other, and the shape of an API token.
\<close>

section \<open>Passwords\<close>

definition hash_password :: "env \<Rightarrow> string \<Rightarrow> string io" where
  "hash_password env plain = effect (ph_hash env plain)"

definition verify_password :: "env \<Rightarrow> string \<Rightarrow> string \<Rightarrow> exn + bool" where
  "verify_password env plain hashed =
     (case ph_verify env hashed plain of
        Verified \<Rightarrow> Inr True
      | Mismatch \<Rightarrow> Inr False
      | VerifyRaises e \<Rightarrow> Inl e)"

definition needs_rehash :: "env \<Rightarrow> string \<Rightarrow> bool" where
  "needs_rehash env hashed = ph_needs_rehash env hashed"

lemma verify_password_True [simp]: "verify_password env p h = Inr True \<longleftrightarrow> ph_verify env h p = Verified"
  by (simp add: verify_password_def split: verify_result.split)

text \<open>
  The documented behaviour of \<open>PasswordHasher\<close>: a hash verifies against its own password and
  against no other.
\<close>

definition hasher_ok :: "env \<Rightarrow> bool" where
  "hasher_ok env \<longleftrightarrow> (\<forall>p q n. ph_verify env (ph_hash env p n) q = (if q = p then Verified else Mismatch))"

section \<open>CSRF tokens\<close>

definition CSRF_SALT :: string where
  "CSRF_SALT = ''wol-monkey-csrf''"

definition MAX_AGE :: int where
  "MAX_AGE = 3600"

definition generate_csrf_secret :: "env \<Rightarrow> string io" where
  "generate_csrf_secret env = effect (token_hex env 32)"

definition csrf_payload :: "string \<Rightarrow> string \<Rightarrow> jval" where
  "csrf_payload session_id csrf_secret = JObj [(''sid'', JStr session_id), (''sec'', JStr csrf_secret)]"

definition generate_csrf_token :: "env \<Rightarrow> string \<Rightarrow> string \<Rightarrow> string io" where
  "generate_csrf_token env session_id csrf_secret =
     bind_p (now env) (\<lambda>t.
       return_p (its_dumps env (app_secret env) CSRF_SALT (csrf_payload session_id csrf_secret) t))"

text \<open>
  Everything is caught: a bad or expired signature, and a payload that is no dictionary (whose
  \<open>get\<close> raises).
\<close>

definition validate_csrf_token :: "env \<Rightarrow> string \<Rightarrow> string \<Rightarrow> string \<Rightarrow> bool io" where
  "validate_csrf_token env token session_id csrf_secret =
     bind_p (now env) (\<lambda>t.
       return_p (case its_loads env (app_secret env) CSRF_SALT token t MAX_AGE of
           Inl _ \<Rightarrow> False
         | Inr (JObj data) \<Rightarrow>
             dict_get data ''sid'' = Some (JStr session_id) \<and> dict_get data ''sec'' = Some (JStr csrf_secret)
         | Inr _ \<Rightarrow> False))"

text \<open>
  The documented behaviour of \<open>URLSafeTimedSerializer\<close> on such payloads: what was signed is
  read back while it is not older than \<open>max_age\<close> seconds, is refused when it is older, and is
  never read back as anything else.
\<close>

definition serializer_ok :: "env \<Rightarrow> bool" where
  "serializer_ok env \<longleftrightarrow>
     (\<forall>s salt sid sec t t' a. t \<le> t' \<longrightarrow>
        (let r = its_loads env s salt (its_dumps env s salt (csrf_payload sid sec) t) t' a in
         (t' - t \<le> seconds a \<longrightarrow> r = Inr (csrf_payload sid sec)) \<and>
         (seconds (a + 1) \<le> t' - t \<longrightarrow> (\<exists>e. r = Inl e)) \<and>
         (\<forall>v. r = Inr v \<longrightarrow> v = csrf_payload sid sec)))"

lemma demo_serializer_ok: "serializer_ok demo_env"
  by (auto simp: serializer_ok_def csrf_payload_def Let_def seconds_def)

lemma demo_hasher_ok: "hasher_ok demo_env"
  by (simp add: hasher_ok_def)

lemma csrf_payload_inj: "csrf_payload a b = csrf_payload c d \<longleftrightarrow> a = c \<and> b = d"
  by (simp add: csrf_payload_def)

definition csrf_accepts :: "exn + jval \<Rightarrow> string \<Rightarrow> string \<Rightarrow> bool" where
  "csrf_accepts r sid sec = (case r of
     Inl _ \<Rightarrow> False
   | Inr (JObj data) \<Rightarrow> dict_get data ''sid'' = Some (JStr sid) \<and> dict_get data ''sec'' = Some (JStr sec)
   | Inr _ \<Rightarrow> False)"

lemma csrf_accepts_simps [simp]:
  "\<not> csrf_accepts (Inl e) sid sec" "csrf_accepts (Inr (csrf_payload a b)) sid sec \<longleftrightarrow> sid = a \<and> sec = b"
  by (auto simp: csrf_accepts_def csrf_payload_def dict_get_def)

lemma wp_validate_csrf [wp_simps]:
  "wp (validate_csrf_token env tok sid sec) Q E w =
   Q (csrf_accepts (its_loads env (app_secret env) CSRF_SALT tok (clock env (w_tick w) + w_slept w) MAX_AGE) sid sec)
     (w\<lparr>w_tick := Suc (w_tick w)\<rparr>)"
  by (simp add: validate_csrf_token_def csrf_accepts_def)

lemma csrf_token_never_other:
  assumes "serializer_ok env" and "t \<le> t'"
    and "csrf_accepts (its_loads env s salt (its_dumps env s salt (csrf_payload sid sec) t) t' a) sid' sec'"
  shows "sid' = sid \<and> sec' = sec"
proof (cases "its_loads env s salt (its_dumps env s salt (csrf_payload sid sec) t) t' a")
  case (Inl e)
  with assms(3) show ?thesis by simp
next
  case (Inr v)
  with assms(1,2) have "v = csrf_payload sid sec" unfolding serializer_ok_def Let_def by blast
  with assms(3) Inr show ?thesis by simp
qed

text \<open>
  C28. A CSRF token made for a session at instant \<open>t\<close> is accepted for that session, with its
  secret, as long as it is at most an hour old; an hour and a second later it is refused; and
  it is never accepted for a session with another id or another secret.
\<close>

theorem csrf_token_bound:
  assumes "serializer_ok env" and "t \<le> clock env (w_tick w) + w_slept w"
    and "tok = its_dumps env (app_secret env) CSRF_SALT (csrf_payload sid sec) t"
  shows "wp (validate_csrf_token env tok sid' sec')
           (\<lambda>r _. (r \<longrightarrow> sid' = sid \<and> sec' = sec) \<and>
              (sid' = sid \<and> sec' = sec \<and> clock env (w_tick w) + w_slept w - t \<le> seconds 3600 \<longrightarrow> r) \<and>
              (seconds 3601 \<le> clock env (w_tick w) + w_slept w - t \<longrightarrow> \<not> r))
           (\<lambda>_ _. False) w"
proof -
  let ?t' = "clock env (w_tick w) + w_slept w"
  define r where "r = its_loads env (app_secret env) CSRF_SALT tok ?t' MAX_AGE"
  have laws: "(?t' - t \<le> seconds 3600 \<longrightarrow> r = Inr (csrf_payload sid sec)) \<and>
      (seconds (3600 + 1) \<le> ?t' - t \<longrightarrow> (\<exists>e. r = Inl e)) \<and> (\<forall>v. r = Inr v \<longrightarrow> v = csrf_payload sid sec)"
    using assms(1,2) unfolding serializer_ok_def MAX_AGE_def r_def assms(3) Let_def by blast
  have sum: "(3600 :: int) + 1 = 3601" by simp
  from laws have old: "seconds 3601 \<le> ?t' - t \<Longrightarrow> \<exists>e. r = Inl e" unfolding sum by blast
  have "sid' = sid \<and> sec' = sec" if "csrf_accepts r sid' sec'"
    using csrf_token_never_other [OF assms(1,2)] that unfolding r_def assms(3) by blast
  moreover have "seconds 3601 \<le> ?t' - t \<Longrightarrow> \<not> csrf_accepts r sid' sec'"
    using old csrf_accepts_simps(1) by blast
  moreover have "sid' = sid \<and> sec' = sec \<and> ?t' - t \<le> seconds 3600 \<Longrightarrow> csrf_accepts r sid' sec'"
    using laws csrf_accepts_simps(2) by metis
  ultimately show ?thesis
    unfolding wp_validate_csrf r_def [symmetric] by blast
qed

theorem csrf_token_bound_witness:
  "wp (validate_csrf_token demo_env
         (its_dumps demo_env (app_secret demo_env) CSRF_SALT (csrf_payload ''s'' ''k'') 0) ''s'' ''k'')
     (\<lambda>r _. r) (\<lambda>_ _. False) (world_of demo_db 5)"
proof -
  have "0 \<le> clock demo_env (w_tick (world_of demo_db 5)) + w_slept (world_of demo_db 5)"
    and young: "clock demo_env (w_tick (world_of demo_db 5)) + w_slept (world_of demo_db 5) - 0 \<le> seconds 3600"
    by (simp_all add: seconds_def)
  from csrf_token_bound [OF demo_serializer_ok this(1) refl, of "''s''" "''k''" "''s''" "''k''"]
  show ?thesis by (rule wp_mono) (use young in blast)+
qed

section \<open>API tokens\<close>

definition TOKEN_PREFIX_LEN :: nat where
  "TOKEN_PREFIX_LEN = 8"

definition TOKEN_SECRET_LEN :: nat where
  "TOKEN_SECRET_LEN = 40"

definition hash_token :: "string \<Rightarrow> string" where
  "hash_token raw = sha256_hex raw"

text \<open>The raw token, its prefix and its hash.\<close>

definition generate_token :: "env \<Rightarrow> (string \<times> string \<times> string) io" where
  "generate_token env =
     bind_p (effect (token_hex env (TOKEN_PREFIX_LEN div 2))) (\<lambda>prefix.
     bind_p (effect (token_hex env (TOKEN_SECRET_LEN div 2))) (\<lambda>secret.
     let raw = ''wm'' @ ''_'' @ prefix @ ''_'' @ secret
     in return_p (raw, prefix, hash_token raw)))"

text \<open>The documented behaviour of \<open>secrets.token_hex(n)\<close>: \<open>2 n\<close> hexadecimal digits.\<close>

definition token_hex_ok :: "env \<Rightarrow> bool" where
  "token_hex_ok env \<longleftrightarrow> (\<forall>k n. length (token_hex env k n) = 2 * k \<and> list_all is_hex (token_hex env k n))"

lemma demo_token_hex_ok: "token_hex_ok demo_env"
  by (simp add: token_hex_ok_def is_hex_def list_all_iff Let_def)

lemma wp_generate_token:
  "wp (generate_token env) Q E w =
   Q (''wm_'' @ token_hex env 4 (w_tick w) @ ''_'' @ token_hex env 20 (Suc (w_tick w)),
      token_hex env 4 (w_tick w),
      hash_token (''wm_'' @ token_hex env 4 (w_tick w) @ ''_'' @ token_hex env 20 (Suc (w_tick w))))
     (w\<lparr>w_tick := Suc (Suc (w_tick w))\<rparr>)"
  by (simp add: generate_token_def TOKEN_PREFIX_LEN_def TOKEN_SECRET_LEN_def Let_def)

text \<open>
  A generated API token is \<open>wm_\<close>, eight hexadecimal digits that are its prefix, an
  underscore and forty more digits, 52 characters in all; what is stored beside the prefix is
  the 64-digit SHA-256 of the whole, and both fit their columns.
\<close>

theorem generated_token_shape:
  assumes "token_hex_ok env"
  shows "wp (generate_token env)
           (\<lambda>(raw, prefix, h) _. length raw = 52 \<and> starts_with raw ''wm_'' \<and> take 8 (drop 3 raw) = prefix \<and>
              list_all is_hex prefix \<and> list_all is_hex (drop 12 raw) \<and> h = hash_token raw \<and> length h = 64 \<and>
              length prefix = 8)
           (\<lambda>_ _. False) w"
  using assms
  by (simp add: wp_generate_token token_hex_ok_def hash_token_def)

theorem generated_token_shape_witness:
  "wp (generate_token demo_env) (\<lambda>(raw, prefix, h) _. length raw = 52) (\<lambda>_ _. False) (world_of demo_db 0)"
  by (rule wp_mono [OF generated_token_shape [OF demo_token_hex_ok]]) auto

end
