(* ===== verification/AuthService.thy ===== *)
theory AuthService
  imports Security
begin

text \<open>
  \<open>app/services/auth.py\<close>: admin bootstrap, login and logout, session validation, API tokens.
  The lemmas say who a session or a token stands for, when it is refused, and that logout and
  revocation are final.
\<close>

definition SESSION_LIFETIME_HOURS :: int where
  "SESSION_LIFETIME_HOURS = 12"

section \<open>Admin bootstrap\<close>

definition auth_admin_exists :: "bool io" where
  "auth_admin_exists = bind_p user_count (\<lambda>n. return_p (n > 0))"

definition auth_create_admin :: "env \<Rightarrow> string \<Rightarrow> string \<Rightarrow> UserRecord io" where
  "auth_create_admin env username password =
     bind_p auth_admin_exists (\<lambda>exists_already.
     if exists_already then raise_p (AuthenticationError ''Admin account already exists'')
     else
       bind_p (hash_password env password) (\<lambda>pw_hash.
         user_create env username pw_hash ''admin''))"

section \<open>Login and logout\<close>

definition auth_rehash :: "env \<Rightarrow> UserRecord \<Rightarrow> string \<Rightarrow> unit io" where
  "auth_rehash env user password =
     (if needs_rehash env (u_password_hash user)
      then bind_p (hash_password env password) (\<lambda>new_hash.
             user_update_password_hash env (u_id user) new_hash)
      else return_p ())"

definition auth_login :: "env \<Rightarrow> string \<Rightarrow> string \<Rightarrow> string option \<Rightarrow> string option \<Rightarrow> SessionRecord io" where
  "auth_login env username password ip user_agent =
     bind_p (user_get_by_username username) (\<lambda>user.
     case user of
       None \<Rightarrow> raise_p (AuthenticationError ''Invalid credentials'')
     | Some user \<Rightarrow>
         bind_p (lift_p (verify_password env password (u_password_hash user))) (\<lambda>verified.
         if \<not> verified then raise_p (AuthenticationError ''Invalid credentials'')
         else
           then_p (auth_rehash env user password)
             (bind_p (now env) (\<lambda>t.
              let expires_at = t + seconds (SESSION_LIFETIME_HOURS * 3600) in
              bind_p (generate_csrf_secret env) (\<lambda>csrf_secret.
              bind_p (session_create env (u_id user) csrf_secret expires_at ip user_agent) (\<lambda>session.
              then_p (user_update_last_login env (u_id user)) (return_p session)))))))"

definition auth_logout :: "env \<Rightarrow> string \<Rightarrow> unit io" where
  "auth_logout env session_id = session_revoke env session_id"

section \<open>Session validation\<close>

definition auth_validate_session :: "env \<Rightarrow> string \<Rightarrow> (SessionRecord \<times> UserRecord) io" where
  "auth_validate_session env session_id =
     bind_p (session_get_by_id env session_id) (\<lambda>session.
     case session of
       None \<Rightarrow> raise_p (AuthenticationError ''Invalid or revoked session'')
     | Some session \<Rightarrow>
         if s_revoked session then raise_p (AuthenticationError ''Invalid or revoked session'')
         else
           bind_p (now env) (\<lambda>t.
           if s_expires_at session < t then raise_p (AuthenticationError ''Session expired'')
           else
             bind_p (user_get_by_id env (s_user_id session)) (\<lambda>user.
             case user of
               None \<Rightarrow> raise_p (AuthenticationError ''User not found'')
             | Some user \<Rightarrow> return_p (session, user))))"

section \<open>API tokens\<close>

definition auth_create_api_token :: "env \<Rightarrow> string \<Rightarrow> dict \<Rightarrow> string \<Rightarrow> string option \<Rightarrow>
    (string \<times> ApiTokenRecord) io" where
  "auth_create_api_token env name scopes user_id machine_id =
     bind_p (generate_token env) (\<lambda>(raw, prefix, token_hash).
     bind_p (token_create env name token_hash prefix scopes user_id machine_id) (\<lambda>r.
       return_p (raw, r)))"

definition auth_validate_api_token :: "env \<Rightarrow> string \<Rightarrow> ApiTokenRecord io" where
  "auth_validate_api_token env raw_token =
     (let token_hash = hash_token raw_token in
      bind_p (token_get_by_hash token_hash) (\<lambda>r.
      case r of
        None \<Rightarrow> raise_p (AuthenticationError ''Invalid API token'')
      | Some r \<Rightarrow>
          if t_revoked_at r \<noteq> None then raise_p (AuthenticationError ''API token has been revoked'')
          else then_p (token_touch_last_used env (t_id r)) (return_p r)))"

definition auth_revoke_api_token :: "env \<Rightarrow> string \<Rightarrow> unit io" where
  "auth_revoke_api_token env token_id = token_revoke env token_id"

definition auth_list_api_tokens :: "ApiTokenRecord list io" where
  "auth_list_api_tokens = token_list_active"

definition auth_list_api_tokens_for_machine :: "env \<Rightarrow> string \<Rightarrow> ApiTokenRecord list io" where
  "auth_list_api_tokens_for_machine env machine_id = token_list_for_machine env machine_id"

lemmas auth_defs = auth_admin_exists_def auth_create_admin_def auth_rehash_def auth_login_def
  auth_logout_def auth_validate_session_def auth_create_api_token_def auth_validate_api_token_def
  auth_revoke_api_token_def auth_list_api_tokens_def auth_list_api_tokens_for_machine_def
  hash_password_def generate_csrf_secret_def generate_token_def

text \<open>No operation of the service commits, and each keeps the constraints of the database.\<close>

lemma auth_session_free:
  assumes I: "session_free I"
  shows "keeps I auth_admin_exists" "keeps I (auth_create_admin env u p)" "keeps I (auth_login env u p ip ua)"
    "keeps I (auth_logout env i)" "keeps I (auth_validate_session env i)"
    "keeps I (auth_create_api_token env n sc ui mi)" "keeps I (auth_validate_api_token env raw)"
    "keeps I (auth_revoke_api_token env i)" "keeps I auth_list_api_tokens"
    "keeps I (auth_list_api_tokens_for_machine env m)"
  unfolding auth_defs Let_def
  by (intro keeps_intros session_free_keeps [OF I] repo_session_free [OF I])+

lemma auth_wf [wf_intros]:
  shows "keeps wf_world auth_admin_exists" "keeps wf_world (auth_create_admin env u p)"
    "keeps wf_world (auth_login env u p ip ua)"
    "keeps wf_world (auth_logout env i)" "keeps wf_world (auth_validate_session env i)"
    "keeps wf_world (auth_create_api_token env n sc ui mi)" "keeps wf_world (auth_validate_api_token env raw)"
    "keeps wf_world (auth_revoke_api_token env i)" "keeps wf_world auth_list_api_tokens"
    "keeps wf_world (auth_list_api_tokens_for_machine env m)"
  unfolding auth_defs Let_def
  by (intro keeps_intros wf_intros)+

section \<open>Session validation\<close>

text \<open>What makes a session good at an instant, and the user it stands for.\<close>

definition session_of :: "env \<Rightarrow> db \<Rightarrow> datetime \<Rightarrow> string \<Rightarrow> (SessionRecord \<times> UserRecord) option" where
  "session_of env d t i =
     (if \<not> is_valid_uuid i then None
      else case pg_uuid env i of
        None \<Rightarrow> None
      | Some k \<Rightarrow>
          (case find_row s_id k (sessions d) of
             None \<Rightarrow> None
           | Some r \<Rightarrow>
               if s_revoked r \<or> s_expires_at r < t then None
               else map_option (\<lambda>u. (session_to_record r, u)) (find_row u_id (s_user_id r) (users d))))"

definition canonical_users :: "env \<Rightarrow> db \<Rightarrow> bool" where
  "canonical_users env d \<longleftrightarrow> (\<forall>u \<in> set (users d). canonical env (u_id u))"

lemma session_user_canonical:
  assumes "wf_db d" "canonical_users env d" "find_row s_id k (sessions d) = Some r"
  shows "canonical env (s_user_id r)"
  using assms find_row_SomeD [OF assms(3)]
  by (auto simp: wf_db_def wf_sessions_def canonical_users_def)

text \<open>The service returns exactly that, and changes nothing.\<close>

lemma wp_validate_session:
  assumes "\<not> w_dead w" "wf_db (w_db w)" "canonical_users env (w_db w)"
    and ok: "\<And>s u n. session_of env (w_db w) (clock env (w_tick w) + w_slept w) i = Some (s, u) \<Longrightarrow>
      Q (s, u) (w\<lparr>w_tick := n\<rparr>)"
    and bad: "\<And>e n. session_of env (w_db w) (clock env (w_tick w) + w_slept w) i = None \<Longrightarrow>
      E e (w\<lparr>w_tick := n\<rparr>)"
  shows "wp (auth_validate_session env i) Q E w"
proof (cases "\<exists>k r. is_valid_uuid i \<and> pg_uuid env i = Some k \<and> find_row s_id k (sessions (w_db w)) = Some r")
  case False
  then have "session_of env (w_db w) (clock env (w_tick w) + w_slept w) i = None"
    by (auto simp: session_of_def split: option.split)
  from bad [OF this, of _ "w_tick w"] False assms(1) show ?thesis
    by (auto simp: auth_validate_session_def wp_session_get_by_id split: option.split)
next
  case True
  then obtain k r where i: "is_valid_uuid i" "pg_uuid env i = Some k"
    and r: "find_row s_id k (sessions (w_db w)) = Some r" by blast
  have can: "pg_uuid env (s_user_id r) = Some (s_user_id r)" "is_valid_uuid (s_user_id r)"
    using session_user_canonical [OF assms(2,3) r] by (simp_all add: canonical_def)
  have so: "session_of env (w_db w) t i =
      (if s_revoked r \<or> s_expires_at r < t then None
       else map_option (\<lambda>u. (session_to_record r, u)) (find_row u_id (s_user_id r) (users (w_db w))))" for t
    using i r by (simp add: session_of_def)
  show ?thesis
    using ok bad [of _ "w_tick w"] bad [of _ "Suc (w_tick w)"] i r can assms(1)
    by (auto simp: auth_validate_session_def wp_session_get_by_id wp_user_get_by_id so split: option.split)
qed

text \<open>
  C5. \<open>validate_session\<close> returns a session and a user exactly when the id names a stored
  session that is not revoked and not expired at that instant, whose user exists, and then
  that session and that user; otherwise it raises. Nothing but the clock changes.
\<close>

theorem validate_session_exact:
  assumes "\<not> w_dead w" and "wf_db (w_db w)" and "canonical_users env (w_db w)"
  shows "wp (auth_validate_session env i)
           (\<lambda>r v. session_of env (w_db w) (clock env (w_tick w) + w_slept w) i = Some r \<and> w_db v = w_db w)
           (\<lambda>e v. session_of env (w_db w) (clock env (w_tick w) + w_slept w) i = None \<and> w_db v = w_db w) w"
  by (rule wp_validate_session [OF assms]) simp_all

lemma demo_canonical_users [simp]: "canonical_users demo_env demo_db_auth" "canonical_users demo_env demo_db"
  by (simp_all add: canonical_users_def)

theorem validate_session_exact_witness:
  "wp (auth_validate_session demo_env uuid_b)
     (\<lambda>r v. Some r = Some (session_to_record demo_session, demo_user)) (\<lambda>e v. False) (world_of demo_db_auth 0)"
proof -
  have some: "session_of demo_env demo_db_auth 0 uuid_b = Some (session_to_record demo_session, demo_user)"
    by (simp add: session_of_def seconds_def)
  show ?thesis
    by (rule wp_mono [OF validate_session_exact]) (use some in auto)
qed

interpretation session_rows: row_change s_id "\<lambda>s. s\<lparr>s_revoked := b\<rparr>" for b
  by unfold_locales simp

interpretation token_rows: row_change t_id "\<lambda>t. t\<lparr>t_revoked_at := x\<rparr>" for x
  by unfold_locales simp

lemma session_of_revoked:
  assumes "pg_uuid env j = Some k"
    and "sessions d' = update_rows s_id k (\<lambda>s. s\<lparr>s_revoked := True\<rparr>) (sessions d)"
  shows "session_of env d' t j = None"
  using assms by (simp add: session_of_def session_rows.find_update_same split: option.split)

text \<open>
  C29. After \<open>logout\<close> a session is refused, under any writing of its id: validation raises,
  whatever the clock shows.
\<close>

theorem logout_is_final:
  assumes "\<not> w_dead w" and "wf_db (w_db w)" and "canonical_users env (w_db w)"
    and "pg_uuid env i = Some k" and "pg_uuid env j = Some k"
  shows "wp (then_p (auth_logout env i) (auth_validate_session env j)) (\<lambda>_ _. False) (\<lambda>_ _. True) w"
proof -
  let ?d = "(w_db w)\<lparr>sessions := update_rows s_id k (\<lambda>s. s\<lparr>s_revoked := True\<rparr>) (sessions (w_db w))\<rparr>"
  have none: "session_of env ?d t j = None" for t
    by (rule session_of_revoked [OF assms(5)]) simp
  have "wf_db ?d" by (rule wf_db_update_sessions [OF assms(2)]) simp_all
  moreover have "canonical_users env ?d" using assms(3) by (simp add: canonical_users_def)
  ultimately have "wp (auth_validate_session env j) (\<lambda>_ _. False) (\<lambda>_ _. True) (w\<lparr>w_db := ?d\<rparr>)"
    using assms(1) by (intro wp_validate_session) (simp_all add: none)
  with assms(1,4) show ?thesis
    by (simp add: auth_logout_def session_revoke_def)
qed

theorem logout_is_final_witness:
  "wp (then_p (auth_logout demo_env uuid_a) (auth_validate_session demo_env uuid_a))
     (\<lambda>_ _. False) (\<lambda>_ _. True) (world_of demo_db 0)"
  by (rule logout_is_final [where k = uuid_a]) simp_all

section \<open>Login\<close>

text \<open>The users' table after a successful login: the same users, by id, name and order.\<close>

definition same_users :: "db \<Rightarrow> db \<Rightarrow> bool" where
  "same_users d d' \<longleftrightarrow> map u_id (users d') = map u_id (users d) \<and>
     map u_username (users d') = map u_username (users d)"

lemma same_users_update:
  "(\<And>u. u_id (f u) = u_id u) \<Longrightarrow> (\<And>u. u_username (f u) = u_username u) \<Longrightarrow>
   same_users d d0 \<Longrightarrow> same_users d (d0\<lparr>users := update_rows u_id k f (users d0)\<rparr>)"
  by (simp add: same_users_def map_update_rows_frame)

definition logged_in :: "env \<Rightarrow> world \<Rightarrow> string \<Rightarrow> string \<Rightarrow> SessionRecord \<Rightarrow> world \<Rightarrow> bool" where
  "logged_in env w username password s v \<longleftrightarrow>
     (\<exists>u row. u \<in> set (users (w_db w)) \<and> u_username u = username \<and>
        ph_verify env (u_password_hash u) password = Verified \<and>
        sessions (w_db v) = sessions (w_db w) @ [row] \<and> s = session_to_record row \<and>
        s_id row \<notin> s_id ` set (sessions (w_db w)) \<and> pg_uuid env (u_id u) = Some (s_user_id row) \<and>
        \<not> s_revoked row \<and>
        (\<exists>n \<ge> w_tick w. s_expires_at row = clock env n + w_slept w + seconds (12 * 3600)) \<and>
        same_users (w_db w) (w_db v) \<and>
        w_db v = (w_db w)\<lparr>sessions := sessions (w_db v), users := users (w_db v)\<rparr>)"

text \<open>A state that differs in the users' columns other than id and name, and in the tick.\<close>

definition users_touched :: "world \<Rightarrow> world \<Rightarrow> bool" where
  "users_touched w v \<longleftrightarrow> (\<exists>us. w_db v = (w_db w)\<lparr>users := us\<rparr>) \<and> same_users (w_db w) (w_db v) \<and>
     w_dead v = w_dead w \<and> w_tick w \<le> w_tick v \<and> w_slept v = w_slept w"

lemma users_touched_refl: "users_touched w w"
  unfolding users_touched_def by (intro conjI exI [of _ "users (w_db w)"]) (simp_all add: same_users_def)

lemma users_touched_tickD: "users_touched w v \<Longrightarrow> w_tick w \<le> w_tick v" "users_touched w v \<Longrightarrow> w_slept v = w_slept w"
  by (simp_all add: users_touched_def)

lemma users_touched_tick: "users_touched w v \<Longrightarrow> users_touched w (v\<lparr>w_tick := Suc (w_tick v)\<rparr>)"
  by (simp add: users_touched_def)

lemma users_touched_update:
  "users_touched w v \<Longrightarrow> (\<And>u. u_id (f u) = u_id u) \<Longrightarrow> (\<And>u. u_username (f u) = u_username u) \<Longrightarrow>
   users_touched w (v\<lparr>w_db := (w_db v)\<lparr>users := update_rows u_id k f (users (w_db v))\<rparr>\<rparr>)"
  by (auto simp: users_touched_def same_users_def map_update_rows_frame)

lemma wp_auth_rehash:
  assumes "\<not> w_dead w" "pg_uuid env (u_id u) = Some k" "\<And>v. users_touched w v \<Longrightarrow> Q () v"
  shows "wp (auth_rehash env u p) Q E w"
proof (cases "needs_rehash env (u_password_hash u)")
  case True
  have "users_touched w (w\<lparr>w_tick := Suc (w_tick w), w_db := (w_db w)\<lparr>users :=
      update_rows u_id k (\<lambda>u. u\<lparr>u_password_hash := h\<rparr>) (users (w_db w))\<rparr>\<rparr>)" for h
    using users_touched_update [OF users_touched_tick [OF users_touched_refl [of w]],
      of "\<lambda>u. u\<lparr>u_password_hash := h\<rparr>" k] by simp
  with True assms show ?thesis
    by (simp add: auth_rehash_def hash_password_def user_update_password_hash_def)
qed (use assms(3) users_touched_refl in \<open>simp add: auth_rehash_def\<close>)

text \<open>What \<open>create\<close> of the session repository inserts.\<close>

lemma wp_session_create:
  assumes "\<And>row. s_id row \<notin> s_id ` set (sessions (w_db w)) \<Longrightarrow> pg_uuid env uid = Some (s_user_id row) \<Longrightarrow>
      \<not> s_revoked row \<Longrightarrow> s_expires_at row = ex \<Longrightarrow> s_csrf_secret row = sec \<Longrightarrow>
      Q (session_to_record row)
        (w\<lparr>w_tick := Suc (Suc (w_tick w)), w_db := (w_db w)\<lparr>sessions := sessions (w_db w) @ [row]\<rparr>\<rparr>)"
    and "\<And>e v. w_db v = w_db w \<Longrightarrow> E e v"
  shows "wp (session_create env uid sec ex ip ua) Q E w"
  using assms by (auto simp: session_create_def insert_session_def Let_def split: sum.split prod.split)

lemma logged_inI:
  assumes "u \<in> set (users (w_db w))" "u_username u = username" "ph_verify env (u_password_hash u) password = Verified"
    and "s_id row \<notin> s_id ` set (sessions (w_db w))" "pg_uuid env (u_id u) = Some (s_user_id row)"
    and "\<not> s_revoked row" "w_tick w \<le> n" "s_expires_at row = clock env n + w_slept w + seconds (12 * 3600)"
    and "users_touched w v" "w_db f = (w_db v)\<lparr>sessions := sessions (w_db w) @ [row]\<rparr>"
  shows "logged_in env w username password (session_to_record row) f"
proof -
  obtain us where us: "w_db v = (w_db w)\<lparr>users := us\<rparr>" "same_users (w_db w) (w_db v)"
    using assms(9) by (auto simp: users_touched_def)
  then have "same_users (w_db w) (w_db f)" "w_db f = (w_db w)\<lparr>sessions := sessions (w_db f), users := users (w_db f)\<rparr>"
    "sessions (w_db f) = sessions (w_db w) @ [row]"
    using assms(10) by (simp_all add: same_users_def)
  then show ?thesis
    unfolding logged_in_def using assms(1-8) by blast
qed

lemma wp_auth_login:
  assumes "\<not> w_dead w" and "wf_db (w_db w)" and "canonical_users env (w_db w)"
  shows "wp (auth_login env username password ip ua) (logged_in env w username password)
           (\<lambda>e v. sessions (w_db v) = sessions (w_db w)) w"
proof (cases "find_row u_username username (users (w_db w))")
  case None
  with assms(1,2) show ?thesis by (simp add: auth_login_def wp_user_get_by_username)
next
  case (Some u)
  then have u: "u \<in> set (users (w_db w))" "u_username u = username" by (auto dest: find_row_SomeD)
  then have id: "pg_uuid env (u_id u) = Some (u_id u)"
    using assms(3) by (auto simp: canonical_users_def canonical_def)
  have after: "wp (bind_p (now env) (\<lambda>t.
              let expires_at = t + seconds (SESSION_LIFETIME_HOURS * 3600) in
              bind_p (generate_csrf_secret env) (\<lambda>csrf_secret.
              bind_p (session_create env (u_id u) csrf_secret expires_at ip ua) (\<lambda>session.
              then_p (user_update_last_login env (u_id u)) (return_p session)))))
      (logged_in env w username password) (\<lambda>e v. sessions (w_db v) = sessions (w_db w)) v"
    if ver: "ph_verify env (u_password_hash u) password = Verified" and v: "users_touched w v" for v
  proof -
    have alive: "\<not> w_dead v" and sess: "sessions (w_db v) = sessions (w_db w)"
      using v assms(1) by (auto simp: users_touched_def)
    show ?thesis
      unfolding wp_bind wp_now Let_def generate_csrf_secret_def wp_effect wp_then
    proof (rule wp_session_create)
      fix row
      let ?t = "Suc (Suc (w_tick v))"
      let ?x = "v\<lparr>w_tick := Suc (w_tick v), w_tick := Suc (w_tick (v\<lparr>w_tick := Suc (w_tick v)\<rparr>))\<rparr>"
      let ?y = "?x\<lparr>w_tick := Suc (Suc (w_tick ?x)), w_db := (w_db ?x)\<lparr>sessions := sessions (w_db ?x) @ [row]\<rparr>\<rparr>"
      assume row: "s_id row \<notin> s_id ` set (sessions (w_db ?x))" "pg_uuid env (u_id u) = Some (s_user_id row)"
        "\<not> s_revoked row"
        "s_expires_at row = clock env (w_tick v) + w_slept v + seconds (SESSION_LIFETIME_HOURS * 3600)"
      show "wp (user_update_last_login env (u_id u))
          (\<lambda>_. wp (return_p (session_to_record row)) (logged_in env w username password)
                 (\<lambda>e v. sessions (w_db v) = sessions (w_db w)))
          (\<lambda>e v. sessions (w_db v) = sessions (w_db w)) ?y"
        unfolding user_update_last_login_def wp_bind wp_now wp_lift case_uuid_param id option.case wp_execute wp_return
        using alive row(1,3) ver
        by (auto intro!: logged_inI [OF u ver, where n = "w_tick v" and
              v = "v\<lparr>w_db := (w_db v)\<lparr>users := update_rows u_id (u_id u)
                     (\<lambda>u. u\<lparr>u_last_login_at := Some (clock env (w_tick ?y) + w_slept v)\<rparr>) (users (w_db v))\<rparr>\<rparr>"]
              users_touched_update [OF v] simp: sess row users_touched_tickD [OF v] SESSION_LIFETIME_HOURS_def)
    qed (simp add: sess)
  qed
  have ok: "wp (auth_rehash env u password) (\<lambda>_. wp (bind_p (now env) (\<lambda>t.
              let expires_at = t + seconds (SESSION_LIFETIME_HOURS * 3600) in
              bind_p (generate_csrf_secret env) (\<lambda>csrf_secret.
              bind_p (session_create env (u_id u) csrf_secret expires_at ip ua) (\<lambda>session.
              then_p (user_update_last_login env (u_id u)) (return_p session)))))
      (logged_in env w username password) (\<lambda>e v. sessions (w_db v) = sessions (w_db w)))
      (\<lambda>e v. sessions (w_db v) = sessions (w_db w)) w"
    if "ph_verify env (u_password_hash u) password = Verified"
    by (rule wp_auth_rehash [OF assms(1) id], rule after [OF that])
  show ?thesis
    using Some assms(1,2) ok
    by (simp add: auth_login_def wp_user_get_by_username verify_password_def split: verify_result.split)
qed

text \<open>
  C23. A login that returns was for a stored user whose stored hash verifies the password; it
  added exactly one session, under a new id, of that user, not revoked, to expire twelve hours
  after an instant of the login, and changed nothing else but columns of the users other than
  id and name. A login that raises added no session.
\<close>

theorem login_outcomes:
  assumes "\<not> w_dead w" and "wf_db (w_db w)" and "canonical_users env (w_db w)"
  shows "wp (auth_login env username password ip ua) (logged_in env w username password)
           (\<lambda>e v. sessions (w_db v) = sessions (w_db w)) w"
  by (rule wp_auth_login [OF assms])

theorem login_outcomes_witness:
  "wp (auth_login demo_env ''admin'' ''pw'' None None) (logged_in demo_env (world_of demo_db_auth 0) ''admin'' ''pw'')
     (\<lambda>e v. sessions (w_db v) = [demo_session]) (world_of demo_db_auth 0)"
  using login_outcomes [of "world_of demo_db_auth 0" demo_env "''admin''" "''pw''" None None] by simp

section \<open>The only admin\<close>

definition first_admin :: "env \<Rightarrow> world \<Rightarrow> string \<Rightarrow> string \<Rightarrow> UserRecord \<Rightarrow> world \<Rightarrow> bool" where
  "first_admin env w username password u v \<longleftrightarrow>
     users (w_db w) = [] \<and> w_db v = (w_db w)\<lparr>users := [u]\<rparr> \<and> u_username u = username \<and> u_role u = ''admin'' \<and>
     (\<exists>n. u_password_hash u = ph_hash env password n)"

definition admin_refused :: "world \<Rightarrow> exn \<Rightarrow> world \<Rightarrow> bool" where
  "admin_refused w e v \<longleftrightarrow> w_db v = w_db w \<and>
     (if w_dead w \<or> users (w_db w) = [] then True else e = AuthenticationError ''Admin account already exists'')"

lemma wp_create_admin:
  "wp (auth_create_admin env username password) (first_admin env w username password) (admin_refused w) w"
  by (auto simp: auth_create_admin_def auth_admin_exists_def user_count_def hash_password_def user_create_def
      insert_user_def Let_def first_admin_def admin_refused_def split: sum.split)

text \<open>
  \<open>create_admin\<close> makes the first user and no other: it returns only on an empty users'
  table, which then holds exactly the new admin with the hash of the password; on any other
  table it raises and changes nothing.
\<close>

theorem create_admin_first_only:
  "wp (auth_create_admin env username password) (first_admin env w username password) (admin_refused w) w"
  by (rule wp_create_admin)

text \<open>
  With the documented behaviour of the password hasher, the admin just created can log in
  with the password given, and with no other.
\<close>

theorem admin_password_works:
  assumes "hasher_ok env"
  shows "wp (auth_create_admin env username password)
     (\<lambda>u v. verify_password env q (u_password_hash u) = Inr (q = password)) (\<lambda>_ _. True) w"
  by (rule wp_mono [OF wp_create_admin])
    (use assms in \<open>auto simp: hasher_ok_def verify_password_def first_admin_def\<close>)

theorem admin_password_works_witness:
  "wp (auth_create_admin demo_env ''admin'' ''pw'')
     (\<lambda>u v. verify_password demo_env ''pw2'' (u_password_hash u) = Inr False) (\<lambda>_ _. True) (world_of demo_db 0)"
  using admin_password_works [OF demo_hasher_ok, of "''admin''" "''pw''" "''pw2''"] by simp

section \<open>API tokens\<close>

lemma wp_validate_api_token:
  assumes "\<not> w_dead w" "wf_db (w_db w)"
    and "\<And>r k n. live_token (hash_token raw) (w_db w) = Some r \<Longrightarrow> pg_uuid env (t_id r) = Some k \<Longrightarrow>
      Q r (w\<lparr>w_tick := n, w_db := (w_db w)\<lparr>tokens :=
             update_rows t_id k (\<lambda>t. t\<lparr>t_last_used_at := Some (clock env (w_tick w) + w_slept w)\<rparr>) (tokens (w_db w))\<rparr>\<rparr>)"
    and "\<And>e n. live_token (hash_token raw) (w_db w) = None \<Longrightarrow> e = AuthenticationError ''Invalid API token'' \<Longrightarrow> E e w"
    and "\<And>r n. live_token (hash_token raw) (w_db w) = Some r \<Longrightarrow> pg_uuid env (t_id r) = None \<Longrightarrow>
      E (DataError ''invalid UUID'') (w\<lparr>w_tick := n\<rparr>)"
  shows "wp (auth_validate_api_token env raw) Q E w"
proof (cases "live_token (hash_token raw) (w_db w)")
  case None
  with assms(1,2,4) show ?thesis
    by (simp add: auth_validate_api_token_def Let_def wp_token_get_by_hash)
next
  case (Some r)
  then have "t_revoked_at r = None" by (auto simp: live_token_def split: option.splits if_splits)
  with Some assms show ?thesis
    by (simp add: auth_validate_api_token_def Let_def wp_token_get_by_hash token_touch_last_used_def split: option.split)
qed

text \<open>
  C30. A raw API token is accepted only when its SHA-256 is stored in a token that was not
  revoked, and the record returned is that token; refusals change nothing.
\<close>

theorem api_token_sound:
  assumes "\<not> w_dead w" and "wf_db (w_db w)"
  shows "wp (auth_validate_api_token env raw)
     (\<lambda>r v. r \<in> set (tokens (w_db w)) \<and> t_token_hash r = sha256_hex raw \<and> t_revoked_at r = None)
     (\<lambda>e v. w_db v = w_db w) w"
proof -
  have "r \<in> set (tokens (w_db w)) \<and> t_token_hash r = h \<and> t_revoked_at r = None"
    if "live_token h (w_db w) = Some r" for h r
    using that by (auto simp: live_token_def dest: find_row_SomeD split: option.splits if_splits)
  then show ?thesis
    by (intro wp_validate_api_token [OF assms]) (auto simp: hash_token_def)
qed

theorem api_token_sound_witness:
  "wp (auth_validate_api_token demo_env ''wm_x'') (\<lambda>r v. False) (\<lambda>e v. w_db v = demo_db) (world_of demo_db 0)"
  by (rule wp_mono [OF api_token_sound]) simp_all

lemma wp_token_create:
  assumes "wf_db (w_db w)"
    and "\<And>row. t_token_hash row \<notin> t_token_hash ` set (tokens (w_db w)) \<Longrightarrow>
      pg_uuid env (uuid4 env (w_tick w)) = Some (t_id row) \<Longrightarrow> pg_uuid env uid = Some (t_user_id row) \<Longrightarrow>
      t_token_hash row = h \<Longrightarrow> t_revoked_at row = None \<Longrightarrow> \<not> w_dead w \<Longrightarrow>
      wf_db ((w_db w)\<lparr>tokens := tokens (w_db w) @ [row]\<rparr>) \<Longrightarrow>
      Q row (w\<lparr>w_tick := Suc (Suc (w_tick w)), w_db := (w_db w)\<lparr>tokens := tokens (w_db w) @ [row]\<rparr>\<rparr>)"
    and "\<And>e v. w_db v = w_db w \<Longrightarrow> E e v"
  shows "wp (token_create env name h p scopes uid mid) Q E w"
proof (cases "w_dead w")
  case True
  with assms(3) show ?thesis by (simp add: token_create_def)
next
  case False
  let ?r = "\<lparr>t_id = uuid4 env (w_tick w), t_user_id = uid, t_machine_id = mid, t_name = name,
         t_token_hash = h, t_prefix = p, t_scopes = scopes, t_last_used_at = None,
         t_revoked_at = None, t_created_at = clock env (Suc (w_tick w)) + w_slept w\<rparr>"
  show ?thesis
  proof (cases "insert_token env ?r (w_db w)")
    case (Inl e)
    with False assms(3) show ?thesis by (simp add: token_create_def)
  next
    case (Inr x)
    then obtain row d where x: "insert_token env ?r (w_db w) = Inr (row, d)" by (cases x) auto
    then have "t_token_hash row \<notin> t_token_hash ` set (tokens (w_db w))"
      "pg_uuid env (uuid4 env (w_tick w)) = Some (t_id row)" "pg_uuid env uid = Some (t_user_id row)"
      "t_token_hash row = h" "t_revoked_at row = None" and d: "d = (w_db w)\<lparr>tokens := tokens (w_db w) @ [row]\<rparr>"
      by (auto simp: insert_token_def Let_def)
    moreover have "wf_db d" by (rule insert_token_wf [OF x assms(1)])
    ultimately show ?thesis
      using False x assms(2) by (simp add: token_create_def)
  qed
qed

lemma live_token_new:
  assumes "t_token_hash row \<notin> t_token_hash ` set (tokens d)" "t_revoked_at row = None"
  shows "live_token (t_token_hash row) (d\<lparr>tokens := tokens d @ [row]\<rparr>) = Some row"
  using assms by (simp add: live_token_def find_row_append find_row_None [THEN iffD2] split: option.split)

text \<open>
  C24. A token just created is accepted: validating the raw text that \<open>create_api_token\<close> showed
  once returns the record it stored, of the user it was made for, and raises nothing.
\<close>

theorem api_token_roundtrip:
  assumes "pg_canonical env" and "wf_db (w_db w)"
  shows "wp (bind_p (auth_create_api_token env name scopes uid mid) (\<lambda>(raw, r).
            bind_p (catch_p (bind_p (auth_validate_api_token env raw) (\<lambda>r'. return_p (r' = r)))
                            (\<lambda>_. return_p False))
              (\<lambda>accepted. return_p (accepted, r))))
           (\<lambda>(accepted, r) v. accepted \<and> pg_uuid env uid = Some (t_user_id r)) (\<lambda>_ _. True) w"
proof -
  let ?raw = "''wm_'' @ token_hex env 4 (w_tick w) @ ''_'' @ token_hex env 20 (Suc (w_tick w))"
  let ?Q = "\<lambda>r. wp (bind_p (catch_p (bind_p (auth_validate_api_token env ?raw) (\<lambda>r'. return_p (r' = r)))
                            (\<lambda>_. return_p False))
              (\<lambda>accepted. return_p (accepted, r)))
           (\<lambda>(accepted, r) v. accepted \<and> pg_uuid env uid = Some (t_user_id r)) (\<lambda>_ _. True)"
  have "wp (token_create env name (hash_token ?raw) (token_hex env 4 (w_tick w)) scopes uid mid) ?Q
      (\<lambda>_ _. True) (w\<lparr>w_tick := Suc (Suc (w_tick w))\<rparr>)"
  proof (rule wp_token_create)
    fix row
    let ?w = "w\<lparr>w_tick := Suc (Suc (w_tick w))\<rparr>"
    let ?v = "?w\<lparr>w_tick := Suc (Suc (w_tick ?w)), w_db := (w_db ?w)\<lparr>tokens := tokens (w_db ?w) @ [row]\<rparr>\<rparr>"
    assume fresh: "t_token_hash row \<notin> t_token_hash ` set (tokens (w_db ?w))"
      and id: "pg_uuid env (uuid4 env (w_tick ?w)) = Some (t_id row)" and uid: "pg_uuid env uid = Some (t_user_id row)"
      and h: "t_token_hash row = hash_token ?raw" and rev: "t_revoked_at row = None" and alive: "\<not> w_dead ?w"
      and wf: "wf_db ((w_db ?w)\<lparr>tokens := tokens (w_db ?w) @ [row]\<rparr>)"
    have can: "pg_uuid env (t_id row) = Some (t_id row)"
      using assms(1) id by (auto simp: pg_canonical_def canonical_def)
    have live: "live_token (hash_token ?raw) (w_db ?v) = Some row"
      using live_token_new [OF fresh rev] h by simp
    have "wp (auth_validate_api_token env ?raw)
        (\<lambda>r' v. wp (return_p (r' = row)) (\<lambda>a. wp (return_p (a, row))
             (\<lambda>(accepted, r) v. accepted \<and> pg_uuid env uid = Some (t_user_id r)) (\<lambda>_ _. True))
           (\<lambda>e. wp (return_p False) (\<lambda>a. wp (return_p (a, row))
             (\<lambda>(accepted, r) v. accepted \<and> pg_uuid env uid = Some (t_user_id r)) (\<lambda>_ _. True)) (\<lambda>_ _. True)) v)
        (\<lambda>e. wp (return_p False) (\<lambda>a. wp (return_p (a, row))
             (\<lambda>(accepted, r) v. accepted \<and> pg_uuid env uid = Some (t_user_id r)) (\<lambda>_ _. True)) (\<lambda>_ _. True)) ?v"
    proof (rule wp_validate_api_token)
      show "\<not> w_dead ?v" using alive by simp
      show "wf_db (w_db ?v)" using wf by simp
    qed (use live can uid in auto)
    then show "?Q row ?v" by simp
  qed (use assms(2) in simp_all)
  then show ?thesis
    by (simp add: auth_create_api_token_def wp_generate_token)
qed

lemma live_token_revoked:
  assumes "live_token h (d\<lparr>tokens := update_rows t_id k (\<lambda>t. t\<lparr>t_revoked_at := Some n\<rparr>) (tokens d)\<rparr>) = Some r"
  shows "t_id r \<noteq> k"
proof -
  have "r \<in> set (update_rows t_id k (\<lambda>t. t\<lparr>t_revoked_at := Some n\<rparr>) (tokens d))" "t_revoked_at r = None"
    using assms by (auto simp: live_token_def dest: find_row_SomeD split: option.splits if_splits)
  moreover have "\<forall>r \<in> set (update_rows t_id k (\<lambda>t. t\<lparr>t_revoked_at := Some n\<rparr>) rows).
      t_revoked_at r = None \<longrightarrow> t_id r \<noteq> k" for rows
    by (induction rows) simp_all
  ultimately show ?thesis by blast
qed

text \<open>
  After a token was revoked no raw text is accepted for it: what \<open>validate_api_token\<close> then
  returns is never the token of that id.
\<close>

theorem revoked_token_refused:
  assumes "\<not> w_dead w" and "wf_db (w_db w)" and "pg_uuid env i = Some k"
  shows "wp (then_p (auth_revoke_api_token env i) (auth_validate_api_token env raw))
           (\<lambda>r _. t_id r \<noteq> k) (\<lambda>_ _. True) w"
proof -
  let ?n = "clock env (w_tick w) + w_slept w"
  let ?d = "(w_db w)\<lparr>tokens := update_rows t_id k (\<lambda>t. t\<lparr>t_revoked_at := Some ?n\<rparr>) (tokens (w_db w))\<rparr>"
  have "wf_db ?d" by (rule wf_db_update_tokens [OF assms(2)]) simp_all
  then have "wp (auth_validate_api_token env raw) (\<lambda>r _. t_id r \<noteq> k) (\<lambda>_ _. True)
      (w\<lparr>w_tick := Suc (w_tick w), w_db := ?d\<rparr>)"
    using assms(1) live_token_revoked by (intro wp_validate_api_token) auto
  with assms(1,3) show ?thesis
    by (simp add: auth_revoke_api_token_def token_revoke_def)
qed

theorem revoked_token_refused_witness:
  "wp (then_p (auth_revoke_api_token demo_env uuid_a) (auth_validate_api_token demo_env ''wm_x''))
     (\<lambda>r _. t_id r \<noteq> uuid_a) (\<lambda>_ _. True) (world_of demo_db 0)"
  by (rule revoked_token_refused) simp_all

theorem api_token_roundtrip_witness:
  "wp (bind_p (auth_create_api_token demo_env ''cli'' [] uuid_a None) (\<lambda>(raw, r).
          bind_p (catch_p (bind_p (auth_validate_api_token demo_env raw) (\<lambda>r'. return_p (r' = r)))
                          (\<lambda>_. return_p False))
            (\<lambda>accepted. return_p (accepted, r))))
     (\<lambda>(accepted, r) v. accepted) (\<lambda>_ _. True) (world_of demo_db_auth 0)"
proof -
  have "wf_db (w_db (world_of demo_db_auth 0))" by simp
  from api_token_roundtrip [OF demo_pg_canonical this, of "''cli''" "[]" uuid_a None]
  show ?thesis by (rule wp_mono) (simp_all only: split_beta)
qed

end
