(* ===== verification/Dependencies.thy ===== *)
theory Dependencies
  imports AuthService
begin

text \<open>
  \<open>app/security/dependencies.py\<close>: what a request must show before a handler runs. A session
  cookie, a CSRF token or a bearer token is checked by the services; every refusal, whatever
  went wrong inside, is an HTTP 401 or 403. FastAPI resolves each dependency once per request,
  so a handler's guards are run once, in order.
\<close>

section \<open>Requests\<close>

text \<open>
  The parts of a request the dependencies read: the session cookie, the \<open>Authorization\<close> and
  \<open>X-CSRF-Token\<close> headers, the form's CSRF field, the client's address and the user agent.
\<close>

record request =
  rq_session :: "string option"
  rq_authorization :: "string option"
  rq_csrf_header :: "string option"
  rq_csrf_form :: "string option"
  rq_client :: "string option"
  rq_user_agent :: "string option"

definition BEARER_PREFIX :: string where
  "BEARER_PREFIX = ''Bearer ''"

definition not_authenticated :: exn where
  "not_authenticated = HTTPException 401 ''Not authenticated''"

definition get_current_session_and_user :: "env \<Rightarrow> request \<Rightarrow> (SessionRecord \<times> UserRecord) io" where
  "get_current_session_and_user env rq =
     (case rq_session rq of
        None \<Rightarrow> raise_p not_authenticated
      | Some wm_session \<Rightarrow>
          catch_p (auth_validate_session env wm_session) (\<lambda>_. raise_p not_authenticated))"

definition get_current_user :: "env \<Rightarrow> request \<Rightarrow> UserRecord io" where
  "get_current_user env rq = bind_p (get_current_session_and_user env rq) (\<lambda>su. return_p (snd su))"

definition require_csrf :: "env \<Rightarrow> request \<Rightarrow> SessionRecord \<times> UserRecord \<Rightarrow> unit io" where
  "require_csrf env rq session_user =
     (let session = fst session_user;
          form_token = rq_csrf_form rq;
          token = str_or (rq_csrf_header rq) (case form_token of None \<Rightarrow> [] | Some t \<Rightarrow> t)
      in if token = [] then raise_p (HTTPException 403 ''CSRF validation failed'')
         else bind_p (validate_csrf_token env token (s_id session) (s_csrf_secret session)) (\<lambda>ok.
              if \<not> ok then raise_p (HTTPException 403 ''CSRF validation failed'') else return_p ()))"

definition get_api_token :: "env \<Rightarrow> request \<Rightarrow> ApiTokenRecord io" where
  "get_api_token env rq =
     (case rq_authorization rq of
        None \<Rightarrow> raise_p (HTTPException 401 ''Bearer token required'')
      | Some authorization \<Rightarrow>
          if \<not> starts_with authorization BEARER_PREFIX
          then raise_p (HTTPException 401 ''Bearer token required'')
          else
            let raw_token = drop (length BEARER_PREFIX) authorization in
            catch_p (auth_validate_api_token env raw_token)
              (\<lambda>_. raise_p (HTTPException 401 ''Invalid or revoked API token'')))"

definition user_from_cookie :: "env \<Rightarrow> request \<Rightarrow> UserRecord option io" where
  "user_from_cookie env rq =
     (case rq_session rq of
        None \<Rightarrow> return_p None
      | Some wm_session \<Rightarrow>
          catch_p (bind_p (auth_validate_session env wm_session) (\<lambda>su. return_p (Some (snd su))))
            (\<lambda>_. return_p None))"

definition user_from_bearer :: "env \<Rightarrow> request \<Rightarrow> UserRecord option io" where
  "user_from_bearer env rq =
     (case rq_authorization rq of
        None \<Rightarrow> return_p None
      | Some authorization \<Rightarrow>
          if \<not> starts_with authorization BEARER_PREFIX then return_p None
          else
            let raw_token = drop (length BEARER_PREFIX) authorization in
            catch_p
              (bind_p (auth_validate_api_token env raw_token) (\<lambda>token_record.
               user_get_by_id env (t_user_id token_record)))
              (\<lambda>_. return_p None))"

definition get_user_from_session_or_token :: "env \<Rightarrow> request \<Rightarrow> UserRecord io" where
  "get_user_from_session_or_token env rq =
     bind_p (user_from_cookie env rq) (\<lambda>user.
     case user of
       Some user \<Rightarrow> return_p user
     | None \<Rightarrow>
         bind_p (user_from_bearer env rq) (\<lambda>token_user.
         case token_user of
           Some token_user \<Rightarrow> return_p token_user
         | None \<Rightarrow> raise_p not_authenticated))"

lemmas dependency_defs = get_current_session_and_user_def get_current_user_def require_csrf_def
  get_api_token_def user_from_cookie_def user_from_bearer_def get_user_from_session_or_token_def
  validate_csrf_token_def

text \<open>The guards commit nothing and keep the constraints.\<close>

lemma dependency_session_free:
  assumes I: "session_free I"
  shows "keeps I (get_current_session_and_user env rq)" "keeps I (get_current_user env rq)"
    "keeps I (require_csrf env rq su)" "keeps I (get_api_token env rq)"
    "keeps I (get_user_from_session_or_token env rq)"
  unfolding dependency_defs Let_def
  by (intro keeps_intros session_free_keeps [OF I] repo_session_free [OF I] auth_session_free [OF I])+

lemma dependency_reader:
  "keeps (only_clock w) (get_current_session_and_user env rq)" "keeps (only_clock w) (get_current_user env rq)"
  "keeps (only_clock w) (require_csrf env rq su)"
  unfolding dependency_defs Let_def auth_validate_session_def session_get_by_id_def user_get_by_id_def get_row_def
  by (intro keeps_intros only_clock_keeps)+

lemma dependency_wf [wf_intros]:
  shows "keeps wf_world (get_current_session_and_user env rq)" "keeps wf_world (get_current_user env rq)"
    "keeps wf_world (require_csrf env rq su)" "keeps wf_world (get_api_token env rq)"
    "keeps wf_world (get_user_from_session_or_token env rq)"
  unfolding dependency_defs Let_def
  by (intro keeps_intros wf_intros)+

section \<open>Authentication\<close>

text \<open>Who a request's cookie stands for at an instant.\<close>

definition cookie_session :: "env \<Rightarrow> db \<Rightarrow> datetime \<Rightarrow> request \<Rightarrow> (SessionRecord \<times> UserRecord) option" where
  "cookie_session env d t rq = (case rq_session rq of None \<Rightarrow> None | Some i \<Rightarrow> session_of env d t i)"

lemma wp_current_session:
  assumes "\<not> w_dead w" "wf_db (w_db w)" "canonical_users env (w_db w)"
    and "\<And>su n. cookie_session env (w_db w) (clock env (w_tick w) + w_slept w) rq = Some su \<Longrightarrow>
      Q su (w\<lparr>w_tick := n\<rparr>)"
    and "\<And>n. cookie_session env (w_db w) (clock env (w_tick w) + w_slept w) rq = None \<Longrightarrow>
      E not_authenticated (w\<lparr>w_tick := n\<rparr>)"
  shows "wp (get_current_session_and_user env rq) Q E w"
proof (cases "rq_session rq")
  case None
  with assms(5) [of "w_tick w"] show ?thesis
    by (simp add: get_current_session_and_user_def cookie_session_def)
next
  case (Some i)
  with assms show ?thesis
    by (simp add: get_current_session_and_user_def cookie_session_def) (rule wp_validate_session, auto)
qed

text \<open>
  A request gets past session authentication exactly when its cookie names a stored,
  unrevoked, unexpired session of an existing user, and then as that session and user;
  otherwise it is refused with 401, whatever the reason was. Nothing changes in the database.
\<close>

theorem authentication_exact:
  assumes "\<not> w_dead w" and "wf_db (w_db w)" and "canonical_users env (w_db w)"
  shows "wp (get_current_session_and_user env rq)
     (\<lambda>su v. cookie_session env (w_db w) (clock env (w_tick w) + w_slept w) rq = Some su \<and> w_db v = w_db w)
     (\<lambda>e v. cookie_session env (w_db w) (clock env (w_tick w) + w_slept w) rq = None \<and>
            e = HTTPException 401 ''Not authenticated'' \<and> w_db v = w_db w) w"
  by (rule wp_current_session [OF assms]) (simp_all add: not_authenticated_def)

definition demo_request :: request where
  "demo_request = \<lparr>rq_session = Some uuid_b, rq_authorization = None, rq_csrf_header = None,
                   rq_csrf_form = None, rq_client = None, rq_user_agent = None\<rparr>"

theorem authentication_exact_witness:
  "wp (get_current_session_and_user demo_env demo_request)
     (\<lambda>su v. snd su = demo_user) (\<lambda>e v. False) (world_of demo_db_auth 0)"
proof -
  have some: "cookie_session demo_env demo_db_auth 0 demo_request = Some (session_to_record demo_session, demo_user)"
    by (simp add: cookie_session_def demo_request_def session_of_def seconds_def)
  show ?thesis
    by (rule wp_mono [OF authentication_exact]) (use some in auto)
qed

section \<open>CSRF\<close>

text \<open>
  The CSRF guard lets a request of a session through only with a token that
  \<open>validate_csrf_token\<close> accepts for that session; a token made for another session, however
  fresh, or no token at all, is refused with 403.
\<close>

theorem csrf_guard_refuses_other_session:
  assumes "serializer_ok env" and "t \<le> clock env (w_tick w) + w_slept w"
    and "rq_csrf_header rq = None \<or> rq_csrf_header rq = Some [] \<or>
         rq_csrf_header rq = Some (its_dumps env (app_secret env) CSRF_SALT (csrf_payload sid sec) t)"
    and "rq_csrf_form rq = None"
    and "s_id (fst su) \<noteq> sid \<or> s_csrf_secret (fst su) \<noteq> sec"
  shows "wp (require_csrf env rq su) (\<lambda>_ _. False) (\<lambda>e v. e = HTTPException 403 ''CSRF validation failed'' \<and> w_db v = w_db w) w"
proof -
  let ?tok = "its_dumps env (app_secret env) CSRF_SALT (csrf_payload sid sec) t"
  have refuse: "\<not> csrf_accepts (its_loads env (app_secret env) CSRF_SALT ?tok (clock env (w_tick w) + w_slept w) MAX_AGE)
      (s_id (fst su)) (s_csrf_secret (fst su))"
    using csrf_token_never_other [OF assms(1,2)] assms(5) by blast
  have "str_or (rq_csrf_header rq) [] = [] \<or> str_or (rq_csrf_header rq) [] = ?tok"
    using assms(3) by (auto simp: str_or_def)
  with refuse assms(4) show ?thesis
    by (auto simp: require_csrf_def Let_def wp_validate_csrf)
qed

theorem csrf_guard_refuses_other_session_witness:
  "wp (require_csrf demo_env
         (demo_request\<lparr>rq_csrf_header := Some (its_dumps demo_env (app_secret demo_env) CSRF_SALT (csrf_payload uuid_c ''k'') 0)\<rparr>)
         (demo_session, demo_user))
     (\<lambda>_ _. False) (\<lambda>e v. e = HTTPException 403 ''CSRF validation failed'') (world_of demo_db_auth 0)"
proof -
  have t: "0 \<le> clock demo_env (w_tick (world_of demo_db_auth 0)) + w_slept (world_of demo_db_auth 0)"
    by simp
  show ?thesis
    by (rule wp_mono [OF csrf_guard_refuses_other_session [OF demo_serializer_ok t, of _ uuid_c "''k''"]])
      (simp_all add: demo_request_def del: demo_env_simps)
qed

section \<open>Session or token\<close>

definition bearer_token :: "db \<Rightarrow> request \<Rightarrow> ApiTokenRecord \<Rightarrow> bool" where
  "bearer_token d rq tok \<longleftrightarrow>
     (\<exists>raw. rq_authorization rq = Some (BEARER_PREFIX @ raw) \<and> tok \<in> set (tokens d) \<and>
        t_token_hash tok = sha256_hex raw \<and> t_revoked_at tok = None)"

lemma live_token_bearer:
  assumes "rq_authorization rq = Some a" "starts_with a BEARER_PREFIX"
    and "live_token (hash_token (drop (length BEARER_PREFIX) a)) d = Some tok"
  shows "bearer_token d rq tok"
proof -
  obtain raw where raw: "a = BEARER_PREFIX @ raw" using assms(2) by (auto simp: starts_with_iff)
  with assms(3) have "tok \<in> set (tokens d) \<and> t_token_hash tok = hash_token raw \<and> t_revoked_at tok = None"
    by (auto simp: live_token_def dest: find_row_SomeD split: option.splits if_splits)
  with assms(1) raw show ?thesis by (auto simp: bearer_token_def hash_token_def)
qed

lemma wp_get_api_token:
  assumes "\<not> w_dead w" "wf_db (w_db w)"
    and "\<And>tok v. bearer_token (w_db w) rq tok \<Longrightarrow> (\<exists>ts. w_db v = (w_db w)\<lparr>tokens := ts\<rparr>) \<Longrightarrow>
      \<not> w_dead v \<Longrightarrow> w_sent v = w_sent w \<Longrightarrow> Q tok v"
    and "\<And>m v. w_db v = w_db w \<Longrightarrow> w_sent v = w_sent w \<Longrightarrow> E (HTTPException 401 m) v"
  shows "wp (get_api_token env rq) Q E w"
proof (cases "rq_authorization rq")
  case None
  with assms(4) show ?thesis by (simp add: get_api_token_def)
next
  case (Some a)
  show ?thesis
  proof (cases "starts_with a BEARER_PREFIX")
    case False
    with Some assms(4) show ?thesis by (simp add: get_api_token_def)
  next
    case True
    note bearer = live_token_bearer [OF Some True]
    have "wp (auth_validate_api_token env (drop (length BEARER_PREFIX) a)) Q
        (\<lambda>_. wp (raise_p (HTTPException 401 ''Invalid or revoked API token'')) Q E) w"
    proof (rule wp_validate_api_token [OF assms(1,2)])
      fix r k n
      assume "live_token (hash_token (drop (length BEARER_PREFIX) a)) (w_db w) = Some r"
      then show "Q r (w\<lparr>w_tick := n, w_db := (w_db w)\<lparr>tokens := update_rows t_id k
          (\<lambda>t. t\<lparr>t_last_used_at := Some (clock env (w_tick w) + w_slept w)\<rparr>) (tokens (w_db w))\<rparr>\<rparr>)"
        by (rule assms(3) [OF bearer]) (use assms(1) in auto)
    qed (simp_all add: assms(4))
    with Some True show ?thesis by (simp add: get_api_token_def Let_def)
  qed
qed

lemma wp_session_or_token:
  assumes "\<not> w_dead w" and "wf_db (w_db w)" and "canonical_users env (w_db w)"
  shows "wp (get_user_from_session_or_token env rq)
     (\<lambda>u v. (\<exists>s. cookie_session env (w_db w) (clock env (w_tick w) + w_slept w) rq = Some (s, u)) \<or>
            (\<exists>tok. bearer_token (w_db w) rq tok \<and> u \<in> set (users (w_db w)) \<and> u_id u = t_user_id tok))
     (\<lambda>e v. e = HTTPException 401 ''Not authenticated'') w"
proof -
  let ?P = "\<lambda>u v. (\<exists>s. cookie_session env (w_db w) (clock env (w_tick w) + w_slept w) rq = Some (s, u)) \<or>
            (\<exists>tok. bearer_token (w_db w) rq tok \<and> u \<in> set (users (w_db w)) \<and> u_id u = t_user_id tok)"
  let ?E = "\<lambda>e v. e = HTTPException 401 ''Not authenticated''"
  have bearer: "wp (user_from_bearer env rq)
      (\<lambda>r. wp (case r of Some u \<Rightarrow> return_p u | None \<Rightarrow> raise_p not_authenticated) ?P ?E) ?E v"
    if v: "w_db v = w_db w" "\<not> w_dead v" for v
  proof (cases "\<exists>a. rq_authorization rq = Some a \<and> starts_with a BEARER_PREFIX")
    case False
    then show ?thesis by (auto simp: user_from_bearer_def not_authenticated_def split: option.split)
  next
    case True
    then obtain a where a: "rq_authorization rq = Some a" "starts_with a BEARER_PREFIX" by blast
    let ?Q = "\<lambda>r. wp (case r of Some u \<Rightarrow> return_p u | None \<Rightarrow> raise_p not_authenticated) ?P ?E"
    have "wp (auth_validate_api_token env (drop (length BEARER_PREFIX) a))
       (\<lambda>tok. wp (user_get_by_id env (t_user_id tok)) ?Q (\<lambda>_. wp (return_p None) ?Q ?E))
       (\<lambda>_. wp (return_p None) ?Q ?E) v"
    proof (rule wp_validate_api_token)
      show "\<not> w_dead v" "wf_db (w_db v)" using v assms(2) by simp_all
    next
      fix tok k n
      assume "live_token (hash_token (drop (length BEARER_PREFIX) a)) (w_db v) = Some tok"
      then have tok: "bearer_token (w_db w) rq tok" using live_token_bearer [OF a] v(1) by simp
      then have "t_user_id tok \<in> u_id ` set (users (w_db w))"
        using assms(2) by (auto simp: bearer_token_def wf_db_def wf_tokens_def)
      then have "canonical env (t_user_id tok)" using assms(3) by (auto simp: canonical_users_def)
      then show "wp (user_get_by_id env (t_user_id tok)) ?Q (\<lambda>_. wp (return_p None) ?Q ?E)
          (v\<lparr>w_tick := n, w_db := (w_db v)\<lparr>tokens := update_rows t_id k
             (\<lambda>t. t\<lparr>t_last_used_at := Some (clock env (w_tick v) + w_slept v)\<rparr>) (tokens (w_db v))\<rparr>\<rparr>)"
        using v tok by (auto simp: wp_user_get_by_id canonical_def not_authenticated_def
            dest: find_row_SomeD split: option.split)
    qed (simp_all add: not_authenticated_def)
    with a show ?thesis by (simp add: user_from_bearer_def Let_def)
  qed
  have "wp (user_from_cookie env rq)
      (\<lambda>r. wp (case r of Some u \<Rightarrow> return_p u
        | None \<Rightarrow> bind_p (user_from_bearer env rq) (\<lambda>r. case r of Some u \<Rightarrow> return_p u | None \<Rightarrow> raise_p not_authenticated)) ?P ?E) ?E w"
  proof (cases "rq_session rq")
    case None
    with bearer [of w] assms(1) show ?thesis by (simp add: user_from_cookie_def)
  next
    case (Some i)
    let ?Q = "\<lambda>r. wp (case r of Some u \<Rightarrow> return_p u
        | None \<Rightarrow> bind_p (user_from_bearer env rq) (\<lambda>r. case r of Some u \<Rightarrow> return_p u | None \<Rightarrow> raise_p not_authenticated)) ?P ?E"
    have "wp (auth_validate_session env i) (\<lambda>su. ?Q (Some (snd su))) (\<lambda>_. ?Q None) w"
      by (rule wp_validate_session [OF assms]) (use Some bearer assms(1) in \<open>auto simp: cookie_session_def\<close>)
    with Some show ?thesis by (simp add: user_from_cookie_def)
  qed
  then show ?thesis
    unfolding get_user_from_session_or_token_def wp_bind .
qed

text \<open>
  C25. A request authenticated by \<open>get_user_from_session_or_token\<close> is that of the user of its
  valid session cookie, or of the user of an unrevoked API token whose raw text is its bearer
  token; everything else is refused with 401.
\<close>

theorem session_or_token_sound:
  assumes "\<not> w_dead w" and "wf_db (w_db w)" and "canonical_users env (w_db w)"
  shows "wp (get_user_from_session_or_token env rq)
     (\<lambda>u v. (\<exists>s. cookie_session env (w_db w) (clock env (w_tick w) + w_slept w) rq = Some (s, u)) \<or>
            (\<exists>tok. bearer_token (w_db w) rq tok \<and> u \<in> set (users (w_db w)) \<and> u_id u = t_user_id tok))
     (\<lambda>e v. e = HTTPException 401 ''Not authenticated'') w"
  by (rule wp_session_or_token [OF assms])

theorem session_or_token_sound_witness:
  "wp (get_user_from_session_or_token demo_env (demo_request\<lparr>rq_session := None\<rparr>))
     (\<lambda>u v. False) (\<lambda>e v. e = HTTPException 401 ''Not authenticated'') (world_of demo_db 0)"
  by (rule wp_mono [OF session_or_token_sound])
     (auto simp: cookie_session_def bearer_token_def demo_request_def)

end
