(* ===== verification/PyStdlib.thy ===== *)
theory PyStdlib
  imports PyStr Domain
begin

text \<open>
  Two parts of Python's standard library the API uses: \<open>datetime.isoformat\<close> of an aware UTC
  instant, and what \<open>ipaddress.ip_address\<close> accepts (CPython 3.12, the version of the
  Dockerfile).
\<close>

section \<open>datetime.isoformat\<close>

text \<open>A number with at least \<open>k\<close> digits.\<close>

definition zero_pad :: "nat \<Rightarrow> int \<Rightarrow> string" where
  "zero_pad k n = (let s = show_nat (nat n) in replicate (k - length s) CHR ''0'' @ s)"

text \<open>
  The proleptic Gregorian date of a day counted from 1970-01-01, by eras of 400 years that start
  in March.
\<close>

definition civil_of_day :: "int \<Rightarrow> int \<times> int \<times> int" where
  "civil_of_day day =
     (let z = day + 719468;
          era = z div 146097;
          doe = z mod 146097;
          yoe = (doe - doe div 1460 + doe div 36524 - doe div 146096) div 365;
          doy = doe - (365 * yoe + yoe div 4 - yoe div 100);
          mp = (5 * doy + 2) div 153;
          d = doy - (153 * mp + 2) div 5 + 1;
          m = (if mp < 10 then mp + 3 else mp - 9)
      in (yoe + era * 400 + (if m \<le> 2 then 1 else 0), m, d))"

definition isoformat :: "datetime \<Rightarrow> string" where
  "isoformat t =
     (let us = t mod 1000000;
          s = t div 1000000;
          day = s div 86400;
          sec = s mod 86400;
          (y, m, d) = civil_of_day day
      in zero_pad 4 y @ ''-'' @ zero_pad 2 m @ ''-'' @ zero_pad 2 d @ ''T'' @
         zero_pad 2 (sec div 3600) @ '':'' @ zero_pad 2 (sec mod 3600 div 60) @ '':'' @ zero_pad 2 (sec mod 60) @
         (if us = 0 then [] else ''.'' @ zero_pad 6 us) @ ''+00:00'')"

section \<open>ipaddress.ip_address\<close>

text \<open>\<open>IPv4Address._parse_octet\<close>, \<open>IPv4Address._ip_int_from_string\<close> and \<open>IPv4Address(s)\<close>.\<close>

definition parse_octet :: "string \<Rightarrow> nat option" where
  "parse_octet s =
     (if s = [] then None
      else if \<not> list_all is_digit s then None
      else if length s > 3 then None
      else if s \<noteq> ''0'' \<and> hd s = CHR ''0'' then None
      else case digits_val 10 0 s of
             None \<Rightarrow> None
           | Some v \<Rightarrow> if v > 255 then None else Some v)"

fun parse_all :: "('a \<Rightarrow> 'b option) \<Rightarrow> 'a list \<Rightarrow> 'b list option" where
  "parse_all f [] = Some []"
| "parse_all f (x # xs) =
     (case f x of None \<Rightarrow> None | Some y \<Rightarrow> map_option ((#) y) (parse_all f xs))"

definition ipv4_octets :: "string \<Rightarrow> nat list option" where
  "ipv4_octets s =
     (if s = [] then None
      else let octets = split_on CHR ''.'' s in
           if length octets \<noteq> 4 then None else parse_all parse_octet octets)"

definition ipv4_ok :: "string \<Rightarrow> bool" where
  "ipv4_ok s \<longleftrightarrow> CHR ''/'' \<notin> set s \<and> ipv4_octets s \<noteq> None"

text \<open>\<open>IPv6Address\<close>: the scope id, the hextets and the one double colon.\<close>

definition hextet_ok :: "string \<Rightarrow> bool" where
  "hextet_ok s \<longleftrightarrow> s \<noteq> [] \<and> length s \<le> 4 \<and> list_all (\<lambda>c. case digit_val c of None \<Rightarrow> False | Some d \<Rightarrow> d < 16) s"

text \<open>\<open>_split_scope_id\<close>: what stands before a \<open>%\<close>, unless the scope is empty or has another.\<close>

definition split_scope_id :: "string \<Rightarrow> string option" where
  "split_scope_id s =
     (case split_on CHR ''%'' s of
        [addr] \<Rightarrow> Some addr
      | [addr, scope] \<Rightarrow> if scope = [] then None else Some addr
      | _ \<Rightarrow> None)"

text \<open>The indices of the empty parts other than the first and the last.\<close>

definition inner_gaps :: "string list \<Rightarrow> nat list" where
  "inner_gaps parts = filter (\<lambda>i. parts ! i = []) [1..<length parts - 1]"

definition hextets_ok :: "string list \<Rightarrow> bool" where
  "hextets_ok parts \<longleftrightarrow>
     (case inner_gaps parts of
        [] \<Rightarrow> length parts = 8 \<and> list_all hextet_ok parts
      | [skip] \<Rightarrow>
          let hi = (if hd parts = [] then skip - 1 else skip);
              lo = (if last parts = [] then length parts - skip - 1 - 1 else length parts - skip - 1)
          in \<not> (hd parts = [] \<and> hi \<noteq> 0) \<and> \<not> (last parts = [] \<and> lo \<noteq> 0) \<and> hi + lo < 8 \<and>
             list_all hextet_ok (take hi parts) \<and> list_all hextet_ok (drop (length parts - lo) parts)
      | _ \<Rightarrow> False)"

text \<open>A dotted quad in the last part counts as two hextets, which are well formed.\<close>

definition expand_ipv4 :: "string list \<Rightarrow> string list option" where
  "expand_ipv4 parts =
     (if CHR ''.'' \<in> set (last parts)
      then if ipv4_ok (last parts) then Some (butlast parts @ [''0'', ''0'']) else None
      else Some parts)"

definition ipv6_ok :: "string \<Rightarrow> bool" where
  "ipv6_ok s \<longleftrightarrow> CHR ''/'' \<notin> set s \<and>
     (case split_scope_id s of
        None \<Rightarrow> False
      | Some addr \<Rightarrow>
          addr \<noteq> [] \<and>
          (let parts = split_on CHR '':'' addr in
           length parts \<ge> 3 \<and>
           (case expand_ipv4 parts of
              None \<Rightarrow> False
            | Some parts \<Rightarrow> length parts \<le> 9 \<and> hextets_ok parts)))"

definition ip_address_ok :: "string \<Rightarrow> bool" where
  "ip_address_ok s \<longleftrightarrow> ipv4_ok s \<or> ipv6_ok s"

end
