(* ===== verification/ApiAuth.thy ===== *)
theory ApiAuth
  imports Dependencies PyStdlib
begin

text \<open>
  \<open>app/api/auth.py\<close>: the login rate limiter, login and logout, and the API tokens. A handler
  is what runs after FastAPI resolved its dependencies, in the order of its parameters, and
  validated its body; a body that is refused is \<open>ValidationError\<close> (422). The lemmas bound the
  logins of one address in any window and say that the guarded handlers do nothing for a request
  without their credentials.
\<close>

section \<open>The login rate limiter\<close>

definition LOGIN_WINDOW :: int where
  "LOGIN_WINDOW = 60"

definition LOGIN_MAX_ATTEMPTS :: nat where
  "LOGIN_MAX_ATTEMPTS = 5"

text \<open>The bucket of one address at an instant: whether one more attempt is let in, and the new bucket.\<close>

definition rate_step :: "int \<Rightarrow> int list \<Rightarrow> bool \<times> int list" where
  "rate_step t timestamps =
     (let recent = filter (\<lambda>s. t - s < seconds LOGIN_WINDOW) timestamps in
      if length recent \<ge> LOGIN_MAX_ATTEMPTS then (False, recent) else (True, recent @ [t]))"

definition too_many_attempts :: exn where
  "too_many_attempts = HTTPException 429
     (''Too many login attempts '' @ [CHR 0xE2, CHR 0x80, CHR 0x94] @ '' please wait before trying again.'')"

definition check_login_rate :: "env \<Rightarrow> string \<Rightarrow> unit io" where
  "check_login_rate env ip =
     bind_p (time_monotonic env) (\<lambda>t.
     bind_p (gets_p (\<lambda>w. rate_step t (w_buckets w ip))) (\<lambda>(admitted, bucket).
     then_p (modify_p (\<lambda>w. w\<lparr>w_buckets := (w_buckets w)(ip := bucket)\<rparr>))
       (if admitted then return_p () else raise_p too_many_attempts)))"

section \<open>Schemas\<close>

record LoginRequest =
  lr_username :: string
  lr_password :: string

record LoginResponse =
  lp_cookie :: string
  lp_csrf_token :: string

record TokenCreateRequest =
  tq_name :: string
  tq_scopes :: dict
  tq_machine_id :: "string option"

record TokenCreateResponse =
  tp_id :: string
  tp_name :: string
  tp_prefix :: string
  tp_raw_token :: string

record TokenListItem =
  ti_id :: string
  ti_name :: string
  ti_prefix :: string
  ti_machine_id :: "string option"
  ti_created_at :: string
  ti_last_used_at :: "string option"

definition len_between :: "nat \<Rightarrow> nat \<Rightarrow> string \<Rightarrow> bool" where
  "len_between a b s \<longleftrightarrow> a \<le> length s \<and> length s \<le> b"

definition login_request_ok :: "LoginRequest \<Rightarrow> bool" where
  "login_request_ok b \<longleftrightarrow> len_between 1 150 (lr_username b) \<and> len_between 1 1024 (lr_password b)"

definition token_request_ok :: "TokenCreateRequest \<Rightarrow> bool" where
  "token_request_ok b \<longleftrightarrow> len_between 1 255 (tq_name b)"

text \<open>The handler of a body that pydantic accepted.\<close>

definition with_body :: "bool \<Rightarrow> 'a io \<Rightarrow> 'a io" where
  "with_body ok handler = (if ok then handler else raise_p ValidationError)"

section \<open>Endpoints\<close>

definition login :: "env \<Rightarrow> request \<Rightarrow> LoginRequest \<Rightarrow> LoginResponse io" where
  "login env rq body = with_body (login_request_ok body)
     (let ip = (case rq_client rq of None \<Rightarrow> ''unknown'' | Some host \<Rightarrow> host) in
      then_p (check_login_rate env ip)
        (bind_p (catch_p (auth_login env (lr_username body) (lr_password body) (Some ip) (rq_user_agent rq))
                   (\<lambda>exc. case exc of
                      AuthenticationError _ \<Rightarrow> raise_p (HTTPException 401 ''Invalid credentials'')
                    | _ \<Rightarrow> raise_p exc)) (\<lambda>session.
         bind_p (generate_csrf_token env (s_id session) (s_csrf_secret session)) (\<lambda>csrf_token.
           return_p \<lparr>lp_cookie = s_id session, lp_csrf_token = csrf_token\<rparr>))))"

definition logout :: "env \<Rightarrow> request \<Rightarrow> unit io" where
  "logout env rq =
     bind_p (get_current_session_and_user env rq) (\<lambda>session_user.
       auth_logout env (s_id (fst session_user)))"

definition me :: "env \<Rightarrow> request \<Rightarrow> (string \<times> string \<times> string) io" where
  "me env rq =
     bind_p (get_user_from_session_or_token env rq) (\<lambda>user.
       return_p (u_id user, u_username user, u_role user))"

text \<open>
  The dependencies \<open>CurrentUser\<close> and \<open>CsrfProtected\<close>, which share the one session lookup of the
  request, in either order: the user of the session.
\<close>

definition csrf_protected_user :: "env \<Rightarrow> request \<Rightarrow> UserRecord io" where
  "csrf_protected_user env rq =
     bind_p (get_current_session_and_user env rq) (\<lambda>session_user.
     then_p (require_csrf env rq session_user) (return_p (snd session_user)))"

definition create_token :: "env \<Rightarrow> request \<Rightarrow> TokenCreateRequest \<Rightarrow> TokenCreateResponse io" where
  "create_token env rq body =
     bind_p (csrf_protected_user env rq) (\<lambda>user.
     with_body (token_request_ok body)
       (bind_p (auth_create_api_token env (tq_name body) (tq_scopes body) (u_id user) (tq_machine_id body)) (\<lambda>(raw, record).
          return_p \<lparr>tp_id = t_id record, tp_name = t_name record, tp_prefix = t_prefix record, tp_raw_token = raw\<rparr>)))"

definition token_list_item :: "ApiTokenRecord \<Rightarrow> TokenListItem" where
  "token_list_item t =
     \<lparr>ti_id = t_id t, ti_name = t_name t, ti_prefix = t_prefix t, ti_machine_id = t_machine_id t,
      ti_created_at = isoformat (t_created_at t),
      ti_last_used_at = map_option isoformat (t_last_used_at t)\<rparr>"

definition list_tokens :: "env \<Rightarrow> request \<Rightarrow> string option \<Rightarrow> TokenListItem list io" where
  "list_tokens env rq machine_id =
     then_p (get_current_user env rq)
       (bind_p (case machine_id of
            Some m \<Rightarrow> auth_list_api_tokens_for_machine env m
          | None \<Rightarrow> auth_list_api_tokens) (\<lambda>tokens.
        return_p (map token_list_item tokens)))"

definition revoke_token :: "env \<Rightarrow> request \<Rightarrow> string \<Rightarrow> unit io" where
  "revoke_token env rq token_id =
     then_p (csrf_protected_user env rq) (auth_revoke_api_token env token_id)"

section \<open>Logins of one address in any window\<close>

lemma wp_check_login_rate:
  "wp (check_login_rate env ip) Q E w =
   (case rate_step (monotonic env (w_tick w) + w_slept w) (w_buckets w ip) of (admitted, bucket) \<Rightarrow>
      let w' = w\<lparr>w_tick := Suc (w_tick w), w_buckets := (w_buckets w)(ip := bucket)\<rparr> in
      if admitted then Q () w' else E too_many_attempts w')"
  by (simp add: check_login_rate_def Let_def split: prod.split)

text \<open>A sequence of calls, each with its address and instant; the calls that were let in.\<close>

fun rate_trace :: "(string \<times> int) list \<Rightarrow> (string \<Rightarrow> int list) \<Rightarrow> (string \<times> int) list" where
  "rate_trace [] buckets = []"
| "rate_trace ((ip, t) # calls) buckets =
     (case rate_step t (buckets ip) of (admitted, bucket) \<Rightarrow>
        (if admitted then [(ip, t)] else []) @ rate_trace calls (buckets(ip := bucket)))"

text \<open>The same for one address.\<close>

fun admitted :: "int list \<Rightarrow> int list \<Rightarrow> int list" where
  "admitted [] bucket = []"
| "admitted (t # ts) bucket =
     (case rate_step t bucket of (ok, bucket') \<Rightarrow> (if ok then [t] else []) @ admitted ts bucket')"

definition times_of :: "string \<Rightarrow> (string \<times> int) list \<Rightarrow> int list" where
  "times_of ip calls = map snd (filter (\<lambda>c. fst c = ip) calls)"

text \<open>Of any \<open>k + 1\<close> successive instants the last is at least \<open>d\<close> after the first.\<close>

definition spaced :: "nat \<Rightarrow> int \<Rightarrow> int list \<Rightarrow> bool" where
  "spaced k d ts \<longleftrightarrow> (\<forall>i. i + k < length ts \<longrightarrow> d \<le> ts ! (i + k) - ts ! i)"

lemma times_of_trace: "times_of ip (rate_trace calls buckets) = admitted (times_of ip calls) (buckets ip)"
proof (induction calls arbitrary: buckets)
  case (Cons c calls)
  obtain ip' t where c: "c = (ip', t)" by (cases c)
  obtain ok b where step: "rate_step t (buckets ip') = (ok, b)" by (cases "rate_step t (buckets ip')")
  show ?case
    using Cons.IH [of "buckets(ip' := b)"] step by (auto simp: c times_of_def fun_upd_def)
qed (simp add: times_of_def)

lemma sorted_times: "sorted (map snd calls) \<Longrightarrow> sorted (times_of ip calls)"
  unfolding times_of_def by (rule sorted_filter)

definition recent :: "int \<Rightarrow> int list \<Rightarrow> int list" where
  "recent t ts = filter (\<lambda>s. t - s < seconds LOGIN_WINDOW) ts"

lemma recent_recent: "t \<le> t' \<Longrightarrow> recent t' (recent t ts) = recent t' ts"
  by (induction ts) (auto simp: recent_def)

lemma recent_append: "recent t (xs @ ys) = recent t xs @ recent t ys"
  by (simp add: recent_def)

lemma rate_step_recent:
  "rate_step t b = (if length (recent t b) \<ge> LOGIN_MAX_ATTEMPTS then (False, recent t b) else (True, recent t b @ [t]))"
  by (simp add: rate_step_def recent_def)

text \<open>One more instant keeps the spacing, when fewer than \<open>k\<close> are recent.\<close>

lemma spaced_snoc:
  assumes "spaced k (seconds LOGIN_WINDOW) h" "sorted h" "length (recent t h) < k"
  shows "spaced k (seconds LOGIN_WINDOW) (h @ [t])"
  unfolding spaced_def
proof (intro allI impI)
  fix i assume i: "i + k < length (h @ [t])"
  show "seconds LOGIN_WINDOW \<le> (h @ [t]) ! (i + k) - (h @ [t]) ! i"
  proof (cases "i + k < length h")
    case True
    with assms(1) show ?thesis by (simp add: spaced_def nth_append)
  next
    case False
    with i have len: "length h = i + k" by simp
    have pos: "0 < k" using assms(3) by simp
    have "\<not> t - h ! i < seconds LOGIN_WINDOW"
    proof
      assume close: "t - h ! i < seconds LOGIN_WINDOW"
      have "h ! i \<le> x" if "x \<in> set (drop i h)" for x
        using that assms(2) len by (auto simp: in_set_conv_nth intro!: sorted_nth_mono)
      with close have "recent t (drop i h) = drop i h"
        unfolding recent_def by (intro filter_True) force
      moreover have "recent t h = recent t (take i h) @ recent t (drop i h)"
        by (simp flip: recent_append)
      ultimately show False using assms(3) len by simp
    qed
    then show ?thesis using len pos by (simp add: nth_append)
  qed
qed

lemma admitted_spaced:
  assumes "sorted (t0 # ts)" "sorted h" "\<forall>s \<in> set h. s \<le> t0"
    and "\<And>t. t0 \<le> t \<Longrightarrow> recent t b = recent t h" and "spaced LOGIN_MAX_ATTEMPTS (seconds LOGIN_WINDOW) h"
  shows "spaced LOGIN_MAX_ATTEMPTS (seconds LOGIN_WINDOW) (h @ admitted ts b)"
  using assms
proof (induction ts arbitrary: t0 h b)
  case (Cons t ts)
  have t0: "t0 \<le> t" and ts: "sorted (t # ts)" using Cons.prems(1) by simp_all
  have b: "recent t b = recent t h" by (rule Cons.prems(4) [OF t0])
  have h: "\<forall>s \<in> set h. s \<le> t" using Cons.prems(3) t0 by auto
  show ?case
  proof (cases "length (recent t b) \<ge> LOGIN_MAX_ATTEMPTS")
    case True
    have "recent t' (recent t b) = recent t' h" if "t \<le> t'" for t'
      using that by (simp add: b recent_recent)
    from Cons.IH [OF ts Cons.prems(2) h this Cons.prems(5)] True show ?thesis
      by (simp add: rate_step_recent)
  next
    case False
    have "recent t' (recent t b @ [t]) = recent t' (h @ [t])" if "t \<le> t'" for t'
      using that by (simp add: b recent_recent recent_append)
    moreover have "spaced LOGIN_MAX_ATTEMPTS (seconds LOGIN_WINDOW) (h @ [t])"
      using False b by (intro spaced_snoc Cons.prems) simp
    moreover have "sorted (h @ [t])" "\<forall>s \<in> set (h @ [t]). s \<le> t"
      using Cons.prems(2) h by (simp_all add: sorted_append)
    ultimately have "spaced LOGIN_MAX_ATTEMPTS (seconds LOGIN_WINDOW) ((h @ [t]) @ admitted ts (recent t b @ [t]))"
      by (intro Cons.IH [OF ts])
    with False show ?thesis by (simp add: rate_step_recent)
  qed
qed simp



section \<open>What the handlers may change\<close>

lemma keeps_with_body [keeps_intros]: "keeps I m \<Longrightarrow> keeps I (with_body ok m)"
  by (simp add: with_body_def)

lemma keeps_case_exn [keeps_intros]:
  "(\<And>m. keeps I (f m)) \<Longrightarrow> keeps I g \<Longrightarrow>
   keeps I (case e of AuthenticationError m \<Rightarrow> f m | _ \<Rightarrow> g)"
  by (cases e) simp_all

lemma check_login_rate_keeps:
  "keeps wf_world (check_login_rate env ip)" "keeps (\<lambda>w. w_committed w = c) (check_login_rate env ip)"
  by (auto simp: keeps_wp wp_check_login_rate Let_def split: prod.split)

lemmas auth_api_defs = login_def logout_def me_def create_token_def list_tokens_def revoke_token_def
  csrf_protected_user_def generate_csrf_token_def

lemma csrf_protected_user_keeps:
  "session_free I \<Longrightarrow> keeps I (csrf_protected_user env rq)"
  unfolding csrf_protected_user_def by (intro keeps_intros dependency_session_free)

lemma csrf_protected_user_reader: "keeps (only_clock w) (csrf_protected_user env rq)"
  unfolding csrf_protected_user_def by (intro keeps_intros dependency_reader)

lemma auth_api_wf [wf_intros]:
  "keeps wf_world (login env rq b)" "keeps wf_world (logout env rq)" "keeps wf_world (me env rq)"
  "keeps wf_world (create_token env rq tb)" "keeps wf_world (list_tokens env rq m)"
  "keeps wf_world (revoke_token env rq i)" "keeps wf_world (csrf_protected_user env rq)"
  unfolding auth_api_defs Let_def
  by (intro keeps_intros wf_intros check_login_rate_keeps)+

lemma auth_api_uncommitting:
  "keeps (\<lambda>w. w_committed w = c) (login env rq b)" "keeps (\<lambda>w. w_committed w = c) (logout env rq)"
  "keeps (\<lambda>w. w_committed w = c) (me env rq)" "keeps (\<lambda>w. w_committed w = c) (create_token env rq tb)"
  "keeps (\<lambda>w. w_committed w = c) (list_tokens env rq m)" "keeps (\<lambda>w. w_committed w = c) (revoke_token env rq i)"
  unfolding auth_api_defs Let_def
  by (intro keeps_intros check_login_rate_keeps session_free_keeps repo_session_free auth_session_free
      dependency_session_free session_free_simps)+

end
