(* ===== verification/WakeStrategies.thy ===== *)
theory WakeStrategies
  imports World
begin

text \<open>
  \<open>app/infra/wake_strategy.py\<close>: the magic packet, the two strategies that send it and the
  lookup of a strategy by name. The interface \<open>wake_strategy_port\<close> is the abstract class
  \<open>WakeStrategyPort\<close>: a strategy sends at most one thing, exactly one when it returns, and
  never touches the database; both implementations interpret it.
\<close>

section \<open>The magic packet\<close>

definition MAGIC_PORT :: int where
  "MAGIC_PORT = 9"

definition MAGIC_BROADCAST :: string where
  "MAGIC_BROADCAST = ''255.255.255.255''"

definition build_magic_packet :: "string \<Rightarrow> exn + byte list" where
  "build_magic_packet mac =
     (let mac_clean = upper (remove_char CHR ''-'' (remove_char CHR '':'' mac)) in
      if length mac_clean \<noteq> 12 then Inl (ValueError (''Invalid MAC address: '' @ py_repr mac))
      else case fromhex mac_clean of
        None \<Rightarrow> Inl (ValueError ''non-hexadecimal number found in fromhex() arg'')
      | Some mac_bytes \<Rightarrow> Inr (replicate 6 0xff @ List.concat (replicate 16 mac_bytes)))"

text \<open>The text of a MAC address with a separator, as PostgreSQL prints \<open>macaddr\<close> with colons.\<close>

definition mac_text :: "char \<Rightarrow> byte list \<Rightarrow> string" where
  "mac_text sep bs = join_on sep (map hex_byte bs)"

lemma hex_byte_no_sep: "CHR '':'' \<notin> set (hex_byte b)" "CHR ''-'' \<notin> set (hex_byte b)"
  by (auto simp: hex_byte_def hex_digit_facts(2,3) [THEN not_sym] unat_byte_less)

lemma remove_char_append [simp]: "remove_char c (s @ t) = remove_char c s @ remove_char c t"
  by (simp add: remove_char_def)

lemma remove_char_Nil [simp]: "remove_char c [] = []"
  by (simp add: remove_char_def)

lemma remove_char_Cons [simp]:
  "remove_char c (d # s) = (if d = c then remove_char c s else d # remove_char c s)"
  by (simp add: remove_char_def)

lemma remove_char_absent: "c \<notin> set s \<Longrightarrow> remove_char c s = s"
  by (induction s) (auto simp: remove_char_def)

lemma remove_sep_hex_byte [simp]:
  "remove_char CHR '':'' (hex_byte b) = hex_byte b" "remove_char CHR ''-'' (hex_byte b) = hex_byte b"
  by (simp_all add: remove_char_absent hex_byte_no_sep)

lemma clean_mac_text:
  assumes "sep = CHR '':'' \<or> sep = CHR ''-''"
  shows "remove_char CHR ''-'' (remove_char CHR '':'' (mac_text sep bs)) = hex_bytes bs"
proof (induction bs)
  case Nil
  show ?case by (simp add: mac_text_def hex_bytes_def remove_char_def)
next
  case (Cons b bs)
  have step: "mac_text sep (b # bs) = hex_byte b @ (if bs = [] then [] else sep # mac_text sep bs)"
    by (simp add: mac_text_def join_on_Cons)
  show ?case
    using Cons assms unfolding step by (auto simp: hex_bytes_def)
qed

text \<open>Every accepted address gives six bytes of 255 and sixteen copies of at most six bytes.\<close>

lemma build_magic_packet_shape:
  assumes "build_magic_packet mac = Inr packet"
  shows "\<exists>bs. packet = replicate 6 0xff @ List.concat (replicate 16 bs) \<and> length bs \<le> 6"
proof -
  let ?c = "upper (remove_char CHR ''-'' (remove_char CHR '':'' mac))"
  from assms obtain bs where "length ?c = 12" "fromhex ?c = Some bs"
      "packet = replicate 6 0xff @ List.concat (replicate 16 bs)"
    by (auto simp: build_magic_packet_def Let_def split: if_splits option.splits)
  with fromhex_length [of ?c bs] show ?thesis by auto
qed

section \<open>What a strategy sends\<close>

definition etherwake_cmd :: "string option \<Rightarrow> string \<Rightarrow> string list" where
  "etherwake_cmd interface mac =
     (let cmd = [''etherwake''];
          cmd = (if truthy interface then cmd @ [''-i'', the interface] else cmd)
      in cmd @ [mac])"

text \<open>
  The packet that wakes a machine of that MAC address by the strategy \<open>name\<close>: the command on the
  interface, or the magic packet to the broadcast address.
\<close>

definition wakes :: "string \<Rightarrow> string \<Rightarrow> string option \<Rightarrow> string option \<Rightarrow> sent \<Rightarrow> bool" where
  "wakes name mac interface broadcast p =
     (case p of
        SentCommand cmd \<Rightarrow> name = ''etherwake'' \<and> cmd = etherwake_cmd interface mac
      | SentDatagram packet target port \<Rightarrow>
          name = ''udp_broadcast'' \<and> build_magic_packet mac = Inr packet \<and>
          target = str_or broadcast MAGIC_BROADCAST \<and> port = MAGIC_PORT)"

section \<open>The port\<close>

type_synonym wake_call = "string \<Rightarrow> string option \<Rightarrow> string option \<Rightarrow> unit io"

record WakeStrategyPort =
  sp_name :: string
  sp_wake :: wake_call

locale wake_strategy_port =
  fixes name :: string
    and wake :: wake_call
    and packet :: "string \<Rightarrow> string option \<Rightarrow> string option \<Rightarrow> sent \<Rightarrow> bool"
  assumes wake_effect: "wp (wake mac interface broadcast)
      (\<lambda>_ v. \<exists>n p. v = w\<lparr>w_tick := n, w_sent := p # w_sent w\<rparr> \<and> packet mac interface broadcast p)
      (\<lambda>_ v. \<exists>n ps. v = w\<lparr>w_tick := n, w_sent := ps @ w_sent w\<rparr> \<and> length ps \<le> 1 \<and>
         list_all (packet mac interface broadcast) ps) w"
    and name_known: "name = ''etherwake'' \<or> name = ''udp_broadcast''"
begin

text \<open>The call as its callers see it.\<close>

lemma wp_wake:
  assumes "\<And>n p. packet mac interface broadcast p \<Longrightarrow> Q () (w\<lparr>w_tick := n, w_sent := p # w_sent w\<rparr>)"
    and "\<And>e n ps. length ps \<le> 1 \<Longrightarrow> list_all (packet mac interface broadcast) ps \<Longrightarrow>
      E e (w\<lparr>w_tick := n, w_sent := ps @ w_sent w\<rparr>)"
  shows "wp (wake mac interface broadcast) Q E w"
  by (rule wp_mono [OF wake_effect]) (use assms in auto)

lemma wake_db: "wake mac i bc w = (r, w') \<Longrightarrow> w_db w' = w_db w \<and> w_committed w' = w_committed w"
  using wp_wake [where mac = mac and interface = i and broadcast = bc and w = w and
    Q = "\<lambda>_ v. w_db v = w_db w \<and> w_committed v = w_committed w" and
    E = "\<lambda>_ v. w_db v = w_db w \<and> w_committed v = w_committed w"]
  by (auto simp: wp_def split: sum.splits)

lemma keeps_wake:
  assumes "\<And>w ps n. I w \<Longrightarrow> I (w\<lparr>w_tick := n, w_sent := ps @ w_sent w\<rparr>)"
  shows "keeps I (wake mac i bc)"
  unfolding keeps_wp
proof (intro allI impI)
  fix w assume "I w"
  then show "wp (wake mac i bc) (\<lambda>_. I) (\<lambda>_. I) w"
    using assms [of w "[_]"] assms by (intro wp_wake) auto
qed

end

section \<open>EtherwakeStrategy\<close>

definition EtherwakeStrategy_wake :: "env \<Rightarrow> wake_call" where
  "EtherwakeStrategy_wake env mac interface broadcast =
     (let cmd = etherwake_cmd interface mac in
      bind_p (effect (wake_exec env cmd)) (\<lambda>proc.
      case proc of
        ExecRaises e \<Rightarrow> raise_p e
      | ExecDone returncode stderr \<Rightarrow>
          then_p (record_sent (SentCommand cmd))
            (if returncode \<noteq> 0
             then raise_p (RuntimeError (''etherwake failed (rc='' @ show_int returncode @ ''): '' @ strip stderr))
             else return_p ())))"

definition EtherwakeStrategy :: "env \<Rightarrow> WakeStrategyPort" where
  "EtherwakeStrategy env = \<lparr>sp_name = ''etherwake'', sp_wake = EtherwakeStrategy_wake env\<rparr>"

section \<open>UdpBroadcastStrategy\<close>

definition send_udp_packet :: "env \<Rightarrow> byte list \<Rightarrow> string \<Rightarrow> int \<Rightarrow> unit io" where
  "send_udp_packet env packet target port =
     bind_p (effect (udp_send env)) (\<lambda>r.
     case r of
       Some e \<Rightarrow> raise_p e
     | None \<Rightarrow> record_sent (SentDatagram packet target port))"

definition UdpBroadcastStrategy_wake :: "env \<Rightarrow> wake_call" where
  "UdpBroadcastStrategy_wake env mac interface broadcast =
     (let target = str_or broadcast MAGIC_BROADCAST in
      bind_p (lift_p (build_magic_packet mac)) (\<lambda>packet.
        send_udp_packet env packet target MAGIC_PORT))"

definition UdpBroadcastStrategy :: "env \<Rightarrow> WakeStrategyPort" where
  "UdpBroadcastStrategy env = \<lparr>sp_name = ''udp_broadcast'', sp_wake = UdpBroadcastStrategy_wake env\<rparr>"

section \<open>get\_strategy\<close>

definition get_strategy :: "env \<Rightarrow> string \<Rightarrow> exn + WakeStrategyPort" where
  "get_strategy env name =
     (let strategies = [(''etherwake'', EtherwakeStrategy env), (''udp_broadcast'', UdpBroadcastStrategy env)]
      in case map_of strategies name of
           None \<Rightarrow> Inl (ValueError (''Unknown wake strategy: '' @ py_repr name @
                     ''. Choose from ['' @ py_repr ''etherwake'' @ '', '' @ py_repr ''udp_broadcast'' @ '']''))
         | Some s \<Rightarrow> Inr s)"

section \<open>Both strategies keep the contract\<close>

lemmas strategy_defs = EtherwakeStrategy_wake_def UdpBroadcastStrategy_wake_def send_udp_packet_def Let_def

lemma wp_case_exec_result [wp_simps, simp]:
  "wp (case x of ExecRaises e \<Rightarrow> f e | ExecDone c s \<Rightarrow> g c s) Q E w =
   (case x of ExecRaises e \<Rightarrow> wp (f e) Q E w | ExecDone c s \<Rightarrow> wp (g c s) Q E w)"
  by (simp split: exec_result.splits)

lemma keeps_case_exec_result [keeps_intros]:
  "(\<And>e. keeps I (f e)) \<Longrightarrow> (\<And>c s. keeps I (g c s)) \<Longrightarrow>
   keeps I (case x of ExecRaises e \<Rightarrow> f e | ExecDone c s \<Rightarrow> g c s)"
  by (simp split: exec_result.splits)

text \<open>A call that raised sent nothing, or one packet.\<close>

lemma none_sent: "\<exists>n ps. w\<lparr>w_tick := t\<rparr> = w\<lparr>w_tick := n, w_sent := ps @ w_sent w\<rparr> \<and> length ps \<le> 1 \<and> list_all P ps"
  by (rule exI [of _ t], rule exI [of _ "[]"]) simp

lemma one_sent:
  assumes "P p"
  shows "\<exists>n ps. w\<lparr>w_tick := t, w_sent := p # w_sent w\<rparr> = w\<lparr>w_tick := n, w_sent := ps @ w_sent w\<rparr> \<and>
    length ps \<le> 1 \<and> list_all P ps"
  by (rule exI [of _ t], rule exI [of _ "[p]"]) (simp add: assms)

interpretation etherwake: wake_strategy_port "''etherwake''" "EtherwakeStrategy_wake env" "wakes ''etherwake''" for env
proof
  fix mac :: string and interface broadcast :: "string option" and w :: world
  let ?cmd = "SentCommand (etherwake_cmd interface mac)"
  have "wakes ''etherwake'' mac interface broadcast ?cmd" by (simp add: wakes_def)
  then show "wp (EtherwakeStrategy_wake env mac interface broadcast)
      (\<lambda>_ v. \<exists>n p. v = w\<lparr>w_tick := n, w_sent := p # w_sent w\<rparr> \<and> wakes ''etherwake'' mac interface broadcast p)
      (\<lambda>_ v. \<exists>n ps. v = w\<lparr>w_tick := n, w_sent := ps @ w_sent w\<rparr> \<and> length ps \<le> 1 \<and>
         list_all (wakes ''etherwake'' mac interface broadcast) ps) w"
    using none_sent [where w = w and P = "wakes ''etherwake'' mac interface broadcast"]
      one_sent [where w = w and p = ?cmd and P = "wakes ''etherwake'' mac interface broadcast"]
    by (auto simp: strategy_defs split: exec_result.split)
qed simp

interpretation udp: wake_strategy_port "''udp_broadcast''" "UdpBroadcastStrategy_wake env" "wakes ''udp_broadcast''" for env
proof
  fix mac :: string and interface broadcast :: "string option" and w :: world
  let ?W = "wakes ''udp_broadcast'' mac interface broadcast"
  have packet: "?W (SentDatagram packet (str_or broadcast MAGIC_BROADCAST) MAGIC_PORT)" if "build_magic_packet mac = Inr packet" for packet
    using that by (simp add: wakes_def)
  show "wp (UdpBroadcastStrategy_wake env mac interface broadcast)
      (\<lambda>_ v. \<exists>n p. v = w\<lparr>w_tick := n, w_sent := p # w_sent w\<rparr> \<and> ?W p)
      (\<lambda>_ v. \<exists>n ps. v = w\<lparr>w_tick := n, w_sent := ps @ w_sent w\<rparr> \<and> length ps \<le> 1 \<and> list_all ?W ps) w"
    using none_sent [where w = w and P = ?W] none_sent [where w = w and P = ?W and t = "w_tick w"] packet
    by (auto simp: strategy_defs split: option.split sum.split)
qed simp

text \<open>What \<open>get_strategy\<close> returns is a strategy of that name that keeps the contract.\<close>

lemma get_strategy_cases:
  assumes "get_strategy env name = Inr s"
  shows "s = EtherwakeStrategy env \<and> name = ''etherwake'' \<or> s = UdpBroadcastStrategy env \<and> name = ''udp_broadcast''"
  using assms by (auto simp: get_strategy_def Let_def split: if_splits)

lemma get_strategy_port:
  assumes "get_strategy env name = Inr s"
  shows "sp_name s = name \<and> wake_strategy_port name (sp_wake s) (wakes name)"
  using get_strategy_cases [OF assms] etherwake.wake_strategy_port_axioms udp.wake_strategy_port_axioms
  by (auto simp: EtherwakeStrategy_def UdpBroadcastStrategy_def)

lemma get_strategy_known: "(\<exists>s. get_strategy env name = Inr s) \<longleftrightarrow> name \<in> set [''etherwake'', ''udp_broadcast'']"
  by (auto simp: get_strategy_def Let_def)

text \<open>The contract for a service that looked the strategy up.\<close>

lemma wp_strategy:
  assumes s: "get_strategy env name = Inr s"
    and "\<And>n p. wakes name mac i b p \<Longrightarrow> Q () (w\<lparr>w_tick := n, w_sent := p # w_sent w\<rparr>)"
    and "\<And>e n ps. length ps \<le> 1 \<Longrightarrow> list_all (wakes name mac i b) ps \<Longrightarrow> E e (w\<lparr>w_tick := n, w_sent := ps @ w_sent w\<rparr>)"
  shows "wp (sp_wake s mac i b) Q E w"
proof -
  have "wake_strategy_port name (sp_wake s) (wakes name)" using get_strategy_port [OF s] by simp
  from wake_strategy_port.wp_wake [OF this] show ?thesis using assms(2,3) by blast
qed

lemma strategy_keeps:
  assumes s: "get_strategy env name = Inr s"
    and I: "\<And>w ps n. I w \<Longrightarrow> I (w\<lparr>w_tick := n, w_sent := ps @ w_sent w\<rparr>)"
  shows "keeps I (sp_wake s mac i b)"
  unfolding keeps_wp
proof (intro allI impI)
  fix w assume "I w"
  then show "wp (sp_wake s mac i b) (\<lambda>_. I) (\<lambda>_. I) w"
    using I [of w "[_]"] I by (intro wp_strategy [OF s]) auto
qed

section \<open>What is sent\<close>

lemma build_magic_packet_mac_text:
  assumes "length bs = 6" and "sep = CHR '':'' \<or> sep = CHR ''-''"
  shows "build_magic_packet (mac_text sep bs) = Inr (replicate 6 0xff @ List.concat (replicate 16 bs)) \<and>
         length (replicate 6 0xff @ List.concat (replicate 16 bs)) = 102"
proof -
  have "length (upper (hex_bytes bs)) = 12"
    using assms(1) by simp
  then have "build_magic_packet (mac_text sep bs) = Inr (replicate 6 0xff @ List.concat (replicate 16 bs))"
    using fromhex_upper_hex_bytes [of bs] by (simp add: build_magic_packet_def clean_mac_text [OF assms(2)])
  moreover have "length (List.concat (replicate 16 bs)) = 96"
    using assms(1) by (simp add: length_concat sum_list_replicate)
  ultimately show ?thesis by simp
qed

text \<open>
  The magic packet of a six-byte MAC address, written with colons or hyphens as PostgreSQL
  or the user writes it, is six bytes 255 followed by sixteen copies of the address: 102 bytes.
\<close>

theorem magic_packet_of_mac:
  assumes "length bs = 6" and "sep = CHR '':'' \<or> sep = CHR ''-''"
  shows "build_magic_packet (mac_text sep bs) = Inr (replicate 6 0xff @ List.concat (replicate 16 bs)) \<and>
         length (replicate 6 0xff @ List.concat (replicate 16 bs)) = 102"
  by (rule build_magic_packet_mac_text [OF assms])

theorem magic_packet_of_mac_witness:
  "build_magic_packet ''00:11:22:aa:bb:ff'' =
   Inr (replicate 6 0xff @ List.concat (replicate 16 [0x00, 0x11, 0x22, 0xaa, 0xbb, 0xff]))"
proof -
  have "mac_text CHR '':'' [0x00, 0x11, 0x22, 0xaa, 0xbb, 0xff] = ''00:11:22:aa:bb:ff''"
    by code_simp
  with magic_packet_of_mac [of "[0x00, 0x11, 0x22, 0xaa, 0xbb, 0xff]" "CHR '':''"] show ?thesis by simp
qed

end
