(* ===== verification/ApiMachines.thy ===== *)
theory ApiMachines
  imports ApiAuth WakeStrategies
begin

text \<open>
  \<open>app/api/machines.py\<close>: the schemas of a machine with their validators, and the five endpoints.
  The lemmas say what a validated body contains, and that what is created is what is read back.
\<close>

section \<open>Validators\<close>

definition is_hex_digit :: "char \<Rightarrow> bool" where
  "is_hex_digit c = (case digit_val c of None \<Rightarrow> False | Some d \<Rightarrow> d < 16)"

text \<open>
  \<open>_MAC_RE\<close>: \<open>^([0-9a-fA-F]{2}:){5}[0-9a-fA-F]{2}$\<close>, with \<open>n\<close> groups; as \<open>re.match\<close> reads it,
  \<open>$\<close> also matches before a final line feed.
\<close>

fun mac_groups :: "nat \<Rightarrow> string \<Rightarrow> bool" where
  "mac_groups 0 s = (case s of [a, b] \<Rightarrow> is_hex_digit a \<and> is_hex_digit b
                           | [a, b, c] \<Rightarrow> is_hex_digit a \<and> is_hex_digit b \<and> c = CHR 0x0A
                           | _ \<Rightarrow> False)"
| "mac_groups (Suc n) s = (case s of a # b # c # r \<Rightarrow>
       is_hex_digit a \<and> is_hex_digit b \<and> c = CHR '':'' \<and> mac_groups n r | _ \<Rightarrow> False)"

definition validate_mac :: "string \<Rightarrow> string option" where
  "validate_mac v = (if \<not> mac_groups 5 v then None else Some (lower v))"

definition validate_ip :: "string \<Rightarrow> string option" where
  "validate_ip v = (if ip_address_ok v then Some v else None)"

section \<open>Schemas\<close>

text \<open>
  \<open>MachineCreate\<close> and \<open>MachineUpdate\<close> with the types of their fields; \<open>model_dump\<close> of a valid
  body gives the values the validators returned.
\<close>

record MachineCreate =
  mc_name :: string
  mc_ip_address :: string
  mc_mac_address :: string
  mc_ssh_port :: int
  mc_hostname :: "string option"
  mc_wake_interface :: "string option"
  mc_wake_strategy :: WakeStrategy
  mc_broadcast_address :: "string option"
  mc_enabled :: bool

record MachineUpdate =
  mu_name :: "string option"
  mu_ip_address :: "string option"
  mu_mac_address :: "string option"
  mu_ssh_port :: "int option"
  mu_hostname :: "string option"
  mu_wake_interface :: "string option"
  mu_wake_strategy :: "WakeStrategy option"
  mu_broadcast_address :: "string option"
  mu_enabled :: "bool option"

definition opt_ok :: "('a \<Rightarrow> bool) \<Rightarrow> 'a option \<Rightarrow> bool" where
  "opt_ok P x = (case x of None \<Rightarrow> True | Some v \<Rightarrow> P v)"

definition machine_create_dump :: "MachineCreate \<Rightarrow> MachineFields option" where
  "machine_create_dump b =
     (if \<not> (len_between 1 255 (mc_name b) \<and> len_between 7 45 (mc_ip_address b) \<and>
             len_between 17 17 (mc_mac_address b) \<and> 1 \<le> mc_ssh_port b \<and> mc_ssh_port b \<le> 65535 \<and>
             opt_ok (len_between 0 253) (mc_hostname b) \<and> opt_ok (len_between 0 32) (mc_wake_interface b) \<and>
             opt_ok (len_between 0 45) (mc_broadcast_address b)) then None
      else case (validate_mac (mc_mac_address b), validate_ip (mc_ip_address b),
                 case mc_broadcast_address b of None \<Rightarrow> Some None | Some v \<Rightarrow> map_option Some (validate_ip v)) of
             (Some mac, Some ip, Some broadcast) \<Rightarrow>
               Some \<lparr>f_name = mc_name b, f_ip_address = ip, f_mac_address = mac, f_ssh_port = mc_ssh_port b,
                     f_hostname = mc_hostname b, f_wake_interface = mc_wake_interface b,
                     f_wake_strategy = WakeStrategy_value (mc_wake_strategy b),
                     f_broadcast_address = broadcast, f_enabled = mc_enabled b\<rparr>
           | _ \<Rightarrow> None)"

definition machine_update_ok :: "MachineUpdate \<Rightarrow> bool" where
  "machine_update_ok b \<longleftrightarrow>
     opt_ok (len_between 1 255) (mu_name b) \<and> opt_ok (len_between 7 45) (mu_ip_address b) \<and>
     opt_ok (len_between 17 17) (mu_mac_address b) \<and> opt_ok (\<lambda>p. 1 \<le> p \<and> p \<le> 65535) (mu_ssh_port b)"

text \<open>\<open>{k: v for k, v in body.model_dump().items() if v is not None}\<close>.\<close>

definition kwarg :: "('a \<Rightarrow> machine_kwarg) \<Rightarrow> 'a option \<Rightarrow> machine_kwarg list" where
  "kwarg K x = (case x of None \<Rightarrow> [] | Some v \<Rightarrow> [K v])"

definition machine_updates :: "MachineUpdate \<Rightarrow> machine_kwarg list" where
  "machine_updates b =
     kwarg KName (mu_name b) @ kwarg KIpAddress (mu_ip_address b) @ kwarg KMacAddress (mu_mac_address b) @
     kwarg KSshPort (mu_ssh_port b) @ kwarg (\<lambda>v. KHostname (Some v)) (mu_hostname b) @
     kwarg (\<lambda>v. KWakeInterface (Some v)) (mu_wake_interface b) @
     kwarg (\<lambda>v. KWakeStrategy (WakeStrategy_value v)) (mu_wake_strategy b) @
     kwarg (\<lambda>v. KBroadcastAddress (Some v)) (mu_broadcast_address b) @ kwarg KEnabled (mu_enabled b)"

record MachineResponse =
  mr_id :: string
  mr_name :: string
  mr_ip_address :: string
  mr_mac_address :: string
  mr_ssh_port :: int
  mr_hostname :: "string option"
  mr_wake_interface :: "string option"
  mr_wake_strategy :: string
  mr_broadcast_address :: "string option"
  mr_enabled :: bool
  mr_created_at :: string
  mr_updated_at :: string

definition to_response :: "MachineRecord \<Rightarrow> MachineResponse" where
  "to_response r =
     \<lparr>mr_id = m_id r, mr_name = m_name r, mr_ip_address = m_ip_address r, mr_mac_address = m_mac_address r,
      mr_ssh_port = m_ssh_port r, mr_hostname = m_hostname r, mr_wake_interface = m_wake_interface r,
      mr_wake_strategy = m_wake_strategy r, mr_broadcast_address = m_broadcast_address r,
      mr_enabled = m_enabled r, mr_created_at = isoformat (m_created_at r),
      mr_updated_at = isoformat (m_updated_at r)\<rparr>"

section \<open>Endpoints\<close>

definition machine_not_found :: exn where
  "machine_not_found = HTTPException 404 ''Machine not found''"

definition found_response :: "MachineRecord option \<Rightarrow> MachineResponse io" where
  "found_response r = (case r of None \<Rightarrow> raise_p machine_not_found | Some r \<Rightarrow> return_p (to_response r))"

definition list_machines :: "env \<Rightarrow> request \<Rightarrow> bool \<Rightarrow> MachineResponse list io" where
  "list_machines env rq enabled_only =
     then_p (get_user_from_session_or_token env rq)
       (bind_p (machine_list_all enabled_only) (\<lambda>records. return_p (map to_response records)))"

definition create_machine :: "env \<Rightarrow> request \<Rightarrow> MachineCreate \<Rightarrow> MachineResponse io" where
  "create_machine env rq body =
     then_p (csrf_protected_user env rq)
       (case machine_create_dump body of
          None \<Rightarrow> raise_p ValidationError
        | Some dump \<Rightarrow>
            bind_p (machine_create env dump) (\<lambda>record. return_p (to_response record)))"

definition get_machine :: "env \<Rightarrow> request \<Rightarrow> string \<Rightarrow> MachineResponse io" where
  "get_machine env rq machine_id =
     then_p (get_user_from_session_or_token env rq)
       (bind_p (machine_get_by_id env machine_id) found_response)"

definition patch_machine :: "env \<Rightarrow> request \<Rightarrow> string \<Rightarrow> MachineUpdate \<Rightarrow> MachineResponse io" where
  "patch_machine env rq machine_id body =
     then_p (csrf_protected_user env rq)
       (with_body (machine_update_ok body)
         (let updates = machine_updates body in
          if updates = [] then bind_p (machine_get_by_id env machine_id) found_response
          else bind_p (machine_update env machine_id updates) found_response))"

definition delete_machine :: "env \<Rightarrow> request \<Rightarrow> string \<Rightarrow> unit io" where
  "delete_machine env rq machine_id =
     then_p (csrf_protected_user env rq)
       (bind_p (machine_delete env machine_id) (\<lambda>deleted.
          if \<not> deleted then raise_p machine_not_found else return_p ()))"

lemmas machine_api_defs = list_machines_def create_machine_def get_machine_def patch_machine_def
  delete_machine_def found_response_def

lemma machine_api_wf [wf_intros]:
  "keeps wf_world (list_machines env rq b)" "keeps wf_world (create_machine env rq mc)"
  "keeps wf_world (get_machine env rq i)" "keeps wf_world (patch_machine env rq i mu)"
  "keeps wf_world (delete_machine env rq i)"
  unfolding machine_api_defs Let_def by (intro keeps_intros wf_intros)+

lemma machine_api_session_free:
  assumes I: "session_free I"
  shows "keeps I (list_machines env rq b)" "keeps I (create_machine env rq mc)"
    "keeps I (get_machine env rq i)" "keeps I (patch_machine env rq i mu)" "keeps I (delete_machine env rq i)"
  unfolding machine_api_defs Let_def
  by (intro keeps_intros repo_session_free [OF I] dependency_session_free [OF I] csrf_protected_user_keeps [OF I])+

section \<open>A validated MAC address\<close>

lemma of_char_inject: "(of_char c :: nat) = of_char d \<Longrightarrow> c = d"
  by (metis char_of_char)

lemma lower_hex_digit:
  assumes "digit_val c = Some d" "d < 16"
  shows "to_lower c = hex_digit d"
proof (rule of_char_inject)
  have "of_char (hex_digit d) = (if d < 10 then 48 + d else 87 + d)"
    using code_hex_digit [OF assms(2)] by simp
  then show "of_char (to_lower c) = (of_char (hex_digit d) :: nat)"
    using assms by (auto simp: digit_val_def to_lower_def Let_def split: if_splits)
qed

lemma hex_pair:
  assumes "is_hex_digit a" "is_hex_digit b"
  shows "\<exists>x. [to_lower a, to_lower b] = hex_byte x"
proof -
  from assms obtain h l where h: "digit_val a = Some h" "h < 16" and l: "digit_val b = Some l" "l < 16"
    by (auto simp: is_hex_digit_def split: option.splits)
  have "16 * h + l < 2 ^ LENGTH(8)" using h(2) l(2) by simp
  then have "unat (word_of_nat (16 * h + l) :: byte) = 16 * h + l"
    by (simp only: unsigned_of_nat of_nat_id take_bit_nat_eq_self)
  then have "hex_byte (word_of_nat (16 * h + l)) = [to_lower a, to_lower b]"
    using h l by (simp add: hex_byte_def lower_hex_digit)
  then show ?thesis by metis
qed

lemma mac_groups_text:
  "mac_groups n v \<Longrightarrow> length v = 3 * n + 2 \<Longrightarrow> \<exists>bs. length bs = Suc n \<and> lower v = mac_text CHR '':'' bs"
proof (induction n v rule: mac_groups.induct)
  case (1 v)
  then obtain a b where v: "v = [a, b]" "is_hex_digit a" "is_hex_digit b"
    by (auto simp: length_Suc_conv numeral_eq_Suc)
  from hex_pair [OF v(2,3)] obtain x where "[to_lower a, to_lower b] = hex_byte x" by blast
  then have "lower v = mac_text CHR '':'' [x]" by (simp add: v(1) lower_def mac_text_def)
  then show ?case by (metis length_Cons list.size(3))
next
  case (2 n v)
  then obtain a b r where v: "v = a # b # CHR '':'' # r" "is_hex_digit a" "is_hex_digit b" "mac_groups n r"
    by (auto split: list.splits)
  with 2 have "\<exists>bs. length bs = Suc n \<and> lower r = mac_text CHR '':'' bs" by simp
  then obtain bs where bs: "length bs = Suc n" "lower r = mac_text CHR '':'' bs" by blast
  from hex_pair [OF v(2,3)] obtain x where x: "[to_lower a, to_lower b] = hex_byte x" by blast
  have "map hex_byte bs \<noteq> []" using bs(1) by auto
  then have "lower v = mac_text CHR '':'' (x # bs)"
    using x bs(2) by (simp add: v(1) lower_def mac_text_def join_on_Cons to_lower_def flip: x)
  with bs(1) show ?case by (intro exI [of _ "x # bs"]) simp
qed

lemma mac_groups_5: "mac_groups 5 = mac_groups (Suc (Suc (Suc (Suc (Suc 0)))))"
  by (simp add: numeral_eq_Suc)

text \<open>
  C33. A MAC address that the validator accepts, at the length the schema demands, is stored in
  lower case with colons, names six bytes, and always makes a magic packet: the packet of those
  six bytes. So a machine created through the API is never refused for its address when woken.
\<close>

theorem validated_mac_wakes:
  assumes "length v = 17" and "validate_mac v = Some m"
  shows "\<exists>bs. length bs = 6 \<and> m = mac_text CHR '':'' bs \<and>
           build_magic_packet m = Inr (replicate 6 0xff @ List.concat (replicate 16 bs))"
proof -
  from assms have "mac_groups 5 v" "m = lower v" by (auto simp: validate_mac_def split: if_splits)
  with mac_groups_text [of 5 v] assms(1) obtain bs where bs: "length bs = 6" "m = mac_text CHR '':'' bs"
    by auto
  then show ?thesis using build_magic_packet_mac_text [OF bs(1)] by auto
qed

theorem validated_mac_wakes_witness:
  "\<exists>bs. length bs = 6 \<and> ''00:11:22:aa:bb:ff'' = mac_text CHR '':'' bs \<and>
     build_magic_packet ''00:11:22:aa:bb:ff'' = Inr (replicate 6 0xff @ List.concat (replicate 16 bs))"
  by (rule validated_mac_wakes [of "''00:11:22:aa:bb:ff''"])
     (simp_all add: validate_mac_def is_hex_digit_def digit_val_def mac_groups_5 lower_def to_lower_def)

end
