(* ===== verification/JobQueue.thy ===== *)
theory JobQueue
  imports Repositories Example
begin

text \<open>
  \<open>worker/job_queue.py\<close>: the queue of wake jobs in the table \<open>wake_jobs\<close>. Each operation opens
  a session of its own and commits it, so it changes what is committed and what other sessions
  see of the table. The second half is the concurrent queue: any number of workers that lock,
  claim and finish jobs in any interleaving, as a step relation; its invariant is that no job
  is ever held by two workers.
\<close>

section \<open>The operations\<close>

text \<open>
  A change of the jobs by another session: of what is committed, and of what the current session
  sees, which under \<open>READ COMMITTED\<close> is the same as long as it changed no job itself.
\<close>

definition own_session :: "(WakeJob list \<Rightarrow> WakeJob list) \<Rightarrow> unit io" where
  "own_session f = modify_p (\<lambda>w. w\<lparr>w_committed := (w_committed w)\<lparr>jobs := f (jobs (w_committed w))\<rparr>,
                                   w_db := (w_db w)\<lparr>jobs := f (jobs (w_db w))\<rparr>\<rparr>)"

text \<open>The oldest queued job that no other transaction has locked.\<close>

definition next_queued :: "(string \<Rightarrow> bool) \<Rightarrow> WakeJob list \<Rightarrow> WakeJob option" where
  "next_queued locked rows =
     (case take 1 (order_asc j_created_at (filter (\<lambda>j. j_status j = ''queued'' \<and> \<not> locked (j_id j)) rows)) of
        [] \<Rightarrow> None
      | j # _ \<Rightarrow> Some j)"

definition claim_row :: "datetime \<Rightarrow> WakeJob \<Rightarrow> WakeJob" where
  "claim_row t r = r\<lparr>j_status := ''running'', j_claimed_at := Some t\<rparr>"

definition done_row :: "WakeJob \<Rightarrow> WakeJob" where
  "done_row r = r\<lparr>j_status := ''done''\<rparr>"

definition error_row :: "string \<Rightarrow> WakeJob \<Rightarrow> WakeJob" where
  "error_row error r = r\<lparr>j_status := ''error'', j_payload := [(''error'', JStr error)]\<rparr>"

definition claim_next :: "env \<Rightarrow> (string \<times> dict) option io" where
  "claim_next env =
     bind_p (gets_p (\<lambda>w. next_queued (\<lambda>_. False) (jobs (w_committed w)))) (\<lambda>row.
     case row of
       None \<Rightarrow> return_p None
     | Some row \<Rightarrow>
         bind_p (now env) (\<lambda>t.
         then_p (own_session (update_rows j_id (j_id row) (claim_row t)))
           (return_p (Some (j_id row, j_payload row)))))"

definition mark_done :: "env \<Rightarrow> string \<Rightarrow> unit io" where
  "mark_done env job_id =
     bind_p (lift_p (uuid_param env job_id)) (\<lambda>k.
       own_session (update_rows j_id k done_row))"

definition mark_error :: "env \<Rightarrow> string \<Rightarrow> string \<Rightarrow> unit io" where
  "mark_error env job_id error =
     bind_p (lift_p (uuid_param env job_id)) (\<lambda>k.
       own_session (update_rows j_id k (error_row error)))"

definition enqueue :: "env \<Rightarrow> string \<Rightarrow> string \<Rightarrow> string \<Rightarrow> dict \<Rightarrow> string io" where
  "enqueue env machine_id attempt_id job_type payload =
     bind_p (effect (uuid4 env)) (\<lambda>i.
     bind_p (now env) (\<lambda>t.
     bind_p (gets_p (\<lambda>w. insert_job env
        \<lparr>j_id = i, j_machine_id = machine_id, j_attempt_id = attempt_id, j_job_type = job_type,
         j_status = ''queued'', j_payload = payload, j_claimed_at = None, j_created_at = t\<rparr>
        (w_committed w))) (\<lambda>r.
     bind_p (lift_p r) (\<lambda>(job, _).
     then_p (own_session (\<lambda>rows. rows @ [job])) (return_p (j_id job))))))"

lemma wp_own_session [wp_simps, simp]:
  "wp (own_session f) Q E w =
   Q () (w\<lparr>w_committed := (w_committed w)\<lparr>jobs := f (jobs (w_committed w))\<rparr>,
           w_db := (w_db w)\<lparr>jobs := f (jobs (w_db w))\<rparr>\<rparr>)"
  by (simp add: own_session_def)

lemma run_own_session [simp]:
  "own_session f w =
   (Inr (), w\<lparr>w_committed := (w_committed w)\<lparr>jobs := f (jobs (w_committed w))\<rparr>,
              w_db := (w_db w)\<lparr>jobs := f (jobs (w_db w))\<rparr>\<rparr>)"
  by (simp add: own_session_def)

lemma row_simps [simp]:
  "j_id (claim_row t r) = j_id r" "j_id (done_row r) = j_id r" "j_id (error_row e r) = j_id r"
  "j_attempt_id (claim_row t r) = j_attempt_id r" "j_attempt_id (done_row r) = j_attempt_id r"
  "j_attempt_id (error_row e r) = j_attempt_id r"
  "j_machine_id (claim_row t r) = j_machine_id r" "j_machine_id (done_row r) = j_machine_id r"
  "j_machine_id (error_row e r) = j_machine_id r"
  "j_job_type (claim_row t r) = j_job_type r" "j_job_type (done_row r) = j_job_type r"
  "j_job_type (error_row e r) = j_job_type r"
  "j_status (claim_row t r) = ''running''" "j_status (done_row r) = ''done''"
  "j_status (error_row e r) = ''error''" "j_created_at (claim_row t r) = j_created_at r"
  by (simp_all add: claim_row_def done_row_def error_row_def)

interpretation claim_rows: row_change j_id "claim_row t" for t
  by unfold_locales simp

interpretation done_rows: row_change j_id done_row
  by unfold_locales simp

interpretation error_rows: row_change j_id "error_row e" for e
  by unfold_locales simp

lemma wf_db_update_job:
  assumes wf: "wf_db d" and f: "\<And>j. j_id (f j) = j_id j" "\<And>j. j_attempt_id (f j) = j_attempt_id j"
    "\<And>j. j_machine_id (f j) = j_machine_id j" "\<And>j. j_job_type (f j) = j_job_type j"
    "\<And>j. j_status (f j) \<in> set job_statuses"
  shows "wf_db (d\<lparr>jobs := update_rows j_id k f (jobs d)\<rparr>)"
proof (rule wf_db_grow [OF wf])
  have "map j_id (update_rows j_id k f (jobs d)) = map j_id (jobs d)"
    "map j_attempt_id (update_rows j_id k f (jobs d)) = map j_attempt_id (jobs d)"
    by (rule map_update_rows_frame, rule f)+
  moreover have "\<forall>j \<in> set (update_rows j_id k f (jobs d)). j_status j \<in> set job_statuses \<and> j_job_type j \<in> set job_types \<and>
      j_machine_id j \<in> m_id ` set (machines d) \<and> j_attempt_id j \<in> wa_id ` set (attempts d)"
    using wf unfolding wf_db_def wf_jobs_def
    by (intro ball_update_rows) (simp_all add: f)
  ultimately show "jobs (d\<lparr>jobs := update_rows j_id k f (jobs d)\<rparr>) = jobs d \<or>
      wf_jobs (d\<lparr>jobs := update_rows j_id k f (jobs d)\<rparr>)"
    using wf by (simp add: wf_db_def wf_jobs_def)
qed simp_all

lemma keeps_wf_own_session [wf_intros]:
  "keeps wf_world (own_session (update_rows j_id k (claim_row t)))"
  "keeps wf_world (own_session (update_rows j_id k done_row))"
  "keeps wf_world (own_session (update_rows j_id k (error_row e)))"
  by (auto simp: keeps_def own_session_def wf_world_def job_statuses_def intro!: wf_db_update_job)

lemma queue_wf [wf_intros]:
  "keeps wf_world (claim_next env)" "keeps wf_world (mark_done env i)" "keeps wf_world (mark_error env i e)"
  unfolding claim_next_def mark_done_def mark_error_def
  by (intro keeps_intros wf_intros)+

section \<open>The oldest job\<close>

lemma next_queued_cases:
  "next_queued locked rows =
     (case sort_key j_created_at (filter (\<lambda>j. j_status j = ''queued'' \<and> \<not> locked (j_id j)) rows) of
        [] \<Rightarrow> None | j # _ \<Rightarrow> Some j)"
  by (cases "sort_key j_created_at (filter (\<lambda>j. j_status j = ''queued'' \<and> \<not> locked (j_id j)) rows)")
     (simp_all add: next_queued_def order_asc_def)

definition waiting :: "(string \<Rightarrow> bool) \<Rightarrow> WakeJob \<Rightarrow> bool" where
  "waiting locked j \<longleftrightarrow> j_status j = ''queued'' \<and> \<not> locked (j_id j)"

text \<open>Nothing waits; and: this job waits, and none that waits is older.\<close>

definition none_waiting :: "(string \<Rightarrow> bool) \<Rightarrow> WakeJob list \<Rightarrow> bool" where
  "none_waiting locked rows \<longleftrightarrow> (\<forall>j \<in> set rows. \<not> waiting locked j)"

definition oldest_waiting :: "(string \<Rightarrow> bool) \<Rightarrow> WakeJob list \<Rightarrow> WakeJob \<Rightarrow> bool" where
  "oldest_waiting locked rows j \<longleftrightarrow> j \<in> set rows \<and> waiting locked j \<and>
     (\<forall>i \<in> set rows. waiting locked i \<longrightarrow> j_created_at j \<le> j_created_at i)"

lemma hd_option:
  "(case xs of [] \<Rightarrow> None | x # _ \<Rightarrow> Some x) = None \<longleftrightarrow> xs = []"
  "(case xs of [] \<Rightarrow> None | x # _ \<Rightarrow> Some x) = Some y \<longleftrightarrow> (\<exists>ys. xs = y # ys)"
  by (cases xs; simp)+

lemma next_queued_NoneD: "next_queued locked rows = None \<Longrightarrow> none_waiting locked rows"
proof -
  let ?fs = "filter (\<lambda>j. j_status j = ''queued'' \<and> \<not> locked (j_id j)) rows"
  assume "next_queued locked rows = None"
  then have "sort_key j_created_at ?fs = []" unfolding next_queued_cases hd_option .
  then have "set (sort_key j_created_at ?fs) = {}" by (simp only: list.set)
  then have "set ?fs = {}" unfolding set_sort .
  then show ?thesis by (auto simp: none_waiting_def waiting_def)
qed

lemma next_queued_SomeD: "next_queued locked rows = Some j \<Longrightarrow> oldest_waiting locked rows j"
proof -
  let ?fs = "filter (\<lambda>j. j_status j = ''queued'' \<and> \<not> locked (j_id j)) rows"
  assume "next_queued locked rows = Some j"
  then have "\<exists>js. sort_key j_created_at ?fs = j # js" unfolding next_queued_cases hd_option .
  then obtain js where js: "sort_key j_created_at ?fs = j # js" by blast
  have set: "set (j # js) = set ?fs" unfolding js [symmetric] by (rule set_sort)
  have sorted: "sorted (map j_created_at (j # js))" unfolding js [symmetric] by (rule sorted_sort_key)
  have least: "j_created_at j \<le> j_created_at i" if "i \<in> set rows" "waiting locked i" for i
  proof -
    have "i \<in> set (j # js)" unfolding set using that by (simp add: waiting_def)
    with sorted show ?thesis by auto
  qed
  have "j \<in> set (j # js)" by simp
  then have "j \<in> set ?fs" unfolding set .
  then have "j \<in> set rows \<and> waiting locked j" by (simp add: waiting_def)
  with least show ?thesis unfolding oldest_waiting_def by blast
qed

definition claimed :: "world \<Rightarrow> (string \<times> dict) option \<Rightarrow> world \<Rightarrow> bool" where
  "claimed w r v \<longleftrightarrow> (case r of
     None \<Rightarrow> v = w \<and> none_waiting (\<lambda>_. False) (jobs (w_committed w))
   | Some (i, payload) \<Rightarrow>
       (\<exists>j t. oldest_waiting (\<lambda>_. False) (jobs (w_committed w)) j \<and> i = j_id j \<and> payload = j_payload j \<and>
          w_committed v = (w_committed w)\<lparr>jobs := update_rows j_id i (claim_row t) (jobs (w_committed w))\<rparr>))"

lemma wp_claim_next:
  assumes "none_waiting (\<lambda>_. False) (jobs (w_committed w)) \<Longrightarrow> Q None w"
    and "\<And>j t. oldest_waiting (\<lambda>_. False) (jobs (w_committed w)) j \<Longrightarrow>
      Q (Some (j_id j, j_payload j)) (w\<lparr>w_tick := Suc (w_tick w),
        w_committed := (w_committed w)\<lparr>jobs := update_rows j_id (j_id j) (claim_row t) (jobs (w_committed w))\<rparr>,
        w_db := (w_db w)\<lparr>jobs := update_rows j_id (j_id j) (claim_row t) (jobs (w_db w))\<rparr>\<rparr>)"
  shows "wp (claim_next env) Q E w"
proof (cases "next_queued (\<lambda>_. False) (jobs (w_committed w))")
  case None
  with assms(1) next_queued_NoneD [OF None] show ?thesis by (simp add: claim_next_def)
next
  case (Some j)
  with assms(2) [OF next_queued_SomeD [OF Some]] show ?thesis by (simp add: claim_next_def)
qed

lemma run_claim_next:
  "next_queued (\<lambda>_. False) (jobs (w_committed w)) = Some j \<Longrightarrow>
   claim_next env w = (Inr (Some (j_id j, j_payload j)),
     w\<lparr>w_tick := Suc (w_tick w),
       w_committed := (w_committed w)\<lparr>jobs := update_rows j_id (j_id j)
         (claim_row (clock env (w_tick w) + w_slept w)) (jobs (w_committed w))\<rparr>,
       w_db := (w_db w)\<lparr>jobs := update_rows j_id (j_id j)
         (claim_row (clock env (w_tick w) + w_slept w)) (jobs (w_db w))\<rparr>\<rparr>)"
  by (simp add: claim_next_def)

text \<open>
  \<open>claim_next\<close> takes the oldest queued job: it returns its id and payload and marks it, and
  no other, as running; it returns nothing exactly when no job is queued, and then changes
  nothing. It never raises.
\<close>

theorem claim_next_oldest: "wp (claim_next env) (claimed w) (\<lambda>_ _. False) w"
  by (rule wp_claim_next) (auto simp: claimed_def)

section \<open>Statuses of a job\<close>

definition job_transition :: "string \<Rightarrow> string \<Rightarrow> bool" where
  "job_transition s t \<longleftrightarrow> (s, t) \<in> set [(''queued'', ''running''), (''running'', ''done''), (''running'', ''error'')]"

definition job_rank :: "string \<Rightarrow> nat" where
  "job_rank s = (if s = ''queued'' then 2 else if s = ''running'' then 1 else 0)"

definition job_finished :: "string \<Rightarrow> bool" where
  "job_finished s \<longleftrightarrow> s \<notin> set [''queued'', ''running'']"

interpretation job: status_machine job_transition job_finished job_rank
proof
  show "job_transition a b \<Longrightarrow> job_rank b < job_rank a" for a b
    by (auto simp: job_transition_def job_rank_def)
  show "job_finished a \<longleftrightarrow> (\<forall>b. \<not> job_transition a b)" for a
    by (auto simp: job_transition_def job_finished_def)
qed

section \<open>Concurrent workers\<close>

text \<open>
  The committed table and what each worker is doing: nothing; inside the transaction of
  \<open>claim_next\<close>, which holds the row lock that \<open>FOR UPDATE SKIP LOCKED\<close> took; or processing the
  job it claimed. A worker that dies in its transaction is rolled back and its lock is gone; one
  that dies while processing leaves its job as it is.
\<close>

datatype phase = Idle | Locked string | Working string

record queue_state =
  q_jobs :: "WakeJob list"
  q_workers :: "phase list"

definition locked_in :: "phase list \<Rightarrow> string \<Rightarrow> bool" where
  "locked_in ps i \<longleftrightarrow> Locked i \<in> set ps"

inductive queue_step :: "queue_state \<Rightarrow> queue_state \<Rightarrow> bool" where
  enqueue: "j_id j \<notin> j_id ` set (q_jobs s) \<Longrightarrow> j_status j = ''queued'' \<Longrightarrow>
     queue_step s (s\<lparr>q_jobs := q_jobs s @ [j]\<rparr>)"
| lock: "n < length (q_workers s) \<Longrightarrow> q_workers s ! n = Idle \<Longrightarrow>
     next_queued (locked_in (q_workers s)) (q_jobs s) = Some j \<Longrightarrow>
     queue_step s (s\<lparr>q_workers := (q_workers s)[n := Locked (j_id j)]\<rparr>)"
| commit_claim: "n < length (q_workers s) \<Longrightarrow> q_workers s ! n = Locked i \<Longrightarrow>
     queue_step s (s\<lparr>q_jobs := update_rows j_id i (claim_row t) (q_jobs s),
                     q_workers := (q_workers s)[n := Working i]\<rparr>)"
| finish: "n < length (q_workers s) \<Longrightarrow> q_workers s ! n = Working i \<Longrightarrow> f = done_row \<or> f = error_row e \<Longrightarrow>
     queue_step s (s\<lparr>q_jobs := update_rows j_id i f (q_jobs s), q_workers := (q_workers s)[n := Idle]\<rparr>)"
| die: "n < length (q_workers s) \<Longrightarrow>
     queue_step s (s\<lparr>q_workers := (q_workers s)[n := Idle]\<rparr>)"

inductive queue_reachable :: "nat \<Rightarrow> queue_state \<Rightarrow> bool" for k :: nat where
  start: "queue_reachable k \<lparr>q_jobs = [], q_workers = replicate k Idle\<rparr>"
| step: "queue_reachable k s \<Longrightarrow> queue_step s s' \<Longrightarrow> queue_reachable k s'"

fun holds :: "phase \<Rightarrow> string option" where
  "holds Idle = None"
| "holds (Locked i) = Some i"
| "holds (Working i) = Some i"

definition status_of :: "WakeJob list \<Rightarrow> string \<Rightarrow> string option" where
  "status_of rows i = map_option j_status (find_row j_id i rows)"

definition queue_inv :: "queue_state \<Rightarrow> bool" where
  "queue_inv s \<longleftrightarrow> distinct (map j_id (q_jobs s)) \<and>
     (\<forall>m n i. m < length (q_workers s) \<longrightarrow> n < length (q_workers s) \<longrightarrow>
        holds (q_workers s ! m) = Some i \<longrightarrow> holds (q_workers s ! n) = Some i \<longrightarrow> m = n) \<and>
     (\<forall>n i. n < length (q_workers s) \<longrightarrow> q_workers s ! n = Locked i \<longrightarrow> status_of (q_jobs s) i = Some ''queued'') \<and>
     (\<forall>n i. n < length (q_workers s) \<longrightarrow> q_workers s ! n = Working i \<longrightarrow> status_of (q_jobs s) i = Some ''running'')"

definition held_by :: "queue_state \<Rightarrow> nat \<Rightarrow> string \<Rightarrow> bool" where
  "held_by s n i \<longleftrightarrow> n < length (q_workers s) \<and> holds (q_workers s ! n) = Some i"

inductive_cases queue_step_elim: "queue_step s s'"

lemma queue_invI:
  assumes "distinct (map j_id (q_jobs s))"
    and "\<And>m n i. held_by s m i \<Longrightarrow> held_by s n i \<Longrightarrow> m = n"
    and "\<And>n i. n < length (q_workers s) \<Longrightarrow> q_workers s ! n = Locked i \<Longrightarrow> status_of (q_jobs s) i = Some ''queued''"
    and "\<And>n i. n < length (q_workers s) \<Longrightarrow> q_workers s ! n = Working i \<Longrightarrow> status_of (q_jobs s) i = Some ''running''"
  shows "queue_inv s"
  using assms unfolding queue_inv_def held_by_def by blast

lemma queue_invD:
  assumes "queue_inv s"
  shows "distinct (map j_id (q_jobs s))"
    and "held_by s m i \<Longrightarrow> held_by s n i \<Longrightarrow> m = n"
    and "n < length (q_workers s) \<Longrightarrow> q_workers s ! n = Locked i \<Longrightarrow> status_of (q_jobs s) i = Some ''queued''"
    and "n < length (q_workers s) \<Longrightarrow> q_workers s ! n = Working i \<Longrightarrow> status_of (q_jobs s) i = Some ''running''"
  using assms unfolding queue_inv_def held_by_def by blast+

text \<open>What a change of one job does to the statuses.\<close>

lemma status_of_update:
  assumes "\<And>j. j_id (f j) = j_id j" "\<And>j. j_status (f j) = st"
  shows "status_of (update_rows j_id i f rows) k =
     (if k = i then map_option (\<lambda>_. st) (status_of rows k) else status_of rows k)"
proof -
  have "find_row j_id k (update_rows j_id i f rows) =
      (if k = i then map_option f (find_row j_id k rows) else find_row j_id k rows)"
    by (induction rows) (auto simp: assms(1))
  then show ?thesis
    by (simp add: status_of_def option.map_comp comp_def assms(2))
qed

lemma status_of_append: "status_of rows i = Some st \<Longrightarrow> status_of (rows @ [j]) i = Some st"
  by (auto simp: status_of_def find_row_append)

lemma status_of_SomeD:
  "oldest_waiting locked rows j \<Longrightarrow> distinct (map j_id rows) \<Longrightarrow> status_of rows (j_id j) = Some ''queued''"
  by (auto simp: oldest_waiting_def waiting_def status_of_def find_row_distinct)

lemma held_by_update:
  "held_by (s\<lparr>q_jobs := js, q_workers := (q_workers s)[n := p]\<rparr>) m i \<longleftrightarrow>
   m < length (q_workers s) \<and> (if m = n then holds p = Some i else held_by s m i)"
  by (auto simp: held_by_def nth_list_update)

lemma held_by_phase:
  "held_by (s\<lparr>q_workers := (q_workers s)[n := p]\<rparr>) m i \<longleftrightarrow>
   m < length (q_workers s) \<and> (if m = n then holds p = Some i else held_by s m i)"
  by (auto simp: held_by_def nth_list_update)

lemma phase_held: "n < length (q_workers s) \<Longrightarrow> q_workers s ! n = p \<Longrightarrow> holds p = Some i \<Longrightarrow> held_by s n i"
  by (simp add: held_by_def)

text \<open>
  One worker moves to a phase, and the jobs change so that the jobs the other workers hold are
  as they were: the invariant is kept if the moved worker's job is its own and has the status
  its phase asks for.
\<close>

lemma queue_inv_move:
  assumes inv: "queue_inv s" and keys: "map j_id js = map j_id (q_jobs s)"
    and own: "\<And>i m. holds p = Some i \<Longrightarrow> held_by s m i \<Longrightarrow> m = n"
    and locked: "\<And>i. p = Locked i \<Longrightarrow> status_of js i = Some ''queued''"
    and working: "\<And>i. p = Working i \<Longrightarrow> status_of js i = Some ''running''"
    and others: "\<And>m i. m \<noteq> n \<Longrightarrow> held_by s m i \<Longrightarrow> status_of js i = status_of (q_jobs s) i"
  shows "queue_inv (s\<lparr>q_jobs := js, q_workers := (q_workers s)[n := p]\<rparr>)"
proof (rule queue_invI, unfold held_by_update)
  show "distinct (map j_id (q_jobs (s\<lparr>q_jobs := js, q_workers := (q_workers s)[n := p]\<rparr>)))"
    using queue_invD(1) [OF inv] keys by simp
next
  fix a b i
  assume "a < length (q_workers s) \<and> (if a = n then holds p = Some i else held_by s a i)"
    "b < length (q_workers s) \<and> (if b = n then holds p = Some i else held_by s b i)"
  then show "a = b" using own queue_invD(2) [OF inv] by (metis (full_types))
next
  fix m i
  assume m: "m < length (q_workers (s\<lparr>q_jobs := js, q_workers := (q_workers s)[n := p]\<rparr>))"
    and at: "q_workers (s\<lparr>q_jobs := js, q_workers := (q_workers s)[n := p]\<rparr>) ! m = Locked i"
  show "status_of (q_jobs (s\<lparr>q_jobs := js, q_workers := (q_workers s)[n := p]\<rparr>)) i = Some ''queued''"
  proof (cases "m = n")
    case True with m at locked show ?thesis by simp
  next
    case False
    with m at have w: "m < length (q_workers s)" "q_workers s ! m = Locked i" by simp_all
    show ?thesis using others [OF False phase_held [OF w]] queue_invD(3) [OF inv w] by simp
  qed
next
  fix m i
  assume m: "m < length (q_workers (s\<lparr>q_jobs := js, q_workers := (q_workers s)[n := p]\<rparr>))"
    and at: "q_workers (s\<lparr>q_jobs := js, q_workers := (q_workers s)[n := p]\<rparr>) ! m = Working i"
  show "status_of (q_jobs (s\<lparr>q_jobs := js, q_workers := (q_workers s)[n := p]\<rparr>)) i = Some ''running''"
  proof (cases "m = n")
    case True with m at working show ?thesis by simp
  next
    case False
    with m at have w: "m < length (q_workers s)" "q_workers s ! m = Working i" by simp_all
    show ?thesis using others [OF False phase_held [OF w]] queue_invD(4) [OF inv w] by simp
  qed
qed

lemma queue_inv_phase:
  assumes "queue_inv s" "\<And>i m. holds p = Some i \<Longrightarrow> held_by s m i \<Longrightarrow> m = n"
    "\<And>i. p = Locked i \<Longrightarrow> status_of (q_jobs s) i = Some ''queued''"
    "\<And>i. p = Working i \<Longrightarrow> status_of (q_jobs s) i = Some ''running''"
  shows "queue_inv (s\<lparr>q_workers := (q_workers s)[n := p]\<rparr>)"
  using queue_inv_move [OF assms(1) refl, of p n] assms(2-4) by simp

text \<open>A job that a worker has locked is queued, and one it works on is running: so is never waiting unlocked.\<close>

lemma waiting_not_held:
  assumes inv: "queue_inv s" and j: "oldest_waiting (locked_in (q_workers s)) (q_jobs s) j"
  shows "\<not> held_by s m (j_id j)"
proof
  assume h: "held_by s m (j_id j)"
  have st: "status_of (q_jobs s) (j_id j) = Some ''queued''"
    by (rule status_of_SomeD [OF j queue_invD(1) [OF inv]])
  from h have m: "m < length (q_workers s)" by (simp add: held_by_def)
  show False
  proof (cases "q_workers s ! m")
    case Idle with h show False by (simp add: held_by_def)
  next
    case (Locked i)
    with h have "Locked (j_id j) \<in> set (q_workers s)" by (auto simp: held_by_def in_set_conv_nth)
    with j show False by (simp add: oldest_waiting_def waiting_def locked_in_def)
  next
    case (Working i)
    with h have "i = j_id j" by (simp add: held_by_def)
    with queue_invD(4) [OF inv m Working] st show False by simp
  qed
qed

lemma queue_step_inv:
  assumes "queue_step s s'" and inv: "queue_inv s"
  shows "queue_inv s'"
  using assms(1)
proof cases
  case (enqueue j)
  then show ?thesis using queue_invD [OF inv]
    by (auto intro!: queue_invI status_of_append simp: held_by_def image_iff)
next
  case (lock n j)
  have j: "oldest_waiting (locked_in (q_workers s)) (q_jobs s) j" by (rule next_queued_SomeD) fact
  show ?thesis
    unfolding lock(1)
    by (rule queue_inv_phase [OF inv])
       (use waiting_not_held [OF inv j] status_of_SomeD [OF j queue_invD(1) [OF inv]] in auto)
next
  case (commit_claim n i t)
  note h = phase_held [OF commit_claim(2,3) holds.simps(2)]
  have st: "status_of (update_rows j_id i (claim_row t) (q_jobs s)) k =
      (if k = i then map_option (\<lambda>_. ''running'') (status_of (q_jobs s) k) else status_of (q_jobs s) k)" for k
    by (rule status_of_update) simp_all
  show ?thesis
    unfolding commit_claim(1)
    by (rule queue_inv_move [OF inv])
       (use queue_invD(2) [OF inv _ h] queue_invD(3) [OF inv commit_claim(2,3)] in
         \<open>auto simp: claim_rows.keys_update st\<close>)
next
  case (finish n i f e)
  note h = phase_held [OF finish(2,3) holds.simps(3)]
  obtain w where f: "\<And>j. j_id (f j) = j_id j" "\<And>j. j_status (f j) = w" using finish(4) by auto
  have st: "status_of (update_rows j_id i f (q_jobs s)) k =
      (if k = i then map_option (\<lambda>_. w) (status_of (q_jobs s) k) else status_of (q_jobs s) k)" for k
    by (rule status_of_update) (fact f)+
  show ?thesis
    unfolding finish(1)
    by (rule queue_inv_move [OF inv])
       (use queue_invD(2) [OF inv _ h] f in \<open>auto simp: map_update_rows_frame st\<close>)
next
  case (die n)
  show ?thesis
    unfolding die(1) by (rule queue_inv_phase [OF inv]) simp_all
qed

lemma queue_reachable_inv: "queue_reachable k s \<Longrightarrow> queue_inv s"
proof (induction rule: queue_reachable.induct)
  case start
  show ?case by (rule queue_invI) (auto simp: held_by_def)
next
  case (step s s')
  then show ?case by (blast intro: queue_step_inv)
qed

text \<open>
  C6. However any number of workers interleave, and whichever of them die, no job is ever held
  by two workers: it is locked or processed by at most one.
\<close>

theorem no_job_held_twice:
  assumes "queue_reachable k s" and "held_by s m i" and "held_by s n i"
  shows "m = n"
  using queue_invD(2) [OF queue_reachable_inv [OF assms(1)] assms(2,3)] .

text \<open>From one status to another: unchanged or one transition; a job that is not there yet may appear.\<close>

definition moves_along :: "string option \<Rightarrow> string option \<Rightarrow> bool" where
  "moves_along a b \<longleftrightarrow> (case a of None \<Rightarrow> True | Some st \<Rightarrow> b = Some st \<or> (\<exists>st'. b = Some st' \<and> job_transition st st'))"

text \<open>
  Every step moves each job along its life cycle: it stays as it was or goes from queued to
  running, or from running to done or error; so a job runs at most once and a finished one
  never changes again. No step removes a job.
\<close>

theorem jobs_move_along:
  assumes "queue_reachable k s" and "queue_step s s'"
  shows "moves_along (status_of (q_jobs s) i) (status_of (q_jobs s') i)"
proof -
  note inv = queue_reachable_inv [OF assms(1)]
  show ?thesis
    using assms(2)
  proof cases
    case (enqueue j)
    then show ?thesis by (auto simp: moves_along_def status_of_append split: option.split)
  next
    case (commit_claim n a t)
    then show ?thesis
      using queue_invD(3) [OF inv commit_claim(2,3)]
      by (auto simp: moves_along_def status_of_update job_transition_def split: option.split)
  next
    case (finish n a f e)
    then show ?thesis
      using queue_invD(4) [OF inv finish(2,3)]
      by (auto simp: moves_along_def status_of_update job_transition_def split: option.split)
  qed (auto simp: moves_along_def split: option.split)
qed

text \<open>A job whose worker died: running, and nobody works on it.\<close>

definition orphaned :: "queue_state \<Rightarrow> string \<Rightarrow> bool" where
  "orphaned s i \<longleftrightarrow> status_of (q_jobs s) i = Some ''running'' \<and> (\<forall>n. \<not> held_by s n i)"

lemma orphaned_step:
  assumes "queue_step s s'" and inv: "queue_inv s" and o: "orphaned s i"
  shows "orphaned s' i"
proof -
  from o have st: "status_of (q_jobs s) i = Some ''running''" and free: "\<And>n. \<not> held_by s n i"
    by (simp_all add: orphaned_def)
  show ?thesis
    using assms(1)
  proof cases
    case (enqueue j)
    then show ?thesis using o by (auto simp: orphaned_def held_by_def status_of_append)
  next
    case (lock n j)
    have "status_of (q_jobs s) (j_id j) = Some ''queued''"
      by (rule status_of_SomeD [OF next_queued_SomeD [OF lock(4)] queue_invD(1) [OF inv]])
    with st have "j_id j \<noteq> i" by auto
    then show ?thesis using st free unfolding lock(1)
      by (auto simp: orphaned_def held_by_phase)
  next
    case (commit_claim n a t)
    have "a \<noteq> i" using free phase_held [OF commit_claim(2,3) holds.simps(2)] by auto
    then show ?thesis using st free unfolding commit_claim(1)
      by (auto simp: orphaned_def held_by_update status_of_update)
  next
    case (finish n a f e)
    have "a \<noteq> i" using free phase_held [OF finish(2,3) holds.simps(3)] by auto
    then show ?thesis using st free finish(4) unfolding finish(1)
      by (auto simp: orphaned_def held_by_update status_of_update)
  next
    case (die n)
    then show ?thesis using st free by (auto simp: orphaned_def held_by_phase)
  qed
qed

text \<open>
  A job whose worker died while processing it is never picked up again: whatever the
  workers do from then on, it stays running and nobody works on it. The code has no step that
  returns a running job to the queue.
\<close>

theorem orphaned_job_stays:
  assumes "queue_reachable k s" and "orphaned s i" and "queue_step\<^sup>*\<^sup>* s s'"
  shows "orphaned s' i"
proof -
  have "orphaned s' i \<and> queue_inv s'"
    using assms(3)
  proof (induction rule: rtranclp_induct)
    case base
    show ?case using assms(2) queue_reachable_inv [OF assms(1)] by simp
  next
    case (step t u)
    then show ?case using orphaned_step queue_step_inv by blast
  qed
  then show ?thesis by simp
qed

section \<open>The operations are steps of the queue\<close>

text \<open>The queue as one worker, in the given phase, sees it.\<close>

definition queue_view :: "phase \<Rightarrow> world \<Rightarrow> queue_state" where
  "queue_view p w = \<lparr>q_jobs = jobs (w_committed w), q_workers = [p]\<rparr>"

definition claim_refines :: "world \<Rightarrow> (string \<times> dict) option \<Rightarrow> world \<Rightarrow> bool" where
  "claim_refines w r v \<longleftrightarrow>
     queue_step\<^sup>*\<^sup>* (queue_view Idle w) (queue_view (case r of None \<Rightarrow> Idle | Some (i, _) \<Rightarrow> Working i) v)"

definition finish_refines :: "string \<Rightarrow> world \<Rightarrow> world \<Rightarrow> bool" where
  "finish_refines i w v \<longleftrightarrow> queue_step (queue_view (Working i) w) (queue_view Idle v)"

lemma next_queued_unlocked: "next_queued (locked_in [Idle]) = next_queued (\<lambda>_. False)"
  by (rule ext) (simp add: next_queued_def locked_in_def)


text \<open>
  \<open>mark_done\<close> and \<open>mark_error\<close> implement the last step of a worker: for the id of a job,
  which PostgreSQL stores in canonical form, they finish that job and no other, and do not raise.
\<close>

theorem mark_refines:
  assumes "pg_uuid env i = Some i"
  shows "wp (mark_done env i) (\<lambda>_. finish_refines i w) (\<lambda>_ _. False) w \<and>
         wp (mark_error env i e) (\<lambda>_. finish_refines i w) (\<lambda>_ _. False) w"
proof -
  have "queue_step (queue_view (Working i) w)
      ((queue_view (Working i) w)\<lparr>q_jobs := update_rows j_id i f (q_jobs (queue_view (Working i) w)),
        q_workers := (q_workers (queue_view (Working i) w))[0 := Idle]\<rparr>)" if "f = done_row \<or> f = error_row e" for f
    by (rule queue_step.finish [OF _ _ that]) (simp_all add: queue_view_def)
  from this [of done_row] this [of "error_row e"] assms show ?thesis
    by (simp add: mark_done_def mark_error_def uuid_param_def conv_def finish_refines_def queue_view_def)
qed

section \<open>A run of the queue\<close>

definition demo_job :: WakeJob where
  "demo_job =
     \<lparr>j_id = uuid_c, j_machine_id = uuid_a, j_attempt_id = uuid_b, j_job_type = ''wake'', j_status = ''queued'',
      j_payload = [(''machine_id'', JStr uuid_a)], j_claimed_at = None, j_created_at = 0\<rparr>"

text \<open>Two workers, the first of which has claimed the only job.\<close>

definition demo_queue :: queue_state where
  "demo_queue = \<lparr>q_jobs = [claim_row 1 demo_job], q_workers = [Working uuid_c, Idle]\<rparr>"

lemma demo_queue_reachable [simp]: "queue_reachable 2 demo_queue"
proof -
  let ?s0 = "\<lparr>q_jobs = [], q_workers = replicate 2 Idle\<rparr>"
  let ?s1 = "\<lparr>q_jobs = [demo_job], q_workers = [Idle, Idle]\<rparr>"
  let ?s2 = "\<lparr>q_jobs = [demo_job], q_workers = [Locked uuid_c, Idle]\<rparr>"
  have "queue_step ?s0 ?s1"
    using queue_step.enqueue [of demo_job ?s0] by (simp add: demo_job_def numeral_eq_Suc)
  moreover have "queue_step ?s1 ?s2"
    using queue_step.lock [of 0 ?s1 demo_job] by (simp add: demo_job_def next_queued_def order_asc_def locked_in_def)
  moreover have "queue_step ?s2 demo_queue"
    using queue_step.commit_claim [of 0 ?s2 uuid_c 1] by (simp add: demo_job_def demo_queue_def)
  ultimately show ?thesis by (meson queue_reachable.intros)
qed

definition demo_orphan :: queue_state where
  "demo_orphan = \<lparr>q_jobs = [claim_row 1 demo_job], q_workers = [Idle, Idle]\<rparr>"

lemma demo_die: "queue_step demo_queue demo_orphan"
  using queue_step.die [of 0 demo_queue] by (simp add: demo_queue_def demo_orphan_def)

lemma demo_orphan_reachable [simp]: "queue_reachable 2 demo_orphan"
  by (rule queue_reachable.step [OF demo_queue_reachable demo_die])

lemma demo_orphaned [simp]: "orphaned demo_orphan uuid_c"
  by (auto simp: orphaned_def demo_orphan_def status_of_def held_by_def less_Suc_eq nth_Cons' demo_job_def)

theorem no_job_held_twice_witness: "{n. held_by demo_queue n uuid_c} = {0}"
proof -
  have h: "held_by demo_queue 0 uuid_c" by (simp add: held_by_def demo_queue_def)
  with no_job_held_twice [OF demo_queue_reachable _ h] show ?thesis by auto
qed

theorem jobs_move_along_witness:
  "moves_along (status_of (q_jobs demo_queue) uuid_c) (status_of (q_jobs demo_orphan) uuid_c)"
  by (rule jobs_move_along [OF demo_queue_reachable demo_die])

theorem orphaned_job_stays_witness:
  "orphaned (demo_orphan\<lparr>q_jobs := q_jobs demo_orphan @ [demo_job\<lparr>j_id := uuid_a\<rparr>]\<rparr>) uuid_c"
  by (rule orphaned_job_stays [OF demo_orphan_reachable demo_orphaned r_into_rtranclp],
      rule queue_step.enqueue) (simp_all add: demo_orphan_def demo_job_def)

theorem mark_refines_witness:
  "wp (mark_done demo_env uuid_c) (\<lambda>_. finish_refines uuid_c (world_of demo_db 0)) (\<lambda>_ _. False) (world_of demo_db 0) \<and>
   wp (mark_error demo_env uuid_c ''x'') (\<lambda>_. finish_refines uuid_c (world_of demo_db 0)) (\<lambda>_ _. False) (world_of demo_db 0)"
  by (rule mark_refines) simp

end
