(* ===== verification/WakeService.thy ===== *)
theory WakeService
  imports Repositories WakeStrategies Example
begin

text \<open>
  \<open>app/services/wake.py\<close>: \<open>WakeService.wake\<close> records an attempt, sends the packet by the
  machine's strategy and records how that went. The lemmas give every outcome: the attempt it
  adds, what it sends, and the exception of each refusal.
\<close>

text \<open>The \<open>try\<close> block: send, then record that it was sent, or that it failed.\<close>

definition send_and_record :: "env \<Rightarrow> MachineRecord \<Rightarrow> WakeAttemptRecord \<Rightarrow> WakeStrategyPort \<Rightarrow> unit io" where
  "send_and_record env machine attempt strategy =
     catch_p
       (then_p
         (sp_wake strategy (m_mac_address machine) (m_wake_interface machine)
            (m_broadcast_address machine))
         (attempt_update_status env (wa_id attempt) (AttemptStatus_value SENT) None None))
       (\<lambda>exc. let error_msg = exn_str exc in
          bind_p (now env) (\<lambda>finished_at.
          then_p (attempt_update_status env (wa_id attempt) (AttemptStatus_value FAILED)
                    (Some error_msg) (Some finished_at))
            (raise_p (WakeError (''Wake failed: '' @ error_msg)))))"

definition wake_service_wake :: "env \<Rightarrow> string \<Rightarrow> string \<Rightarrow> string \<Rightarrow> bool \<Rightarrow> int \<Rightarrow> string option \<Rightarrow> string io" where
  "wake_service_wake env machine_id actor_type actor_id ensure_online poll_timeout_s strategy_override =
     bind_p (machine_get_by_id env machine_id) (\<lambda>machine.
     case machine of
       None \<Rightarrow> raise_p (WakeError (''Machine '' @ py_repr machine_id @ '' not found''))
     | Some machine \<Rightarrow>
         if \<not> m_enabled machine
         then raise_p (WakeError (''Machine '' @ py_repr machine_id @ '' is disabled''))
         else
           let strategy_name = str_or strategy_override (m_wake_strategy machine) in
           bind_p (attempt_create env machine_id actor_type actor_id strategy_name ensure_online
                     poll_timeout_s) (\<lambda>attempt.
           bind_p (lift_p (get_strategy env strategy_name)) (\<lambda>strategy.
           then_p (send_and_record env machine attempt strategy)
             (return_p (wa_id attempt)))))"

text \<open>The service works on the attempts only, commits nothing and keeps the constraints.\<close>

lemma send_attempts_only:
  assumes I: "attempt_free I" and s: "get_strategy env st = Inr s"
  shows "keeps I (send_and_record env m a s)"
  unfolding send_and_record_def Let_def
  by (intro keeps_intros attempt_free_keeps [OF I] attempts_only [OF I]
      strategy_keeps [OF s] attempt_free_world [OF I])

lemma wake_attempts_only:
  assumes I: "attempt_free I"
  shows "keeps I (wake_service_wake env mid at ai eo pt ov)"
  unfolding wake_service_wake_def Let_def
  by (rule keeps_bind_lift keeps_intros attempt_free_keeps [OF I] attempts_only [OF I] |
      erule send_attempts_only [OF I])+

lemma send_wf: "get_strategy env st = Inr s \<Longrightarrow> keeps wf_world (send_and_record env m a s)"
  unfolding send_and_record_def Let_def
  by (intro keeps_intros wf_intros; erule strategy_keeps) simp

lemma wake_wf [wf_intros]: "keeps wf_world (wake_service_wake env mid at ai eo pt ov)"
  unfolding wake_service_wake_def Let_def
  by (rule keeps_bind_lift keeps_intros wf_intros | erule send_wf)+

section \<open>Outcomes\<close>

lemma update_rows_last:
  "key a = k \<Longrightarrow> k \<notin> key ` set rows \<Longrightarrow> update_rows key k f (rows @ [a]) = rows @ [f a]"
  by (simp add: update_rows_append update_rows_absent)

text \<open>A row as \<open>create\<close> inserts it.\<close>

definition fresh_attempt :: "env \<Rightarrow> world \<Rightarrow> string \<Rightarrow> string \<Rightarrow> string \<Rightarrow> string \<Rightarrow> bool \<Rightarrow> int \<Rightarrow>
    WakeAttemptRecord \<Rightarrow> bool" where
  "fresh_attempt env w mid at ai st eo pt a \<longleftrightarrow>
     pg_uuid env (uuid4 env (w_tick w)) = Some (wa_id a) \<and> wa_id a \<notin> wa_id ` set (attempts (w_db w)) \<and>
     pg_uuid env mid = Some (wa_machine_id a) \<and> wa_machine_id a \<in> m_id ` set (machines (w_db w)) \<and>
     wa_actor_type a = at \<and> wa_actor_id a = ai \<and> wa_strategy a = st \<and> wa_status a = ''pending'' \<and>
     wa_ensure_online a = eo \<and> wa_poll_timeout_s a = pt \<and> wa_error a = None \<and>
     wa_finished_at a = None \<and> wa_started_at a = clock env (Suc (w_tick w)) + w_slept w"

lemma wp_attempt_create:
  assumes "\<And>a. fresh_attempt env w mid at ai st eo pt a \<Longrightarrow> \<not> w_dead w \<Longrightarrow>
      Q a (w\<lparr>w_tick := Suc (Suc (w_tick w)), w_db := (w_db w)\<lparr>attempts := attempts (w_db w) @ [a]\<rparr>\<rparr>)"
    and "\<And>e v. w_db v = w_db w \<Longrightarrow> w_sent v = w_sent w \<Longrightarrow> w_committed v = w_committed w \<Longrightarrow> E e v"
  shows "wp (attempt_create env mid at ai st eo pt) Q E w"
  using assms
  by (auto simp: attempt_create_def insert_attempt_def fresh_attempt_def Let_def split: sum.split prod.split)

lemma wp_update_last:
  assumes "pg_uuid env i = Some (wa_id a)" "wa_id a \<notin> wa_id ` set rows" "\<not> w_dead w"
    and "attempts (w_db w) = rows @ [a]" and "st \<in> set attempt_statuses"
    and "Q () (w\<lparr>w_db := (w_db w)\<lparr>attempts := rows @ [set_status st er fi a]\<rparr>\<rparr>)"
  shows "wp (attempt_update_status env i st er fi) Q E w"
  using assms by (simp add: attempt_update_status_def update_attempt_def update_rows_last)

text \<open>The packet for a machine, by a strategy.\<close>

definition wakes_machine :: "string \<Rightarrow> MachineRecord \<Rightarrow> sent \<Rightarrow> bool" where
  "wakes_machine st m p \<longleftrightarrow> wakes st (m_mac_address m) (m_wake_interface m) (m_broadcast_address m) p"

lemma wakes_machine_record: "wakes_machine st (machine_to_record m) p = wakes_machine st m p"
  by (simp add: wakes_machine_def machine_to_record_def wakes_def str_or_def truthy_def split: sent.split option.split)

text \<open>The two ends of a call after its attempt was recorded.\<close>

definition wake_sent :: "env \<Rightarrow> string \<Rightarrow> string option \<Rightarrow> world \<Rightarrow> string \<Rightarrow> world \<Rightarrow> bool" where
  "wake_sent env mid ov w aid v \<longleftrightarrow>
     (\<exists>m a p. m \<in> set (machines (w_db w)) \<and> pg_uuid env mid = Some (m_id m) \<and> m_enabled m \<and>
        w_db v = (w_db w)\<lparr>attempts := attempts (w_db w) @ [a]\<rparr> \<and> wa_id a = aid \<and>
        wa_id a \<notin> wa_id ` set (attempts (w_db w)) \<and> wa_status a = ''sent'' \<and>
        wa_machine_id a = m_id m \<and> wa_strategy a = str_or ov (m_wake_strategy m) \<and>
        w_sent v = p # w_sent w \<and> wakes_machine (wa_strategy a) m p)"

definition wake_failed :: "env \<Rightarrow> world \<Rightarrow> exn \<Rightarrow> world \<Rightarrow> bool" where
  "wake_failed env w e v \<longleftrightarrow>
     (\<exists>a msg ps. w_db v = (w_db w)\<lparr>attempts := attempts (w_db w) @ [a]\<rparr> \<and> w_sent v = ps @ w_sent w \<and>
        length ps \<le> 1 \<and> wa_id a \<notin> wa_id ` set (attempts (w_db w)) \<and> wa_status a = ''failed'' \<and>
        wa_error a = Some msg \<and> wa_finished_at a \<noteq> None \<and> e = WakeError (''Wake failed: '' @ msg))"

definition wake_refused :: "world \<Rightarrow> world \<Rightarrow> bool" where
  "wake_refused w v \<longleftrightarrow> w_db v = w_db w \<and> w_sent v = w_sent w"

definition wake_unknown_strategy :: "env \<Rightarrow> world \<Rightarrow> exn \<Rightarrow> world \<Rightarrow> bool" where
  "wake_unknown_strategy env w e v \<longleftrightarrow>
     (\<exists>a. w_db v = (w_db w)\<lparr>attempts := attempts (w_db w) @ [a]\<rparr> \<and> w_sent v = w_sent w \<and>
        wa_status a = ''pending'' \<and> wa_strategy a \<notin> set [''etherwake'', ''udp_broadcast''] \<and>
        get_strategy env (wa_strategy a) = Inl e)"

text \<open>The sending part, from the state in which the attempt \<open>a\<close> was just inserted.\<close>

lemma wp_send_and_record:
  assumes s: "get_strategy env st = Inr s" and a: "pg_uuid env (wa_id a) = Some (wa_id a)"
    and fresh: "wa_id a \<notin> wa_id ` set rows" and dead: "\<not> w_dead w"
    and rows: "attempts (w_db w) = rows @ [a]"
    and ok: "\<And>v p. w_db v = (w_db w)\<lparr>attempts := rows @ [set_status ''sent'' None None a]\<rparr> \<Longrightarrow>
        w_sent v = p # w_sent w \<Longrightarrow> wakes_machine st m p \<Longrightarrow> w_committed v = w_committed w \<Longrightarrow> \<not> w_dead v \<Longrightarrow> Q () v"
    and bad: "\<And>v ps e t. length ps \<le> 1 \<Longrightarrow>
        w_db v = (w_db w)\<lparr>attempts := rows @ [set_status ''failed'' (Some (exn_str e)) (Some t) a]\<rparr> \<Longrightarrow>
        w_sent v = ps @ w_sent w \<Longrightarrow> w_committed v = w_committed w \<Longrightarrow> \<not> w_dead v \<Longrightarrow>
        E (WakeError (''Wake failed: '' @ exn_str e)) v"
  shows "wp (send_and_record env m a s) Q E w"
  unfolding send_and_record_def wp_catch wp_then Let_def
proof (rule wp_strategy [OF s])
  fix n p
  assume "wakes st (m_mac_address m) (m_wake_interface m) (m_broadcast_address m) p"
  then have p: "wakes_machine st m p" by (simp add: wakes_machine_def)
  show "wp (attempt_update_status env (wa_id a) (AttemptStatus_value SENT) None None) Q
      (\<lambda>exc. wp (bind_p (now env) (\<lambda>finished_at.
          then_p (attempt_update_status env (wa_id a) (AttemptStatus_value FAILED)
            (Some (exn_str exc)) (Some finished_at))
          (raise_p (WakeError (''Wake failed: '' @ exn_str exc))))) Q E)
      (w\<lparr>w_tick := n, w_sent := p # w_sent w\<rparr>)"
    by (rule wp_update_last [OF a fresh])
       (use dead rows ok [OF _ _ p] in \<open>simp_all add: attempt_statuses_def\<close>)
next
  fix e n and ps :: "sent list" assume "length ps \<le> 1"
  then show "wp (bind_p (now env) (\<lambda>finished_at.
          then_p (attempt_update_status env (wa_id a) (AttemptStatus_value FAILED)
            (Some (exn_str e)) (Some finished_at))
          (raise_p (WakeError (''Wake failed: '' @ exn_str e))))) Q E
      (w\<lparr>w_tick := n, w_sent := ps @ w_sent w\<rparr>)"
    unfolding wp_bind wp_now wp_then
    by (intro wp_update_last [OF a fresh])
       (use dead rows bad [of ps _ e] in \<open>simp_all add: attempt_statuses_def\<close>)
qed

lemma get_strategy_unknown: "get_strategy env name = Inl e \<Longrightarrow> name \<notin> set [''etherwake'', ''udp_broadcast'']"
  by (auto simp: get_strategy_def Let_def split: if_splits)

lemma wake_sentI:
  assumes "m \<in> set (machines (w_db w))" "pg_uuid env mid = Some (m_id m)" "m_enabled m"
    and "fresh_attempt env w mid at ai (str_or ov (m_wake_strategy m)) eo pt a"
    and "w_db v = (w_db w)\<lparr>attempts := attempts (w_db w) @ [set_status ''sent'' er fi a]\<rparr>"
    and "w_sent v = p # w_sent w" "wakes_machine (str_or ov (m_wake_strategy m)) m p"
  shows "wake_sent env mid ov w (wa_id a) v"
  unfolding wake_sent_def
  by (intro exI [of _ m] exI [of _ "set_status ''sent'' er fi a"] exI [of _ p])
     (use assms in \<open>auto simp: fresh_attempt_def\<close>)

lemma wake_failedI:
  assumes "fresh_attempt env w mid at ai st eo pt a"
    and "w_db v = (w_db w)\<lparr>attempts := attempts (w_db w) @ [set_status ''failed'' (Some msg) (Some t) a]\<rparr>"
    and "w_sent v = ps @ w_sent w" "length ps \<le> 1"
  shows "wake_failed env w (WakeError (''Wake failed: '' @ msg)) v"
  unfolding wake_failed_def
  by (intro exI [of _ "set_status ''failed'' (Some msg) (Some t) a"] exI [of _ msg] exI [of _ ps])
     (use assms in \<open>auto simp: fresh_attempt_def\<close>)

lemma wp_wake_service:
  assumes "pg_canonical env" and "\<not> w_dead w"
  shows "wp (wake_service_wake env mid actor_type actor_id eo timeout ov)
           (\<lambda>aid v. wake_sent env mid ov w aid v)
           (\<lambda>e v. wake_refused w v \<or> wake_failed env w e v \<or> wake_unknown_strategy env w e v) w"
proof (cases "\<exists>k m. is_valid_uuid mid \<and> pg_uuid env mid = Some k \<and> find_row m_id k (machines (w_db w)) = Some m \<and> m_enabled m")
  case False
  then show ?thesis
    using assms(2) by (auto simp: wake_service_wake_def wp_machine_get_by_id wake_refused_def split: option.splits)
next
  case True
  then obtain k m where k: "is_valid_uuid mid" "pg_uuid env mid = Some k"
    and m: "find_row m_id k (machines (w_db w)) = Some m" "m_enabled m" by blast
  note mk = find_row_SomeD [OF m(1)]
  let ?st = "str_or ov (m_wake_strategy m)"
  have create: "wp (attempt_create env mid actor_type actor_id ?st eo timeout)
      (\<lambda>a. wp (bind_p (lift_p (get_strategy env ?st)) (\<lambda>strategy.
           then_p (send_and_record env (machine_to_record m) a strategy) (return_p (wa_id a))))
        (\<lambda>aid v. wake_sent env mid ov w aid v)
        (\<lambda>e v. wake_refused w v \<or> wake_failed env w e v \<or> wake_unknown_strategy env w e v))
      (\<lambda>e v. wake_refused w v \<or> wake_failed env w e v \<or> wake_unknown_strategy env w e v) w"
  proof (rule wp_attempt_create)
    fix a assume a: "fresh_attempt env w mid actor_type actor_id ?st eo timeout a"
    then have ca: "pg_uuid env (wa_id a) = Some (wa_id a)"
      using assms(1) by (auto simp: fresh_attempt_def pg_canonical_def canonical_def)
    let ?v = "w\<lparr>w_tick := Suc (Suc (w_tick w)), w_db := (w_db w)\<lparr>attempts := attempts (w_db w) @ [a]\<rparr>\<rparr>"
    show "wp (bind_p (lift_p (get_strategy env ?st)) (\<lambda>strategy.
           then_p (send_and_record env (machine_to_record m) a strategy) (return_p (wa_id a))))
        (\<lambda>aid v. wake_sent env mid ov w aid v)
        (\<lambda>e v. wake_refused w v \<or> wake_failed env w e v \<or> wake_unknown_strategy env w e v) ?v"
    proof (cases "get_strategy env ?st")
      case (Inl e)
      then have "wake_unknown_strategy env w e ?v"
        using a get_strategy_unknown [OF Inl] by (auto simp: wake_unknown_strategy_def fresh_attempt_def)
      with Inl show ?thesis by simp
    next
      case (Inr s)
      show ?thesis
        unfolding Inr wp_bind wp_lift sum.case wp_then wp_return
        by (intro wp_send_and_record [OF Inr ca, where rows = "attempts (w_db w)"] disjI2 disjI1
              wake_sentI [OF _ _ _ a] wake_failedI [OF a])
          (use a m k mk assms(2) in \<open>auto simp: fresh_attempt_def wakes_machine_record\<close>)
    qed
  qed (simp add: wake_refused_def)
  show ?thesis
    unfolding wake_service_wake_def wp_bind wp_machine_get_by_id
    using k m assms(2) create by (simp add: Let_def)
qed

text \<open>
  C3. A call of \<open>WakeService.wake\<close> that returns sent exactly one packet or command, the one that
  wakes an existing and enabled machine by the strategy asked for, and added exactly one attempt, under the id it returns, with
  status \<open>sent\<close>. One that raises refused before doing anything, or recorded its attempt as
  \<open>failed\<close> with the reason and the time (and sent at most once), or was asked for a strategy
  that does not exist.
\<close>

theorem wake_service_outcomes:
  assumes "pg_canonical env" and "\<not> w_dead w"
  shows "wp (wake_service_wake env mid actor_type actor_id eo timeout ov)
           (\<lambda>aid v. wake_sent env mid ov w aid v)
           (\<lambda>e v. wake_refused w v \<or> wake_failed env w e v \<or> wake_unknown_strategy env w e v) w"
  by (rule wp_wake_service [OF assms])

theorem wake_service_outcomes_witness:
  "wp (wake_service_wake demo_env uuid_a ''user'' ''u'' False 120 None)
     (\<lambda>aid v. wake_sent demo_env uuid_a None (world_of demo_db 0) aid v)
     (\<lambda>e v. wake_refused (world_of demo_db 0) v \<or> wake_failed demo_env (world_of demo_db 0) e v \<or>
            wake_unknown_strategy demo_env (world_of demo_db 0) e v) (world_of demo_db 0)"
  by (rule wake_service_outcomes) simp_all

end
