(* ===== verification/Probe.thy ===== *)
theory Probe
  imports World
begin

text \<open>
  \<open>app/infra/state_probe.py\<close>: one probe of a machine by ping and by a TCP connection to its
  SSH port, with the IP address as a fallback for a host name that does not answer. The two
  contacts of a \<open>gather\<close> run concurrently; neither reads what the other does, so the model
  runs them in order. The lemmas show that a probe never raises, touches nothing but the clock,
  and that its verdict is that of the last host it asked.
\<close>

definition PING_TIMEOUT_S :: int where
  "PING_TIMEOUT_S = 2"

definition ping_cmd :: "string \<Rightarrow> string list" where
  "ping_cmd host = [''ping'', ''-c'', ''1'', ''-W'', show_int PING_TIMEOUT_S, host]"

definition ping :: "env \<Rightarrow> string \<Rightarrow> bool io" where
  "ping env host =
     catch_p
       (bind_p (effect (ping_exec env (ping_cmd host))) (\<lambda>proc.
        case proc of
          ExecRaises e \<Rightarrow> raise_p e
        | ExecDone returncode _ \<Rightarrow> return_p (returncode = 0)))
       (\<lambda>_. return_p False)"

definition tcp_connect :: "env \<Rightarrow> string \<Rightarrow> int \<Rightarrow> bool io" where
  "tcp_connect env host port =
     catch_p
       (bind_p (effect (tcp_open env host port)) (\<lambda>r.
        case r of
          Some e \<Rightarrow> raise_p e
        | None \<Rightarrow> return_p True))
       (\<lambda>_. return_p False)"

definition probe :: "env \<Rightarrow> string \<Rightarrow> string \<Rightarrow> int \<Rightarrow> string option \<Rightarrow> ProbeResult io" where
  "probe env machine_id host ssh_port ip_fallback =
     bind_p (ping env host) (\<lambda>ping_ok.
     bind_p (tcp_connect env host ssh_port) (\<lambda>tcp_ok.
     bind_p
       (if \<not> (ping_ok \<or> tcp_ok) \<and> truthy ip_fallback \<and> ip_fallback \<noteq> Some host
        then bind_p (ping env (the ip_fallback)) (\<lambda>p.
             bind_p (tcp_connect env (the ip_fallback) ssh_port) (\<lambda>t. return_p (p, t)))
        else return_p (ping_ok, tcp_ok))
       (\<lambda>(ping_ok, tcp_ok).
     bind_p (now env) (\<lambda>t.
       return_p \<lparr>pr_machine_id = machine_id, pr_ping_ok = ping_ok, pr_tcp_ssh_ok = tcp_ok,
                 pr_observed_at = t\<rparr>))))"

section \<open>What the contacts answer\<close>

definition ping_answers :: "env \<Rightarrow> string \<Rightarrow> nat \<Rightarrow> bool" where
  "ping_answers env host n = (case ping_exec env (ping_cmd host) n of ExecRaises _ \<Rightarrow> False | ExecDone rc _ \<Rightarrow> rc = 0)"

definition tcp_answers :: "env \<Rightarrow> string \<Rightarrow> int \<Rightarrow> nat \<Rightarrow> bool" where
  "tcp_answers env host port n = (tcp_open env host port n = None)"

lemma run_ping [simp]: "ping env host w = (Inr (ping_answers env host (w_tick w)), w\<lparr>w_tick := Suc (w_tick w)\<rparr>)"
  by (simp add: ping_def ping_answers_def split: exec_result.split)

lemma run_tcp_connect [simp]:
  "tcp_connect env host port w = (Inr (tcp_answers env host port (w_tick w)), w\<lparr>w_tick := Suc (w_tick w)\<rparr>)"
  by (simp add: tcp_connect_def tcp_answers_def split: option.split)

text \<open>The host answers at a tick, by ping then by TCP.\<close>

definition answers :: "env \<Rightarrow> string \<Rightarrow> int \<Rightarrow> nat \<Rightarrow> bool" where
  "answers env host port n \<longleftrightarrow> ping_answers env host n \<or> tcp_answers env host port (Suc n)"

lemma probe_run:
  obtains r n where "probe env mid host port fb w = (Inr r, w\<lparr>w_tick := n\<rparr>)" "w_tick w \<le> n"
    "derived_state r = PS_ONLINE \<longleftrightarrow>
       answers env host port (w_tick w) \<or>
       truthy fb \<and> fb \<noteq> Some host \<and> answers env (the fb) port (Suc (Suc (w_tick w)))"
    "pr_machine_id r = mid"
proof (cases "answers env host port (w_tick w) \<or> \<not> truthy fb \<or> fb = Some host")
  case True
  then show thesis
    by (intro that [of "\<lparr>pr_machine_id = mid, pr_ping_ok = ping_answers env host (w_tick w),
          pr_tcp_ssh_ok = tcp_answers env host port (Suc (w_tick w)),
          pr_observed_at = clock env (Suc (Suc (w_tick w))) + w_slept w\<rparr>" "Suc (Suc (Suc (w_tick w)))"])
       (auto simp: probe_def answers_def)
next
  case False
  then show thesis
    by (intro that [of "\<lparr>pr_machine_id = mid, pr_ping_ok = ping_answers env (the fb) (Suc (Suc (w_tick w))),
          pr_tcp_ssh_ok = tcp_answers env (the fb) port (Suc (Suc (Suc (w_tick w)))),
          pr_observed_at = clock env (Suc (Suc (Suc (Suc (w_tick w))))) + w_slept w\<rparr>"
          "Suc (Suc (Suc (Suc (Suc (w_tick w)))))"])
       (auto simp: probe_def answers_def)
qed

text \<open>
  A probe as its callers see it: it returns, changes nothing but the tick, and says online
  exactly when the host, or after it the fallback, answered.
\<close>

lemma wp_probe:
  assumes "\<And>r n. w_tick w \<le> n \<Longrightarrow> pr_machine_id r = mid \<Longrightarrow>
    (derived_state r = PS_ONLINE \<longleftrightarrow>
       answers env host port (w_tick w) \<or>
       truthy fb \<and> fb \<noteq> Some host \<and> answers env (the fb) port (Suc (Suc (w_tick w)))) \<Longrightarrow>
    Q r (w\<lparr>w_tick := n\<rparr>)"
  shows "wp (probe env mid host port fb) Q E w"
  by (rule probe_run [of env mid host port fb w]) (simp add: wp_def assms)

lemma wp_probe_any:
  "(\<And>r n. w_tick w \<le> n \<Longrightarrow> Q r (w\<lparr>w_tick := n\<rparr>)) \<Longrightarrow> wp (probe env mid host port fb) Q E w"
  by (rule wp_probe) blast

lemma probe_returns: "\<exists>r n. probe env mid host port fb w = (Inr r, w\<lparr>w_tick := n\<rparr>) \<and> w_tick w \<le> n"
  by (rule probe_run [of env mid host port fb w]) blast

lemma keeps_probe:
  assumes "\<And>w n. I w \<Longrightarrow> I (w\<lparr>w_tick := n\<rparr>)"
  shows "keeps I (probe env mid host port fb)"
  using assms by (auto simp: keeps_wp intro!: wp_probe)

text \<open>
  A probe never raises and touches nothing but the clock; it reports the machine online
  exactly when the host answered a ping or accepted a TCP connection, or the host did not and
  the IP fallback, given and different from the host, did.
\<close>

theorem probe_verdict:
  "\<exists>r n. probe env mid host port fb w = (Inr r, w\<lparr>w_tick := n\<rparr>) \<and> pr_machine_id r = mid \<and>
     derived_state r =
       (if answers env host port (w_tick w) \<or>
           truthy fb \<and> fb \<noteq> Some host \<and> answers env (the fb) port (Suc (Suc (w_tick w)))
        then PS_ONLINE else PS_OFFLINE)"
proof (rule probe_run [of env mid host port fb w])
  fix r n
  assume "probe env mid host port fb w = (Inr r, w\<lparr>w_tick := n\<rparr>)" "pr_machine_id r = mid"
    and "derived_state r = PS_ONLINE \<longleftrightarrow> answers env host port (w_tick w) \<or>
       truthy fb \<and> fb \<noteq> Some host \<and> answers env (the fb) port (Suc (Suc (w_tick w)))"
  then show ?thesis by (cases "derived_state r") (auto simp: derived_state_def split: if_splits)
qed

end
