(* ===== verification/EnsureOnline.thy ===== *)
theory EnsureOnline
  imports Repositories Probe Example
begin

text \<open>
  \<open>app/services/ensure_online.py\<close>: \<open>EnsureOnlineService.run\<close> polls a machine until it answers
  or the attempt's time is over. The loop takes fuel and returns \<open>None\<close> when it runs out; the
  lemmas show that with a clock that does not run backwards a fuel of one more than the number
  of poll intervals left is always enough, and what the attempt's row says at the end.
\<close>

definition POLL_INTERVAL_S :: int where
  "POLL_INTERVAL_S = 5"

definition timeout_message :: "int \<Rightarrow> string" where
  "timeout_message timeout_s = ''Machine did not come online within '' @ show_int timeout_s @ ''s''"

primrec poll_loop :: "env \<Rightarrow> string \<Rightarrow> MachineRecord \<Rightarrow> string \<Rightarrow> datetime \<Rightarrow> int \<Rightarrow> nat \<Rightarrow> AttemptStatus option io" where
  "poll_loop env attempt_id machine host deadline timeout_s 0 = return_p None"
| "poll_loop env attempt_id machine host deadline timeout_s (Suc fuel) =
     bind_p (now env) (\<lambda>t.
     let elapsed = t - deadline in
     if elapsed \<ge> seconds timeout_s then
       bind_p (now env) (\<lambda>finished_at.
       then_p (attempt_update_status env attempt_id (AttemptStatus_value TIMEOUT)
                 (Some (timeout_message timeout_s)) (Some finished_at))
         (return_p (Some TIMEOUT)))
     else
       bind_p (probe env (m_id machine) host (m_ssh_port machine)
                 (if truthy (m_hostname machine) then Some (m_ip_address machine) else None)) (\<lambda>result.
       if derived_state result = PS_ONLINE then
         bind_p (now env) (\<lambda>finished_at.
         then_p (attempt_update_status env attempt_id (AttemptStatus_value ONLINE) None (Some finished_at))
           (return_p (Some ONLINE)))
       else
         then_p (sleep (seconds POLL_INTERVAL_S))
           (poll_loop env attempt_id machine host deadline timeout_s fuel)))"

definition ensure_online_run :: "env \<Rightarrow> nat \<Rightarrow> string \<Rightarrow> AttemptStatus option io" where
  "ensure_online_run env fuel attempt_id =
     bind_p (attempt_get_by_id env attempt_id) (\<lambda>attempt.
     case attempt of
       None \<Rightarrow> return_p (Some FAILED)
     | Some attempt \<Rightarrow>
         bind_p (machine_get_by_id env (wa_machine_id attempt)) (\<lambda>machine.
         case machine of
           None \<Rightarrow>
             bind_p (now env) (\<lambda>finished_at.
             then_p (attempt_update_status env attempt_id (AttemptStatus_value FAILED)
                       (Some ''Machine not found'') (Some finished_at))
               (return_p (Some FAILED)))
         | Some machine \<Rightarrow>
             then_p (attempt_update_status env attempt_id (AttemptStatus_value WAKING) None None)
               (let deadline = wa_started_at attempt;
                    timeout_s = wa_poll_timeout_s attempt;
                    host = str_or (m_hostname machine) (m_ip_address machine)
                in poll_loop env attempt_id machine host deadline timeout_s fuel)))"

declare poll_loop.simps [simp del]

text \<open>The equations of the loop as programs.\<close>

lemma poll_loop_0: "poll_loop env attempt_id machine host deadline timeout_s 0 = return_p None"
  by (rule ext) (simp add: poll_loop.simps return_p_def)

lemma poll_loop_Suc:
  "poll_loop env attempt_id machine host deadline timeout_s (Suc fuel) =
     bind_p (now env) (\<lambda>t.
     let elapsed = t - deadline in
     if elapsed \<ge> seconds timeout_s then
       bind_p (now env) (\<lambda>finished_at.
       then_p (attempt_update_status env attempt_id (AttemptStatus_value TIMEOUT)
                 (Some (timeout_message timeout_s)) (Some finished_at))
         (return_p (Some TIMEOUT)))
     else
       bind_p (probe env (m_id machine) host (m_ssh_port machine)
                 (if truthy (m_hostname machine) then Some (m_ip_address machine) else None)) (\<lambda>result.
       if derived_state result = PS_ONLINE then
         bind_p (now env) (\<lambda>finished_at.
         then_p (attempt_update_status env attempt_id (AttemptStatus_value ONLINE) None (Some finished_at))
           (return_p (Some ONLINE)))
       else
         then_p (sleep (seconds POLL_INTERVAL_S))
           (poll_loop env attempt_id machine host deadline timeout_s fuel)))"
  by (rule ext) (simp only: poll_loop.simps)

text \<open>The host answers a probe started at a tick, or its address does as the fallback.\<close>

definition contact :: "env \<Rightarrow> MachineRecord \<Rightarrow> string \<Rightarrow> nat \<Rightarrow> bool" where
  "contact env m host n \<longleftrightarrow> answers env host (m_ssh_port m) n \<or>
     truthy (m_hostname m) \<and> m_ip_address m \<noteq> [] \<and> m_ip_address m \<noteq> host \<and>
       answers env (m_ip_address m) (m_ssh_port m) (Suc (Suc n))"

text \<open>One round: the loop ends by time, or by an answer, or sleeps and goes on.\<close>

lemma wp_poll_round:
  assumes "seconds timeout_s \<le> clock env (w_tick w) + w_slept w - deadline \<Longrightarrow>
      wp (attempt_update_status env i (AttemptStatus_value TIMEOUT) (Some (timeout_message timeout_s))
            (Some (clock env (Suc (w_tick w)) + w_slept w)))
        (\<lambda>_. Q (Some TIMEOUT)) E (w\<lparr>w_tick := Suc (Suc (w_tick w))\<rparr>)"
    and "\<And>n. clock env (w_tick w) + w_slept w - deadline < seconds timeout_s \<Longrightarrow> w_tick w \<le> n \<Longrightarrow>
      contact env m host (Suc (w_tick w)) \<Longrightarrow>
      wp (attempt_update_status env i (AttemptStatus_value ONLINE) None (Some (clock env n + w_slept w)))
        (\<lambda>_. Q (Some ONLINE)) E (w\<lparr>w_tick := Suc n\<rparr>)"
    and "\<And>n. clock env (w_tick w) + w_slept w - deadline < seconds timeout_s \<Longrightarrow> w_tick w \<le> n \<Longrightarrow>
      \<not> contact env m host (Suc (w_tick w)) \<Longrightarrow>
      wp (poll_loop env i m host deadline timeout_s fuel) Q E
        (w\<lparr>w_tick := n, w_slept := w_slept w + seconds POLL_INTERVAL_S\<rparr>)"
  shows "wp (poll_loop env i m host deadline timeout_s (Suc fuel)) Q E w"
proof (cases "seconds timeout_s \<le> clock env (w_tick w) + w_slept w - deadline")
  case True
  then show ?thesis
    unfolding poll_loop_Suc wp_bind wp_now Let_def using assms(1) by simp
next
  case False
  let ?fb = "if truthy (m_hostname m) then Some (m_ip_address m) else None"
  have contact: "answers env host (m_ssh_port m) n \<or>
       truthy ?fb \<and> ?fb \<noteq> Some host \<and> answers env (the ?fb) (m_ssh_port m) (Suc (Suc n)) \<longleftrightarrow>
       contact env m host n" for n
    by (auto simp: contact_def truthy_def split: list.split)
  show ?thesis
    unfolding poll_loop_Suc wp_bind wp_now Let_def if_not_P [OF False]
  proof (rule wp_probe, unfold contact)
    fix r n
    assume "w_tick (w\<lparr>w_tick := Suc (w_tick w)\<rparr>) \<le> n"
      and "derived_state r = PS_ONLINE \<longleftrightarrow> contact env m host (w_tick (w\<lparr>w_tick := Suc (w_tick w)\<rparr>))"
    then show "wp (if derived_state r = PS_ONLINE
         then bind_p (now env) (\<lambda>finished_at.
           then_p (attempt_update_status env i (AttemptStatus_value ONLINE) None (Some finished_at))
             (return_p (Some ONLINE)))
         else then_p (sleep (seconds POLL_INTERVAL_S)) (poll_loop env i m host deadline timeout_s fuel))
       Q E (w\<lparr>w_tick := Suc (w_tick w), w_tick := n\<rparr>)"
      using False assms(2,3) by (simp del: derived_state_online)
  qed
qed

text \<open>The service works on the attempts only, commits nothing and keeps the constraints.\<close>

lemma poll_loop_attempts_only:
  assumes I: "attempt_free I"
  shows "keeps I (poll_loop env i m host deadline timeout_s fuel)"
proof (induction fuel)
  case (Suc fuel)
  show ?case
    unfolding poll_loop_Suc Let_def
    by (intro keeps_intros attempt_free_keeps [OF I] attempts_only [OF I] keeps_probe
        attempt_free_world [OF I] Suc)
qed (unfold poll_loop_0, rule keeps_return)

lemma ensure_online_attempts_only:
  assumes I: "attempt_free I"
  shows "keeps I (ensure_online_run env fuel i)"
  unfolding ensure_online_run_def Let_def
  by (intro keeps_intros attempt_free_keeps [OF I] attempts_only [OF I] poll_loop_attempts_only [OF I])

lemma poll_loop_wf: "keeps wf_world (poll_loop env i m host deadline timeout_s fuel)"
proof (induction fuel)
  case (Suc fuel)
  show ?case
    unfolding poll_loop_Suc Let_def
    by (intro keeps_intros wf_intros keeps_probe Suc) simp
qed (unfold poll_loop_0, rule keeps_return)

lemma ensure_online_wf [wf_intros]: "keeps wf_world (ensure_online_run env fuel i)"
  unfolding ensure_online_run_def Let_def
  by (intro keeps_intros wf_intros poll_loop_wf)

text \<open>The base clock does not run backwards.\<close>

definition clock_mono :: "env \<Rightarrow> bool" where
  "clock_mono env \<longleftrightarrow> (\<forall>m n. m \<le> n \<longrightarrow> clock env m \<le> clock env n)"

text \<open>The time shown by the clock in a state.\<close>

definition time_of :: "env \<Rightarrow> world \<Rightarrow> datetime" where
  "time_of env w = clock env (w_tick w) + w_slept w"

lemma time_of_le:
  "clock_mono env \<Longrightarrow> w_tick w \<le> w_tick v \<Longrightarrow> w_slept w \<le> w_slept v \<Longrightarrow> time_of env w \<le> time_of env v"
  unfolding time_of_def clock_mono_def by (meson add_mono)

lemma wp_attempt_update_any:
  "(\<And>v. w_tick v = w_tick w \<Longrightarrow> w_slept v = w_slept w \<Longrightarrow> Q () v) \<Longrightarrow>
   (\<And>e v. w_tick v = w_tick w \<Longrightarrow> w_slept v = w_slept w \<Longrightarrow> E e v) \<Longrightarrow>
   wp (attempt_update_status env i st er fi) Q E w"
  by (auto simp: attempt_update_status_def split: sum.split prod.split option.split)

text \<open>
  The variant: the poll intervals left until the deadline. Each round that does not return
  sleeps one interval.
\<close>

lemma poll_loop_ends:
  assumes mono: "clock_mono env"
    and left: "deadline + seconds timeout_s - time_of env w \<le> int fuel * seconds POLL_INTERVAL_S"
  shows "wp (poll_loop env i m host deadline timeout_s (Suc fuel)) (\<lambda>r _. r \<noteq> None) (\<lambda>_ _. True) w"
  using left
proof (induction fuel arbitrary: w)
  case 0
  show ?case
    by (rule wp_poll_round) (use 0 in \<open>simp_all add: time_of_def wp_attempt_update_any\<close>)
next
  case (Suc fuel)
  let ?v = "\<lambda>n. w\<lparr>w_tick := n, w_slept := w_slept w + seconds POLL_INTERVAL_S\<rparr>"
  have next_round: "wp (poll_loop env i m host deadline timeout_s (Suc fuel)) (\<lambda>r _. r \<noteq> None) (\<lambda>_ _. True) (?v n)"
    if "w_tick w \<le> n" for n
  proof (rule Suc.IH)
    have "clock env (w_tick w) \<le> clock env n"
      using mono that by (auto simp: clock_mono_def)
    then show "deadline + seconds timeout_s - time_of env (?v n) \<le> int fuel * seconds POLL_INTERVAL_S"
      using Suc.prems by (simp add: time_of_def algebra_simps)
  qed
  show ?case
    by (rule wp_poll_round, (rule wp_attempt_update_any, simp, simp)+, rule next_round)
qed

section \<open>What a round writes\<close>

text \<open>
  The attempt's row when the service returns: the status it returned, with the instant it
  finished. Only that row changes, and only in status, error and finishing time.
\<close>

definition attempt_row :: "string \<Rightarrow> world \<Rightarrow> WakeAttemptRecord option" where
  "attempt_row k w = find_row wa_id k (attempts (w_db w))"

definition settled :: "string \<Rightarrow> AttemptStatus \<Rightarrow> world \<Rightarrow> bool" where
  "settled k st w = (case attempt_row k w of
     None \<Rightarrow> False
   | Some a \<Rightarrow> wa_status a = AttemptStatus_value st \<and> wa_finished_at a \<noteq> None)"

lemma AttemptStatus_value_known: "AttemptStatus_value st \<in> set attempt_statuses"
  by (cases st) (simp_all add: attempt_statuses_def)

lemma wp_attempt_update_row:
  assumes "pg_uuid env i = Some k" and "\<not> w_dead w"
    and "\<And>v. v = w\<lparr>w_db := (w_db w)\<lparr>attempts := update_rows wa_id k (set_status (AttemptStatus_value st) er fi) (attempts (w_db w))\<rparr>\<rparr> \<Longrightarrow> Q () v"
  shows "wp (attempt_update_status env i (AttemptStatus_value st) er fi) Q E w"
  using assms AttemptStatus_value_known [of st]
  by (simp add: attempt_update_status_def uuid_param_def conv_def update_attempt_def)

lemma settled_update:
  assumes "attempt_row k w \<noteq> None"
  shows "settled k st (w\<lparr>w_db := (w_db w)\<lparr>attempts :=
           update_rows wa_id k (set_status (AttemptStatus_value st) er (Some t)) (attempts (w_db w))\<rparr>\<rparr>)"
  using assms by (auto simp: settled_def attempt_row_def attempt_rows.find_update_same)

lemma wp_update_settles:
  assumes "pg_uuid env i = Some k" and "\<not> w_dead w" and "attempt_row k w \<noteq> None"
    and "\<And>v. settled k st v \<Longrightarrow> Q () v"
  shows "wp (attempt_update_status env i (AttemptStatus_value st) er (Some t)) Q E w"
  by (rule wp_attempt_update_row [OF assms(1,2)]) (use assms(3,4) settled_update in blast)

text \<open>
  The loop with enough fuel: it returns, the row says what it returned, \<open>ONLINE\<close> was an answer
  of the machine and \<open>TIMEOUT\<close> is past the deadline.
\<close>

lemma poll_loop_correct:
  assumes mono: "clock_mono env" and k: "pg_uuid env i = Some k"
    and "\<not> w_dead w" "attempt_row k w \<noteq> None"
    and "deadline + seconds timeout_s - time_of env w \<le> int fuel * seconds POLL_INTERVAL_S"
  shows "wp (poll_loop env i m host deadline timeout_s (Suc fuel))
           (\<lambda>r v. (r = Some ONLINE \<and> settled k ONLINE v \<and> (\<exists>n \<ge> w_tick w. contact env m host n)) \<or>
                  (r = Some TIMEOUT \<and> settled k TIMEOUT v \<and> deadline + seconds timeout_s \<le> time_of env v))
           (\<lambda>_ _. False) w"
  using assms(3-)
proof (induction fuel arbitrary: w)
  case 0
  have late: "clock env (w_tick w) + w_slept w - deadline < seconds timeout_s \<Longrightarrow> False"
    using 0 by (simp add: time_of_def)
  have "clock env (w_tick w) \<le> clock env (Suc (Suc (w_tick w)))"
    using mono by (simp add: clock_mono_def)
  moreover from 0 have "attempt_row k (w\<lparr>w_tick := Suc (Suc (w_tick w))\<rparr>) \<noteq> None"
    by (simp add: attempt_row_def)
  from settled_update [OF this, of TIMEOUT] have
    "settled k TIMEOUT (w\<lparr>w_tick := Suc (Suc (w_tick w)), w_db := (w_db w)\<lparr>attempts :=
        update_rows wa_id k (set_status ''timeout'' er (Some t)) (attempts (w_db w))\<rparr>\<rparr>)" for er t by simp
  ultimately show ?case
    using 0 by (intro wp_poll_round wp_attempt_update_row [OF k]) (auto simp: time_of_def dest: late)
next
  case (Suc fuel)
  have row: "attempt_row k (w\<lparr>w_tick := n\<rparr>) \<noteq> None" for n
    using Suc.prems by (simp add: attempt_row_def)
  have tick: "clock env (w_tick w) \<le> clock env n" if "w_tick w \<le> n" for n
    using mono that by (auto simp: clock_mono_def)
  show ?case
  proof (rule wp_poll_round)
    assume "seconds timeout_s \<le> clock env (w_tick w) + w_slept w - deadline"
    then show "wp (attempt_update_status env i (AttemptStatus_value TIMEOUT) (Some (timeout_message timeout_s))
          (Some (clock env (Suc (w_tick w)) + w_slept w)))
        (\<lambda>_ v. (Some TIMEOUT = Some ONLINE \<and> settled k ONLINE v \<and> (\<exists>n \<ge> w_tick w. contact env m host n)) \<or>
               (Some TIMEOUT = Some TIMEOUT \<and> settled k TIMEOUT v \<and> deadline + seconds timeout_s \<le> time_of env v))
        (\<lambda>_ _. False) (w\<lparr>w_tick := Suc (Suc (w_tick w))\<rparr>)"
      using settled_update [OF row, of TIMEOUT] tick [of "Suc (Suc (w_tick w))"] Suc.prems
      by (intro wp_attempt_update_row [OF k]) (auto simp: time_of_def)
  next
    fix n assume "w_tick w \<le> n" and "contact env m host (Suc (w_tick w))"
    moreover from this have "\<exists>n \<ge> w_tick w. contact env m host n"
      by (intro exI [of _ "Suc (w_tick w)"]) simp
    ultimately show "wp (attempt_update_status env i (AttemptStatus_value ONLINE) None (Some (clock env n + w_slept w)))
        (\<lambda>_ v. (Some ONLINE = Some ONLINE \<and> settled k ONLINE v \<and> (\<exists>n \<ge> w_tick w. contact env m host n)) \<or>
               (Some ONLINE = Some TIMEOUT \<and> settled k TIMEOUT v \<and> deadline + seconds timeout_s \<le> time_of env v))
        (\<lambda>_ _. False) (w\<lparr>w_tick := Suc n\<rparr>)"
      using settled_update [OF row, of ONLINE] Suc.prems
      by (intro wp_attempt_update_row [OF k]) auto
  next
    fix n assume n: "w_tick w \<le> n"
    let ?v = "w\<lparr>w_tick := n, w_slept := w_slept w + seconds POLL_INTERVAL_S\<rparr>"
    have "deadline + seconds timeout_s - time_of env ?v \<le> int fuel * seconds POLL_INTERVAL_S"
      using Suc.prems tick [OF n] by (simp add: time_of_def algebra_simps)
    moreover have "\<not> w_dead ?v" "attempt_row k ?v \<noteq> None"
      using Suc.prems by (simp_all add: attempt_row_def)
    ultimately have "wp (poll_loop env i m host deadline timeout_s (Suc fuel))
        (\<lambda>r v. (r = Some ONLINE \<and> settled k ONLINE v \<and> (\<exists>n \<ge> w_tick ?v. contact env m host n)) \<or>
               (r = Some TIMEOUT \<and> settled k TIMEOUT v \<and> deadline + seconds timeout_s \<le> time_of env v))
        (\<lambda>_ _. False) ?v"
      by (intro Suc.IH)
    then show "wp (poll_loop env i m host deadline timeout_s (Suc fuel))
        (\<lambda>r v. (r = Some ONLINE \<and> settled k ONLINE v \<and> (\<exists>n \<ge> w_tick w. contact env m host n)) \<or>
               (r = Some TIMEOUT \<and> settled k TIMEOUT v \<and> deadline + seconds timeout_s \<le> time_of env v))
        (\<lambda>_ _. False) ?v"
      by (elim wp_mono) (use n in \<open>auto intro: order_trans\<close>)
  qed
qed

section \<open>The service\<close>

lemma wp_ensure_online:
  assumes "\<not> w_dead w" "is_valid_uuid i" "pg_uuid env i = Some k" "attempt_row k w = Some a"
    and "find_row m_id (wa_machine_id a) (machines (w_db w)) = Some m" "canonical env (wa_machine_id a)"
    and body: "\<And>v. v = w\<lparr>w_db := (w_db w)\<lparr>attempts :=
          update_rows wa_id k (set_status ''waking'' None None) (attempts (w_db w))\<rparr>\<rparr> \<Longrightarrow>
        wp (poll_loop env i (machine_to_record m) (str_or (m_hostname m) (m_ip_address m))
             (wa_started_at a) (wa_poll_timeout_s a) fuel) Q E v"
  shows "wp (ensure_online_run env fuel i) Q E w"
proof -
  have "wp (attempt_update_status env i (AttemptStatus_value WAKING) None None)
      (\<lambda>_. wp (poll_loop env i (machine_to_record m) (str_or (m_hostname m) (m_ip_address m))
             (wa_started_at a) (wa_poll_timeout_s a) fuel) Q E) E w"
    by (rule wp_attempt_update_row [OF assms(3,1)]) (use body in simp)
  then show ?thesis
    using assms(1-6) by (simp add: ensure_online_run_def wp_attempt_get_by_id wp_machine_get_by_id
        attempt_row_def canonical_def Let_def)
qed

lemma wp_ensure_online_returns:
  assumes "clock_mono env"
    and "\<forall>a \<in> set (attempts (w_db w)).
           wa_started_at a + seconds (wa_poll_timeout_s a) - time_of env w \<le> int fuel * seconds POLL_INTERVAL_S"
  shows "wp (ensure_online_run env (Suc fuel) i) (\<lambda>r _. r \<noteq> None) (\<lambda>_ _. True) w"
proof -
  have loop: "wp (poll_loop env i m host (wa_started_at a) (wa_poll_timeout_s a) (Suc fuel))
      (\<lambda>r _. r \<noteq> None) (\<lambda>_ _. True) v"
    if "find_row wa_id k (attempts (w_db w)) = Some a" "w_tick v = w_tick w" "w_slept v = w_slept w" for k a m host v
  proof (rule poll_loop_ends [OF assms(1)])
    have "a \<in> set (attempts (w_db w))" using that(1) by (auto dest: find_row_SomeD)
    then show "wa_started_at a + seconds (wa_poll_timeout_s a) - time_of env v \<le> int fuel * seconds POLL_INTERVAL_S"
      using assms(2) that(2,3) by (auto simp: time_of_def)
  qed
  show ?thesis
    unfolding ensure_online_run_def
    by (auto simp: wp_attempt_get_by_id wp_machine_get_by_id Let_def simp del: not_None_eq
          split: option.split intro!: wp_attempt_update_any loop)
qed

text \<open>
  C20. With a clock that does not run backwards, \<open>EnsureOnlineService.run\<close> always comes to an
  end: one round more than the poll intervals left until the deadline is enough, whatever the
  machine does and whatever the attempt id is.
\<close>

theorem ensure_online_returns:
  assumes "clock_mono env"
    and "\<forall>a \<in> set (attempts (w_db w)).
           wa_started_at a + seconds (wa_poll_timeout_s a) - time_of env w \<le> int fuel * seconds POLL_INTERVAL_S"
  shows "wp (ensure_online_run env (Suc fuel) i) (\<lambda>r _. r \<noteq> None) (\<lambda>_ _. True) w"
  by (rule wp_ensure_online_returns [OF assms])

theorem ensure_online_returns_witness:
  "wp (ensure_online_run demo_env 3 uuid_b) (\<lambda>r _. r \<noteq> None) (\<lambda>_ _. True) (world_of demo_db_attempt 0)"
proof -
  have "clock_mono demo_env" by (simp add: clock_mono_def)
  then show ?thesis
    using ensure_online_returns [of demo_env "world_of demo_db_attempt 0" 2 uuid_b]
    by (simp add: time_of_def seconds_def POLL_INTERVAL_S_def eval_nat_numeral)
qed

text \<open>
  C4. For a stored attempt of a stored machine the service, given its time, raises nothing and
  ends with \<open>ONLINE\<close> or \<open>TIMEOUT\<close>; the attempt's row then holds that status and the instant it
  ended; \<open>ONLINE\<close> means that the host, or its address as the fallback, answered a probe of
  this run, and \<open>TIMEOUT\<close> that the deadline has passed.
\<close>

theorem ensure_online_correct:
  assumes "clock_mono env" and "\<not> w_dead w" "is_valid_uuid i" "pg_uuid env i = Some k"
    and "attempt_row k w = Some a" "find_row m_id (wa_machine_id a) (machines (w_db w)) = Some m"
    and "canonical env (wa_machine_id a)"
    and "wa_started_at a + seconds (wa_poll_timeout_s a) - time_of env w \<le> int fuel * seconds POLL_INTERVAL_S"
  shows "wp (ensure_online_run env (Suc fuel) i)
           (\<lambda>r v. (r = Some ONLINE \<and> settled k ONLINE v \<and>
                     (\<exists>n \<ge> w_tick w. contact env m (str_or (m_hostname m) (m_ip_address m)) n)) \<or>
                  (r = Some TIMEOUT \<and> settled k TIMEOUT v \<and>
                     wa_started_at a + seconds (wa_poll_timeout_s a) \<le> time_of env v))
           (\<lambda>_ _. False) w"
proof (rule wp_ensure_online [OF assms(2-7)])
  fix v assume v: "v = w\<lparr>w_db := (w_db w)\<lparr>attempts :=
      update_rows wa_id k (set_status ''waking'' None None) (attempts (w_db w))\<rparr>\<rparr>"
  have contact: "contact env (machine_to_record m) = contact env m"
    by (intro ext) (simp add: contact_def)
  have "attempt_row k v \<noteq> None"
    using assms(5) by (simp add: v attempt_row_def attempt_rows.find_update_same)
  with poll_loop_correct [OF assms(1,4), of v "wa_started_at a" "wa_poll_timeout_s a" fuel "machine_to_record m"
      "str_or (m_hostname m) (m_ip_address m)"] assms(2,8)
  show "wp (poll_loop env i (machine_to_record m) (str_or (m_hostname m) (m_ip_address m))
         (wa_started_at a) (wa_poll_timeout_s a) (Suc fuel))
       (\<lambda>r v. (r = Some ONLINE \<and> settled k ONLINE v \<and>
                 (\<exists>n \<ge> w_tick w. contact env m (str_or (m_hostname m) (m_ip_address m)) n)) \<or>
              (r = Some TIMEOUT \<and> settled k TIMEOUT v \<and>
                 wa_started_at a + seconds (wa_poll_timeout_s a) \<le> time_of env v))
       (\<lambda>_ _. False) v"
    by (simp add: v contact time_of_def)
qed

theorem ensure_online_correct_witness:
  "wp (ensure_online_run demo_env 3 uuid_b)
     (\<lambda>r v. (r = Some ONLINE \<and> settled uuid_b ONLINE v \<and>
               (\<exists>n \<ge> 0. contact demo_env demo_machine ''192.168.1.10'' n)) \<or>
            (r = Some TIMEOUT \<and> settled uuid_b TIMEOUT v \<and> seconds 10 \<le> time_of demo_env v))
     (\<lambda>_ _. False) (world_of demo_db_attempt 0)"
proof -
  have "clock_mono demo_env" by (simp add: clock_mono_def)
  then show ?thesis
    using ensure_online_correct [of demo_env "world_of demo_db_attempt 0" uuid_b uuid_b demo_attempt demo_machine 2]
    by (simp add: time_of_def seconds_def POLL_INTERVAL_S_def attempt_row_def eval_nat_numeral)
qed

end
