(* ===== verification/SettingsService.thy ===== *)
theory SettingsService
  imports Repositories Example
begin

text \<open>
  \<open>app/services/settings.py\<close>: typed access to the key/value settings. The interface
  \<open>settings_repository\<close> states what the service relies on (\<open>SettingsRepository\<close> of
  \<open>app/domain/ports.py\<close>): a lookup returns the value of the last write of its key. The
  service's lemmas are proved in it; the SQL repository interprets it.
\<close>

section \<open>str of a stored value\<close>

fun jval_repr :: "jval \<Rightarrow> string" where
  "jval_repr JNull = ''None''"
| "jval_repr (JBool b) = (if b then ''True'' else ''False'')"
| "jval_repr (JInt i) = show_int i"
| "jval_repr (JReal s) = s"
| "jval_repr (JStr s) = py_repr s"
| "jval_repr (JArr vs) = ''['' @ (case map jval_repr vs of [] \<Rightarrow> [] | r # rs \<Rightarrow> r @ List.concat (map (\<lambda>x. '', '' @ x) rs)) @ '']''"
| "jval_repr (JObj kvs) =
     ''{'' @ (case map (\<lambda>(k, v). py_repr k @ '': '' @ jval_repr v) kvs of
               [] \<Rightarrow> [] | r # rs \<Rightarrow> r @ List.concat (map (\<lambda>x. '', '' @ x) rs)) @ ''}''"

definition py_str :: "jval \<Rightarrow> string" where
  "py_str v = (case v of JStr s \<Rightarrow> s | _ \<Rightarrow> jval_repr v)"

lemma py_str_simps [simp]:
  "py_str (JStr s) = s" "py_str (JInt i) = show_int i" "py_str (JBool True) = ''True''"
  "py_str (JBool False) = ''False''" "py_str JNull = ''None''"
  by (simp_all add: py_str_def)

section \<open>SettingsService\<close>

text \<open>The service holds a repository; its operations take the repository's as arguments.\<close>

type_synonym repo_get_call = "string \<Rightarrow> jval option io"
type_synonym repo_set_call = "string \<Rightarrow> jval \<Rightarrow> unit io"

definition settings_get :: "repo_get_call \<Rightarrow> string \<Rightarrow> jval \<Rightarrow> jval io" where
  "settings_get repo_get key dflt =
     bind_p (repo_get key) (\<lambda>val.
       return_p (case val of None \<Rightarrow> dflt | Some v \<Rightarrow> v))"

definition settings_get_str :: "repo_get_call \<Rightarrow> string \<Rightarrow> string \<Rightarrow> string io" where
  "settings_get_str repo_get key dflt =
     bind_p (settings_get repo_get key (JStr dflt)) (\<lambda>val. return_p (py_str val))"

definition settings_get_int :: "repo_get_call \<Rightarrow> string \<Rightarrow> int \<Rightarrow> int io" where
  "settings_get_int repo_get key dflt =
     bind_p (settings_get repo_get key (JInt dflt)) (\<lambda>val.
       return_p (case py_int 10 (py_str val) of None \<Rightarrow> dflt | Some i \<Rightarrow> i))"

definition settings_get_bool :: "repo_get_call \<Rightarrow> string \<Rightarrow> bool \<Rightarrow> bool io" where
  "settings_get_bool repo_get key dflt =
     bind_p (settings_get repo_get key (JBool dflt)) (\<lambda>val.
       return_p (case val of
           JBool b \<Rightarrow> b
         | _ \<Rightarrow> lower (py_str val) \<in> set [''true'', ''1'', ''yes'']))"

definition settings_set :: "repo_set_call \<Rightarrow> string \<Rightarrow> jval \<Rightarrow> unit io" where
  "settings_set repo_set key value = repo_set key value"

definition settings_get_all :: "(string \<times> jval option) list io \<Rightarrow> (string \<times> jval option) list io" where
  "settings_get_all repo_get_all = repo_get_all"

text \<open>The keys the module names, with their types.\<close>

definition KNOWN_SETTINGS :: "(string \<times> string) list" where
  "KNOWN_SETTINGS =
     [(''app_title'', ''str''), (''wake_interface'', ''str''), (''default_wake_strategy'', ''str''),
      (''default_poll_timeout_s'', ''int''), (''allow_api_tokens'', ''bool''),
      (''session_lifetime_hours'', ''int''), (''probe_interval_s'', ''int''), (''log_level'', ''str'')]"

section \<open>The repository as the service sees it\<close>

locale settings_repository =
  fixes repo_get :: repo_get_call
    and repo_set :: repo_set_call
    and lookup :: "world \<Rightarrow> string \<Rightarrow> jval option"
    and usable :: "world \<Rightarrow> bool"
    and key_ok :: "string \<Rightarrow> bool"
  assumes get_lookup: "usable w \<Longrightarrow> repo_get k w = (Inr (lookup w k), w)"
    and set_lookup: "usable w \<Longrightarrow> key_ok k \<Longrightarrow>
      wp (repo_set k v) (\<lambda>_ w'. usable w' \<and> lookup w' = (lookup w)(k := (if v = JNull then None else Some v)))
        (\<lambda>_ _. False) w"
begin

lemma get_run:
  "usable w \<Longrightarrow> settings_get repo_get k d w = (Inr (case lookup w k of None \<Rightarrow> d | Some v \<Rightarrow> v), w)"
  by (simp add: settings_get_def get_lookup)

lemma get_str_run:
  "usable w \<Longrightarrow> settings_get_str repo_get k d w = (Inr (case lookup w k of None \<Rightarrow> d | Some v \<Rightarrow> py_str v), w)"
  by (simp add: settings_get_str_def get_run split: option.split)

lemma get_int_run:
  "usable w \<Longrightarrow> settings_get_int repo_get k d w =
     (Inr (case lookup w k of None \<Rightarrow> d
           | Some v \<Rightarrow> (case py_int 10 (py_str v) of None \<Rightarrow> d | Some i \<Rightarrow> i)), w)"
  by (simp add: settings_get_int_def get_run py_int_show_int split: option.split)

lemma get_bool_run:
  "usable w \<Longrightarrow> settings_get_bool repo_get k d w =
     (Inr (case lookup w k of None \<Rightarrow> d | Some (JBool b) \<Rightarrow> b
           | Some v \<Rightarrow> lower (py_str v) \<in> set [''true'', ''1'', ''yes'']), w)"
  by (simp add: settings_get_bool_def get_run split: option.split jval.split)

lemmas wp_getters = get_run [THEN wp_run] get_str_run [THEN wp_run] get_int_run [THEN wp_run]
  get_bool_run [THEN wp_run]

text \<open>Whatever is read after a write, the write is seen under its key and under no other.\<close>

lemma wp_after_set:
  assumes "usable w" "key_ok k"
    and "\<And>w'. usable w' \<Longrightarrow> lookup w' = (lookup w)(k := (if v = JNull then None else Some v)) \<Longrightarrow> Q () w'"
  shows "wp (settings_set repo_set k v) Q E w"
  unfolding settings_set_def
  by (rule wp_mono [OF set_lookup [OF assms(1,2), of v]]) (use assms(3) in auto)

lemma read_after_set:
  assumes "usable w" "key_ok k"
  shows "wp (then_p (settings_set repo_set k (JStr s)) (settings_get_str repo_get k d)) (\<lambda>r _. r = s) E w"
    and "wp (then_p (settings_set repo_set k (JInt i)) (settings_get_int repo_get k d')) (\<lambda>r _. r = i) E w"
    and "wp (then_p (settings_set repo_set k (JBool b)) (settings_get_bool repo_get k d'')) (\<lambda>r _. r = b) E w"
  unfolding wp_then
  by (rule wp_after_set [OF assms], simp add: wp_getters py_int_show_int)+

end

section \<open>The SQL repository provides the interface\<close>

definition setting_lookup :: "world \<Rightarrow> string \<Rightarrow> jval option" where
  "setting_lookup w k = (case find_row sg_key k (settings (w_db w)) of None \<Rightarrow> None | Some r \<Rightarrow> setting_value r)"

lemma setting_value_stored [simp]:
  "setting_value \<lparr>sg_key = k, sg_value = [(''v'', v)], sg_updated_at = t\<rparr> = (if v = JNull then None else Some v)"
  "setting_value (r\<lparr>sg_value := [(''v'', v)], sg_updated_at := t\<rparr>) = (if v = JNull then None else Some v)"
  by (simp_all add: setting_value_def dict_get_def)

interpretation setting_rows: row_change sg_key "\<lambda>r. r\<lparr>sg_value := v, sg_updated_at := t\<rparr>" for v t
  by unfold_locales simp

lemma find_upserted:
  assumes "upsert_setting k [(''v'', v)] t d = Inr (x, d')"
  shows "(case find_row sg_key k' (settings d') of None \<Rightarrow> None | Some r \<Rightarrow> setting_value r) =
         (if k' = k then (if v = JNull then None else Some v)
          else (case find_row sg_key k' (settings d) of None \<Rightarrow> None | Some r \<Rightarrow> setting_value r))"
proof (cases "find_row sg_key k (settings d)")
  case None
  with assms have "d' = d\<lparr>settings := settings d @ [\<lparr>sg_key = k, sg_value = [(''v'', v)], sg_updated_at = t\<rparr>]\<rparr>"
    by (auto simp: upsert_setting_def)
  with None show ?thesis by (auto simp: find_row_append split: option.split)
next
  case (Some r)
  show ?thesis
  proof (cases "sg_value r = [(''v'', v)]")
    case True
    with Some assms have "d' = d" "setting_value r = (if v = JNull then None else Some v)"
      by (auto simp: upsert_setting_def setting_value_def dict_get_def)
    with Some show ?thesis by simp
  next
    case False
    with Some assms have "settings d' =
        update_rows sg_key k (\<lambda>r. r\<lparr>sg_value := [(''v'', v)], sg_updated_at := t\<rparr>) (settings d)"
      by (auto simp: upsert_setting_def)
    with Some show ?thesis by (simp add: setting_rows.find_update)
  qed
qed

lemma upsert_accepts:
  "varchar 100 k \<Longrightarrow> \<exists>d'. upsert_setting k v t d = Inr ((), d')"
  by (auto simp: upsert_setting_def split: option.split)

interpretation sql_settings: settings_repository settings_repo_get "settings_repo_set env"
    setting_lookup "\<lambda>w. \<not> w_dead w" "varchar 100" for env
proof
  show "settings_repo_get k w = (Inr (setting_lookup w k), w)" if "\<not> w_dead w" for k w
    using that by (simp add: settings_repo_get_def setting_lookup_def split: option.split)
next
  fix w :: world and k :: string and v
  assume w: "\<not> w_dead w" and k: "varchar 100 k"
  let ?t = "clock env (w_tick w) + w_slept w"
  obtain d' where d': "upsert_setting k [(''v'', v)] ?t (w_db w) = Inr ((), d')"
    using upsert_accepts [OF k] by blast
  have "setting_lookup (w\<lparr>w_tick := n, w_db := d'\<rparr>) = (setting_lookup w)(k := (if v = JNull then None else Some v))" for n
    by (rule ext) (simp add: setting_lookup_def find_upserted [OF d'])
  with w d' show "wp (settings_repo_set env k v) (\<lambda>_ w'. \<not> w_dead w' \<and>
      setting_lookup w' = (setting_lookup w)(k := (if v = JNull then None else Some v))) (\<lambda>_ _. False) w"
    by (simp add: settings_repo_set_def)
qed

section \<open>Properties\<close>

text \<open>
  C36. Through the SQL repository, a setting written with a string, an integer or a boolean is
  read back by the getter of its type as that value, whatever the default; the key must fit its
  column of 100 characters.
\<close>

theorem settings_roundtrip:
  assumes "\<not> w_dead w" and "length k \<le> 100"
  shows "wp (then_p (settings_set (settings_repo_set env) k (JStr s)) (settings_get_str settings_repo_get k d))
           (\<lambda>r _. r = s) (\<lambda>_ _. False) w \<and>
         wp (then_p (settings_set (settings_repo_set env) k (JInt i)) (settings_get_int settings_repo_get k d'))
           (\<lambda>r _. r = i) (\<lambda>_ _. False) w \<and>
         wp (then_p (settings_set (settings_repo_set env) k (JBool b)) (settings_get_bool settings_repo_get k d''))
           (\<lambda>r _. r = b) (\<lambda>_ _. False) w"
  using assms by (intro conjI sql_settings.read_after_set) (simp_all add: varchar_def)

theorem settings_roundtrip_witness:
  "wp (then_p (settings_set (settings_repo_set demo_env) ''app_title'' (JStr ''Lab''))
       (settings_get_str settings_repo_get ''app_title'' ''WoL'')) (\<lambda>r _. r = ''Lab'') (\<lambda>_ _. False) (world_of demo_db 0)"
  using settings_roundtrip [of "world_of demo_db 0" "''app_title''" demo_env "''Lab''" "''WoL''"] by simp

text \<open>
  Writing one setting leaves every other as it was: a read under another key returns what
  it would have returned before.
\<close>

theorem settings_independent:
  assumes "\<not> w_dead w" and "length k \<le> 100" and "k' \<noteq> k"
  shows "wp (then_p (settings_set (settings_repo_set env) k v) (settings_get settings_repo_get k' d))
           (\<lambda>r _. fst (settings_get settings_repo_get k' d w) = Inr r) (\<lambda>_ _. False) w"
  unfolding wp_then using assms
  by (intro sql_settings.wp_after_set) (simp_all add: sql_settings.wp_getters sql_settings.get_run varchar_def)

theorem settings_independent_witness:
  "wp (then_p (settings_set (settings_repo_set demo_env) ''a'' (JInt 1)) (settings_get settings_repo_get ''b'' JNull))
     (\<lambda>r _. fst (settings_get settings_repo_get ''b'' JNull (world_of demo_db 0)) = Inr r) (\<lambda>_ _. False) (world_of demo_db 0)"
  by (rule settings_independent) simp_all

end
