(* ===== verification/Worker.thy ===== *)
theory Worker
  imports JobQueue WakeService EnsureOnline SettingsService
begin

text \<open>
  \<open>worker/main.py\<close>: the process that takes wake jobs off the queue. Each round claims a job,
  processes it in a session of its own and records how it went in the queue; whatever goes wrong
  is caught. The lemmas say that a round always leaves the claimed job finished, that the worker
  never stops by an exception, and what happens to the attempts.
\<close>

section \<open>Truth of a value\<close>

text \<open>\<open>bool(v)\<close> of a JSON value.\<close>

fun jval_truthy :: "jval \<Rightarrow> bool" where
  "jval_truthy JNull = False"
| "jval_truthy (JBool b) = b"
| "jval_truthy (JInt i) = (i \<noteq> 0)"
| "jval_truthy (JReal s) = (s \<notin> set [''0.0'', ''-0.0''])"
| "jval_truthy (JStr s) = (s \<noteq> [])"
| "jval_truthy (JArr vs) = (vs \<noteq> [])"
| "jval_truthy (JObj kvs) = (kvs \<noteq> [])"

text \<open>\<open>payload.get(key, default)\<close>.\<close>

definition payload_get :: "dict \<Rightarrow> string \<Rightarrow> jval \<Rightarrow> jval" where
  "payload_get payload key dflt = (case dict_get payload key of None \<Rightarrow> dflt | Some v \<Rightarrow> v)"

section \<open>Processing a job\<close>

definition WORKER_POLL_INTERVAL_S :: int where
  "WORKER_POLL_INTERVAL_S = 2"

definition job_machine_id :: "dict \<Rightarrow> string" where
  "job_machine_id payload = py_str (payload_get payload ''machine_id'' (JStr []))"

definition job_attempt_id :: "dict \<Rightarrow> string" where
  "job_attempt_id payload = py_str (payload_get payload ''attempt_id'' (JStr []))"

definition job_ensure_online :: "dict \<Rightarrow> bool" where
  "job_ensure_online payload = jval_truthy (payload_get payload ''ensure_online'' (JBool False))"

definition job_poll_timeout_s :: "dict \<Rightarrow> exn + int" where
  "job_poll_timeout_s payload =
     (case py_int 10 (py_str (payload_get payload ''poll_timeout_s'' (JInt 120))) of
        None \<Rightarrow> Inl (ValueError ''invalid literal for int() with base 10'')
      | Some i \<Rightarrow> Inr i)"

definition job_strategy_override :: "dict \<Rightarrow> string option" where
  "job_strategy_override payload =
     (case dict_get payload ''strategy_override'' of
        None \<Rightarrow> None
      | Some v \<Rightarrow> if jval_truthy v then Some (py_str v) else None)"

text \<open>
  \<open>_process_job\<close>. The value says whether the polling of \<open>EnsureOnlineService\<close> came to an end
  within the fuel; without polling it always is \<open>True\<close>.
\<close>

definition process_job :: "env \<Rightarrow> nat \<Rightarrow> dict \<Rightarrow> bool io" where
  "process_job env fuel payload =
     (let machine_id = job_machine_id payload;
          attempt_id = job_attempt_id payload;
          ensure_online = job_ensure_online payload
      in bind_p (lift_p (job_poll_timeout_s payload)) (\<lambda>poll_timeout_s.
         let strategy_override = job_strategy_override payload;
             actor_type = py_str (payload_get payload ''actor_type'' (JStr ''system''));
             actor_id = py_str (payload_get payload ''actor_id'' (JStr ''worker''))
         in bind_p (catch_p
              (then_p (wake_service_wake env machine_id actor_type actor_id ensure_online poll_timeout_s
                         strategy_override)
                 (return_p True))
              (\<lambda>exc. return_p False)) (\<lambda>woken.
         if \<not> woken then return_p True
         else if \<not> ensure_online then return_p True
         else
           bind_p (attempt_get_active_for_machine env machine_id) (\<lambda>active.
           let run_id = (case active of None \<Rightarrow> attempt_id | Some a \<Rightarrow> wa_id a) in
           if run_id = [] then return_p True
           else bind_p (ensure_online_run env fuel run_id) (\<lambda>final_status.
                return_p (final_status \<noteq> None))))))"

section \<open>The loop\<close>

text \<open>\<open>async with factory() as session\<close>: a new session, closed at the end.\<close>

definition with_session :: "'a io \<Rightarrow> 'a io" where
  "with_session m =
     then_p (modify_p (\<lambda>w. w\<lparr>w_db := w_committed w, w_dead := False\<rparr>))
       (catch_p (bind_p m (\<lambda>x. then_p rollback (return_p x)))
          (\<lambda>e. then_p rollback (raise_p e)))"

text \<open>One round of \<open>run_worker\<close>; \<open>False\<close> stands for a round that never ends.\<close>

definition worker_iteration :: "env \<Rightarrow> nat \<Rightarrow> bool io" where
  "worker_iteration env fuel =
     catch_p
       (bind_p (claim_next env) (\<lambda>job.
        case job of
          None \<Rightarrow> return_p True
        | Some (job_id, payload) \<Rightarrow>
            with_session
              (catch_p
                (bind_p (process_job env fuel payload) (\<lambda>ended.
                 if \<not> ended then return_p False
                 else then_p (mark_done env job_id) (then_p commit (return_p True))))
                (\<lambda>exc. then_p rollback
                   (then_p (mark_error env job_id (exn_str exc)) (return_p True))))))
       (\<lambda>exc. return_p True)"

text \<open>\<open>run_worker\<close>, when the signal that sets \<open>_shutdown\<close> is seen after \<open>n\<close> rounds.\<close>

primrec run_worker :: "env \<Rightarrow> nat \<Rightarrow> nat \<Rightarrow> bool io" where
  "run_worker env fuel 0 = return_p True"
| "run_worker env fuel (Suc n) =
     bind_p (worker_iteration env fuel) (\<lambda>ended.
       if \<not> ended then return_p False
       else then_p (sleep (seconds WORKER_POLL_INTERVAL_S)) (run_worker env fuel n))"

lemma run_worker_0: "run_worker env fuel 0 = return_p True"
  by (rule ext) (simp only: run_worker.simps)

lemma run_worker_Suc:
  "run_worker env fuel (Suc n) =
     bind_p (worker_iteration env fuel) (\<lambda>ended.
       if \<not> ended then return_p False
       else then_p (sleep (seconds WORKER_POLL_INTERVAL_S)) (run_worker env fuel n))"
  by (rule ext) (simp only: run_worker.simps)

declare run_worker.simps [simp del]

section \<open>The worker never stops\<close>

lemma wp_True [simp]: "wp m (\<lambda>_ _. True) (\<lambda>_ _. True) w"
  by (simp add: wp_def split: prod.split sum.split)

lemma worker_iteration_never_raises: "wp (worker_iteration env fuel) (\<lambda>_ _. True) (\<lambda>_ _. False) w"
  unfolding worker_iteration_def wp_catch wp_return by (rule wp_mono [OF wp_True]) simp_all

text \<open>
  The worker's loop never ends by an exception: whatever the jobs contain and however the
  database, the network and the machines behave, it runs until the signal is seen.
\<close>

theorem worker_never_raises: "wp (run_worker env fuel n) (\<lambda>_ _. True) (\<lambda>_ _. False) w"
proof (induction n arbitrary: w)
  case (Suc n)
  show ?case
    unfolding run_worker_Suc wp_bind
    by (rule wp_mono [OF worker_iteration_never_raises]) (simp_all add: Suc)
qed (unfold run_worker_0, simp)

section \<open>What a job may change\<close>

lemma process_job_attempts_only:
  assumes I: "attempt_free I"
  shows "keeps I (process_job env fuel payload)"
  unfolding process_job_def Let_def
  by (intro keeps_intros attempts_only [OF I] wake_attempts_only [OF I] ensure_online_attempts_only [OF I])

lemma process_job_wf [wf_intros]: "keeps wf_world (process_job env fuel payload)"
  unfolding process_job_def Let_def
  by (intro keeps_intros wf_intros)

lemma keeps_with_session:
  assumes "keeps I m" "\<And>w. I w \<Longrightarrow> I (w\<lparr>w_db := w_committed w, w_dead := False\<rparr>)"
  shows "keeps I (with_session m)"
  unfolding with_session_def rollback_def
  by (intro keeps_intros keeps_modify assms)

lemma worker_wf: "keeps wf_world (run_worker env fuel n)"
proof (induction n)
  case (Suc n)
  have "keeps wf_world (worker_iteration env fuel)"
    unfolding worker_iteration_def
    by (intro keeps_intros wf_intros keeps_with_session) (simp add: wf_world_def)
  then show ?case
    unfolding run_worker_Suc by (intro keeps_intros wf_intros Suc)
qed (unfold run_worker_0, rule keeps_return)

section \<open>Deadlines\<close>

text \<open>The instant at which the polling of an attempt gives up.\<close>

definition due :: "WakeAttemptRecord \<Rightarrow> datetime" where
  "due a = wa_started_at a + seconds (wa_poll_timeout_s a)"

definition all_due :: "int \<Rightarrow> datetime \<Rightarrow> world \<Rightarrow> bool" where
  "all_due s D w \<longleftrightarrow> w_slept w = s \<and> (\<forall>a \<in> set (attempts (w_db w)). due a \<le> D)"

lemma due_set_status [simp]: "due (set_status st er fi a) = due a"
  by (simp add: due_def)

lemma all_due_steps [simp]:
  "all_due s D (w\<lparr>w_tick := n\<rparr>) = all_due s D w" "all_due s D (w\<lparr>w_dead := b\<rparr>) = all_due s D w"
  "all_due s D (w\<lparr>w_sent := p\<rparr>) = all_due s D w"
  by (simp_all add: all_due_def)

lemma all_due_update: "keeps (all_due s D) (attempt_update_status env i st er fi)"
proof -
  have "keeps (all_due s D) (flush (update_attempt k st er fi))" for k
    by (rule keeps_flush) (auto simp: all_due_def update_attempt_def update_rows_def split: if_splits)
  then show ?thesis unfolding attempt_update_status_def by (intro keeps_intros)
qed

lemma wake_all_due:
  assumes "all_due s D w" and "clock env (Suc (w_tick w)) + w_slept w + seconds pt \<le> D"
  shows "wp (wake_service_wake env mid at ai eo pt ov) (\<lambda>_. all_due s D) (\<lambda>_. all_due s D) w"
proof -
  have send: "keeps (all_due s D) (send_and_record env m a st)" if "get_strategy env nm = Inr st" for m a st nm
    unfolding send_and_record_def Let_def
    by (intro keeps_intros strategy_keeps [OF that] all_due_update keeps_now) (simp_all add: all_due_def)
  have rest: "keeps (all_due s D) (bind_p (lift_p (get_strategy env nm)) (\<lambda>st.
      then_p (send_and_record env m a st) (return_p (wa_id a))))" for nm m a
    by (rule keeps_bind_lift) (intro keeps_intros, erule send)
  have insert: "wp (attempt_create env mid at ai nm eo pt) (\<lambda>_. all_due s D) (\<lambda>_. all_due s D) w" for nm
    using assms by (auto simp: attempt_create_def insert_attempt_def Let_def all_due_def due_def
        split: sum.split prod.split)
  have create: "wp (attempt_create env mid at ai nm eo pt)
      (\<lambda>a. wp (bind_p (lift_p (get_strategy env nm)) (\<lambda>st.
        then_p (send_and_record env m a st) (return_p (wa_id a)))) (\<lambda>_. all_due s D) (\<lambda>_. all_due s D))
      (\<lambda>_. all_due s D) w" for nm m
    by (rule wp_mono [OF insert]) (use rest in \<open>simp_all add: keeps_wp\<close>)
  show ?thesis
    using assms(1) create by (simp add: wake_service_wake_def wp_machine_get_by_id Let_def split: option.split)
qed

section \<open>A round finishes its job\<close>

lemma wp_if_fun: "wp (if b then m else n) Q E = (if b then wp m Q E else wp n Q E)"
  by simp

lemma process_job_ends:
  assumes mono: "clock_mono env" and D: "all_due s D w"
    and pt: "\<And>pt. job_poll_timeout_s payload = Inr pt \<Longrightarrow> clock env (Suc (w_tick w)) + w_slept w + seconds pt \<le> D"
    and fuel: "D - (clock env 0 + s) \<le> int fuel * seconds POLL_INTERVAL_S"
  shows "wp (process_job env (Suc fuel) payload) (\<lambda>r _. r) (\<lambda>_ _. True) w"
proof -
  have poll: "wp (ensure_online_run env (Suc fuel) i) (\<lambda>r _. r \<noteq> None) (\<lambda>_ _. True) v" if "all_due s D v" for i v
  proof (rule wp_ensure_online_returns [OF mono], rule ballI)
    fix a assume "a \<in> set (attempts (w_db v))"
    with that have "due a \<le> D" "w_slept v = s" by (simp_all add: all_due_def)
    moreover have "clock env 0 \<le> clock env (w_tick v)" using mono by (simp add: clock_mono_def)
    ultimately show "wa_started_at a + seconds (wa_poll_timeout_s a) - time_of env v \<le> int fuel * seconds POLL_INTERVAL_S"
      using fuel by (simp add: due_def time_of_def)
  qed
  have active: "keeps (all_due s D) (attempt_get_active_for_machine env mid)" for mid
    unfolding attempt_get_active_for_machine_def by (intro keeps_intros keeps_query)
  have after: "wp (bind_p (attempt_get_active_for_machine env mid) (\<lambda>active.
        let run_id = (case active of None \<Rightarrow> aid | Some a \<Rightarrow> wa_id a) in
        if run_id = [] then return_p True
        else bind_p (ensure_online_run env (Suc fuel) run_id) (\<lambda>r. return_p (r \<noteq> None))))
      (\<lambda>r _. r) (\<lambda>_ _. True) v" if "all_due s D v" for mid aid v
    unfolding wp_bind Let_def wp_if wp_return
    by (rule wp_mono [OF active [unfolded keeps_wp, rule_format, OF that]]) (simp_all add: poll del: not_None_eq)
  show ?thesis
  proof (cases "job_poll_timeout_s payload")
    case (Inr t)
    show ?thesis
      unfolding process_job_def Let_def wp_bind wp_lift Inr sum.case wp_catch wp_then wp_return wp_if_fun
      by (rule wp_mono [OF wake_all_due [OF D pt [OF Inr]]])
         (use after [unfolded wp_bind wp_return wp_if_fun Let_def] in \<open>simp_all add: Let_def wp_if_fun del: not_None_eq wp_if\<close>)
  qed (simp add: process_job_def Let_def)
qed

text \<open>The job is done or in error, and every other job is as it was.\<close>

definition job_settled :: "string \<Rightarrow> world \<Rightarrow> world \<Rightarrow> bool" where
  "job_settled i w v \<longleftrightarrow>
     status_of (jobs (w_committed v)) i \<in> set [Some ''done'', Some ''error''] \<and>
     (\<forall>k. k \<noteq> i \<longrightarrow> status_of (jobs (w_committed v)) k = status_of (jobs (w_committed w)) k)"

text \<open>
  Enough rounds of polling: from the start of the clock to the last deadline of an attempt
  stored, or of the one the job will make.
\<close>

definition enough_rounds :: "env \<Rightarrow> nat \<Rightarrow> world \<Rightarrow> dict \<Rightarrow> bool" where
  "enough_rounds env fuel w payload \<longleftrightarrow>
     (\<forall>D \<in> set (map due (attempts (w_committed w)) @
               (case job_poll_timeout_s payload of
                  Inl _ \<Rightarrow> []
                | Inr pt \<Rightarrow> [clock env (Suc (Suc (w_tick w))) + w_slept w + seconds pt])).
        D - (clock env 0 + w_slept w) \<le> int fuel * seconds POLL_INTERVAL_S)"

lemma status_of_claim: "status_of (update_rows j_id i (claim_row t) rows) k =
    (if k = i then map_option (\<lambda>_. ''running'') (status_of rows k) else status_of rows k)"
  by (rule status_of_update) simp_all

lemma status_of_done: "status_of (update_rows j_id i done_row rows) k =
    (if k = i then map_option (\<lambda>_. ''done'') (status_of rows k) else status_of rows k)"
  by (rule status_of_update) simp_all

lemma status_of_error: "status_of (update_rows j_id i (error_row e) rows) k =
    (if k = i then map_option (\<lambda>_. ''error'') (status_of rows k) else status_of rows k)"
  by (rule status_of_update) simp_all

lemmas status_of_rows = status_of_claim status_of_done status_of_error

lemma wp_with_session:
  "wp (with_session m) Q E w =
   wp m (\<lambda>x v. Q x (v\<lparr>w_db := w_committed v, w_dead := False\<rparr>))
        (\<lambda>e v. E e (v\<lparr>w_db := w_committed v, w_dead := False\<rparr>)) (w\<lparr>w_db := w_committed w, w_dead := False\<rparr>)"
proof -
  have "wp rollback Q' E' = (\<lambda>v. Q' () (v\<lparr>w_db := w_committed v, w_dead := False\<rparr>))" for Q' E' by (rule ext) simp
  then show ?thesis by (simp add: with_session_def)
qed

text \<open>The session of a job that is running: whatever the processing does, the job ends.\<close>

lemma wp_job_session:
  assumes id: "pg_uuid env i = Some i"
    and ends: "wp (process_job env fuel payload) (\<lambda>r _. r) (\<lambda>_ _. True) (w\<lparr>w_db := w_committed w, w_dead := False\<rparr>)"
    and row: "status_of (jobs (w_committed w)) i \<noteq> None"
  shows "wp (with_session (catch_p
       (bind_p (process_job env fuel payload) (\<lambda>ended.
          if \<not> ended then return_p False else then_p (mark_done env i) (then_p commit (return_p True))))
       (\<lambda>exc. then_p rollback (then_p (mark_error env i (exn_str exc)) (return_p True)))))
     (\<lambda>r v. r \<and> job_settled i w v) (\<lambda>_ _. False) w"
proof -
  let ?w = "w\<lparr>w_db := w_committed w, w_dead := False\<rparr>"
  let ?I = "\<lambda>v. jobs (w_db v) = jobs (w_committed w) \<and> w_committed v = w_committed w"
  have "wp (process_job env fuel payload) (\<lambda>_. ?I) (\<lambda>_. ?I) ?w"
    using process_job_attempts_only [of ?I env fuel payload] by (simp add: keeps_wp)
  with ends have "wp (process_job env fuel payload) (\<lambda>r v. r \<and> ?I v) (\<lambda>e v. True \<and> ?I v) ?w"
    unfolding wp_conj by simp
  then show ?thesis
    unfolding wp_with_session wp_catch wp_bind
    by (rule wp_mono) (use id row in \<open>auto simp: mark_done_def mark_error_def job_settled_def status_of_rows\<close>)
qed

lemma wp_worker_round:
  assumes mono: "clock_mono env"
    and j: "next_queued (\<lambda>_. False) (jobs (w_committed w)) = Some j" and id: "pg_uuid env (j_id j) = Some (j_id j)"
    and rounds: "enough_rounds env fuel w (j_payload j)"
  shows "wp (worker_iteration env (Suc fuel)) (\<lambda>r v. r \<and> job_settled (j_id j) w v) (\<lambda>_ _. False) w"
proof -
  define t where "t = clock env (w_tick w) + w_slept w"
  define claim where "claim = update_rows j_id (j_id j) (claim_row t)"
  define v where "v = w\<lparr>w_tick := Suc (w_tick w), w_committed := (w_committed w)\<lparr>jobs := claim (jobs (w_committed w))\<rparr>,
       w_db := (w_db w)\<lparr>jobs := claim (jobs (w_db w))\<rparr>\<rparr>"
  define v' where "v' = v\<lparr>w_db := w_committed v, w_dead := False\<rparr>"
  define Ds where "Ds = (clock env 0 + w_slept w) # map due (attempts (w_committed w)) @
     (case job_poll_timeout_s (j_payload j) of Inl _ \<Rightarrow> []
      | Inr pt \<Rightarrow> [clock env (Suc (Suc (w_tick w))) + w_slept w + seconds pt])"
  define D where "D = Max (set Ds)"
  have D_in: "D \<in> set Ds" unfolding D_def by (rule Max_in, rule finite_set) (simp add: Ds_def)
  have D_max: "x \<in> set Ds \<Longrightarrow> x \<le> D" for x unfolding D_def by (rule Max_ge) simp_all
  have "j \<in> set (jobs (w_committed w))" using next_queued_SomeD [OF j] by (simp add: oldest_waiting_def)
  then have row: "status_of (jobs (w_committed v)) (j_id j) \<noteq> None"
    by (simp add: v_def claim_def status_of_rows) (auto simp: status_of_def find_row_None simp flip: not_None_eq)
  have ends: "wp (process_job env (Suc fuel) (j_payload j)) (\<lambda>r _. r) (\<lambda>_ _. True) v'"
  proof (rule process_job_ends [OF mono])
    show "all_due (w_slept w) D v'" by (auto simp: all_due_def v'_def v_def Ds_def intro: D_max)
    show "clock env (Suc (w_tick v')) + w_slept v' + seconds pt \<le> D" if "job_poll_timeout_s (j_payload j) = Inr pt" for pt
      using that by (auto simp: v'_def v_def Ds_def intro: D_max)
    show "D - (clock env 0 + w_slept w) \<le> int fuel * seconds POLL_INTERVAL_S"
      using rounds D_in by (auto simp: enough_rounds_def Ds_def POLL_INTERVAL_S_def seconds_def)
  qed
  have settled: "job_settled (j_id j) v u \<Longrightarrow> job_settled (j_id j) w u" for u
    by (simp add: job_settled_def v_def claim_def status_of_rows)
  have claimed: "claim_next env w = (Inr (Some (j_id j, j_payload j)), v)"
    by (simp add: run_claim_next [OF j] v_def claim_def t_def)
  show ?thesis
    unfolding worker_iteration_def wp_catch wp_bind wp_run [where m = "claim_next env" and s = w, OF claimed] option.case prod.case
    by (rule wp_mono [OF wp_job_session [OF id ends [unfolded v'_def] row]]) (simp_all add: settled)
qed

text \<open>
  C12. A round of the worker, when a job is queued, finishes the job it claims: given time for
  the polling, the round ends, raises nothing, and leaves the committed status of that job at
  done or error; every other job is as it was. This holds whatever the payload contains and
  whatever fails meanwhile.
\<close>

theorem round_settles_job:
  assumes "clock_mono env" and "next_queued (\<lambda>_. False) (jobs (w_committed w)) = Some j"
    and "pg_uuid env (j_id j) = Some (j_id j)" and "enough_rounds env fuel w (j_payload j)"
  shows "wp (worker_iteration env (Suc fuel)) (\<lambda>ended v. ended \<and> job_settled (j_id j) w v) (\<lambda>_ _. False) w"
  by (rule wp_worker_round [OF assms])

definition demo_db_job :: db where
  "demo_db_job = demo_db_attempt\<lparr>jobs := [demo_job\<lparr>j_payload := [(''machine_id'', JStr uuid_a), (''poll_timeout_s'', JInt 10), (''ensure_online'', JBool True)]\<rparr>]\<rparr>"

lemma demo_clock_mono [simp]: "clock_mono demo_env"
  by (simp add: clock_mono_def)

theorem round_settles_job_witness:
  "wp (worker_iteration demo_env 4) (\<lambda>ended v. ended \<and> job_settled uuid_c (world_of demo_db_job 0) v)
     (\<lambda>_ _. False) (world_of demo_db_job 0)"
proof -
  have to: "job_poll_timeout_s (j_payload (hd (jobs demo_db_job))) = Inr 10"
    by (simp add: job_poll_timeout_s_def payload_get_def dict_get_def demo_db_job_def py_int_show_int)
  show ?thesis
    using round_settles_job [OF demo_clock_mono, of "world_of demo_db_job 0" "hd (jobs demo_db_job)" 3] to
    by (simp add: demo_db_job_def demo_job_def next_queued_def order_asc_def enough_rounds_def due_def
        seconds_def POLL_INTERVAL_S_def eval_nat_numeral)
qed

section \<open>The attempt made by the API\<close>

text \<open>
  The committed attempts and the packets sent before and after a round: nothing happened to the
  attempts there were, at most one was added, at most one packet was sent, and an attempt added
  as \<open>sent\<close> has a stored, enabled machine that the packet wakes.
\<close>

definition has_packet :: "MachineRecord list \<Rightarrow> sent list \<Rightarrow> WakeAttemptRecord \<Rightarrow> bool" where
  "has_packet ms ps a \<longleftrightarrow>
     (\<exists>m p. ps = [p] \<and> m \<in> set ms \<and> m_enabled m \<and> wa_machine_id a = m_id m \<and> wakes_machine (wa_strategy a) m p)"

definition attempts_extended :: "world \<Rightarrow> world \<Rightarrow> bool" where
  "attempts_extended w v \<longleftrightarrow>
     (\<exists>as ps. attempts (w_committed v) = attempts (w_committed w) @ as \<and> length as \<le> 1 \<and>
        w_sent v = ps @ w_sent w \<and> length ps \<le> 1 \<and>
        (\<forall>a \<in> set as. wa_status a = ''sent'' \<longrightarrow> has_packet (machines (w_committed w)) ps a))"

lemma wake_extends:
  assumes "pg_canonical env" "\<not> w_dead w"
  defines "X v \<equiv> \<exists>as ps. attempts (w_db v) = attempts (w_db w) @ as \<and> length as \<le> 1 \<and> w_sent v = ps @ w_sent w \<and>
      length ps \<le> 1 \<and> (\<forall>a \<in> set as. wa_status a = ''sent'' \<longrightarrow> has_packet (machines (w_db w)) ps a)"
  shows "wp (wake_service_wake env mid at ai eo pt ov) (\<lambda>_. X) (\<lambda>_. X) w"
proof (rule wp_mono [OF wp_wake_service [OF assms(1,2)]])
  have one: "X v" if "attempts (w_db v) = attempts (w_db w) @ [a]" "w_sent v = ps @ w_sent w" "length ps \<le> 1"
    "wa_status a = ''sent'' \<Longrightarrow> has_packet (machines (w_db w)) ps a" for a ps v
    unfolding X_def by (intro exI [of _ "[a]"] exI [of _ ps]) (use that in simp)
  show "X v" if "wake_sent env mid ov w aid v" for aid v
  proof -
    from that obtain m a p where "m \<in> set (machines (w_db w))" "m_enabled m" "wa_machine_id a = m_id m"
        "wakes_machine (wa_strategy a) m p" and v: "w_db v = (w_db w)\<lparr>attempts := attempts (w_db w) @ [a]\<rparr>" "w_sent v = p # w_sent w"
      unfolding wake_sent_def by blast
    then have "has_packet (machines (w_db w)) [p] a" by (auto simp: has_packet_def)
    then show ?thesis using v by (intro one [of v a "[p]"]) simp_all
  qed
  show "X v" if "wake_refused w v \<or> wake_failed env w e v \<or> wake_unknown_strategy env w e v" for e v
    using that
  proof (elim disjE)
    assume "wake_refused w v"
    then show ?thesis unfolding X_def wake_refused_def by (intro exI [of _ "[]"]) simp
  next
    assume "wake_failed env w e v"
    then show ?thesis unfolding wake_failed_def by (auto intro: one)
  next
    assume "wake_unknown_strategy env w e v"
    then show ?thesis unfolding wake_unknown_strategy_def by (auto intro: one [of _ _ "[]"])
  qed
qed

lemma wp_no_poll_round:
  assumes "pg_canonical env" and j: "next_queued (\<lambda>_. False) (jobs (w_committed w)) = Some j"
    and id: "pg_uuid env (j_id j) = Some (j_id j)" and poll: "\<not> job_ensure_online (j_payload j)"
  shows "wp (worker_iteration env fuel) (\<lambda>r v. r \<and> attempts_extended w v \<and> job_settled (j_id j) w v) (\<lambda>_ _. False) w"
proof -
  let ?X = "\<lambda>v. \<exists>as ps. attempts (w_db v) = attempts (w_committed w) @ as \<and> length as \<le> 1 \<and> w_sent v = ps @ w_sent w \<and>
      length ps \<le> 1 \<and> (\<forall>a \<in> set as. wa_status a = ''sent'' \<longrightarrow> has_packet (machines (w_committed w)) ps a)"
  obtain v where v: "claim_next env w = (Inr (Some (j_id j, j_payload j)), v)"
      "attempts (w_committed v) = attempts (w_committed w) \<and> machines (w_committed v) = machines (w_committed w) \<and>
       w_sent v = w_sent w"
      "\<exists>t. jobs (w_committed v) = update_rows j_id (j_id j) (claim_row t) (jobs (w_committed w))"
    using run_claim_next [OF j] by auto
  let ?v = "v\<lparr>w_db := w_committed v, w_dead := False\<rparr>"
  let ?I = "\<lambda>u. jobs (w_db u) = jobs (w_committed v) \<and> w_committed u = w_committed v"
  have "?X ?v" using v(2) by (intro exI [of _ "[]"]) simp
  then have "wp (process_job env fuel (j_payload j)) (\<lambda>r u. r \<and> ?X u) (\<lambda>_. ?X) ?v"
    using poll v(2) wake_extends [OF assms(1), of ?v]
    by (simp add: process_job_def Let_def split: sum.split)
  moreover have "wp (process_job env fuel (j_payload j)) (\<lambda>_. ?I) (\<lambda>_. ?I) ?v"
    using process_job_attempts_only [of ?I env fuel "j_payload j"] by (simp add: keeps_wp)
  ultimately have body: "wp (process_job env fuel (j_payload j)) (\<lambda>r u. (r \<and> ?X u) \<and> ?I u) (\<lambda>_ u. ?X u \<and> ?I u) ?v"
    unfolding wp_conj by blast
  have "j \<in> set (jobs (w_committed w))" using next_queued_SomeD [OF j] by (simp add: oldest_waiting_def)
  then have "status_of (jobs (w_committed w)) (j_id j) \<noteq> None"
    by (auto simp: status_of_def find_row_None simp flip: not_None_eq)
  with v(3) have jobs: "\<exists>s. status_of (jobs (w_committed v)) (j_id j) = Some s"
      "\<And>k. k \<noteq> j_id j \<Longrightarrow> status_of (jobs (w_committed v)) k = status_of (jobs (w_committed w)) k"
    by (auto simp: status_of_rows)
  show ?thesis
    unfolding worker_iteration_def wp_catch wp_bind wp_run [where m = "claim_next env" and s = w, OF v(1)]
      option.case prod.case wp_with_session
    by (rule wp_mono [OF body])
       (use id v(2) jobs in \<open>auto simp: mark_done_def mark_error_def attempts_extended_def job_settled_def status_of_rows\<close>)
qed

text \<open>
  A job that does not poll never touches the attempt that \<open>POST /wake\<close> made for it: all
  attempts that were committed before the round are as they were afterwards, and the worker
  records its own attempt beside them. The attempt id in the payload is used for polling only,
  so the one the caller was given stays pending.
\<close>

theorem api_attempt_stays_pending:
  assumes "pg_canonical env" and "next_queued (\<lambda>_. False) (jobs (w_committed w)) = Some j"
    and "pg_uuid env (j_id j) = Some (j_id j)" and "\<not> job_ensure_online (j_payload j)"
  shows "wp (worker_iteration env fuel) (\<lambda>_ v. attempts_extended w v) (\<lambda>_ _. False) w"
  by (rule wp_mono [OF wp_no_poll_round [OF assms]]) simp_all

theorem api_attempt_stays_pending_witness:
  "wp (worker_iteration demo_env 0) (\<lambda>_ v. attempts_extended (world_of (demo_db_job\<lparr>jobs := [demo_job]\<rparr>) 0) v)
     (\<lambda>_ _. False) (world_of (demo_db_job\<lparr>jobs := [demo_job]\<rparr>) 0)"
  by (rule api_attempt_stays_pending [where j = demo_job])
     (simp_all add: demo_job_def next_queued_def order_asc_def job_ensure_online_def payload_get_def dict_get_def)

text \<open>
  A wake that fails is not reported in the queue: a job for a machine that is not stored
  sends nothing, and is marked done.
\<close>

theorem failed_wake_is_done:
  assumes "next_queued (\<lambda>_. False) (jobs (w_committed w)) = Some j"
    and "pg_uuid env (j_id j) = Some (j_id j)" and "job_poll_timeout_s (j_payload j) = Inr timeout"
    and "pg_uuid env (job_machine_id (j_payload j)) = Some k" and "k \<notin> m_id ` set (machines (w_committed w))"
  shows "wp (worker_iteration env fuel)
           (\<lambda>ended v. ended \<and> status_of (jobs (w_committed v)) (j_id j) = Some ''done'' \<and> w_sent v = w_sent w)
           (\<lambda>_ _. False) w"
proof -
  have none: "find_row m_id k (machines (w_committed w)) = None" using assms(5) by (simp add: find_row_None)
  have "j \<in> set (jobs (w_committed w))" using next_queued_SomeD [OF assms(1)] by (simp add: oldest_waiting_def)
  then have "find_row j_id (j_id j) (jobs (w_committed w)) \<noteq> None" by (simp add: find_row_None)
  then have row: "status_of (jobs (w_committed w)) (j_id j) \<noteq> None" by (simp add: status_of_def)
  note step = wp_run [where m = "claim_next env" and s = w, OF run_claim_next [OF assms(1)]]
  show ?thesis
    unfolding worker_iteration_def wp_catch wp_bind step option.case prod.case wp_with_session
    using assms(2-4) none row
    by (auto simp: process_job_def wake_service_wake_def wp_machine_get_by_id Let_def mark_done_def status_of_rows)
qed

theorem failed_wake_is_done_witness:
  "wp (worker_iteration demo_env 0)
     (\<lambda>ended v. ended \<and> status_of (jobs (w_committed v)) uuid_c = Some ''done'' \<and>
        w_sent v = w_sent (world_of (empty_db\<lparr>jobs := [demo_job]\<rparr>) 0))
     (\<lambda>_ _. False) (world_of (empty_db\<lparr>jobs := [demo_job]\<rparr>) 0)"
  using failed_wake_is_done [of "world_of (empty_db\<lparr>jobs := [demo_job]\<rparr>) 0" demo_job demo_env 120 uuid_a 0]
  by (simp add: empty_db_def demo_job_def next_queued_def order_asc_def job_poll_timeout_s_def job_machine_id_def
      payload_get_def dict_get_def py_int_show_int)

end
