(* ===== verification/ApiWake.thy ===== *)
theory ApiWake
  imports ApiMachines Worker
begin

text \<open>
  \<open>app/api/wake.py\<close>: the wake of a machine through the queue or directly, the status of an
  attempt and the live probe of a machine. The queued wake commits its attempt in the middle of
  the request, so that the job, which another session inserts, may refer to it.
\<close>

section \<open>Schemas\<close>

record WakeRequest =
  wr_ensure_online :: bool
  wr_poll_timeout_s :: int
  wr_strategy :: "WakeStrategy option"

record WakeResponse =
  wp_attempt_id :: string
  wp_status :: string
  wp_message :: string

record AttemptStatusResponse =
  ar_id :: string
  ar_machine_id :: string
  ar_status :: string
  ar_strategy :: string
  ar_ensure_online :: bool
  ar_error :: "string option"
  ar_started_at :: string
  ar_finished_at :: "string option"

record MachineStatusResponse =
  ms_machine_id :: string
  ms_ping_ok :: bool
  ms_tcp_ssh_ok :: bool
  ms_state :: string
  ms_observed_at :: string

definition wake_request_ok :: "WakeRequest \<Rightarrow> bool" where
  "wake_request_ok b \<longleftrightarrow> 10 \<le> wr_poll_timeout_s b \<and> wr_poll_timeout_s b \<le> 600"

section \<open>Endpoints\<close>

definition wake_payload :: "string \<Rightarrow> string \<Rightarrow> WakeRequest \<Rightarrow> string \<Rightarrow> dict" where
  "wake_payload machine_id attempt_id body user_id =
     [(''machine_id'', JStr machine_id), (''attempt_id'', JStr attempt_id),
      (''ensure_online'', JBool (wr_ensure_online body)),
      (''poll_timeout_s'', JInt (wr_poll_timeout_s body)),
      (''strategy_override'', case wr_strategy body of None \<Rightarrow> JNull | Some s \<Rightarrow> JStr (WakeStrategy_value s)),
      (''actor_type'', JStr ''user''), (''actor_id'', JStr user_id)]"

definition wake_machine :: "env \<Rightarrow> request \<Rightarrow> string \<Rightarrow> WakeRequest \<Rightarrow> WakeResponse io" where
  "wake_machine env rq machine_id body =
     bind_p (csrf_protected_user env rq) (\<lambda>user.
     with_body (wake_request_ok body)
       (bind_p (machine_get_by_id env machine_id) (\<lambda>machine.
        case machine of
          None \<Rightarrow> raise_p machine_not_found
        | Some machine \<Rightarrow>
            bind_p (attempt_create env machine_id ''user'' (u_id user)
                      (case wr_strategy body of Some s \<Rightarrow> WakeStrategy_value s | None \<Rightarrow> m_wake_strategy machine)
                      (wr_ensure_online body) (wr_poll_timeout_s body)) (\<lambda>attempt.
            then_p commit
              (then_p (enqueue env machine_id (wa_id attempt) ''wake''
                         (wake_payload machine_id (wa_id attempt) body (u_id user)))
                (return_p \<lparr>wp_attempt_id = wa_id attempt, wp_status = AttemptStatus_value PENDING,
                            wp_message = ''Wake job queued''\<rparr>))))))"

definition wake_machine_direct :: "env \<Rightarrow> request \<Rightarrow> string \<Rightarrow> WakeRequest \<Rightarrow> WakeResponse io" where
  "wake_machine_direct env rq machine_id body =
     bind_p (get_api_token env rq) (\<lambda>token.
     with_body (wake_request_ok body)
       (bind_p (catch_p
            (wake_service_wake env machine_id ''api_token'' (t_id token) (wr_ensure_online body)
               (wr_poll_timeout_s body) (map_option WakeStrategy_value (wr_strategy body)))
            (\<lambda>exc. case exc of WakeError m \<Rightarrow> raise_p (HTTPException 422 (exn_str exc)) | _ \<Rightarrow> raise_p exc)) (\<lambda>attempt_id.
        return_p \<lparr>wp_attempt_id = attempt_id, wp_status = AttemptStatus_value SENT,
                    wp_message = ''Wake packet sent''\<rparr>)))"

definition attempt_not_found :: exn where
  "attempt_not_found = HTTPException 404 ''Attempt not found''"

definition get_attempt_status :: "env \<Rightarrow> request \<Rightarrow> string \<Rightarrow> string \<Rightarrow> AttemptStatusResponse io" where
  "get_attempt_status env rq machine_id attempt_id =
     then_p (get_user_from_session_or_token env rq)
       (bind_p (attempt_get_by_id env attempt_id) (\<lambda>attempt.
        case attempt of
          None \<Rightarrow> raise_p attempt_not_found
        | Some a \<Rightarrow>
            if wa_machine_id a \<noteq> machine_id then raise_p attempt_not_found
            else return_p \<lparr>ar_id = wa_id a, ar_machine_id = wa_machine_id a, ar_status = wa_status a,
                           ar_strategy = wa_strategy a, ar_ensure_online = wa_ensure_online a,
                           ar_error = wa_error a, ar_started_at = isoformat (wa_started_at a),
                           ar_finished_at = map_option isoformat (wa_finished_at a)\<rparr>))"

definition machine_status :: "env \<Rightarrow> request \<Rightarrow> string \<Rightarrow> MachineStatusResponse io" where
  "machine_status env rq machine_id =
     then_p (get_user_from_session_or_token env rq)
       (bind_p (machine_get_by_id env machine_id) (\<lambda>machine.
        case machine of
          None \<Rightarrow> raise_p machine_not_found
        | Some m \<Rightarrow>
            let host = str_or (m_hostname m) (m_ip_address m) in
            bind_p (probe env machine_id host (m_ssh_port m)
                      (if truthy (m_hostname m) then Some (m_ip_address m) else None)) (\<lambda>result.
              return_p \<lparr>ms_machine_id = machine_id, ms_ping_ok = pr_ping_ok result, ms_tcp_ssh_ok = pr_tcp_ssh_ok result,
                         ms_state = ProbeState_value (derived_state result),
                         ms_observed_at = isoformat (pr_observed_at result)\<rparr>)))"

section \<open>Wakes through the queue\<close>

text \<open>One attempt and one job, committed, for one request.\<close>

definition wake_queued :: "env \<Rightarrow> string \<Rightarrow> WakeRequest \<Rightarrow> world \<Rightarrow> WakeResponse \<Rightarrow> world \<Rightarrow> bool" where
  "wake_queued env machine_id body w r v \<longleftrightarrow>
     (\<exists>a j uid. w_committed v = (w_db w)\<lparr>attempts := attempts (w_db w) @ [a], jobs := jobs (w_db w) @ [j]\<rparr> \<and>
        w_db v = w_committed v \<and> w_sent v = w_sent w \<and>
        wa_id a = wp_attempt_id r \<and> wa_id a \<notin> wa_id ` set (attempts (w_db w)) \<and> wa_status a = ''pending'' \<and>
        pg_uuid env machine_id = Some (wa_machine_id a) \<and>
        j_attempt_id j = wa_id a \<and> j_machine_id j = wa_machine_id a \<and> j_status j = ''queued'' \<and>
        j_payload j = wake_payload machine_id (wa_id a) body uid \<and>
        (\<exists>i. pg_uuid env i = Some (j_id j)))"

text \<open>What a refused request leaves: nothing is sent and no job is added.\<close>

definition wake_not_queued :: "world \<Rightarrow> world \<Rightarrow> bool" where
  "wake_not_queued w v \<longleftrightarrow> w_sent v = w_sent w \<and> jobs (w_committed v) = jobs (w_committed w)"

text \<open>A row as \<open>enqueue\<close> inserts it.\<close>

definition fresh_job :: "env \<Rightarrow> world \<Rightarrow> string \<Rightarrow> string \<Rightarrow> dict \<Rightarrow> WakeJob \<Rightarrow> bool" where
  "fresh_job env w mid aid payload j \<longleftrightarrow>
     pg_uuid env (uuid4 env (w_tick w)) = Some (j_id j) \<and> j_id j \<notin> j_id ` set (jobs (w_committed w)) \<and>
     pg_uuid env mid = Some (j_machine_id j) \<and> pg_uuid env aid = Some (j_attempt_id j) \<and>
     j_status j = ''queued'' \<and> j_payload j = payload"

lemma wp_enqueue:
  assumes "\<And>i j. fresh_job env w mid aid payload j \<Longrightarrow> i = j_id j \<Longrightarrow>
      Q i (w\<lparr>w_tick := Suc (Suc (w_tick w)),
        w_committed := (w_committed w)\<lparr>jobs := jobs (w_committed w) @ [j]\<rparr>, w_db := (w_db w)\<lparr>jobs := jobs (w_db w) @ [j]\<rparr>\<rparr>)"
    and "\<And>e n. E e (w\<lparr>w_tick := n\<rparr>)"
  shows "wp (enqueue env mid aid ty payload) Q E w"
  by (auto simp: enqueue_def insert_job_def fresh_job_def Let_def intro!: assms split: sum.split prod.split)

lemma wake_queuedI:
  assumes "w_db w = w_committed w" "fresh_attempt env (w\<lparr>w_tick := n\<rparr>) machine_id at ai st eo pt a"
    and "fresh_job env u machine_id (wa_id a) (wake_payload machine_id (wa_id a) body uid) j"
    and "pg_uuid env (wa_id a) = Some (wa_id a)" "wa_id a = wp_attempt_id r"
    and "w_db v = w_committed v" "w_sent v = w_sent w"
    and "w_committed v = (w_db w)\<lparr>attempts := attempts (w_db w) @ [a], jobs := jobs (w_db w) @ [j]\<rparr>"
  shows "wake_queued env machine_id body w r v"
  unfolding wake_queued_def
  by (intro exI [of _ a] exI [of _ j] exI [of _ uid])
     (use assms in \<open>auto simp: fresh_attempt_def fresh_job_def\<close>)

lemma wp_wake_machine:
  assumes "pg_canonical env" and "\<not> w_dead w" and "w_db w = w_committed w"
  shows "wp (wake_machine env rq machine_id body) (wake_queued env machine_id body w) (\<lambda>_. wake_not_queued w) w"
  unfolding wake_machine_def wp_bind
proof (rule wp_reader [OF csrf_protected_user_reader])
  show "wake_not_queued w (w\<lparr>w_tick := n\<rparr>)" for n by (simp add: wake_not_queued_def)
next
  fix user n
  let ?w = "w\<lparr>w_tick := n\<rparr>"
  have create: "wp (attempt_create env machine_id ''user'' (u_id user) st eo pt)
     (\<lambda>attempt. wp (then_p commit
        (then_p (enqueue env machine_id (wa_id attempt) ''wake'' (wake_payload machine_id (wa_id attempt) body (u_id user)))
           (return_p \<lparr>wp_attempt_id = wa_id attempt, wp_status = AttemptStatus_value PENDING, wp_message = ''Wake job queued''\<rparr>)))
        (wake_queued env machine_id body w) (\<lambda>_. wake_not_queued w))
     (\<lambda>_. wake_not_queued w) ?w" for st eo pt
  proof (rule wp_attempt_create)
    fix a assume a: "fresh_attempt env ?w machine_id ''user'' (u_id user) st eo pt a" and "\<not> w_dead ?w"
    then have "pg_uuid env (wa_id a) = Some (wa_id a)"
      using assms(1) by (auto simp: fresh_attempt_def pg_canonical_def canonical_def)
    then show "wp (then_p commit
        (then_p (enqueue env machine_id (wa_id a) ''wake'' (wake_payload machine_id (wa_id a) body (u_id user)))
           (return_p \<lparr>wp_attempt_id = wa_id a, wp_status = AttemptStatus_value PENDING, wp_message = ''Wake job queued''\<rparr>)))
        (wake_queued env machine_id body w) (\<lambda>_. wake_not_queued w)
        (?w\<lparr>w_tick := Suc (Suc (w_tick ?w)), w_db := (w_db ?w)\<lparr>attempts := attempts (w_db ?w) @ [a]\<rparr>\<rparr>)"
      using assms(2,3) by (auto simp: wake_not_queued_def intro!: wp_enqueue wake_queuedI [OF _ a])
  qed (simp add: wake_not_queued_def)
  have refused: "wake_not_queued w ?w" by (simp add: wake_not_queued_def)
  show "wp (with_body (wake_request_ok body)
       (bind_p (machine_get_by_id env machine_id) (\<lambda>machine.
        case machine of
          None \<Rightarrow> raise_p machine_not_found
        | Some machine \<Rightarrow>
            bind_p (attempt_create env machine_id ''user'' (u_id user)
                      (case wr_strategy body of Some s \<Rightarrow> WakeStrategy_value s | None \<Rightarrow> m_wake_strategy machine)
                      (wr_ensure_online body) (wr_poll_timeout_s body)) (\<lambda>attempt.
            then_p commit
              (then_p (enqueue env machine_id (wa_id attempt) ''wake''
                         (wake_payload machine_id (wa_id attempt) body (u_id user)))
                (return_p \<lparr>wp_attempt_id = wa_id attempt, wp_status = AttemptStatus_value PENDING,
                            wp_message = ''Wake job queued''\<rparr>)))))) (wake_queued env machine_id body w) (\<lambda>_. wake_not_queued w) ?w"
    using create refused by (simp add: with_body_def wp_machine_get_by_id split: option.split)
qed

text \<open>
  C11. A request to wake a machine through the queue that succeeds has committed exactly one
  attempt, pending, with the id it answers, and exactly one queued job that refers to it and
  carries the request; it sent nothing itself. One that is refused sent nothing and queued
  nothing.
\<close>

theorem wake_request_queues_job:
  assumes "pg_canonical env" and "\<not> w_dead w" and "w_db w = w_committed w"
  shows "wp (wake_machine env rq machine_id body) (wake_queued env machine_id body w) (\<lambda>_. wake_not_queued w) w"
  by (rule wp_wake_machine [OF assms])

text \<open>A user's session with the CSRF token the login handed out.\<close>

definition demo_csrf_request :: request where
  "demo_csrf_request = demo_request\<lparr>rq_csrf_header :=
     Some (its_dumps demo_env (app_secret demo_env) CSRF_SALT (csrf_payload uuid_b ''k'') 0)\<rparr>"

definition demo_wake_request :: WakeRequest where
  "demo_wake_request = \<lparr>wr_ensure_online = False, wr_poll_timeout_s = 10, wr_strategy = None\<rparr>"

theorem wake_request_queues_job_witness:
  "wp (wake_machine demo_env demo_csrf_request uuid_a demo_wake_request)
     (wake_queued demo_env uuid_a demo_wake_request (world_of demo_db_auth 0))
     (\<lambda>_. wake_not_queued (world_of demo_db_auth 0)) (world_of demo_db_auth 0)"
  by (rule wake_request_queues_job) simp_all

section \<open>A queued wake and the worker\<close>

definition jobs_finished :: "world \<Rightarrow> bool" where
  "jobs_finished w \<longleftrightarrow>
     list_all (\<lambda>j. status_of (jobs (w_committed w)) (j_id j) \<in> set [Some ''done'', Some ''error'']) (jobs (w_committed w))"

lemma settled_finished:
  assumes "jobs (w_committed w) = [j]" "job_settled (j_id j) w v"
  shows "jobs_finished v"
  unfolding jobs_finished_def list_all_iff
proof
  fix i assume i: "i \<in> set (jobs (w_committed v))"
  then have "status_of (jobs (w_committed v)) (j_id i) \<noteq> None"
    by (auto simp: status_of_def find_row_None simp flip: not_None_eq)
  with assms have "j_id i = j_id j" by (auto simp: job_settled_def status_of_def split: if_splits)
  with assms(2) show "status_of (jobs (w_committed v)) (j_id i) \<in> set [Some ''done'', Some ''error'']"
    by (simp add: job_settled_def)
qed

text \<open>
  The committed attempts and the packets after a queued wake was served: the attempt the client
  was told of comes first and is pending; the worker may have added one of its own, and sent one
  packet, which wakes the machine if that attempt is recorded as sent.
\<close>

definition served_beside :: "WakeResponse \<Rightarrow> world \<Rightarrow> world \<Rightarrow> bool" where
  "served_beside r w v \<longleftrightarrow>
     (\<exists>a as ps. attempts (w_committed v) = attempts (w_committed w) @ a # as \<and>
        wa_id a = wp_attempt_id r \<and> wa_status a = ''pending'' \<and> length as \<le> 1 \<and>
        w_sent v = ps @ w_sent w \<and> length ps \<le> 1 \<and>
        (\<forall>b \<in> set as. wa_status b = ''sent'' \<longrightarrow> has_packet (machines (w_committed w)) ps b))"

lemma queued_payload_no_poll:
  "\<not> wr_ensure_online body \<Longrightarrow> \<not> job_ensure_online (wake_payload mid aid body uid)"
  by (simp add: job_ensure_online_def payload_get_def dict_get_def wake_payload_def)

text \<open>
  The request and the round of the worker that serves it, one after the other: the job ends
  as done or in error, and the attempt whose id the client was given is still pending, whatever
  happened to the packet. That is recorded in another attempt, which the worker adds: if it says
  sent, one packet that wakes the machine was sent. A client that polls the attempt it was told
  of never sees it move.
\<close>

theorem queued_wake_stays_pending:
  assumes "pg_canonical env" and "jobs (w_committed w) = []" and "\<not> wr_ensure_online body"
  shows "wp (bind_p (get_db_session (wake_machine env rq machine_id body)) (\<lambda>r.
               then_p (worker_iteration env fuel) (return_p r)))
           (\<lambda>r v. served_beside r w v \<and> jobs_finished v) (\<lambda>_ _. True) w"
proof -
  let ?w = "w\<lparr>w_db := w_committed w, w_dead := False\<rparr>"
  have worker: "wp (worker_iteration env fuel) (\<lambda>_ u. served_beside r w u \<and> jobs_finished u) (\<lambda>_ _. True)
      (v\<lparr>w_committed := w_db v\<rparr>)" if queued: "wake_queued env machine_id body ?w r v" for r v
  proof -
    let ?v = "v\<lparr>w_committed := w_db v\<rparr>"
    have sent: "w_sent v = w_sent w" using queued by (auto simp: wake_queued_def)
    from queued obtain a j uid where
      c: "w_committed v = (w_db ?w)\<lparr>attempts := attempts (w_db ?w) @ [a], jobs := jobs (w_db ?w) @ [j]\<rparr>"
      and v: "w_db v = w_committed v" "wa_id a = wp_attempt_id r" "wa_status a = ''pending''" "j_status j = ''queued''"
        "j_payload j = wake_payload machine_id (wa_id a) body uid" "\<exists>i. pg_uuid env i = Some (j_id j)"
      unfolding wake_queued_def by blast
    have c: "w_committed v = (w_committed w)\<lparr>attempts := attempts (w_committed w) @ [a], jobs := [j]\<rparr>"
      using c assms(2) by simp
    have first: "next_queued (\<lambda>_. False) (jobs (w_committed ?v)) = Some j"
      using v c by (simp add: next_queued_def order_asc_def)
    have "pg_uuid env (j_id j) = Some (j_id j)"
      using v(6) assms(1) by (auto simp: pg_canonical_def canonical_def)
    from wp_no_poll_round [OF assms(1) first this] v(5) queued_payload_no_poll [OF assms(3)]
    have "wp (worker_iteration env fuel) (\<lambda>e u. e \<and> attempts_extended ?v u \<and> job_settled (j_id j) ?v u) (\<lambda>_ _. False) ?v"
      by simp
    then show ?thesis
    proof (rule wp_mono)
      fix e u assume u: "e \<and> attempts_extended ?v u \<and> job_settled (j_id j) ?v u"
      have "jobs_finished u" by (rule settled_finished [of ?v j]) (use u v c in auto)
      moreover from u v c sent have "served_beside r w u"
        unfolding attempts_extended_def served_beside_def by auto
      ultimately show "served_beside r w u \<and> jobs_finished u" by simp
    qed simp
  qed
  have "wp (wake_machine env rq machine_id body) (wake_queued env machine_id body ?w) (\<lambda>_. wake_not_queued ?w) ?w"
    by (rule wp_wake_machine [OF assms(1)]) simp_all
  then show ?thesis
    unfolding get_db_session_def wp_bind wp_then wp_modify wp_catch
    by (rule wp_mono) (use worker in simp_all)
qed

theorem queued_wake_stays_pending_witness:
  "wp (bind_p (get_db_session (wake_machine demo_env demo_csrf_request uuid_a demo_wake_request)) (\<lambda>r.
         then_p (worker_iteration demo_env 0) (return_p r)))
     (\<lambda>r v. served_beside r (world_of demo_db_auth 0) v \<and> jobs_finished v) (\<lambda>_ _. True) (world_of demo_db_auth 0)"
  by (rule queued_wake_stays_pending) (simp_all add: demo_wake_request_def)

section \<open>Direct wakes\<close>

lemma keeps_case_wake_error [keeps_intros]:
  "(\<And>m. keeps I (f m)) \<Longrightarrow> keeps I g \<Longrightarrow> keeps I (case e of WakeError m \<Rightarrow> f m | _ \<Rightarrow> g)"
  by (cases e) simp_all

lemma wake_api_wf [wf_intros]:
  "keeps wf_world (wake_machine_direct env rq i b)" "keeps wf_world (get_attempt_status env rq i j)"
  "keeps wf_world (machine_status env rq i)"
  unfolding wake_machine_direct_def get_attempt_status_def machine_status_def Let_def
  by (intro keeps_intros wf_intros keeps_probe; simp)+

lemma insert_job_db: "insert_job env r d = Inr (x, d') \<Longrightarrow> d' = d\<lparr>jobs := jobs d @ [x]\<rparr>"
  by (auto simp: insert_job_def Let_def)

lemma wp_enqueue_wf:
  assumes "wf_world w" "w_db w = w_committed w"
  shows "wp (enqueue env m a t p) (\<lambda>_. wf_world) (\<lambda>_. wf_world) w"
  using assms by (auto simp: enqueue_def wf_world_def split: sum.split dest: insert_job_wf insert_job_db)

lemma wake_machine_wf [wf_intros]: "keeps wf_world (wake_machine env rq i b)"
proof -
  have "wp (then_p commit (then_p (enqueue env m a t p) (return_p r))) (\<lambda>_. wf_world) (\<lambda>_. wf_world) w"
    if "wf_world w" for m a t p w and r :: WakeResponse
    using that by (auto intro!: wp_enqueue_wf) (simp_all add: wf_world_def)
  then have step: "keeps wf_world (then_p commit (then_p (enqueue env m a t p) (return_p r)))" for m a t p and r :: WakeResponse
    by (simp add: keeps_wp)
  show ?thesis
    unfolding wake_machine_def by (rule step keeps_intros wf_intros)+
qed

lemma direct_wake_uncommitting: "keeps (\<lambda>w. w_committed w = c) (wake_machine_direct env rq i b)"
  unfolding wake_machine_direct_def
  by (intro keeps_intros dependency_session_free wake_attempts_only session_free_simps attempt_free_simps)

interpretation direct_wake: transaction "wake_machine_direct env rq i b" for env rq i b
  by unfold_locales (rule direct_wake_uncommitting)

definition direct_wake_done :: "request \<Rightarrow> world \<Rightarrow> WakeResponse \<Rightarrow> world \<Rightarrow> bool" where
  "direct_wake_done rq w r v \<longleftrightarrow>
     (\<exists>tok p a. bearer_token (w_committed w) rq tok \<and> w_sent v = p # w_sent w \<and>
        attempts (w_committed v) = attempts (w_committed w) @ [a] \<and> wa_id a = wp_attempt_id r \<and> wa_status a = ''sent'' \<and>
        has_packet (machines (w_committed w)) [p] a)"

text \<open>
  C14. A direct wake, as a request in its transaction: one that is answered was made with a
  stored, unrevoked API token, sent exactly one packet, which wakes a stored and enabled machine,
  and committed the attempt for that machine as sent. One
  that is refused or fails commits nothing at all, so that the attempt the service recorded as
  failed is gone.
\<close>

theorem direct_wake_outcomes:
  assumes "pg_canonical env" and "wf_db (w_committed w)"
  shows "wp (get_db_session (wake_machine_direct env rq machine_id body)) (direct_wake_done rq w)
           (\<lambda>_ v. w_committed v = w_committed w \<and> w_db v = w_committed w) w"
proof (rule direct_wake.wp_request)
  let ?P = "\<lambda>r (v :: world). \<exists>tok p a. bearer_token (w_committed w) rq tok \<and> w_sent v = p # w_sent w \<and>
        attempts (w_db v) = attempts (w_committed w) @ [a] \<and> wa_id a = wp_attempt_id r \<and> wa_status a = ''sent'' \<and>
        has_packet (machines (w_committed w)) [p] a"
  let ?w = "w\<lparr>w_db := w_committed w, w_dead := False\<rparr>"
  show "wp (wake_machine_direct env rq machine_id body) ?P (\<lambda>_ _. True) ?w"
    unfolding wake_machine_direct_def wp_bind
  proof (rule wp_get_api_token)
    fix tok and v :: world
    assume tok: "bearer_token (w_db ?w) rq tok" and v: "\<exists>ts. w_db v = (w_db ?w)\<lparr>tokens := ts\<rparr>" "\<not> w_dead v" "w_sent v = w_sent ?w"
    have "wp (wake_service_wake env machine_id ''api_token'' (t_id tok) (wr_ensure_online body) (wr_poll_timeout_s body)
        (map_option WakeStrategy_value (wr_strategy body)))
      (\<lambda>aid. ?P \<lparr>wp_attempt_id = aid, wp_status = AttemptStatus_value SENT, wp_message = ''Wake packet sent''\<rparr>) (\<lambda>_ _. True) v"
      by (rule wp_mono [OF wp_wake_service [OF assms(1) v(2)]]) (use tok v in \<open>auto simp: wake_sent_def has_packet_def\<close>)
    then show "wp (with_body (wake_request_ok body)
       (bind_p (catch_p
            (wake_service_wake env machine_id ''api_token'' (t_id tok) (wr_ensure_online body)
               (wr_poll_timeout_s body) (map_option WakeStrategy_value (wr_strategy body)))
            (\<lambda>exc. case exc of WakeError m \<Rightarrow> raise_p (HTTPException 422 (exn_str exc)) | _ \<Rightarrow> raise_p exc)) (\<lambda>attempt_id.
        return_p \<lparr>wp_attempt_id = attempt_id, wp_status = AttemptStatus_value SENT,
                    wp_message = ''Wake packet sent''\<rparr>))) ?P (\<lambda>_ _. True) v"
      unfolding with_body_def wp_if wp_bind wp_catch wp_return
      by (auto elim!: wp_mono split: exn.split)
  qed (use assms(2) in simp_all)
qed (auto simp: direct_wake_done_def)

theorem direct_wake_outcomes_witness:
  "wp (get_db_session (wake_machine_direct demo_env demo_request uuid_a demo_wake_request))
     (direct_wake_done demo_request (world_of demo_db_auth 0))
     (\<lambda>_ v. w_committed v = demo_db_auth \<and> w_db v = demo_db_auth) (world_of demo_db_auth 0)"
  using direct_wake_outcomes [of demo_env "world_of demo_db_auth 0" demo_request uuid_a demo_wake_request] by simp

end
