(* ===== verification/ApiSystem.thy ===== *)
theory ApiSystem
  imports ApiAuth "HOL-Library.List_Lexorder" "HOL-Library.Multiset"
begin

text \<open>
  \<open>app/api/system.py\<close>: the network interfaces of the host and the hosts of its ARP table, parsed
  from \<open>/proc/net\<close>. The parsers are functions on the text of a file; the endpoints read the
  files, each time from the host's mount or, when that fails, from the container's own. The
  lemmas say what is listed, in which order, and on which input the parser of the flags fails.
\<close>

section \<open>Files\<close>

definition proc_path :: "string \<Rightarrow> string" where
  "proc_path filename = ''/host/proc/net/'' @ filename"

definition proc_fallback_path :: "string \<Rightarrow> string" where
  "proc_fallback_path filename = ''/proc/net/'' @ filename"

definition read_proc :: "env \<Rightarrow> string \<Rightarrow> string io" where
  "read_proc env filename =
     bind_p (effect (read_file env (proc_path filename))) (\<lambda>r.
     case r of
       Some content \<Rightarrow> return_p content
     | None \<Rightarrow>
         bind_p (effect (read_file env (proc_fallback_path filename))) (\<lambda>r.
         case r of
           Some content \<Rightarrow> return_p content
         | None \<Rightarrow> return_p []))"

section \<open>Interfaces\<close>

record NetworkInterface =
  ni_name :: string
  ni_type :: string
  ni_is_loopback :: bool
  ni_is_virtual :: bool
  ni_is_up :: bool
  ni_is_running :: bool
  ni_mac_address :: string
  ni_ip_addresses :: "string list"

definition VIRTUAL_TYPES :: "string list" where
  "VIRTUAL_TYPES = [''loopback'', ''veth'', ''docker-bridge'', ''bridge'']"

definition parse_dev_names :: "string \<Rightarrow> string list" where
  "parse_dev_names content =
     filter (\<lambda>name. name \<noteq> []) (map (\<lambda>line. strip (hd (split_on CHR '':'' line))) (drop 2 (splitlines content)))"

definition parse_wireless_names :: "string \<Rightarrow> string list" where
  "parse_wireless_names content =
     map (\<lambda>line. strip (hd (split_on CHR '':'' line))) (drop 2 (splitlines content))"

definition classify :: "string \<Rightarrow> string list \<Rightarrow> string" where
  "classify name wireless_names =
     (if name = ''lo'' \<or> starts_with name ''lo:'' then ''loopback''
      else if starts_with name ''veth'' then ''veth''
      else if starts_with name ''docker'' \<or> starts_with name ''br-'' then ''docker-bridge''
      else if starts_with name ''hassio'' \<or> starts_with name ''virbr'' then ''bridge''
      else if name \<in> set wireless_names then ''wifi''
      else ''ethernet'')"

subsection \<open>Addresses\<close>

text \<open>
  \<open>struct.pack("<I", n)\<close> and back with \<open>">I"\<close>: the bytes of a 32-bit number in the other order;
  a number that does not fit is \<open>struct.error\<close>.
\<close>

definition swap32 :: "32 word \<Rightarrow> 32 word" where
  "swap32 x = or (push_bit 24 (and x 255))
     (or (push_bit 16 (and (drop_bit 8 x) 255))
     (or (push_bit 8 (and (drop_bit 16 x) 255)) (and (drop_bit 24 x) 255)))"

definition route_hex_to_be_int :: "string \<Rightarrow> 32 word option" where
  "route_hex_to_be_int h =
     (case py_int 16 h of
        None \<Rightarrow> None
      | Some n \<Rightarrow> if 0 \<le> n \<and> n < 2 ^ 32 then Some (swap32 (word_of_int n)) else None)"

text \<open>\<open>\\d+\<close> at the head of a text: the digits and the rest.\<close>

definition digits_prefix :: "string \<Rightarrow> (string \<times> string) option" where
  "digits_prefix s = (let ds = takeWhile is_digit s in if ds = [] then None else Some (ds, drop (length ds) s))"

definition dotted_prefix :: "string \<Rightarrow> string option" where
  "dotted_prefix s =
     (case digits_prefix s of Some (a, CHR ''.'' # s) \<Rightarrow>
       (case digits_prefix s of Some (b, CHR ''.'' # s) \<Rightarrow>
         (case digits_prefix s of Some (c, CHR ''.'' # s) \<Rightarrow>
           (case digits_prefix s of Some (d, _) \<Rightarrow> Some (a @ ''.'' @ b @ ''.'' @ c @ ''.'' @ d) | _ \<Rightarrow> None)
          | _ \<Rightarrow> None) | _ \<Rightarrow> None) | _ \<Rightarrow> None)"

text \<open>\<open>re.match(r"\\s+\\|--\\s+(\\d+\\.\\d+\\.\\d+\\.\\d+)", line)\<close>: group 1.\<close>

definition match_host :: "string \<Rightarrow> string option" where
  "match_host line =
     (let s = dropWhile is_space line in
      if s = line \<or> \<not> starts_with s ''|--'' then None
      else let t = drop 3 s; u = dropWhile is_space t in
           if u = t then None else dotted_prefix u)"

text \<open>The loop over the lines of \<open>fib_trie\<close>, with the address of the last host line.\<close>

fun local_ips_loop :: "string option \<Rightarrow> string list \<Rightarrow> string list \<Rightarrow> string list" where
  "local_ips_loop prev_ip local_ips [] = local_ips"
| "local_ips_loop prev_ip local_ips (line # lines) =
     (case match_host line of
        Some ip \<Rightarrow> local_ips_loop (Some ip) local_ips lines
      | None \<Rightarrow>
          if prev_ip \<noteq> None \<and> contains_str line ''/32 host LOCAL''
          then local_ips_loop None (if the prev_ip \<in> set local_ips then local_ips else local_ips @ [the prev_ip]) lines
          else local_ips_loop None local_ips lines)"

text \<open>One line of the route table: the interface, network and mask of a route that is up.\<close>

definition parse_route :: "string \<Rightarrow> (string \<times> 32 word \<times> 32 word) list" where
  "parse_route line =
     (case split_ws line of
        iface # dest_hex # gw # flags_hex # refcnt # use # metric # mask_hex # rest \<Rightarrow>
          (case py_int 16 flags_hex of
             None \<Rightarrow> []
           | Some flags \<Rightarrow>
               if and flags 1 = 0 then []
               else (case (route_hex_to_be_int dest_hex, route_hex_to_be_int mask_hex) of
                       (Some net_be, Some mask_be) \<Rightarrow> [(iface, net_be, mask_be)]
                     | _ \<Rightarrow> []))
      | _ \<Rightarrow> [])"

text \<open>The most specific mask first; routes with equally many bits keep their order.\<close>

definition sort_routes :: "(string \<times> 32 word \<times> 32 word) list \<Rightarrow> (string \<times> 32 word \<times> 32 word) list" where
  "sort_routes nets = sort_key (\<lambda>(_, _, m). - int (length (filter (bit m) [0..<32]))) nets"

text \<open>
  \<open>socket.inet_aton\<close> on four groups of digits: a group with a leading zero is octal, and none may
  exceed 255.
\<close>

definition aton_group :: "string \<Rightarrow> nat option" where
  "aton_group s =
     (case (if length s > 1 \<and> hd s = CHR ''0'' then digits_val 8 0 s else digits_val 10 0 s) of
        None \<Rightarrow> None
      | Some v \<Rightarrow> if v > 255 then None else Some v)"

definition inet_aton :: "string \<Rightarrow> 32 word option" where
  "inet_aton ip =
     (case parse_all aton_group (split_on CHR ''.'' ip) of
        Some [a, b, c, d] \<Rightarrow> Some (word_of_nat (((a * 256 + b) * 256 + c) * 256 + d))
      | _ \<Rightarrow> None)"

definition skip_ip :: "string \<Rightarrow> bool" where
  "skip_ip ip \<longleftrightarrow> starts_with ip ''127.'' \<or> ends_with ip ''.0'' \<or> ends_with ip ''.255''"

definition in_net :: "32 word \<Rightarrow> string \<times> 32 word \<times> 32 word \<Rightarrow> bool" where
  "in_net ip_be = (\<lambda>(_, net_be, mask_be). and ip_be mask_be = and net_be mask_be)"

text \<open>\<open>result.setdefault(iface, []).append(ip)\<close> for the first network an address is in.\<close>

fun add_ip :: "string \<Rightarrow> string \<Rightarrow> (string \<times> string list) list \<Rightarrow> (string \<times> string list) list" where
  "add_ip iface ip [] = [(iface, [ip])]"
| "add_ip iface ip ((i, ips) # r) = (if i = iface then (i, ips @ [ip]) # r else (i, ips) # add_ip iface ip r)"

definition assign_ip :: "(string \<times> 32 word \<times> 32 word) list \<Rightarrow> string \<Rightarrow> (string \<times> string list) list \<Rightarrow>
    (string \<times> string list) list" where
  "assign_ip nets ip result =
     (if skip_ip ip then result
      else case inet_aton ip of
        None \<Rightarrow> result
      | Some ip_be \<Rightarrow>
          (case find (in_net ip_be) nets of
             None \<Rightarrow> result
           | Some (iface, _, _) \<Rightarrow> add_ip iface ip result))"

text \<open>
  \<open>local_ips\<close> is a set; \<open>order\<close> is the order in which Python happens to iterate over it.
\<close>

definition parse_iface_ips :: "(string list \<Rightarrow> string list) \<Rightarrow> string \<Rightarrow> string \<Rightarrow> (string \<times> string list) list" where
  "parse_iface_ips order fib_trie route =
     (let local_ips = local_ips_loop None [] (splitlines fib_trie);
          nets = sort_routes (List.concat (map parse_route (drop 1 (splitlines route))))
      in fold (assign_ip nets) (order local_ips) [])"

subsection \<open>Flags\<close>

definition parse_routed :: "string \<Rightarrow> string list" where
  "parse_routed route = List.concat (map (\<lambda>line. take 1 (split_ws line)) (drop 1 (splitlines route))) @ [''lo'']"

definition int_or_raise :: "string \<Rightarrow> exn + int" where
  "int_or_raise s = (case py_int 10 s of
     None \<Rightarrow> Inl (ValueError ''invalid literal for int() with base 10'') | Some n \<Rightarrow> Inr n)"

definition part_at :: "string list \<Rightarrow> nat \<Rightarrow> exn + string" where
  "part_at parts i = (if i < length parts then Inr (parts ! i) else Inl IndexError)"

text \<open>The flags of one line of \<open>dev\<close>: \<open>None\<close> for a line that is skipped.\<close>

definition line_flags :: "string list \<Rightarrow> string \<Rightarrow> exn + (string \<times> int) option" where
  "line_flags routed line =
     (if CHR '':'' \<notin> set line then Inr None
      else
        let name = strip (hd (split_on CHR '':'' line));
            parts = split_ws (drop 1 (dropWhile (\<lambda>c. c \<noteq> CHR '':'') line))
        in if length parts < 9 then Inr None
           else and_then (and_then (part_at parts 1) int_or_raise) (\<lambda>rx_packets.
                and_then (and_then (part_at parts 9) int_or_raise) (\<lambda>tx_packets.
                let is_up = name \<in> set routed;
                    is_running = rx_packets > 0 \<or> tx_packets > 0
                in Inr (Some (name, or (or (if is_up then 1 else 0) (if is_running then 0x40 else 0))
                                       (if name = ''lo'' then 8 else 0))))))"

fun flags_loop :: "string list \<Rightarrow> string list \<Rightarrow> (string \<times> int) list \<Rightarrow> exn + (string \<times> int) list" where
  "flags_loop routed [] flags = Inr flags"
| "flags_loop routed (line # lines) flags =
     (case line_flags routed line of
        Inl e \<Rightarrow> Inl e
      | Inr None \<Rightarrow> flags_loop routed lines flags
      | Inr (Some (name, f)) \<Rightarrow> flags_loop routed lines ((name, f) # flags))"

definition parse_flags :: "string \<Rightarrow> string \<Rightarrow> exn + (string \<times> int) list" where
  "parse_flags route dev = flags_loop (parse_routed route) (drop 2 (splitlines dev)) []"

definition interface_of :: "string list \<Rightarrow> (string \<times> int) list \<Rightarrow> (string \<times> string list) list \<Rightarrow> string \<Rightarrow> NetworkInterface" where
  "interface_of wireless flags_map ip_map name =
     (let flags = (case map_of flags_map name of None \<Rightarrow> 0 | Some f \<Rightarrow> f);
          itype = classify name wireless
      in \<lparr>ni_name = name, ni_type = itype, ni_is_loopback = (and flags 8 \<noteq> 0),
          ni_is_virtual = (itype \<in> set VIRTUAL_TYPES), ni_is_up = (and flags 1 \<noteq> 0),
          ni_is_running = (and flags 0x40 \<noteq> 0), ni_mac_address = [],
          ni_ip_addresses = (case map_of ip_map name of None \<Rightarrow> [] | Some ips \<Rightarrow> ips)\<rparr>)"

definition list_interfaces_of :: "env \<Rightarrow> NetworkInterface list io" where
  "list_interfaces_of env =
     bind_p (read_proc env ''wireless'') (\<lambda>wireless.
     bind_p (read_proc env ''route'') (\<lambda>route.
     bind_p (read_proc env ''dev'') (\<lambda>dev.
     bind_p (lift_p (parse_flags route dev)) (\<lambda>flags_map.
     bind_p (read_proc env ''fib_trie'') (\<lambda>fib_trie.
     bind_p (read_proc env ''route'') (\<lambda>route.
     bind_p (read_proc env ''dev'') (\<lambda>dev.
       return_p (map (interface_of (parse_wireless_names wireless) flags_map
                        (parse_iface_ips (set_order env) fib_trie route)) (parse_dev_names dev)))))))))"

section \<open>Discovery\<close>

record DiscoveredHost =
  dh_ip_address :: string
  dh_mac_address :: string
  dh_interface :: string
  dh_is_reachable :: bool
  dh_is_wireless :: bool

text \<open>The host of a line of the ARP table, unless it is too short or incomplete.\<close>

definition arp_host :: "string list \<Rightarrow> string \<Rightarrow> DiscoveredHost list" where
  "arp_host wireless line =
     (case split_ws (strip line) of
        ip # hwtype # flags # hw_addr # msk # iface # rest \<Rightarrow>
          if hw_addr = ''00:00:00:00:00:00'' then []
          else [\<lparr>dh_ip_address = ip, dh_mac_address = lower hw_addr, dh_interface = iface,
                 dh_is_reachable = (flags = ''0x2''), dh_is_wireless = (iface \<in> set wireless)\<rparr>]
      | _ \<Rightarrow> [])"

text \<open>The sort key: the numbers of the address, where a text that is no number is \<open>ValueError\<close>.\<close>

definition ip_key :: "string \<Rightarrow> int list option" where
  "ip_key ip = parse_all (py_int 10) (split_on CHR ''.'' ip)"

definition discover_hosts_of :: "string \<Rightarrow> string \<Rightarrow> exn + DiscoveredHost list" where
  "discover_hosts_of wireless arp =
     (let hosts = List.concat (map (arp_host (parse_wireless_names wireless)) (drop 1 (splitlines arp))) in
      if list_all (\<lambda>h. ip_key (dh_ip_address h) \<noteq> None) hosts
      then Inr (sort_key (\<lambda>h. the (ip_key (dh_ip_address h))) hosts)
      else Inl (ValueError ''invalid literal for int() with base 10''))"

section \<open>Endpoints\<close>

definition list_interfaces :: "env \<Rightarrow> request \<Rightarrow> NetworkInterface list io" where
  "list_interfaces env rq = then_p (get_current_user env rq) (list_interfaces_of env)"

definition discover_hosts :: "env \<Rightarrow> request \<Rightarrow> DiscoveredHost list io" where
  "discover_hosts env rq =
     then_p (get_current_user env rq)
       (bind_p (read_proc env ''wireless'') (\<lambda>wireless.
        bind_p (read_proc env ''arp'') (\<lambda>arp.
          lift_p (discover_hosts_of wireless arp))))"

section \<open>Byte order\<close>

text \<open>The numbers whose bytes, least or most significant first, are \<open>a\<close>, \<open>b\<close>, \<open>c\<close> and \<open>d\<close>.\<close>

definition little_endian :: "8 word \<Rightarrow> 8 word \<Rightarrow> 8 word \<Rightarrow> 8 word \<Rightarrow> 32 word" where
  "little_endian a b c d = or (ucast a) (or (push_bit 8 (ucast b)) (or (push_bit 16 (ucast c)) (push_bit 24 (ucast d))))"

definition big_endian :: "8 word \<Rightarrow> 8 word \<Rightarrow> 8 word \<Rightarrow> 8 word \<Rightarrow> 32 word" where
  "big_endian a b c d = little_endian d c b a"

lemma bit_255: "bit (255 :: 32 word) n \<longleftrightarrow> n < 8"
proof -
  have m: "(255 :: 32 word) = mask 8" by (simp add: mask_eq_exp_minus_1)
  show ?thesis by (subst m) (auto simp: bit_mask_iff)
qed

lemma byte_bit: "8 \<le> n \<Longrightarrow> \<not> bit (x :: 8 word) n"
  by (auto dest: bit_imp_le_length)

lemma bit_little_endian:
  "bit (little_endian a b c d) n \<longleftrightarrow>
     (if n < 8 then bit a n else if n < 16 then bit b (n - 8) else if n < 24 then bit c (n - 16)
      else n < 32 \<and> bit d (n - 24))"
  unfolding little_endian_def bit_or_iff bit_push_bit_iff bit_unsigned_iff
  using byte_bit [of n a] byte_bit [of "n - 8" b] byte_bit [of "n - 16" c] byte_bit [of "n - 24" d] by auto

lemma bit_swap32:
  "bit (swap32 x) n \<longleftrightarrow>
     (if n < 8 then bit x (n + 24) else if n < 16 then bit x (n + 8) else if n < 24 then bit x (n - 8)
      else n < 32 \<and> bit x (n - 24))"
  unfolding swap32_def bit_or_iff bit_push_bit_iff bit_and_iff bit_drop_bit_eq bit_255 o_def
  by (cases "n < 8"; cases "n < 16"; cases "n < 24") (auto simp: add.commute dest: bit_imp_le_length)

text \<open>
  The conversion of a route's address is the change of byte order it is meant to be: the
  number whose bytes, least significant first, are those of an address becomes the one whose
  bytes are the same, most significant first.
\<close>

theorem swap32_byte_order: "swap32 (little_endian a b c d) = big_endian a b c d"
proof (rule bit_word_eqI)
  fix n assume "n < LENGTH(32)"
  then show "bit (swap32 (little_endian a b c d)) n = bit (big_endian a b c d) n"
    unfolding bit_swap32 big_endian_def bit_little_endian
    by (cases "n < 8"; cases "n < 16"; cases "n < 24") auto
qed

section \<open>Which interface an address is listed under\<close>

definition ips_of :: "(string \<times> string list) list \<Rightarrow> string \<Rightarrow> string list" where
  "ips_of result iface = (case map_of result iface of None \<Rightarrow> [] | Some ips \<Rightarrow> ips)"

lemma ips_of_add: "ips_of (add_ip i ip result) j = ips_of result j @ (if i = j then [ip] else [])"
  by (induction i ip result rule: add_ip.induct) (auto simp: ips_of_def)

text \<open>The interface of an address: that of the first route it is in.\<close>

definition home :: "(string \<times> 32 word \<times> 32 word) list \<Rightarrow> string \<Rightarrow> string option" where
  "home nets ip = (if skip_ip ip then None else case inet_aton ip of
     None \<Rightarrow> None | Some ip_be \<Rightarrow> map_option fst (find (in_net ip_be) nets))"

lemma assign_ip_home: "assign_ip nets ip result = (case home nets ip of None \<Rightarrow> result | Some i \<Rightarrow> add_ip i ip result)"
  by (auto simp: assign_ip_def home_def split: option.split)

lemma ips_of_fold:
  "ips_of (fold (assign_ip nets) ips result) i = ips_of result i @ filter (\<lambda>ip. home nets ip = Some i) ips"
  by (induction ips arbitrary: result) (auto simp: assign_ip_home ips_of_add split: option.split)

definition route_bits :: "string \<times> 32 word \<times> 32 word \<Rightarrow> nat" where
  "route_bits = (\<lambda>(_, _, m). length (filter (bit m) [0..<32]))"

lemma set_sort_routes [simp]: "set (sort_routes nets) = set nets"
  unfolding sort_routes_def by (rule set_sort)

lemma sort_routes_desc: "sorted (map (\<lambda>r. - int (route_bits r)) (sort_routes nets))"
proof -
  have key: "(\<lambda>(_, _, m). - int (length (filter (bit m) [0..<32]))) = (\<lambda>r. - int (route_bits r))"
    by (rule ext) (simp add: route_bits_def split: prod.split)
  show ?thesis unfolding sort_routes_def key by (rule sorted_sort_key)
qed

text \<open>The first element that meets a condition, in a list sorted by a key, has the least key of all that do.\<close>

lemma find_sorted_least:
  "sorted (map key xs) \<Longrightarrow> find P xs = Some x \<Longrightarrow> P x \<and> x \<in> set xs \<and> (\<forall>y \<in> set xs. P y \<longrightarrow> key x \<le> (key y :: int))"
  by (induction xs) (auto split: if_splits)

definition routes_of :: "string \<Rightarrow> (string \<times> 32 word \<times> 32 word) list" where
  "routes_of route = List.concat (map parse_route (drop 1 (splitlines route)))"

text \<open>Route \<open>r\<close> is one of the most specific routes of the table that contain the address.\<close>

definition best_route :: "string \<Rightarrow> string \<Rightarrow> string \<times> 32 word \<times> 32 word \<Rightarrow> bool" where
  "best_route route ip r \<longleftrightarrow> (\<exists>ip_be. inet_aton ip = Some ip_be \<and> r \<in> set (routes_of route) \<and> in_net ip_be r \<and>
     (\<forall>q \<in> set (routes_of route). in_net ip_be q \<longrightarrow> route_bits q \<le> route_bits r))"

lemma home_best: "home (sort_routes (routes_of route)) ip = Some i \<Longrightarrow> \<exists>r. best_route route ip r \<and> fst r = i"
proof -
  assume "home (sort_routes (routes_of route)) ip = Some i"
  then obtain b r where r: "inet_aton ip = Some b" "find (in_net b) (sort_routes (routes_of route)) = Some r" "fst r = i"
    by (auto simp: home_def split: if_splits option.splits)
  from find_sorted_least [OF sort_routes_desc r(2)] r(1,3) show ?thesis
    unfolding best_route_def by (intro exI [of _ r]) auto
qed

lemma home_some: "\<not> skip_ip ip \<Longrightarrow> best_route route ip r \<Longrightarrow> \<exists>i. home (sort_routes (routes_of route)) ip = Some i"
  by (cases "find (in_net (the (inet_aton ip))) (sort_routes (routes_of route))"; cases r)
    (auto simp: home_def best_route_def find_None_iff)

text \<open>
  C34. The addresses listed under an interface, in whatever order the set of local addresses is
  gone through, are local addresses, neither loopback nor a network's first or last, whose most
  specific route in the table is through that interface; and a local address of that kind that
  is in some route is listed under an interface, and under no second one.
\<close>

theorem iface_ips_longest_prefix:
  assumes "set (order (local_ips_loop None [] (splitlines fib_trie))) = set (local_ips_loop None [] (splitlines fib_trie))"
  shows "(\<forall>i. \<forall>ip \<in> set (ips_of (parse_iface_ips order fib_trie route) i).
            ip \<in> set (local_ips_loop None [] (splitlines fib_trie)) \<and> \<not> skip_ip ip \<and>
            (\<exists>r. best_route route ip r \<and> fst r = i)) \<and>
         (\<forall>ip \<in> set (local_ips_loop None [] (splitlines fib_trie)). \<not> skip_ip ip \<longrightarrow> (\<exists>r. best_route route ip r) \<longrightarrow>
            (\<exists>!i. ip \<in> set (ips_of (parse_iface_ips order fib_trie route) i)))"
proof -
  let ?local = "local_ips_loop None [] (splitlines fib_trie)"
  have ips: "ips_of (parse_iface_ips order fib_trie route) i =
      filter (\<lambda>ip. home (sort_routes (routes_of route)) ip = Some i) (order ?local)" for i
    unfolding parse_iface_ips_def Let_def ips_of_fold routes_of_def by (simp add: ips_of_def)
  have skip: "\<not> skip_ip ip" if "home nets ip = Some i" for nets ip i
    using that by (auto simp: home_def)
  show ?thesis
    unfolding ips set_filter assms
    using home_best home_some skip by (auto; metis option.inject)
qed

text \<open>A host with one address and a default route.\<close>

definition demo_fib_trie :: string where
  "demo_fib_trie = ''     |-- 192.168.1.5'' @ [CHR 0x0A] @ ''        /32 host LOCAL'' @ [CHR 0x0A]"

definition demo_route_table :: string where
  "demo_route_table = ''Iface'' @ [CHR 0x0A] @
     ''eth0 00000000 0101A8C0 0003 0 0 0 00000000'' @ [CHR 0x0A]"

lemma demo_route_lines: "drop (Suc 0) (splitlines demo_route_table) = [''eth0 00000000 0101A8C0 0003 0 0 0 00000000'']"
  by code_simp

lemma demo_route_parts:
  "split_ws ''eth0 00000000 0101A8C0 0003 0 0 0 00000000'' =
     [''eth0'', ''00000000'', ''0101A8C0'', ''0003'', ''0'', ''0'', ''0'', ''00000000'']"
  by code_simp

lemma demo_zero: "py_int 16 ''00000000'' = Some 0" by code_simp

lemma demo_flags: "py_int 16 ''0003'' = Some 3" by code_simp

lemma swap32_zero: "swap32 0 = 0" by (simp add: swap32_def)

lemma demo_hex: "route_hex_to_be_int ''00000000'' = Some 0"
  by (simp add: route_hex_to_be_int_def demo_zero swap32_zero)

lemma demo_routes: "routes_of demo_route_table = [(''eth0'', 0, 0)]"
  by (simp add: routes_of_def demo_route_lines parse_route_def demo_route_parts demo_flags demo_hex)

lemma demo_fib_lines: "splitlines demo_fib_trie = [''     |-- 192.168.1.5'', ''        /32 host LOCAL'']"
  by (simp add: demo_fib_trie_def splitlines_def is_linebreak_def)

lemma demo_host: "match_host ''     |-- 192.168.1.5'' = Some ''192.168.1.5''"
  by (simp add: match_host_def dotted_prefix_def digits_prefix_def is_space_def is_digit_def Let_def)

lemma demo_local: "match_host ''        /32 host LOCAL'' = None" by code_simp

lemma demo_local_text: "contains_str ''        /32 host LOCAL'' ''/32 host LOCAL''" by code_simp

lemma demo_local_ips: "local_ips_loop None [] (splitlines demo_fib_trie) = [''192.168.1.5'']"
  by (simp add: demo_fib_lines demo_host demo_local demo_local_text)

lemma demo_groups:
  "aton_group ''192'' = Some 192" "aton_group ''168'' = Some 168" "aton_group ''1'' = Some 1" "aton_group ''5'' = Some 5"
  by code_simp+

lemma demo_kept: "\<not> skip_ip ''192.168.1.5''" by code_simp

lemma demo_aton: "inet_aton ''192.168.1.5'' = Some 0xC0A80105" by (simp add: inet_aton_def demo_groups)

lemma demo_best_route: "best_route demo_route_table ''192.168.1.5'' (''eth0'', 0, 0)"
  by (simp add: best_route_def demo_routes demo_aton in_net_def)

theorem iface_ips_longest_prefix_witness:
  "\<exists>!i. ''192.168.1.5'' \<in> set (ips_of (parse_iface_ips rev demo_fib_trie demo_route_table) i)"
proof -
  have "''192.168.1.5'' \<in> set (local_ips_loop None [] (splitlines demo_fib_trie))" by (simp only: demo_local_ips) simp
  note listed = bspec [OF conjunct2 [OF iface_ips_longest_prefix [of rev demo_fib_trie demo_route_table, OF set_rev]] this]
  show ?thesis by (rule mp [OF mp [OF listed demo_kept] exI, OF demo_best_route])
qed

section \<open>Hosts of the ARP table\<close>

definition arp_hosts :: "string \<Rightarrow> string \<Rightarrow> DiscoveredHost list" where
  "arp_hosts wireless arp = List.concat (map (arp_host (parse_wireless_names wireless)) (drop 1 (splitlines arp)))"

text \<open>The order of the addresses, number by number.\<close>

definition by_address :: "DiscoveredHost list \<Rightarrow> bool" where
  "by_address hosts \<longleftrightarrow> sorted (map (\<lambda>h. the (ip_key (dh_ip_address h))) hosts)"

lemma arp_host_complete: "h \<in> set (arp_host w line) \<Longrightarrow>
   \<exists>hw. dh_mac_address h = lower hw \<and> hw \<noteq> ''00:00:00:00:00:00''"
  by (auto simp: arp_host_def split: list.splits if_splits)

lemma arp_host_short: "length (split_ws (strip line)) < 6 \<Longrightarrow> arp_host w line = []"
  by (auto simp: arp_host_def split: list.splits)

text \<open>
  The hosts discovered are those of the complete lines of the ARP table, all of them and each
  as often as it is there, without the lines that have no hardware address, in the numerical
  order of their addresses; the request fails exactly when an address has a part that is no
  number.
\<close>

theorem discovered_hosts_sorted:
  "case discover_hosts_of wireless arp of
     Inr hosts \<Rightarrow> by_address hosts \<and> mset hosts = mset (arp_hosts wireless arp) \<and>
       list_all (\<lambda>h. ip_key (dh_ip_address h) \<noteq> None) hosts \<and>
       list_all (\<lambda>h. \<exists>hw. dh_mac_address h = lower hw \<and> hw \<noteq> ''00:00:00:00:00:00'') hosts
   | Inl e \<Rightarrow> list_ex (\<lambda>h. ip_key (dh_ip_address h) = None) (arp_hosts wireless arp)"
proof -
  have "list_all (\<lambda>h. \<exists>hw. dh_mac_address h = lower hw \<and> hw \<noteq> ''00:00:00:00:00:00'') (arp_hosts wireless arp)"
    using arp_host_complete by (fastforce simp: arp_hosts_def list_all_iff)
  then show ?thesis
    unfolding discover_hosts_of_def Let_def arp_hosts_def [symmetric]
    by (simp add: by_address_def list_all_iff list_ex_iff)
qed

section \<open>The counters of an interface\<close>

text \<open>
  The guard before the counters of an interface are read lets a line with nine of them
  through, and the tenth is read all the same: such a line, its second counter a number, is an
  \<open>IndexError\<close> for the whole listing.
\<close>

theorem nine_counters_fail:
  assumes "CHR '':'' \<in> set line" and "length (split_ws (drop 1 (dropWhile (\<lambda>c. c \<noteq> CHR '':'') line))) = 9"
    and "py_int 10 (split_ws (drop 1 (dropWhile (\<lambda>c. c \<noteq> CHR '':'') line)) ! 1) = Some n"
    and "drop 2 (splitlines dev) = line # rest"
  shows "parse_flags route dev = Inl IndexError"
  using assms by (simp add: parse_flags_def line_flags_def part_at_def int_or_raise_def and_then_def Let_def)

definition demo_dev :: string where
  "demo_dev = ''h'' @ [CHR 0x0A] @ ''h'' @ [CHR 0x0A] @ ''eth0: 1 2 3 4 5 6 7 8 9'' @ [CHR 0x0A]"

theorem nine_counters_fail_witness: "parse_flags [] demo_dev = Inl IndexError"
proof (rule nine_counters_fail)
  show "drop 2 (splitlines demo_dev) = ''eth0: 1 2 3 4 5 6 7 8 9'' # []" by code_simp
  show "CHR '':'' \<in> set ''eth0: 1 2 3 4 5 6 7 8 9''" by simp
  show "length (split_ws (drop 1 (dropWhile (\<lambda>c. c \<noteq> CHR '':'') ''eth0: 1 2 3 4 5 6 7 8 9''))) = 9" by code_simp
  show "py_int 10 (split_ws (drop 1 (dropWhile (\<lambda>c. c \<noteq> CHR '':'') ''eth0: 1 2 3 4 5 6 7 8 9'')) ! 1) = Some 2" by code_simp
qed

end
