(* ===== verification/SetupWizard.thy ===== *)
theory SetupWizard
  imports Repositories Example
begin

text \<open>
  \<open>app/services/setup_state.py\<close>: the first-run wizard. Beside the service's operations stands
  the abstract wizard, a triple of completion flag, current step and the steps done; each
  operation of the service refines a function on it, and the wizard's invariants are proved
  on the triple.
\<close>

definition WIZARD_STEPS :: "string list" where
  "WIZARD_STEPS = [''welcome'', ''admin_account'', ''network'', ''first_machine'', ''complete'']"

text \<open>\<open>xs.index(x)\<close>; \<open>None\<close> is \<open>ValueError\<close>.\<close>

fun index_of :: "'a \<Rightarrow> 'a list \<Rightarrow> nat option" where
  "index_of x [] = None"
| "index_of x (y # ys) = (if x = y then Some 0 else map_option Suc (index_of x ys))"

lemma index_of_Some: "index_of x xs = Some i \<Longrightarrow> i < length xs \<and> xs ! i = x"
  by (induction xs arbitrary: i) (auto split: if_splits)

lemma index_of_None: "index_of x xs = None \<longleftrightarrow> x \<notin> set xs"
  by (induction xs) auto

section \<open>SetupStateService\<close>

record SetupView =
  sv_completed :: bool
  sv_current_step :: string
  sv_completed_steps :: dict

definition setup_get_state :: "env \<Rightarrow> SetupView io" where
  "setup_get_state env =
     bind_p (setup_get env) (\<lambda>r.
       return_p \<lparr>sv_completed = ss_completed r, sv_current_step = ss_current_step r,
                 sv_completed_steps = ss_completed_steps r\<rparr>)"

definition setup_is_complete :: "env \<Rightarrow> bool io" where
  "setup_is_complete env = bind_p (setup_get env) (\<lambda>r. return_p (ss_completed r))"

definition setup_advance :: "env \<Rightarrow> string \<Rightarrow> unit io" where
  "setup_advance env step =
     bind_p (setup_get env) (\<lambda>r.
     let completed_steps = dict_set (ss_completed_steps r) step (JBool True) in
     if step = last WIZARD_STEPS
     then then_p (setup_update env True step completed_steps) (return_p ())
     else
       let next_step = (case index_of step WIZARD_STEPS of
                          None \<Rightarrow> step
                        | Some idx \<Rightarrow> if idx + 1 < length WIZARD_STEPS then WIZARD_STEPS ! (idx + 1) else step)
       in then_p (setup_update env False next_step completed_steps) (return_p ()))"

definition setup_go_back :: "env \<Rightarrow> string \<Rightarrow> string io" where
  "setup_go_back env from_step =
     bind_p (setup_get env) (\<lambda>r.
     case index_of from_step WIZARD_STEPS of
       None \<Rightarrow> return_p from_step
     | Some idx \<Rightarrow>
         if idx = 0 then return_p (WIZARD_STEPS ! 0)
         else
           let prev_step = WIZARD_STEPS ! (idx - 1);
               completed_steps = dict_pop (dict_pop (ss_completed_steps r) from_step) prev_step
           in then_p (setup_update env False prev_step completed_steps) (return_p prev_step))"

definition setup_reset :: "env \<Rightarrow> unit io" where
  "setup_reset env = then_p (setup_update env False (WIZARD_STEPS ! 0) []) (return_p ())"

section \<open>The abstract wizard\<close>

type_synonym wizard = "bool \<times> string \<times> dict"

definition wizard_start :: wizard where
  "wizard_start = (False, ''welcome'', [])"

definition wizard_advance :: "string \<Rightarrow> wizard \<Rightarrow> wizard" where
  "wizard_advance step = (\<lambda>(done_flag, cur, steps).
     (step = ''complete'',
      (case index_of step WIZARD_STEPS of
         None \<Rightarrow> step
       | Some i \<Rightarrow> if i < 4 then WIZARD_STEPS ! Suc i else step),
      dict_set steps step (JBool True)))"

definition wizard_back :: "string \<Rightarrow> wizard \<Rightarrow> wizard" where
  "wizard_back from_step = (\<lambda>(done_flag, cur, steps).
     case index_of from_step WIZARD_STEPS of
       None \<Rightarrow> (done_flag, cur, steps)
     | Some i \<Rightarrow>
         if i = 0 then (done_flag, cur, steps)
         else (False, WIZARD_STEPS ! (i - 1), dict_pop (dict_pop steps from_step) (WIZARD_STEPS ! (i - 1))))"

text \<open>The stored wizard; without a row, the wizard that \<open>get\<close> creates.\<close>

definition wizard_row :: "SetupStateRecord \<Rightarrow> wizard" where
  "wizard_row r = (ss_completed r, ss_current_step r, ss_completed_steps r)"

definition wizard_of :: "world \<Rightarrow> wizard" where
  "wizard_of w = (case setup_state (w_db w) of None \<Rightarrow> wizard_start | Some r \<Rightarrow> wizard_row r)"

text \<open>Only the wizard's row differs.\<close>

definition only_setup :: "world \<Rightarrow> world \<Rightarrow> bool" where
  "only_setup w v \<longleftrightarrow> (\<exists>s. w_db v = (w_db w)\<lparr>setup_state := s\<rparr>) \<and>
     w_committed v = w_committed w \<and> \<not> w_dead v \<and> wf_setup (w_db v) \<and> w_sent v = w_sent w"

lemma only_setup_refl: "\<not> w_dead w \<Longrightarrow> wf_setup (w_db w) \<Longrightarrow> only_setup w w"
  unfolding only_setup_def by (intro conjI exI [of _ "setup_state (w_db w)"]) simp_all

lemma only_setup_write:
  assumes "\<not> w_dead w" and "ss_id r = 1"
  shows "only_setup w (w\<lparr>w_tick := n, w_db := (w_db w)\<lparr>setup_state := Some r\<rparr>\<rparr>)"
  using assms unfolding only_setup_def by (auto simp: wf_setup_def)

lemma only_setup_trans: "only_setup u v \<Longrightarrow> only_setup v w \<Longrightarrow> only_setup u w"
  by (auto simp: only_setup_def)

lemma wizard_default [simp]: "wizard_row (default_setup_row t) = wizard_start"
  by (simp add: wizard_row_def default_setup_row_def wizard_start_def)

lemma wp_setup_get:
  assumes "\<not> w_dead w" "wf_setup (w_db w)"
    and "\<And>r v. only_setup w v \<Longrightarrow> wizard_of v = wizard_of w \<Longrightarrow> wizard_row r = wizard_of w \<Longrightarrow> Q r v"
  shows "wp (setup_get env) Q E w"
proof (cases "setup_state (w_db w)")
  case None
  let ?r = "default_setup_row (clock env (w_tick w) + w_slept w)"
  let ?v = "w\<lparr>w_tick := Suc (w_tick w), w_db := (w_db w)\<lparr>setup_state := Some ?r\<rparr>\<rparr>"
  have r: "ss_id ?r = 1" "varchar 50 (ss_current_step ?r)"
    by (simp_all add: default_setup_row_def varchar_def)
  have "Q ?r ?v"
    using None by (intro assms(3) only_setup_write [OF assms(1) r(1)]) (simp_all add: wizard_of_def)
  with None r assms(1) show ?thesis
    by (simp add: setup_get_def write_setup_def)
next
  case (Some r)
  then have "Q r w"
    by (intro assms(3) only_setup_refl [OF assms(1,2)]) (simp_all add: wizard_of_def)
  with Some assms(1) show ?thesis
    by (simp add: setup_get_def)
qed

lemma wp_setup_write:
  assumes "\<not> w_dead w" "length cs \<le> 50"
    and "\<And>r v. only_setup w v \<Longrightarrow> wizard_of v = (c, cs, cp) \<Longrightarrow> Q r v"
    and "ss_id row = 1" "wizard_row row = (c, cs, cp)"
  shows "wp (bind_p (flush (write_setup row)) (\<lambda>r. return_p (setup_to_record r))) Q E (w\<lparr>w_tick := n\<rparr>)"
proof -
  have "Q row (w\<lparr>w_tick := n, w_db := (w_db w)\<lparr>setup_state := Some row\<rparr>\<rparr>)"
    using assms(5) by (intro assms(3) only_setup_write [OF assms(1,4)]) (simp add: wizard_of_def)
  with assms(1,2,4,5) show ?thesis
    by (simp add: write_setup_def varchar_def wizard_row_def)
qed

lemma wp_setup_update:
  assumes "\<not> w_dead w" "wf_setup (w_db w)" "length cs \<le> 50"
    and "\<And>r v. only_setup w v \<Longrightarrow> wizard_of v = (c, cs, cp) \<Longrightarrow> Q r v"
  shows "wp (setup_update env c cs cp) Q E w"
proof -
  let ?t = "clock env (w_tick w) + w_slept w"
  define old where "old = (case setup_state (w_db w) of None \<Rightarrow> default_setup_row ?t | Some r \<Rightarrow> r)"
  let ?new = "old\<lparr>ss_completed := c, ss_current_step := cs, ss_completed_steps := cp\<rparr>"
  let ?row = "if setup_state (w_db w) = Some ?new then ?new else ?new\<lparr>ss_updated_at := ?t\<rparr>"
  have "ss_id old = 1"
    using assms(2) by (auto simp: old_def wf_setup_def default_setup_row_def split: option.split)
  then have "ss_id ?row = 1" "wizard_row ?row = (c, cs, cp)"
    by (simp_all add: wizard_row_def)
  with assms(1,3,4)
  have "wp (bind_p (flush (write_setup ?row)) (\<lambda>r. return_p (setup_to_record r))) Q E (w\<lparr>w_tick := Suc (w_tick w)\<rparr>)"
    by (intro wp_setup_write)
  with assms(1) show ?thesis
    unfolding setup_update_def wp_bind wp_query wp_now Let_def old_def by simp
qed

section \<open>Each operation refines the abstract wizard\<close>

lemma wizard_step_length: "s \<in> set WIZARD_STEPS \<Longrightarrow> length s \<le> 50"
  by (auto simp: WIZARD_STEPS_def)

lemma steps_nth_length: "i < 5 \<Longrightarrow> length (WIZARD_STEPS ! i) \<le> 50"
  by (rule wizard_step_length, rule nth_mem) (simp add: WIZARD_STEPS_def)

lemma steps_simps [simp]: "length WIZARD_STEPS = 5" "last WIZARD_STEPS = ''complete''" "WIZARD_STEPS ! 0 = ''welcome''"
  by (simp_all add: WIZARD_STEPS_def)

lemma wp_setup_advance:
  assumes "\<not> w_dead w" "wf_setup (w_db w)" "length step \<le> 50"
    and "\<And>v. only_setup w v \<Longrightarrow> wizard_of v = wizard_advance step (wizard_of w) \<Longrightarrow> Q () v"
  shows "wp (setup_advance env step) Q E w"
proof -
  let ?next = "case index_of step WIZARD_STEPS of None \<Rightarrow> step
     | Some idx \<Rightarrow> if idx + 1 < length WIZARD_STEPS then WIZARD_STEPS ! (idx + 1) else step"
  have len: "length ?next \<le> 50"
    using assms(3) steps_nth_length by (auto split: option.split)
  have last: "index_of ''complete'' WIZARD_STEPS = Some 4" by (simp add: WIZARD_STEPS_def eval_nat_numeral)
  have "wp (let steps = dict_set (ss_completed_steps r) step (JBool True) in
       if step = last WIZARD_STEPS then then_p (setup_update env True step steps) (return_p ())
       else then_p (setup_update env False ?next steps) (return_p ())) Q E v"
    if "only_setup w v" and "wizard_of v = wizard_of w" and "wizard_row r = wizard_of w" for r v
  proof -
    have v: "\<not> w_dead v" "wf_setup (w_db v)" using that(1) by (auto simp: only_setup_def)
    have steps: "ss_completed_steps r = snd (snd (wizard_of w))"
      using that(3) by (metis snd_conv wizard_row_def)
    obtain d c st where w: "wizard_of w = (d, c, st)" by (cases "wizard_of w") auto
    show ?thesis
    proof (cases "step = ''complete''")
      case True
      then show ?thesis
        using w steps last
        by (simp add: Let_def) (rule wp_setup_update [OF v], simp,
            rule assms(4) [OF only_setup_trans [OF that(1)]], assumption, simp add: wizard_advance_def)
    next
      case False
      then have "wizard_advance step (wizard_of w) = (False, ?next, dict_set (ss_completed_steps r) step (JBool True))"
        using w steps by (auto simp: wizard_advance_def split: option.split)
      with False show ?thesis
        by (simp add: Let_def)
          (rule wp_setup_update [OF v], use len in simp,
            rule assms(4) [OF only_setup_trans [OF that(1)]], assumption, simp)
    qed
  qed
  then show ?thesis
    unfolding setup_advance_def wp_bind by (intro wp_setup_get [OF assms(1,2)]) (simp only: Let_def)
qed

lemma wp_setup_go_back:
  assumes "\<not> w_dead w" "wf_setup (w_db w)"
    and "\<And>v r. only_setup w v \<Longrightarrow> wizard_of v = wizard_back step (wizard_of w) \<Longrightarrow>
      r = (case index_of step WIZARD_STEPS of None \<Rightarrow> step | Some i \<Rightarrow> WIZARD_STEPS ! (i - 1)) \<Longrightarrow> Q r v"
  shows "wp (setup_go_back env step) Q E w"
  unfolding setup_go_back_def wp_bind
proof (rule wp_setup_get [OF assms(1,2)])
  fix r v assume v: "only_setup w v" "wizard_of v = wizard_of w" "wizard_row r = wizard_of w"
  then have ok: "\<not> w_dead v" "wf_setup (w_db v)" by (auto simp: only_setup_def)
  obtain d c st where w: "wizard_of w = (d, c, st)" by (cases "wizard_of w") auto
  with v(3) have st: "ss_completed_steps r = st" by (simp add: wizard_row_def)
  show "wp (case index_of step WIZARD_STEPS of
         None \<Rightarrow> return_p step
       | Some idx \<Rightarrow>
           if idx = 0 then return_p (WIZARD_STEPS ! 0)
           else let prev_step = WIZARD_STEPS ! (idx - 1);
                    completed_steps = dict_pop (dict_pop (ss_completed_steps r) step) prev_step
                in then_p (setup_update env False prev_step completed_steps) (return_p prev_step)) Q E v"
  proof (cases "index_of step WIZARD_STEPS")
    case None
    with v w show ?thesis by (auto intro!: assms(3) simp: wizard_back_def)
  next
    case (Some i)
    then have i: "i < 5" using index_of_Some [OF Some] by simp
    show ?thesis
    proof (cases "i = 0")
      case True
      with Some v w show ?thesis by (auto intro!: assms(3) simp: wizard_back_def)
    next
      case False
      with i have len: "length (WIZARD_STEPS ! (i - 1)) \<le> 50" by (intro steps_nth_length) simp
      have bk: "wizard_back step (wizard_of w) =
          (False, WIZARD_STEPS ! (i - 1), dict_pop (dict_pop (ss_completed_steps r) step) (WIZARD_STEPS ! (i - 1)))"
        using False Some w st by (simp add: wizard_back_def)
      have "wp (setup_update env False (WIZARD_STEPS ! (i - 1))
           (dict_pop (dict_pop (ss_completed_steps r) step) (WIZARD_STEPS ! (i - 1))))
         (\<lambda>_. Q (WIZARD_STEPS ! (i - 1))) E v"
        by (rule wp_setup_update [OF ok len], rule assms(3) [OF only_setup_trans [OF v(1)]])
          (simp_all add: bk Some)
      with False Some show ?thesis by (simp add: Let_def)
    qed
  qed
qed

lemma wp_setup_reset:
  assumes "\<not> w_dead w" "wf_setup (w_db w)"
    and "\<And>v. only_setup w v \<Longrightarrow> wizard_of v = wizard_start \<Longrightarrow> Q () v"
  shows "wp (setup_reset env) Q E w"
  using assms by (auto simp: setup_reset_def wizard_start_def intro!: wp_setup_update)

lemma wp_setup_is_complete:
  assumes "\<not> w_dead w" "wf_setup (w_db w)"
    and "\<And>v. only_setup w v \<Longrightarrow> wizard_of v = wizard_of w \<Longrightarrow> Q (fst (wizard_of w)) v"
  shows "wp (setup_is_complete env) Q E w"
  unfolding setup_is_complete_def wp_bind
proof (rule wp_setup_get [OF assms(1,2)])
  fix r v assume "only_setup w v" "wizard_of v = wizard_of w" "wizard_row r = wizard_of w"
  moreover from this(3) have "ss_completed r = fst (wizard_of w)" by (metis fst_conv wizard_row_def)
  ultimately show "wp (return_p (ss_completed r)) Q E v" using assms(3) by simp
qed

section \<open>The wizard's invariant\<close>

text \<open>
  The current step is a step, a completed wizard stands at \<open>complete\<close> with that step done, and
  the steps recorded are recorded as done.
\<close>

definition wizard_inv :: "wizard \<Rightarrow> bool" where
  "wizard_inv = (\<lambda>(done_flag, cur, steps). cur \<in> set WIZARD_STEPS \<and>
     (done_flag \<longrightarrow> cur = ''complete'' \<and> dict_get steps ''complete'' = Some (JBool True)))"

lemma wizard_inv_start: "wizard_inv wizard_start"
  by (simp add: wizard_inv_def wizard_start_def WIZARD_STEPS_def)

lemma wizard_inv_advance: "step \<in> set WIZARD_STEPS \<Longrightarrow> wizard_inv (wizard_advance step z)"
  by (auto simp: wizard_inv_def wizard_advance_def WIZARD_STEPS_def split: prod.split)

lemma wizard_inv_back: "wizard_inv z \<Longrightarrow> wizard_inv (wizard_back step z)"
proof -
  have "WIZARD_STEPS ! (i - 1) \<in> set WIZARD_STEPS" if "index_of step WIZARD_STEPS = Some i" for i
    by (rule nth_mem) (use index_of_Some [OF that] in auto)
  then show "wizard_inv z \<Longrightarrow> wizard_inv (wizard_back step z)"
    by (auto simp: wizard_inv_def wizard_back_def split: prod.split option.split)
qed

text \<open>Going back from the step after \<open>step\<close> undoes \<open>advance step\<close>, whatever the state was.\<close>

lemma wizard_back_advance:
  assumes "Suc i < 5" "step = WIZARD_STEPS ! i" "nxt = WIZARD_STEPS ! Suc i"
  shows "\<exists>steps. wizard_back nxt (wizard_advance step z) = (False, step, steps) \<and>
     dict_get steps step = None \<and> dict_get steps nxt = None \<and>
     (\<forall>k. k \<noteq> step \<longrightarrow> k \<noteq> nxt \<longrightarrow> dict_get steps k = dict_get (snd (snd z)) k)"
proof -
  obtain d c st where z: "z = (d, c, st)" by (cases z) auto
  have "i \<in> {0, 1, 2, 3}" using assms(1) by auto
  then show ?thesis
    using assms(2,3) by (auto simp: z wizard_back_def wizard_advance_def WIZARD_STEPS_def)
qed

section \<open>Properties\<close>

text \<open>
  C9. The wizard service refines the abstract wizard: \<open>advance\<close>, \<open>go_back\<close> and \<open>reset\<close> of a
  stored wizard do to it exactly what the functions on the triple do, raise nothing, and change
  nothing else in the database.
\<close>

theorem setup_service_refines:
  assumes "\<not> w_dead w" and "wf_setup (w_db w)" and "length step \<le> 50"
  shows "wp (setup_advance env step)
           (\<lambda>_ v. wizard_of v = wizard_advance step (wizard_of w) \<and> only_setup w v) (\<lambda>_ _. False) w \<and>
         wp (setup_go_back env step)
           (\<lambda>_ v. wizard_of v = wizard_back step (wizard_of w) \<and> only_setup w v) (\<lambda>_ _. False) w \<and>
         wp (setup_reset env) (\<lambda>_ v. wizard_of v = wizard_start \<and> only_setup w v) (\<lambda>_ _. False) w \<and>
         wp (setup_is_complete env)
           (\<lambda>b v. b = fst (wizard_of w) \<and> wizard_of v = wizard_of w \<and> only_setup w v) (\<lambda>_ _. False) w"
  by (intro conjI wp_setup_advance [OF assms] wp_setup_go_back [OF assms(1,2)] wp_setup_reset [OF assms(1,2)]
        wp_setup_is_complete [OF assms(1,2)]) simp_all

theorem setup_service_refines_witness:
  "wp (setup_advance demo_env ''welcome'')
     (\<lambda>_ v. wizard_of v = (False, ''admin_account'', [(''welcome'', JBool True)])) (\<lambda>_ _. False) (world_of demo_db 0)"
proof -
  have "wp (setup_advance demo_env ''welcome'')
     (\<lambda>_ v. wizard_of v = wizard_advance ''welcome'' (wizard_of (world_of demo_db 0)) \<and> only_setup (world_of demo_db 0) v)
     (\<lambda>_ _. False) (world_of demo_db 0)"
    using setup_service_refines [of "world_of demo_db 0" "''welcome''" demo_env] by (simp add: wf_setup_def)
  moreover have "wizard_advance ''welcome'' (wizard_of (world_of demo_db 0)) =
      (False, ''admin_account'', [(''welcome'', JBool True)])"
    by (simp add: wizard_of_def wizard_start_def wizard_advance_def WIZARD_STEPS_def)
  ultimately show ?thesis by (auto elim: wp_mono)
qed

text \<open>Calls of the service, and what a sequence of them does to the abstract wizard.\<close>

datatype wizard_op = Advance string | GoBack string | Reset | IsComplete

fun wizard_op_run :: "env \<Rightarrow> wizard_op \<Rightarrow> unit io" where
  "wizard_op_run env (Advance step) = setup_advance env step"
| "wizard_op_run env (GoBack step) = then_p (setup_go_back env step) (return_p ())"
| "wizard_op_run env Reset = setup_reset env"
| "wizard_op_run env IsComplete = then_p (setup_is_complete env) (return_p ())"

declare wizard_op_run.simps [simp del]

lemma wizard_op_run_eqs:
  "wizard_op_run env (Advance step) = setup_advance env step"
  "wizard_op_run env (GoBack step) = then_p (setup_go_back env step) (return_p ())"
  "wizard_op_run env Reset = setup_reset env"
  "wizard_op_run env IsComplete = then_p (setup_is_complete env) (return_p ())"
  by (rule ext, simp only: wizard_op_run.simps)+

primrec wizard_effect :: "wizard_op \<Rightarrow> wizard \<Rightarrow> wizard" where
  "wizard_effect (Advance step) z = wizard_advance step z"
| "wizard_effect (GoBack step) z = wizard_back step z"
| "wizard_effect Reset z = wizard_start"
| "wizard_effect IsComplete z = z"

fun op_ok :: "wizard_op \<Rightarrow> bool" where
  "op_ok (Advance step) = (step \<in> set WIZARD_STEPS)"
| "op_ok _ = True"

definition run_ops :: "env \<Rightarrow> wizard_op list \<Rightarrow> unit io" where
  "run_ops env ops = foldr (\<lambda>p k. then_p (wizard_op_run env p) k) ops (return_p ())"

lemma run_ops_simps [simp]:
  "run_ops env [] = return_p ()" "run_ops env (p # ops) = then_p (wizard_op_run env p) (run_ops env ops)"
  by (simp_all add: run_ops_def)

lemma wp_wizard_op:
  assumes "\<not> w_dead w" "wf_setup (w_db w)" "op_ok p"
    and "\<And>v. only_setup w v \<Longrightarrow> wizard_of v = wizard_effect p (wizard_of w) \<Longrightarrow> Q () v"
  shows "wp (wizard_op_run env p) Q E w"
proof (cases p)
  case (Advance step)
  then show ?thesis
    using assms wizard_step_length
    by (simp add: wizard_op_run_eqs) (rule wp_setup_advance, simp_all)
qed (use assms in \<open>simp_all add: wizard_op_run_eqs wp_setup_go_back wp_setup_reset wp_setup_is_complete\<close>)

lemma wp_run_ops:
  assumes "\<not> w_dead w" "wf_setup (w_db w)" "\<forall>p \<in> set ops. op_ok p"
  shows "wp (run_ops env ops) (\<lambda>_ v. wizard_of v = fold wizard_effect ops (wizard_of w) \<and> only_setup w v) (\<lambda>_ _. False) w"
  using assms
proof (induction ops arbitrary: w)
  case Nil
  then show ?case unfolding run_ops_simps wp_return by (simp add: only_setup_refl)
next
  case (Cons p ops)
  have "wp (run_ops env ops)
      (\<lambda>_ u. wizard_of u = fold wizard_effect (p # ops) (wizard_of w) \<and> only_setup w u) (\<lambda>_ _. False) v"
    if v: "only_setup w v" "wizard_of v = wizard_effect p (wizard_of w)" for v
    by (rule wp_mono [OF Cons.IH])
       (use v Cons.prems in \<open>auto simp: only_setup_def intro: only_setup_trans [OF v(1)]\<close>)
  then show ?case
    unfolding run_ops_simps wp_then using Cons.prems by (intro wp_wizard_op) auto
qed

lemma wizard_inv_effect: "op_ok p \<Longrightarrow> wizard_inv z \<Longrightarrow> wizard_inv (wizard_effect p z)"
  by (cases p) (simp_all add: wizard_inv_advance wizard_inv_back wizard_inv_start)

text \<open>
  C26. Whatever calls of the wizard service are made, in whatever order, with steps of the
  wizard: the stored current step stays a step of the wizard, and a wizard marked completed
  stands at \<open>complete\<close> with that step recorded.
\<close>

theorem wizard_invariant:
  assumes "\<not> w_dead w" and "wf_setup (w_db w)" and "wizard_inv (wizard_of w)"
    and "\<forall>p \<in> set ops. op_ok p"
  shows "wp (run_ops env ops) (\<lambda>_ v. wizard_inv (wizard_of v)) (\<lambda>_ _. False) w"
proof -
  have "wizard_inv (fold wizard_effect ops z)" if "wizard_inv z" for z
    using assms(4) that by (induction ops arbitrary: z) (simp_all add: wizard_inv_effect)
  with assms(3) show ?thesis
    by (intro wp_mono [OF wp_run_ops [OF assms(1,2,4), of env]]) auto
qed

theorem wizard_invariant_witness:
  "wp (run_ops demo_env [Advance ''welcome'', GoBack ''admin_account'', Advance ''complete''])
     (\<lambda>_ v. wizard_inv (wizard_of v)) (\<lambda>_ _. False) (world_of demo_db 0)"
  by (rule wizard_invariant)
     (simp_all add: wf_setup_def wizard_of_def wizard_inv_start WIZARD_STEPS_def)

text \<open>
  \<open>go_back\<close> from the step after \<open>step\<close> takes back \<open>advance step\<close>: the wizard stands at
  \<open>step\<close> again, not completed, with neither of the two steps recorded as done and every other
  step recorded as before.
\<close>

theorem go_back_undoes_advance:
  assumes "\<not> w_dead w" and "wf_setup (w_db w)" and "Suc i < 5"
  shows "wp (then_p (setup_advance env (WIZARD_STEPS ! i)) (setup_go_back env (WIZARD_STEPS ! Suc i)))
           (\<lambda>r v. \<exists>steps. r = WIZARD_STEPS ! i \<and> wizard_of v = (False, WIZARD_STEPS ! i, steps) \<and>
              (\<forall>k. dict_get steps k =
                (if k = WIZARD_STEPS ! i \<or> k = WIZARD_STEPS ! Suc i then None
                 else dict_get (snd (snd (wizard_of w))) k)))
           (\<lambda>_ _. False) w"
proof -
  obtain steps where bk: "wizard_back (WIZARD_STEPS ! Suc i) (wizard_advance (WIZARD_STEPS ! i) (wizard_of w)) =
      (False, WIZARD_STEPS ! i, steps)" and st: "dict_get steps (WIZARD_STEPS ! i) = None"
      "dict_get steps (WIZARD_STEPS ! Suc i) = None"
      "\<forall>k. k \<noteq> WIZARD_STEPS ! i \<longrightarrow> k \<noteq> WIZARD_STEPS ! Suc i \<longrightarrow> dict_get steps k = dict_get (snd (snd (wizard_of w))) k"
    using wizard_back_advance [OF assms(3) refl refl, of "wizard_of w"] by blast
  have "i \<in> {0, 1, 2, 3}" using assms(3) by auto
  then have idx: "index_of (WIZARD_STEPS ! Suc i) WIZARD_STEPS = Some (Suc i)"
    by (auto simp: WIZARD_STEPS_def)
  have len: "length (WIZARD_STEPS ! i) \<le> 50" using assms(3) by (intro steps_nth_length) simp
  show ?thesis
    unfolding wp_then
  proof (rule wp_setup_advance [OF assms(1,2) len])
    fix v assume v: "only_setup w v" "wizard_of v = wizard_advance (WIZARD_STEPS ! i) (wizard_of w)"
    then have "\<not> w_dead v" "wf_setup (w_db v)" by (auto simp: only_setup_def)
    then show "wp (setup_go_back env (WIZARD_STEPS ! Suc i))
        (\<lambda>r v. \<exists>steps. r = WIZARD_STEPS ! i \<and> wizard_of v = (False, WIZARD_STEPS ! i, steps) \<and>
              (\<forall>k. dict_get steps k =
                (if k = WIZARD_STEPS ! i \<or> k = WIZARD_STEPS ! Suc i then None
                 else dict_get (snd (snd (wizard_of w))) k)))
        (\<lambda>_ _. False) v"
      using st by (intro wp_setup_go_back) (auto simp: v(2) bk idx)
  qed
qed

theorem go_back_undoes_advance_witness:
  "wp (then_p (setup_advance demo_env ''network'') (setup_go_back demo_env ''first_machine''))
     (\<lambda>r v. r = ''network'') (\<lambda>_ _. False) (world_of demo_db 0)"
proof -
  have "WIZARD_STEPS ! 2 = ''network''" "WIZARD_STEPS ! Suc 2 = ''first_machine''"
    by (simp_all add: WIZARD_STEPS_def)
  with go_back_undoes_advance [of "world_of demo_db 0" 2 demo_env] show ?thesis
    by (auto simp: wf_setup_def elim!: wp_mono)
qed

text \<open>
  The service does not enforce the order of the steps: \<open>advance "complete"\<close> completes a
  wizard of which no other step was done.
\<close>

theorem complete_skips_steps:
  assumes "\<not> w_dead w" and "wf_setup (w_db w)" and "wizard_of w = wizard_start"
  shows "wp (setup_advance env ''complete'')
           (\<lambda>_ v. wizard_of v = (True, ''complete'', [(''complete'', JBool True)])) (\<lambda>_ _. False) w"
  by (rule wp_setup_advance [OF assms(1,2)])
     (simp_all add: assms(3) wizard_start_def wizard_advance_def WIZARD_STEPS_def eval_nat_numeral)

theorem complete_skips_steps_witness:
  "wp (setup_advance demo_env ''complete'')
     (\<lambda>_ v. wizard_of v = (True, ''complete'', [(''complete'', JBool True)])) (\<lambda>_ _. False) (world_of empty_db 0)"
  by (rule complete_skips_steps) (simp_all add: wf_setup_def wizard_of_def empty_db_def)

end
