(* ===== verification/ApiSetup.thy ===== *)
theory ApiSetup
  imports ApiAuth SetupWizard SettingsService
begin

text \<open>
  \<open>app/api/setup.py\<close>: the endpoints of the first-run wizard. None asks for credentials; the
  three that change something refuse with 410 once the wizard is completed.
\<close>

record AdminCreateRequest =
  ac_username :: string
  ac_password :: string

record NetworkConfigRequest =
  nc_wake_interface :: string
  nc_default_wake_strategy :: string
  nc_default_poll_timeout_s :: int

definition admin_request_ok :: "AdminCreateRequest \<Rightarrow> bool" where
  "admin_request_ok b \<longleftrightarrow> len_between 3 150 (ac_username b) \<and> len_between 12 1024 (ac_password b)"

definition network_request_ok :: "NetworkConfigRequest \<Rightarrow> bool" where
  "network_request_ok b \<longleftrightarrow> len_between 0 32 (nc_wake_interface b) \<and>
     len_between 0 20 (nc_default_wake_strategy b) \<and>
     10 \<le> nc_default_poll_timeout_s b \<and> nc_default_poll_timeout_s b \<le> 600"

record SetupStatusResponse =
  sp_completed :: bool
  sp_current_step :: string
  sp_completed_steps :: dict
  sp_steps :: "string list"

definition setup_gone :: exn where
  "setup_gone = HTTPException 410 ''Setup already completed''"

definition require_incomplete :: "env \<Rightarrow> unit io" where
  "require_incomplete env =
     bind_p (setup_is_complete env) (\<lambda>done_flag.
       if done_flag then raise_p setup_gone else return_p ())"

definition setup_status :: "env \<Rightarrow> SetupStatusResponse io" where
  "setup_status env =
     bind_p (setup_get_state env) (\<lambda>state.
       return_p \<lparr>sp_completed = sv_completed state, sp_current_step = sv_current_step state,
                  sp_completed_steps = sv_completed_steps state, sp_steps = WIZARD_STEPS\<rparr>)"

definition setup_admin :: "env \<Rightarrow> AdminCreateRequest \<Rightarrow> (string \<times> string) io" where
  "setup_admin env body = with_body (admin_request_ok body)
     (then_p (require_incomplete env)
       (bind_p (catch_p (auth_create_admin env (ac_username body) (ac_password body))
            (\<lambda>exc. case exc of AuthenticationError m \<Rightarrow> raise_p (HTTPException 409 (exn_str exc)) | _ \<Rightarrow> raise_p exc)) (\<lambda>user.
        then_p (setup_advance env ''admin_account'') (return_p (u_id user, u_username user)))))"

definition setup_network :: "env \<Rightarrow> NetworkConfigRequest \<Rightarrow> unit io" where
  "setup_network env body = with_body (network_request_ok body)
     (then_p (require_incomplete env)
       (then_p (settings_set (settings_repo_set env) ''wake_interface'' (JStr (nc_wake_interface body)))
       (then_p (settings_set (settings_repo_set env) ''default_wake_strategy'' (JStr (nc_default_wake_strategy body)))
       (then_p (settings_set (settings_repo_set env) ''default_poll_timeout_s'' (JInt (nc_default_poll_timeout_s body)))
         (setup_advance env ''network'')))))"

definition setup_complete :: "env \<Rightarrow> unit io" where
  "setup_complete env = then_p (require_incomplete env) (setup_advance env ''complete'')"

lemmas setup_service_defs = setup_get_state_def setup_is_complete_def setup_advance_def setup_go_back_def
  setup_reset_def

lemmas setup_api_defs = require_incomplete_def setup_status_def setup_admin_def setup_network_def setup_complete_def
  settings_set_def

lemma setup_service_session_free:
  assumes I: "session_free I"
  shows "keeps I (setup_get_state env)" "keeps I (setup_is_complete env)" "keeps I (setup_advance env s)"
    "keeps I (setup_go_back env s)"
  unfolding setup_service_defs Let_def by (intro keeps_intros repo_session_free [OF I])+

lemma setup_service_wf [wf_intros]:
  "keeps wf_world (setup_get_state env)" "keeps wf_world (setup_is_complete env)" "keeps wf_world (setup_advance env s)"
  "keeps wf_world (setup_go_back env s)"
  unfolding setup_service_defs Let_def by (intro keeps_intros wf_intros)+

lemma setup_api_session_free:
  assumes I: "session_free I"
  shows "keeps I (require_incomplete env)" "keeps I (setup_status env)" "keeps I (setup_admin env b)"
    "keeps I (setup_network env n)" "keeps I (setup_complete env)"
  unfolding setup_api_defs
  by (intro keeps_intros repo_session_free [OF I] auth_session_free [OF I] setup_service_session_free [OF I])+

lemma setup_api_wf [wf_intros]:
  "keeps wf_world (require_incomplete env)" "keeps wf_world (setup_status env)" "keeps wf_world (setup_admin env b)"
  "keeps wf_world (setup_network env n)" "keeps wf_world (setup_complete env)"
  unfolding setup_api_defs by (intro keeps_intros wf_intros)+

section \<open>After the wizard is completed\<close>

definition setup_done :: "db \<Rightarrow> bool" where
  "setup_done d \<longleftrightarrow> (case setup_state d of None \<Rightarrow> False | Some r \<Rightarrow> ss_completed r)"

lemma wp_require_incomplete_done:
  assumes "setup_done (w_db w)" "\<not> w_dead w" "wf_db (w_db w)"
    and "\<And>v. E setup_gone v"
  shows "wp (require_incomplete env) Q E w"
proof -
  have "wf_setup (w_db w)" "fst (wizard_of w)"
    using assms(1,3) by (auto simp: wf_db_def setup_done_def wizard_of_def wizard_row_def split: option.splits)
  with assms show ?thesis
    unfolding require_incomplete_def wp_bind by (intro wp_setup_is_complete) simp_all
qed

interpretation setup_admin: transaction "setup_admin env b" for env b
  by unfold_locales (rule setup_api_session_free, simp)

interpretation setup_network: transaction "setup_network env n" for env n
  by unfold_locales (rule setup_api_session_free, simp)

interpretation setup_complete: transaction "setup_complete env" for env
  by unfold_locales (rule setup_api_session_free, simp)

text \<open>
  C32. Once the wizard is completed, the setup API is closed: each of the three requests that
  would change something is refused, and commits nothing.
\<close>

theorem setup_api_closed:
  assumes "setup_done (w_committed w)" and "wf_db (w_committed w)"
  shows "wp (get_db_session (setup_admin env b)) (\<lambda>_ _. False) (\<lambda>_ v. w_committed v = w_committed w) w \<and>
         wp (get_db_session (setup_network env n)) (\<lambda>_ _. False) (\<lambda>_ v. w_committed v = w_committed w) w \<and>
         wp (get_db_session (setup_complete env)) (\<lambda>_ _. False) (\<lambda>_ v. w_committed v = w_committed w) w"
proof -
  let ?w = "w\<lparr>w_db := w_committed w, w_dead := False\<rparr>"
  have closed: "wp (require_incomplete env) Q (\<lambda>_ _. True) ?w" for Q
    by (rule wp_require_incomplete_done) (use assms in simp_all)
  have "wp (setup_admin env b) (\<lambda>_ _. False) (\<lambda>_ _. True) ?w" "wp (setup_network env n) (\<lambda>_ _. False) (\<lambda>_ _. True) ?w"
    "wp (setup_complete env) (\<lambda>_ _. False) (\<lambda>_ _. True) ?w"
    unfolding setup_admin_def setup_network_def setup_complete_def with_body_def
    by (auto intro: closed)
  then show ?thesis
    by (intro conjI; intro wp_mono [OF setup_admin.wp_request] wp_mono [OF setup_network.wp_request]
          wp_mono [OF setup_complete.wp_request]) auto
qed

definition demo_db_done :: db where
  "demo_db_done = demo_db\<lparr>setup_state := Some \<lparr>ss_id = 1, ss_completed = True, ss_current_step = ''complete'',
     ss_completed_steps = [(''complete'', JBool True)], ss_updated_at = 0\<rparr>\<rparr>"

lemma demo_wf_done [simp]: "wf_db demo_db_done"
  using demo_wf(1) by (simp add: demo_db_done_def wf_db_def wf_table_defs)

definition demo_admin_request :: AdminCreateRequest where
  "demo_admin_request = \<lparr>ac_username = ''root'', ac_password = ''correct horse battery''\<rparr>"

definition demo_network_request :: NetworkConfigRequest where
  "demo_network_request = \<lparr>nc_wake_interface = ''eth0'', nc_default_wake_strategy = ''etherwake'',
                           nc_default_poll_timeout_s = 60\<rparr>"

theorem setup_api_closed_witness:
  "wp (get_db_session (setup_admin demo_env demo_admin_request)) (\<lambda>_ _. False)
     (\<lambda>_ v. w_committed v = demo_db_done) (world_of demo_db_done 0) \<and>
   wp (get_db_session (setup_network demo_env demo_network_request)) (\<lambda>_ _. False)
     (\<lambda>_ v. w_committed v = demo_db_done) (world_of demo_db_done 0) \<and>
   wp (get_db_session (setup_complete demo_env)) (\<lambda>_ _. False) (\<lambda>_ v. w_committed v = demo_db_done) (world_of demo_db_done 0)"
proof -
  have "setup_done demo_db_done" by (simp add: setup_done_def demo_db_done_def)
  then show ?thesis
    using setup_api_closed [of "world_of demo_db_done 0" demo_env demo_admin_request demo_network_request] by simp
qed

end
