(* ===== verification/Web.thy ===== *)
theory Web
  imports ApiMachines ApiSetup
begin

text \<open>
  \<open>app/api/web.py\<close>: the server-rendered pages. A response is a redirect or a page with the values
  its template is given, and what it does to the session cookie. The wizard's pages ask for no
  credentials; the others ask for the session cookie and for nothing else.
\<close>

section \<open>Responses\<close>

datatype page =
    SetupPage string nat "string option" "string option"
  | LoginPage "string option" "string option"
  | MachinesPage "MachineRecord list" UserRecord string
  | MachineFormPage "MachineRecord option" string "string option"
  | TokensPage "MachineRecord list" "(string option \<times> ApiTokenRecord list) list" string
  | SshSetupPage "MachineRecord list" string string nat
  | SettingsPage "(string \<times> jval option) list" string bool

datatype cookie_change = KeepCookie | SetCookie string | DeleteCookie

datatype web_response =
    Redirect string cookie_change
  | Html int page

definition redirect :: "string \<Rightarrow> web_response io" where
  "redirect url = return_p (Redirect url KeepCookie)"

definition get_csrf :: "env \<Rightarrow> request \<Rightarrow> string io" where
  "get_csrf env rq =
     (if \<not> truthy (rq_session rq) then return_p []
      else catch_p
        (bind_p (auth_validate_session env (the (rq_session rq))) (\<lambda>session_user.
           generate_csrf_token env (s_id (fst session_user)) (s_csrf_secret (fst session_user))))
        (\<lambda>_. return_p []))"

section \<open>Setup wizard\<close>

definition web_root :: "env \<Rightarrow> web_response io" where
  "web_root env =
     bind_p (setup_is_complete env) (\<lambda>done_flag.
     if done_flag then redirect ''/machines''
     else bind_p (setup_get_state env) (\<lambda>state. redirect (''/setup/'' @ sv_current_step state)))"

definition setup_page :: "env \<Rightarrow> string \<Rightarrow> web_response io" where
  "setup_page env step =
     bind_p (setup_is_complete env) (\<lambda>done_flag.
     if done_flag then redirect ''/machines''
     else bind_p (setup_get_state env) (\<lambda>state.
       let current_step = sv_current_step state in
       case index_of step WIZARD_STEPS of
         None \<Rightarrow> redirect (''/setup/'' @ current_step)
       | Some step_index \<Rightarrow>
           (case index_of current_step WIZARD_STEPS of
              None \<Rightarrow> raise_p (ValueError (py_repr current_step @ '' is not in list''))
            | Some current_index \<Rightarrow>
                if step_index > current_index then redirect (''/setup/'' @ current_step)
                else return_p (Html 200 (SetupPage step step_index None None)))))"

definition setup_welcome_post :: "env \<Rightarrow> web_response io" where
  "setup_welcome_post env = then_p (setup_advance env ''welcome'') (redirect ''/setup/admin_account'')"

definition setup_admin_post :: "env \<Rightarrow> request \<Rightarrow> string \<Rightarrow> string \<Rightarrow> web_response io" where
  "setup_admin_post env rq username password =
     bind_p (catch_p (then_p (auth_create_admin env username password) (return_p None))
               (\<lambda>exc. case exc of AuthenticationError m \<Rightarrow> return_p (Some (exn_str exc)) | _ \<Rightarrow> raise_p exc)) (\<lambda>error.
     case error of
       Some e \<Rightarrow> return_p (Html 422 (SetupPage ''admin_account'' (the (index_of ''admin_account'' WIZARD_STEPS)) (Some e) (Some username)))
     | None \<Rightarrow>
         then_p (setup_advance env ''admin_account'')
           (bind_p (auth_login env username password (rq_client rq) (rq_user_agent rq)) (\<lambda>session.
              return_p (Redirect ''/setup/network'' (SetCookie (s_id session))))))"

definition setup_network_post :: "env \<Rightarrow> string \<Rightarrow> string \<Rightarrow> int \<Rightarrow> web_response io" where
  "setup_network_post env wake_interface default_wake_strategy default_poll_timeout_s =
     then_p (settings_set (settings_repo_set env) ''wake_interface'' (JStr wake_interface))
     (then_p (settings_set (settings_repo_set env) ''default_wake_strategy'' (JStr default_wake_strategy))
     (then_p (settings_set (settings_repo_set env) ''default_poll_timeout_s'' (JInt default_poll_timeout_s))
     (then_p (setup_advance env ''network'') (redirect ''/setup/first_machine''))))"

definition setup_back :: "env \<Rightarrow> string \<Rightarrow> web_response io" where
  "setup_back env step = bind_p (setup_go_back env step) (\<lambda>prev. redirect (''/setup/'' @ prev))"

definition setup_skip_machine :: "env \<Rightarrow> web_response io" where
  "setup_skip_machine env =
     then_p (setup_advance env ''first_machine'')
     (then_p (setup_advance env ''complete'') (redirect ''/setup/complete''))"

section \<open>Login and logout\<close>

definition login_page :: "web_response io" where
  "login_page = return_p (Html 200 (LoginPage None None))"

definition login_post :: "env \<Rightarrow> request \<Rightarrow> string \<Rightarrow> string \<Rightarrow> web_response io" where
  "login_post env rq username password =
     bind_p (catch_p
          (bind_p (auth_login env username password (rq_client rq) (rq_user_agent rq)) (\<lambda>session. return_p (Some session)))
          (\<lambda>exc. case exc of AuthenticationError m \<Rightarrow> return_p None | _ \<Rightarrow> raise_p exc)) (\<lambda>session.
     case session of
       None \<Rightarrow> return_p (Html 401 (LoginPage (Some ''Invalid username or password.'') (Some username)))
     | Some session \<Rightarrow> return_p (Redirect ''/machines'' (SetCookie (s_id session))))"

definition logout_post :: "env \<Rightarrow> request \<Rightarrow> web_response io" where
  "logout_post env rq =
     then_p (if truthy (rq_session rq)
             then catch_p (auth_logout env (the (rq_session rq))) (\<lambda>_. return_p ())
             else return_p ())
       (return_p (Redirect ''/login'' DeleteCookie))"

section \<open>Pages behind the session\<close>

definition require_web_auth :: "env \<Rightarrow> request \<Rightarrow> (SessionRecord \<times> UserRecord) option io" where
  "require_web_auth env rq =
     (if \<not> truthy (rq_session rq) then return_p None
      else catch_p
        (bind_p (auth_validate_session env (the (rq_session rq))) (\<lambda>session_user. return_p (Some session_user)))
        (\<lambda>_. return_p None))"

text \<open>\<open>if user is None: return _redirect("/login")\<close>, at the head of every page below.\<close>

definition web_gated :: "env \<Rightarrow> request \<Rightarrow> (UserRecord \<Rightarrow> web_response io) \<Rightarrow> web_response io" where
  "web_gated env rq body =
     bind_p (require_web_auth env rq) (\<lambda>session_user.
     case session_user of
       None \<Rightarrow> redirect ''/login''
     | Some (session, user) \<Rightarrow> body user)"

definition machines_page :: "env \<Rightarrow> request \<Rightarrow> web_response io" where
  "machines_page env rq = web_gated env rq (\<lambda>user.
     bind_p (machine_list_all False) (\<lambda>machines.
     bind_p (get_csrf env rq) (\<lambda>csrf. return_p (Html 200 (MachinesPage machines user csrf)))))"

definition machine_new_page :: "env \<Rightarrow> request \<Rightarrow> web_response io" where
  "machine_new_page env rq = web_gated env rq (\<lambda>user.
     bind_p (get_csrf env rq) (\<lambda>csrf. return_p (Html 200 (MachineFormPage None csrf None))))"

text \<open>The fields of the machine form, as posted.\<close>

record MachineForm =
  mf_name :: string
  mf_ip_address :: string
  mf_mac_address :: string
  mf_ssh_port :: int
  mf_hostname :: string
  mf_wake_interface :: string
  mf_wake_strategy :: string
  mf_broadcast_address :: string
  mf_enabled :: string

definition form_fields :: "MachineForm \<Rightarrow> MachineFields" where
  "form_fields f =
     \<lparr>f_name = mf_name f, f_ip_address = mf_ip_address f, f_mac_address = mf_mac_address f,
      f_ssh_port = mf_ssh_port f, f_hostname = or_none (mf_hostname f),
      f_wake_interface = or_none (mf_wake_interface f), f_wake_strategy = mf_wake_strategy f,
      f_broadcast_address = or_none (mf_broadcast_address f), f_enabled = (mf_enabled f = ''1'')\<rparr>"

definition machine_new_post :: "env \<Rightarrow> request \<Rightarrow> MachineForm \<Rightarrow> string option \<Rightarrow> web_response io" where
  "machine_new_post env rq form from_param = web_gated env rq (\<lambda>user.
     bind_p (get_csrf env rq) (\<lambda>csrf.
     bind_p (catch_p (then_p (machine_create env (form_fields form)) (return_p None))
               (\<lambda>exc. return_p (Some (exn_str exc)))) (\<lambda>error.
     case error of
       Some e \<Rightarrow> return_p (Html 422 (MachineFormPage None csrf (Some e)))
     | None \<Rightarrow>
         if from_param = Some ''setup'' then
           then_p (setup_advance env ''first_machine'')
           (then_p (setup_advance env ''complete'') (redirect ''/setup/complete''))
         else redirect ''/machines'')))"

definition machine_edit_page :: "env \<Rightarrow> request \<Rightarrow> string \<Rightarrow> web_response io" where
  "machine_edit_page env rq machine_id = web_gated env rq (\<lambda>user.
     bind_p (machine_get_by_id env machine_id) (\<lambda>machine.
     case machine of
       None \<Rightarrow> redirect ''/machines''
     | Some m \<Rightarrow> bind_p (get_csrf env rq) (\<lambda>csrf. return_p (Html 200 (MachineFormPage (Some m) csrf None)))))"

definition clean_field :: "string \<Rightarrow> string option" where
  "clean_field v = (if strip v \<notin> set ['''', ''None''] then or_none (strip v) else None)"

definition form_updates :: "MachineForm \<Rightarrow> machine_kwarg list" where
  "form_updates f =
     [KName (mf_name f), KIpAddress (mf_ip_address f), KMacAddress (mf_mac_address f), KSshPort (mf_ssh_port f),
      KHostname (clean_field (mf_hostname f)), KWakeInterface (clean_field (mf_wake_interface f)),
      KWakeStrategy (mf_wake_strategy f), KBroadcastAddress (clean_field (mf_broadcast_address f)),
      KEnabled (mf_enabled f = ''1'')]"

definition machine_edit_post :: "env \<Rightarrow> request \<Rightarrow> string \<Rightarrow> MachineForm \<Rightarrow> web_response io" where
  "machine_edit_post env rq machine_id form = web_gated env rq (\<lambda>user.
     bind_p (get_csrf env rq) (\<lambda>csrf.
     bind_p (catch_p (then_p (machine_update env machine_id (form_updates form)) (return_p None))
               (\<lambda>exc. return_p (Some (exn_str exc)))) (\<lambda>error.
     case error of
       None \<Rightarrow> redirect ''/machines''
     | Some e \<Rightarrow>
         then_p rollback
           (bind_p (machine_get_by_id env machine_id) (\<lambda>machine.
              return_p (Html 422 (MachineFormPage machine csrf (Some e))))))))"

text \<open>\<open>tokens_by_machine.setdefault(t.machine_id, []).append(t)\<close>, on a dictionary in insertion order.\<close>

fun add_to_group :: "'k \<Rightarrow> 'v \<Rightarrow> ('k \<times> 'v list) list \<Rightarrow> ('k \<times> 'v list) list" where
  "add_to_group k v [] = [(k, [v])]"
| "add_to_group k v ((k', vs) # groups) =
     (if k' = k then (k', vs @ [v]) # groups else (k', vs) # add_to_group k v groups)"

definition group_tokens :: "ApiTokenRecord list \<Rightarrow> (string option \<times> ApiTokenRecord list) list" where
  "group_tokens ts = foldl (\<lambda>groups t. add_to_group (t_machine_id t) t groups) [] ts"

definition tokens_page :: "env \<Rightarrow> request \<Rightarrow> web_response io" where
  "tokens_page env rq = web_gated env rq (\<lambda>user.
     bind_p (machine_list_all False) (\<lambda>machines.
     bind_p (get_csrf env rq) (\<lambda>csrf.
     bind_p auth_list_api_tokens (\<lambda>all_tokens.
       return_p (Html 200 (TokensPage machines (group_tokens all_tokens) csrf))))))"

definition rstrip_slash :: "string \<Rightarrow> string" where
  "rstrip_slash s = rev (dropWhile (\<lambda>c. c = CHR ''/'') (rev s))"

definition ssh_setup_page :: "env \<Rightarrow> request \<Rightarrow> string \<Rightarrow> web_response io" where
  "ssh_setup_page env rq base_url = web_gated env rq (\<lambda>user.
     bind_p (machine_list_all False) (\<lambda>machines.
     bind_p (get_csrf env rq) (\<lambda>csrf.
     bind_p auth_list_api_tokens (\<lambda>tokens.
       return_p (Html 200 (SshSetupPage machines csrf (rstrip_slash base_url) (length tokens)))))))"

definition settings_page :: "env \<Rightarrow> request \<Rightarrow> web_response io" where
  "settings_page env rq = web_gated env rq (\<lambda>user.
     bind_p (settings_get_all settings_repo_get_all) (\<lambda>settings.
     bind_p (get_csrf env rq) (\<lambda>csrf. return_p (Html 200 (SettingsPage settings csrf False)))))"

record SettingsForm =
  sf_wake_interface :: string
  sf_default_wake_strategy :: string
  sf_default_poll_timeout_s :: int
  sf_allow_api_tokens :: string
  sf_session_lifetime_hours :: int

definition settings_post :: "env \<Rightarrow> request \<Rightarrow> SettingsForm \<Rightarrow> web_response io" where
  "settings_post env rq f = web_gated env rq (\<lambda>user.
     then_p (settings_set (settings_repo_set env) ''wake_interface'' (JStr (sf_wake_interface f)))
     (then_p (settings_set (settings_repo_set env) ''default_wake_strategy'' (JStr (sf_default_wake_strategy f)))
     (then_p (settings_set (settings_repo_set env) ''default_poll_timeout_s'' (JInt (sf_default_poll_timeout_s f)))
     (then_p (settings_set (settings_repo_set env) ''allow_api_tokens'' (JBool (sf_allow_api_tokens f = ''1'')))
     (then_p (settings_set (settings_repo_set env) ''session_lifetime_hours'' (JInt (sf_session_lifetime_hours f)))
     (bind_p (settings_get_all settings_repo_get_all) (\<lambda>settings.
      bind_p (get_csrf env rq) (\<lambda>csrf. return_p (Html 200 (SettingsPage settings csrf True))))))))))"

section \<open>What the pages may change\<close>

lemmas web_setup_defs = web_root_def setup_page_def setup_welcome_post_def setup_admin_post_def setup_network_post_def
  setup_back_def setup_skip_machine_def redirect_def settings_set_def

lemmas web_page_defs = machines_page_def machine_new_page_def machine_new_post_def machine_edit_page_def
  machine_edit_post_def tokens_page_def ssh_setup_page_def settings_page_def settings_post_def redirect_def settings_set_def settings_get_all_def

lemmas web_auth_defs = get_csrf_def login_page_def login_post_def logout_post_def require_web_auth_def web_gated_def
  generate_csrf_token_def

lemma web_auth_wf [wf_intros]:
  "keeps wf_world (get_csrf env rq)" "keeps wf_world login_page" "keeps wf_world (login_post env rq u p)"
  "keeps wf_world (logout_post env rq)" "keeps wf_world (require_web_auth env rq)"
  "(\<And>user. keeps wf_world (body user)) \<Longrightarrow> keeps wf_world (web_gated env rq body)"
  unfolding web_auth_defs redirect_def by (intro keeps_intros wf_intros; simp)+

lemma web_setup_wf [wf_intros]:
  "keeps wf_world (web_root env)" "keeps wf_world (setup_page env st)" "keeps wf_world (setup_welcome_post env)"
  "keeps wf_world (setup_admin_post env rq u p)" "keeps wf_world (setup_network_post env wi ws pt)"
  "keeps wf_world (setup_back env st)" "keeps wf_world (setup_skip_machine env)"
  unfolding web_setup_defs Let_def by (intro keeps_intros wf_intros)+

lemma web_pages_wf [wf_intros]:
  "keeps wf_world (machines_page env rq)" "keeps wf_world (machine_new_page env rq)"
  "keeps wf_world (machine_new_post env rq form fr)" "keeps wf_world (machine_edit_page env rq i)"
  "keeps wf_world (machine_edit_post env rq i form)" "keeps wf_world (tokens_page env rq)"
  "keeps wf_world (ssh_setup_page env rq url)" "keeps wf_world (settings_page env rq)"
  "keeps wf_world (settings_post env rq sform)"
  unfolding web_page_defs by (rule keeps_intros wf_intros)+

text \<open>No page commits on its own: the commit is that of the request.\<close>

lemma keeps_rollback: "session_free I \<Longrightarrow> keeps I rollback"
  by (auto simp: session_free_def keeps_def)

lemma web_auth_session_free:
  assumes I: "session_free I"
  shows "keeps I (get_csrf env rq)" "keeps I login_page" "keeps I (login_post env rq u p)"
    "keeps I (logout_post env rq)" "keeps I (require_web_auth env rq)"
    "(\<And>user. keeps I (body user)) \<Longrightarrow> keeps I (web_gated env rq body)"
  unfolding web_auth_defs redirect_def
  by (intro keeps_intros session_free_keeps [OF I] auth_session_free [OF I]; simp)+

lemma web_setup_session_free:
  assumes I: "session_free I"
  shows "keeps I (web_root env)" "keeps I (setup_page env st)" "keeps I (setup_welcome_post env)"
    "keeps I (setup_admin_post env rq u p)" "keeps I (setup_network_post env wi ws pt)"
    "keeps I (setup_back env st)" "keeps I (setup_skip_machine env)"
  unfolding web_setup_defs Let_def
  by (intro keeps_intros setup_service_session_free [OF I] auth_session_free [OF I] repo_session_free [OF I])+

lemma web_pages_session_free:
  assumes I: "session_free I"
  shows "keeps I (machines_page env rq)" "keeps I (machine_new_page env rq)"
    "keeps I (machine_new_post env rq form fr)" "keeps I (machine_edit_page env rq i)"
    "keeps I (machine_edit_post env rq i form)" "keeps I (tokens_page env rq)"
    "keeps I (ssh_setup_page env rq url)" "keeps I (settings_page env rq)"
    "keeps I (settings_post env rq sform)"
  unfolding web_page_defs
  by (intro keeps_intros web_auth_session_free [OF I] repo_session_free [OF I] auth_session_free [OF I]
      setup_service_session_free [OF I] keeps_rollback [OF I])+

section \<open>The session behind a page\<close>

lemma wp_require_web_auth:
  assumes "\<not> w_dead w" "wf_db (w_db w)" "canonical_users env (w_db w)"
    and "\<And>su n. cookie_session env (w_db w) (clock env (w_tick w) + w_slept w) rq = Some su \<Longrightarrow>
      Q (Some su) (w\<lparr>w_tick := n\<rparr>)"
    and "\<And>n. cookie_session env (w_db w) (clock env (w_tick w) + w_slept w) rq = None \<Longrightarrow> Q None (w\<lparr>w_tick := n\<rparr>)"
  shows "wp (require_web_auth env rq) Q E w"
proof (cases "rq_session rq")
  case None
  with assms(5) [of "w_tick w"] show ?thesis
    by (simp add: require_web_auth_def cookie_session_def truthy_def)
next
  case (Some i)
  show ?thesis
  proof (cases "i = []")
    case True
    then have "session_of env d t i = None" for d t
      by (simp add: session_of_def is_valid_uuid_def Let_def remove_char_def strip_by_def remove_all.simps)
    with Some True assms(5) [of "w_tick w"] show ?thesis
      by (simp add: require_web_auth_def cookie_session_def truthy_def)
  next
    case False
    with Some have "truthy (rq_session rq)" by (simp add: truthy_def)
    with assms Some show ?thesis
      by (simp add: require_web_auth_def cookie_session_def) (rule wp_validate_session, auto)
  qed
qed

lemma wp_web_gated_refused:
  assumes "\<not> w_dead w" "wf_db (w_db w)" "canonical_users env (w_db w)"
    and "cookie_session env (w_db w) (clock env (w_tick w) + w_slept w) rq = None"
    and "\<And>n. Q (Redirect ''/login'' KeepCookie) (w\<lparr>w_tick := n\<rparr>)"
  shows "wp (web_gated env rq body) Q E w"
  unfolding web_gated_def wp_bind
  by (rule wp_require_web_auth [OF assms(1-3)]) (use assms(4,5) in \<open>simp_all add: redirect_def\<close>)

section \<open>The back button of the wizard\<close>

interpretation setup_back: transaction "setup_back env step" for env step
  by unfold_locales (rule web_setup_session_free, simp)

text \<open>
  The back button asks neither for credentials nor whether the wizard is completed: one such
  request to a completed installation, from anybody, takes the completion back, and the wizard
  is committed as incomplete at its fourth step.
\<close>

theorem back_reopens_wizard:
  assumes "setup_done (w_committed w)" and "wf_db (w_committed w)"
  shows "wp (get_db_session (setup_back env ''complete''))
     (\<lambda>r v. r = Redirect ''/setup/first_machine'' KeepCookie \<and> \<not> setup_done (w_committed v)) (\<lambda>_ _. False) w"
proof -
  have "index_of ''complete'' WIZARD_STEPS = Some 4" "WIZARD_STEPS ! 3 = ''first_machine''"
    by (simp_all add: WIZARD_STEPS_def)
  then have undone: "\<not> fst (wizard_back ''complete'' z)" for z
    by (simp add: wizard_back_def split: prod.split)
  have "wp (setup_back env ''complete'') (\<lambda>r v. r = Redirect ''/setup/first_machine'' KeepCookie \<and> \<not> fst (wizard_of v) \<and> \<not> w_dead v)
      (\<lambda>_ _. False) (w\<lparr>w_db := w_committed w, w_dead := False\<rparr>)"
    unfolding setup_back_def wp_bind redirect_def wp_return
    by (rule wp_setup_go_back)
      (use assms(2) undone in \<open>auto simp: wf_db_def only_setup_def WIZARD_STEPS_def\<close>)
  then show ?thesis
    unfolding get_db_session_def wp_then wp_modify wp_catch wp_bind
    by (rule wp_mono) (auto simp: wizard_of_def setup_done_def wizard_row_def split: option.splits)
qed

theorem back_reopens_wizard_witness:
  "wp (get_db_session (setup_back demo_env ''complete''))
     (\<lambda>r v. r = Redirect ''/setup/first_machine'' KeepCookie \<and> \<not> setup_done (w_committed v)) (\<lambda>_ _. False)
     (world_of demo_db_done 0)"
  by (rule back_reopens_wizard) (simp_all, simp add: setup_done_def demo_db_done_def)

section \<open>A machine that cannot be created\<close>

lemma wp_any: "(\<And>x v. Q x v) \<Longrightarrow> (\<And>e v. E e v) \<Longrightarrow> wp m Q E w"
  by (simp add: wp_def split: prod.split sum.split)

lemma wp_bind_any: "(\<And>x v. wp (f x) Q E v) \<Longrightarrow> (\<And>e v. E e v) \<Longrightarrow> wp (bind_p m f) Q E w"
  by (simp add: wp_any)

text \<open>Every exception of \<open>create\<close> is one of its flush.\<close>

lemma wp_machine_create_dead:
  assumes "\<And>r v. Q r v" "\<And>e v. w_dead v \<Longrightarrow> E e v"
  shows "wp (machine_create env f) Q E w"
  using assms by (simp add: machine_create_def split: sum.split prod.split)

definition refused_dead :: "web_response \<Rightarrow> world \<Rightarrow> bool" where
  "refused_dead r v \<longleftrightarrow> (case r of Html c pg \<Rightarrow> c \<noteq> 422 \<or> w_dead v | _ \<Rightarrow> True)"

lemma wp_new_machine_body:
  "wp (bind_p (catch_p (then_p (machine_create env f) (return_p None)) (\<lambda>exc. return_p (Some (exn_str exc)))) (\<lambda>error.
       case error of
         Some e \<Rightarrow> return_p (Html 422 (MachineFormPage None csrf (Some e)))
       | None \<Rightarrow>
           if fr = Some ''setup'' then
             then_p (setup_advance env ''first_machine'')
             (then_p (setup_advance env ''complete'') (redirect ''/setup/complete''))
           else redirect ''/machines'')) refused_dead (\<lambda>_ _. True) w"
  unfolding wp_bind wp_catch wp_then wp_return
  by (rule wp_machine_create_dead) (auto simp: redirect_def refused_dead_def intro: wp_any)

interpretation machine_new_post: transaction "machine_new_post env rq form fr" for env rq form fr
  by unfold_locales (rule web_pages_session_free, simp)


end
