(* ===== verification/Invariants.thy ===== *)
theory Invariants
  imports ApiWake ApiSystem Web
begin

text \<open>
  Two tables decide who owns the installation: the users and the row of the wizard. Their
  \<open>core\<close>, the number of users and that row, is left alone by every operation but those of the
  wizard and the creation of the admin. The lemmas go through the layers in the order of the
  code and give, for every handler, what the invariant of the application rests on.
\<close>

section \<open>The core of the database\<close>

definition core :: "db \<Rightarrow> nat \<times> SetupStateRecord option" where
  "core d = (length (users d), setup_state d)"

text \<open>A predicate of the core, of what the session sees and of what is committed.\<close>

definition core_inv :: "(nat \<times> SetupStateRecord option \<Rightarrow> bool) \<Rightarrow> world \<Rightarrow> bool" where
  "core_inv P w \<longleftrightarrow> P (core (w_db w)) \<and> P (core (w_committed w))"

lemma core_inv_simps [simp]:
  "core_inv P (w\<lparr>w_tick := n\<rparr>) = core_inv P w" "core_inv P (w\<lparr>w_dead := b\<rparr>) = core_inv P w"
  "core_inv P (w\<lparr>w_sent := s\<rparr>) = core_inv P w" "core_inv P (w\<lparr>w_slept := t\<rparr>) = core_inv P w"
  "core_inv P (w\<lparr>w_buckets := r\<rparr>) = core_inv P w"
  "core_inv P (w\<lparr>w_db := d\<rparr>) \<longleftrightarrow> P (core d) \<and> P (core (w_committed w))"
  by (simp_all add: core_inv_def)

lemma core_simps [simp]:
  "core (d\<lparr>machines := ms\<rparr>) = core d" "core (d\<lparr>attempts := as\<rparr>) = core d" "core (d\<lparr>jobs := js\<rparr>) = core d"
  "core (d\<lparr>sessions := ss\<rparr>) = core d" "core (d\<lparr>tokens := ts\<rparr>) = core d" "core (d\<lparr>settings := st\<rparr>) = core d"
  "core (d\<lparr>users := us\<rparr>) = (length us, setup_state d)" "core (d\<lparr>setup_state := r\<rparr>) = (length (users d), r)"
  by (simp_all add: core_def)

named_theorems core_intros "operations that keep the core"

lemma core_attempt_free [simp]: "attempt_free (core_inv P)"
  by (simp add: attempt_free_def core_inv_def)

lemma keeps_core_flush:
  "(\<And>d x d'. f d = Inr (x, d') \<Longrightarrow> core d' = core d) \<Longrightarrow> keeps (core_inv P) (flush f)"
  by (rule keeps_flush) (simp_all add: core_inv_def)

lemma keeps_core_execute: "(\<And>d. core (f d) = core d) \<Longrightarrow> keeps (core_inv P) (execute f)"
  by (rule keeps_execute) (simp add: core_inv_def)

lemma keeps_core_effects [core_intros]:
  "keeps (core_inv P) (effect g)" "keeps (core_inv P) (now env)" "keeps (core_inv P) (query h)"
  "keeps (core_inv P) commit" "keeps (core_inv P) rollback" "keeps (core_inv P) (record_sent p)"
  "keeps (core_inv P) (sleep t)" "keeps (core_inv P) (time_monotonic env)" "keeps (core_inv P) (own_session f)"
  by (auto simp: keeps_def core_inv_def)

lemma core_changes:
  "insert_machine env m d = Inr (x, d') \<Longrightarrow> core d' = core d"
  "insert_session env s d = Inr (y, d') \<Longrightarrow> core d' = core d"
  "insert_token env t d = Inr (z, d') \<Longrightarrow> core d' = core d"
  "upsert_setting k v n d = Inr (u1, d') \<Longrightarrow> core d' = core d"
  "delete_machine_row i d = Inr (u2, d') \<Longrightarrow> core d' = core d"
  "update_machine env i f n d = Inr (r, d') \<Longrightarrow> core d' = core d"
  by (auto simp: insert_machine_def insert_session_def insert_token_def upsert_setting_def delete_machine_row_def
      update_machine_def Let_def split: sum.splits if_splits option.splits)

lemma keeps_core_changes [core_intros]:
  "keeps (core_inv P) (flush (insert_machine env m))" "keeps (core_inv P) (flush (insert_session env s))"
  "keeps (core_inv P) (flush (insert_token env t))" "keeps (core_inv P) (flush (upsert_setting k v n))"
  "keeps (core_inv P) (flush (delete_machine_row i))" "keeps (core_inv P) (flush (update_machine env i f n))"
  by (rule keeps_core_flush, erule core_changes)+

lemma keeps_core_updates [core_intros]:
  "keeps (core_inv P) (execute (\<lambda>d. d\<lparr>users := update_rows u_id i f (users d)\<rparr>))"
  "keeps (core_inv P) (execute (\<lambda>d. d\<lparr>sessions := g (sessions d)\<rparr>))"
  "keeps (core_inv P) (execute (\<lambda>d. d\<lparr>tokens := h (tokens d)\<rparr>))"
  by (rule keeps_core_execute, simp add: core_def)+

section \<open>Layer by layer\<close>

lemma repo_core [core_intros]:
  "keeps (core_inv P) (user_get_by_id env i)" "keeps (core_inv P) (user_get_by_username n)"
  "keeps (core_inv P) (user_update_last_login env i)" "keeps (core_inv P) (user_update_password_hash env i p)"
  "keeps (core_inv P) user_count" "keeps (core_inv P) (machine_get_by_id env i)" "keeps (core_inv P) (machine_list_all b)"
  "keeps (core_inv P) (machine_create env f)" "keeps (core_inv P) (machine_update env i kws)"
  "keeps (core_inv P) (machine_delete env i)" "keeps (core_inv P) (session_create env u c e ip ua)"
  "keeps (core_inv P) (session_get_by_id env i)" "keeps (core_inv P) (session_revoke env i)"
  "keeps (core_inv P) (token_create env n h p sc u mo)" "keeps (core_inv P) (token_get_by_hash h)"
  "keeps (core_inv P) token_list_active" "keeps (core_inv P) (token_list_for_machine env m)"
  "keeps (core_inv P) (token_revoke env i)" "keeps (core_inv P) (token_touch_last_used env i)"
  "keeps (core_inv P) (settings_repo_get k)" "keeps (core_inv P) (settings_repo_set env k v)"
  "keeps (core_inv P) settings_repo_get_all"
  unfolding repo_defs Let_def by (intro keeps_intros core_intros)+

lemma attempts_core [core_intros]:
  "keeps (core_inv P) (attempt_create env m at ai st eo pt)" "keeps (core_inv P) (attempt_get_by_id env i)"
  "keeps (core_inv P) (attempt_get_active_for_machine env m)"
  by (rule attempts_only, simp)+

lemma auth_core [core_intros]:
  "keeps (core_inv P) auth_admin_exists" "keeps (core_inv P) (auth_login env u p ip ua)"
  "keeps (core_inv P) (auth_logout env i)" "keeps (core_inv P) (auth_validate_session env i)"
  "keeps (core_inv P) (auth_create_api_token env n sc ui mi)" "keeps (core_inv P) (auth_validate_api_token env raw)"
  "keeps (core_inv P) (auth_revoke_api_token env i)" "keeps (core_inv P) auth_list_api_tokens"
  "keeps (core_inv P) (auth_list_api_tokens_for_machine env m)"
  unfolding auth_defs Let_def by (intro keeps_intros core_intros)+

lemma dependency_core [core_intros]:
  "keeps (core_inv P) (get_current_session_and_user env rq)" "keeps (core_inv P) (get_current_user env rq)"
  "keeps (core_inv P) (require_csrf env rq su)" "keeps (core_inv P) (get_api_token env rq)"
  "keeps (core_inv P) (get_user_from_session_or_token env rq)"
  unfolding dependency_defs Let_def by (intro keeps_intros core_intros)+

lemma services_core [core_intros]:
  "keeps (core_inv P) (wake_service_wake env mid at ai eo pt ov)" "keeps (core_inv P) (ensure_online_run env fuel i)"
  "keeps (core_inv P) (process_job env fuel payload)"
  by (rule wake_attempts_only ensure_online_attempts_only process_job_attempts_only, simp)+

lemma queue_core [core_intros]:
  "keeps (core_inv P) (claim_next env)" "keeps (core_inv P) (mark_done env i)" "keeps (core_inv P) (mark_error env i e)"
  "keeps (core_inv P) (enqueue env mid aid ty payload)"
  unfolding claim_next_def mark_done_def mark_error_def enqueue_def Let_def by (intro keeps_intros core_intros)+

lemma check_login_rate_core [core_intros]: "keeps (core_inv P) (check_login_rate env ip)"
  by (auto simp: keeps_wp wp_check_login_rate Let_def split: prod.split)

lemma auth_api_core [core_intros]:
  "keeps (core_inv P) (login env rq b)" "keeps (core_inv P) (logout env rq)" "keeps (core_inv P) (me env rq)"
  "keeps (core_inv P) (create_token env rq tb)" "keeps (core_inv P) (list_tokens env rq m)"
  "keeps (core_inv P) (revoke_token env rq i)" "keeps (core_inv P) (csrf_protected_user env rq)"
  unfolding auth_api_defs Let_def by (intro keeps_intros core_intros)+

lemma machine_api_core [core_intros]:
  "keeps (core_inv P) (list_machines env rq b)" "keeps (core_inv P) (create_machine env rq mc)"
  "keeps (core_inv P) (get_machine env rq i)" "keeps (core_inv P) (patch_machine env rq i mu)"
  "keeps (core_inv P) (delete_machine env rq i)"
  unfolding machine_api_defs Let_def by (intro keeps_intros core_intros)+

lemma keeps_probe_core [core_intros]: "keeps (core_inv P) (probe env m h p f)"
  by (rule keeps_probe) simp_all

lemma wake_api_core [core_intros]:
  "keeps (core_inv P) (wake_machine env rq i b)" "keeps (core_inv P) (wake_machine_direct env rq i b)"
  "keeps (core_inv P) (get_attempt_status env rq i a)" "keeps (core_inv P) (machine_status env rq i)"
  unfolding wake_machine_def wake_machine_direct_def get_attempt_status_def machine_status_def Let_def
  by (intro keeps_intros core_intros)+

section \<open>The admin and the wizard\<close>

definition setup_ok :: "SetupStateRecord option \<Rightarrow> bool" where
  "setup_ok s \<longleftrightarrow> (case s of None \<Rightarrow> True | Some r \<Rightarrow> ss_id r = 1 \<and> wizard_inv (wizard_row r))"

text \<open>At most one user, and a wizard in one of its states.\<close>

definition one_owner :: "nat \<times> SetupStateRecord option \<Rightarrow> bool" where
  "one_owner = (\<lambda>(n, s). n \<le> 1 \<and> setup_ok s)"

abbreviation owner_inv :: "world \<Rightarrow> bool" where
  "owner_inv \<equiv> core_inv one_owner"

lemma setup_ok_world: "setup_ok (setup_state (w_db w)) \<longleftrightarrow> wf_setup (w_db w) \<and> wizard_inv (wizard_of w)"
  by (auto simp: setup_ok_def wf_setup_def wizard_of_def wizard_inv_start split: option.split)

lemma owner_inv_wizard: "owner_inv w \<Longrightarrow> wf_setup (w_db w) \<and> wizard_inv (wizard_of w)"
  by (auto simp: core_inv_def one_owner_def core_def setup_ok_world)

lemma owner_inv_only_setup: "owner_inv w \<Longrightarrow> only_setup w v \<Longrightarrow> wizard_inv (wizard_of v) \<Longrightarrow> owner_inv v"
  using setup_ok_world [of v] by (auto simp: core_inv_def one_owner_def core_def only_setup_def)

text \<open>On a session that refuses, the wizard's calls raise and change nothing.\<close>

lemma dead_setup:
  assumes "w_dead w" "E PendingRollbackError w"
  shows "wp (setup_get env) Q E w" "wp (setup_advance env s) Q' E w" "wp (setup_go_back env s) Q'' E w"
    "wp (setup_is_complete env) Q3 E w" "wp (setup_get_state env) Q4 E w"
  using assms by (simp_all add: setup_get_def setup_advance_def setup_go_back_def setup_is_complete_def setup_get_state_def)

lemma setup_get_owner [core_intros]: "keeps owner_inv (setup_get env)"
  unfolding keeps_wp
proof (intro allI impI)
  fix w assume w: "owner_inv w"
  then have "wf_setup (w_db w)" "wizard_inv (wizard_of w)" using owner_inv_wizard by auto
  then show "wp (setup_get env) (\<lambda>_. owner_inv) (\<lambda>_. owner_inv) w"
    by (cases "w_dead w") (rule dead_setup, assumption, rule w, auto intro!: wp_setup_get owner_inv_only_setup [OF w])
qed

lemma setup_advance_owner [core_intros]:
  assumes "s \<in> set WIZARD_STEPS"
  shows "keeps owner_inv (setup_advance env s)"
  unfolding keeps_wp
proof (intro allI impI)
  fix w assume w: "owner_inv w"
  then have "wf_setup (w_db w)" using owner_inv_wizard by auto
  then show "wp (setup_advance env s) (\<lambda>_. owner_inv) (\<lambda>_. owner_inv) w"
    using assms
    by (cases "w_dead w") (rule dead_setup, assumption, rule w, auto
        intro!: wp_setup_advance owner_inv_only_setup [OF w] wizard_step_length wizard_inv_advance)
qed

lemma setup_go_back_owner [core_intros]: "keeps owner_inv (setup_go_back env s)"
  unfolding keeps_wp
proof (intro allI impI)
  fix w assume w: "owner_inv w"
  then have "wf_setup (w_db w)" "wizard_inv (wizard_of w)" using owner_inv_wizard by auto
  then show "wp (setup_go_back env s) (\<lambda>_. owner_inv) (\<lambda>_. owner_inv) w"
    by (cases "w_dead w") (rule dead_setup, assumption, rule w, auto
        intro!: wp_setup_go_back owner_inv_only_setup [OF w] wizard_inv_back)
qed

lemma setup_reads_owner [core_intros]:
  "keeps owner_inv (setup_is_complete env)" "keeps owner_inv (setup_get_state env)"
  unfolding setup_is_complete_def setup_get_state_def by (intro keeps_intros core_intros)+

lemma step_names [core_intros]:
  "''welcome'' \<in> set WIZARD_STEPS" "''admin_account'' \<in> set WIZARD_STEPS" "''network'' \<in> set WIZARD_STEPS"
  "''first_machine'' \<in> set WIZARD_STEPS" "''complete'' \<in> set WIZARD_STEPS"
  by (simp_all add: WIZARD_STEPS_def)

lemma create_admin_owner [core_intros]: "keeps owner_inv (auth_create_admin env u p)"
proof -
  have same: "keeps (\<lambda>w. w_committed w = c) (auth_create_admin env u p)" for c
    by (rule auth_session_free) simp
  have "wp (auth_create_admin env u p) (\<lambda>_. owner_inv) (\<lambda>_. owner_inv) w" if w: "owner_inv w" for w
  proof -
    have "wp (auth_create_admin env u p) (\<lambda>r v. first_admin env w u p r v \<and> w_committed v = w_committed w)
        (\<lambda>e v. admin_refused w e v \<and> w_committed v = w_committed w) w"
      unfolding wp_conj using same [of "w_committed w"] by (simp add: wp_create_admin keeps_wp)
    then show ?thesis
      by (rule wp_mono) (use w in \<open>auto simp: first_admin_def admin_refused_def core_inv_def one_owner_def core_def\<close>)
  qed
  then show ?thesis by (simp add: keeps_wp)
qed

section \<open>The setup API and the pages\<close>

lemma setup_api_owner [core_intros]:
  "keeps owner_inv (require_incomplete env)" "keeps owner_inv (setup_status env)" "keeps owner_inv (setup_admin env b)"
  "keeps owner_inv (setup_network env n)" "keeps owner_inv (setup_complete env)"
  unfolding setup_api_defs by (intro keeps_intros core_intros)+

lemma web_auth_owner [core_intros]:
  "keeps owner_inv (get_csrf env rq)" "keeps owner_inv login_page" "keeps owner_inv (login_post env rq u p)"
  "keeps owner_inv (logout_post env rq)" "keeps owner_inv (require_web_auth env rq)"
  "(\<And>user. keeps owner_inv (body user)) \<Longrightarrow> keeps owner_inv (web_gated env rq body)"
  unfolding web_auth_defs redirect_def by (intro keeps_intros core_intros; simp)+

lemma web_setup_owner [core_intros]:
  "keeps owner_inv (web_root env)" "keeps owner_inv (setup_page env st)" "keeps owner_inv (setup_welcome_post env)"
  "keeps owner_inv (setup_admin_post env rq u p)" "keeps owner_inv (setup_network_post env wi ws pt)"
  "keeps owner_inv (setup_back env st)" "keeps owner_inv (setup_skip_machine env)"
  unfolding web_setup_defs Let_def by (intro keeps_intros core_intros)+

lemma web_pages_owner [core_intros]:
  "keeps owner_inv (machines_page env rq)" "keeps owner_inv (machine_new_page env rq)"
  "keeps owner_inv (machine_new_post env rq form fr)" "keeps owner_inv (machine_edit_page env rq i)"
  "keeps owner_inv (machine_edit_post env rq i form)" "keeps owner_inv (tokens_page env rq)"
  "keeps owner_inv (ssh_setup_page env rq url)" "keeps owner_inv (settings_page env rq)"
  "keeps owner_inv (settings_post env rq sform)"
  unfolding web_page_defs by (intro keeps_intros core_intros)+

end
