(* ===== verification/App.thy ===== *)
theory App
  imports Invariants
begin

text \<open>
  \<open>app/main.py\<close> and \<open>app/api/health.py\<close>: the application as a whole. An endpoint is one of the
  routes with what its path, query and body carry; \<open>handle_request\<close> runs it in the session of the
  request and turns what it returned or raised into a response, with the error handlers and the
  security headers. The lemmas carry the constraints and the single owner through every route.
\<close>

section \<open>Liveness\<close>

definition APP_VERSION :: string where
  "APP_VERSION = ''0.1.0''"

record HealthResponse =
  hr_status :: string
  hr_version :: string

definition health :: "HealthResponse io" where
  "health = return_p \<lparr>hr_status = ''ok'', hr_version = APP_VERSION\<rparr>"

section \<open>Routes\<close>

text \<open>The routes in the order \<open>create_app\<close> includes the routers, each with its parameters.\<close>

datatype endpoint =
    Health
  | ApiLogin LoginRequest
  | ApiLogout
  | ApiMe
  | ApiCreateToken TokenCreateRequest
  | ApiListTokens "string option"
  | ApiRevokeToken string
  | ApiSetupStatus
  | ApiSetupAdmin AdminCreateRequest
  | ApiSetupNetwork NetworkConfigRequest
  | ApiSetupComplete
  | ApiInterfaces
  | ApiDiscover
  | ApiListMachines bool
  | ApiCreateMachine MachineCreate
  | ApiGetMachine string
  | ApiUpdateMachine string MachineUpdate
  | ApiDeleteMachine string
  | ApiWake string WakeRequest
  | ApiWakeDirect string WakeRequest
  | ApiAttempt string string
  | ApiMachineStatus string
  | WebRoot
  | WebSetupPage string
  | WebWelcome
  | WebAdmin string string
  | WebNetwork string string int
  | WebBack string
  | WebSkipMachine
  | WebLoginPage
  | WebLogin string string
  | WebLogout
  | WebMachines
  | WebMachineNew
  | WebMachineCreate MachineForm "string option"
  | WebMachineEdit string
  | WebMachineUpdate string MachineForm
  | WebTokens
  | WebSshSetup string
  | WebSettings
  | WebSettingsPost SettingsForm
  | NoRoute string

text \<open>\<open>request.url.path\<close>; the API's routers have the prefix \<open>/api\<close>.\<close>

definition machine_path :: "string \<Rightarrow> string \<Rightarrow> string" where
  "machine_path machine_id rest = ''/machines/'' @ machine_id @ rest"

fun endpoint_path :: "endpoint \<Rightarrow> string" where
  "endpoint_path Health = ''/api/health''"
| "endpoint_path (ApiLogin _) = ''/api/auth/login''"
| "endpoint_path ApiLogout = ''/api/auth/logout''"
| "endpoint_path ApiMe = ''/api/auth/me''"
| "endpoint_path (ApiCreateToken _) = ''/api/auth/tokens''"
| "endpoint_path (ApiListTokens _) = ''/api/auth/tokens''"
| "endpoint_path (ApiRevokeToken i) = ''/api/auth/tokens/'' @ i"
| "endpoint_path ApiSetupStatus = ''/api/setup/status''"
| "endpoint_path (ApiSetupAdmin _) = ''/api/setup/admin''"
| "endpoint_path (ApiSetupNetwork _) = ''/api/setup/network''"
| "endpoint_path ApiSetupComplete = ''/api/setup/complete''"
| "endpoint_path ApiInterfaces = ''/api/system/interfaces''"
| "endpoint_path ApiDiscover = ''/api/system/discover''"
| "endpoint_path (ApiListMachines _) = ''/api/machines''"
| "endpoint_path (ApiCreateMachine _) = ''/api/machines''"
| "endpoint_path (ApiGetMachine i) = ''/api'' @ machine_path i ''''"
| "endpoint_path (ApiUpdateMachine i _) = ''/api'' @ machine_path i ''''"
| "endpoint_path (ApiDeleteMachine i) = ''/api'' @ machine_path i ''''"
| "endpoint_path (ApiWake i _) = ''/api'' @ machine_path i ''/wake''"
| "endpoint_path (ApiWakeDirect i _) = ''/api'' @ machine_path i ''/wake/direct''"
| "endpoint_path (ApiAttempt i a) = ''/api'' @ machine_path i (''/attempts/'' @ a)"
| "endpoint_path (ApiMachineStatus i) = ''/api'' @ machine_path i ''/status''"
| "endpoint_path WebRoot = ''/''"
| "endpoint_path (WebSetupPage step) = ''/setup/'' @ step"
| "endpoint_path WebWelcome = ''/setup/welcome''"
| "endpoint_path (WebAdmin _ _) = ''/setup/admin''"
| "endpoint_path (WebNetwork _ _ _) = ''/setup/network''"
| "endpoint_path (WebBack step) = ''/setup/'' @ step @ ''/back''"
| "endpoint_path WebSkipMachine = ''/setup/skip_machine''"
| "endpoint_path WebLoginPage = ''/login''"
| "endpoint_path (WebLogin _ _) = ''/auth/login''"
| "endpoint_path WebLogout = ''/auth/logout''"
| "endpoint_path WebMachines = ''/machines''"
| "endpoint_path WebMachineNew = ''/machines/new''"
| "endpoint_path (WebMachineCreate _ _) = ''/machines/new''"
| "endpoint_path (WebMachineEdit i) = machine_path i ''/edit''"
| "endpoint_path (WebMachineUpdate i _) = machine_path i ''/edit''"
| "endpoint_path WebTokens = ''/tokens''"
| "endpoint_path (WebSshSetup _) = ''/ssh-setup''"
| "endpoint_path WebSettings = ''/settings''"
| "endpoint_path (WebSettingsPost _) = ''/settings''"
| "endpoint_path (NoRoute path) = path"

section \<open>Responses\<close>

datatype content =
    Empty
  | JHealth HealthResponse
  | JLogin LoginResponse
  | JUser string string string
  | JToken TokenCreateResponse
  | JTokens "TokenListItem list"
  | JSetupStatus SetupStatusResponse
  | JAdmin string string
  | JStatus string
  | JInterfaces "NetworkInterface list"
  | JHosts "DiscoveredHost list"
  | JMachines "MachineResponse list"
  | JMachine MachineResponse
  | JWake WakeResponse
  | JAttempt AttemptStatusResponse
  | JMachineStatus MachineStatusResponse
  | Page web_response
  | JDetail string
  | JInvalid
  | ErrorPage int string

record response =
  rs_status :: int
  rs_content :: content
  rs_headers :: "(string \<times> string) list"

definition SECURITY_HEADERS :: "(string \<times> string) list" where
  "SECURITY_HEADERS =
     [(''X-Content-Type-Options'', ''nosniff''), (''X-Frame-Options'', ''DENY''),
      (''Referrer-Policy'', ''strict-origin-when-cross-origin''),
      (''Permissions-Policy'', ''geolocation=(), camera=(), microphone=()''),
      (''Content-Security-Policy'',
       List.concat [''default-src 'self'; '', ''script-src 'self' 'unsafe-inline'; '',
        ''style-src 'self' 'unsafe-inline'; '', ''img-src 'self' data:; '', ''font-src 'self'; '',
        ''connect-src 'self'; '', ''frame-ancestors 'none'' @ [CHR 0x27]])]"

text \<open>The status and the content of a route's answer; the status is that of its decorator or response.\<close>

definition answer :: "int \<Rightarrow> ('a \<Rightarrow> content) \<Rightarrow> 'a io \<Rightarrow> (int \<times> content) io" where
  "answer status f m = bind_p m (\<lambda>x. return_p (status, f x))"

definition web_status :: "web_response \<Rightarrow> int" where
  "web_status r = (case r of Redirect _ _ \<Rightarrow> 303 | Html status _ \<Rightarrow> status)"

definition answer_page :: "web_response io \<Rightarrow> (int \<times> content) io" where
  "answer_page m = bind_p m (\<lambda>r. return_p (web_status r, Page r))"

definition not_found :: exn where
  "not_found = HTTPException 404 ''Not Found''"

fun run_endpoint :: "env \<Rightarrow> request \<Rightarrow> endpoint \<Rightarrow> (int \<times> content) io" where
  "run_endpoint env rq Health = answer 200 JHealth health"
| "run_endpoint env rq (ApiLogin b) = answer 200 JLogin (login env rq b)"
| "run_endpoint env rq ApiLogout = answer 204 (\<lambda>_. Empty) (logout env rq)"
| "run_endpoint env rq ApiMe = answer 200 (\<lambda>(i, n, r). JUser i n r) (me env rq)"
| "run_endpoint env rq (ApiCreateToken b) = answer 201 JToken (create_token env rq b)"
| "run_endpoint env rq (ApiListTokens m) = answer 200 JTokens (list_tokens env rq m)"
| "run_endpoint env rq (ApiRevokeToken i) = answer 204 (\<lambda>_. Empty) (revoke_token env rq i)"
| "run_endpoint env rq ApiSetupStatus = answer 200 JSetupStatus (setup_status env)"
| "run_endpoint env rq (ApiSetupAdmin b) = answer 201 (\<lambda>(i, n). JAdmin i n) (setup_admin env b)"
| "run_endpoint env rq (ApiSetupNetwork b) = answer 200 (\<lambda>_. JStatus ''ok'') (setup_network env b)"
| "run_endpoint env rq ApiSetupComplete = answer 200 (\<lambda>_. JStatus ''setup_complete'') (setup_complete env)"
| "run_endpoint env rq ApiInterfaces = answer 200 JInterfaces (list_interfaces env rq)"
| "run_endpoint env rq ApiDiscover = answer 200 JHosts (discover_hosts env rq)"
| "run_endpoint env rq (ApiListMachines b) = answer 200 JMachines (list_machines env rq b)"
| "run_endpoint env rq (ApiCreateMachine b) = answer 201 JMachine (create_machine env rq b)"
| "run_endpoint env rq (ApiGetMachine i) = answer 200 JMachine (get_machine env rq i)"
| "run_endpoint env rq (ApiUpdateMachine i b) = answer 200 JMachine (patch_machine env rq i b)"
| "run_endpoint env rq (ApiDeleteMachine i) = answer 204 (\<lambda>_. Empty) (delete_machine env rq i)"
| "run_endpoint env rq (ApiWake i b) = answer 200 JWake (wake_machine env rq i b)"
| "run_endpoint env rq (ApiWakeDirect i b) = answer 200 JWake (wake_machine_direct env rq i b)"
| "run_endpoint env rq (ApiAttempt i a) = answer 200 JAttempt (get_attempt_status env rq i a)"
| "run_endpoint env rq (ApiMachineStatus i) = answer 200 JMachineStatus (machine_status env rq i)"
| "run_endpoint env rq WebRoot = answer_page (web_root env)"
| "run_endpoint env rq (WebSetupPage step) = answer_page (setup_page env step)"
| "run_endpoint env rq WebWelcome = answer_page (setup_welcome_post env)"
| "run_endpoint env rq (WebAdmin u p) = answer_page (setup_admin_post env rq u p)"
| "run_endpoint env rq (WebNetwork wi ws pt) = answer_page (setup_network_post env wi ws pt)"
| "run_endpoint env rq (WebBack step) = answer_page (setup_back env step)"
| "run_endpoint env rq WebSkipMachine = answer_page (setup_skip_machine env)"
| "run_endpoint env rq WebLoginPage = answer_page login_page"
| "run_endpoint env rq (WebLogin u p) = answer_page (login_post env rq u p)"
| "run_endpoint env rq WebLogout = answer_page (logout_post env rq)"
| "run_endpoint env rq WebMachines = answer_page (machines_page env rq)"
| "run_endpoint env rq WebMachineNew = answer_page (machine_new_page env rq)"
| "run_endpoint env rq (WebMachineCreate f fr) = answer_page (machine_new_post env rq f fr)"
| "run_endpoint env rq (WebMachineEdit i) = answer_page (machine_edit_page env rq i)"
| "run_endpoint env rq (WebMachineUpdate i f) = answer_page (machine_edit_post env rq i f)"
| "run_endpoint env rq WebTokens = answer_page (tokens_page env rq)"
| "run_endpoint env rq (WebSshSetup url) = answer_page (ssh_setup_page env rq url)"
| "run_endpoint env rq WebSettings = answer_page (settings_page env rq)"
| "run_endpoint env rq (WebSettingsPost f) = answer_page (settings_post env rq f)"
| "run_endpoint env rq (NoRoute path) = raise_p not_found"

text \<open>
  \<open>SecurityHeadersMiddleware.dispatch\<close>, and the two exception handlers. Starlette runs the
  handler for 404 inside the middleware, and the one for 500, which takes every exception that
  has no handler of its own, around it: what that one answers has not passed through \<open>dispatch\<close>.
\<close>

definition dispatch :: "response \<Rightarrow> response" where
  "dispatch r = r\<lparr>rs_headers := rs_headers r @ SECURITY_HEADERS\<rparr>"

definition not_found_handler :: "string \<Rightarrow> content" where
  "not_found_handler path =
     (if starts_with path ''/api/'' then JDetail ''Not found'' else ErrorPage 404 ''Page not found.'')"

definition internal_error_handler :: response where
  "internal_error_handler =
     \<lparr>rs_status = 500, rs_content = ErrorPage 500 ''An unexpected error occurred.'', rs_headers = []\<rparr>"

definition error_response :: "endpoint \<Rightarrow> exn \<Rightarrow> response" where
  "error_response ep exc =
     (case exc of
        HTTPException status detail \<Rightarrow>
          dispatch \<lparr>rs_status = status,
            rs_content = (if status = 404 then not_found_handler (endpoint_path ep) else JDetail detail), rs_headers = []\<rparr>
      | ValidationError \<Rightarrow> dispatch \<lparr>rs_status = 422, rs_content = JInvalid, rs_headers = []\<rparr>
      | _ \<Rightarrow> internal_error_handler)"

definition handle_request :: "env \<Rightarrow> request \<Rightarrow> endpoint \<Rightarrow> response io" where
  "handle_request env rq ep =
     catch_p
       (bind_p (get_db_session (run_endpoint env rq ep)) (\<lambda>(status, content).
          return_p (dispatch \<lparr>rs_status = status, rs_content = content, rs_headers = []\<rparr>)))
       (\<lambda>exc. return_p (error_response ep exc))"

section \<open>What every request keeps\<close>

lemma keeps_answer [keeps_intros]:
  "keeps I m \<Longrightarrow> keeps I (answer status f m)" "keeps I p \<Longrightarrow> keeps I (answer_page p)"
  unfolding answer_def answer_page_def by (intro keeps_intros; assumption)+

lemma keeps_get_db_session:
  assumes "keeps I m" "\<And>w. I w \<Longrightarrow> I (w\<lparr>w_db := w_committed w, w_dead := False\<rparr>)" "keeps I commit"
  shows "keeps I (get_db_session m)"
  unfolding get_db_session_def rollback_def by (intro keeps_intros keeps_modify assms)

lemma system_wf [wf_intros]:
  "keeps wf_world (list_interfaces env rq)" "keeps wf_world (discover_hosts env rq)"
  unfolding list_interfaces_def discover_hosts_def list_interfaces_of_def read_proc_def
  by (intro keeps_intros wf_intros)+

lemma system_core [core_intros]:
  "keeps (core_inv P) (list_interfaces env rq)" "keeps (core_inv P) (discover_hosts env rq)"
  unfolding list_interfaces_def discover_hosts_def list_interfaces_of_def read_proc_def
  by (intro keeps_intros core_intros)+

lemma health_keeps [keeps_intros]: "keeps I health"
  by (simp add: health_def)

lemma run_endpoint_wf: "keeps wf_world (run_endpoint env rq ep)"
  by (cases ep; simp only: run_endpoint.simps) (intro keeps_intros wf_intros)+

lemma run_endpoint_owner: "keeps owner_inv (run_endpoint env rq ep)"
  by (cases ep; simp only: run_endpoint.simps) (intro keeps_intros core_intros)+

lemma handle_request_wf: "keeps wf_world (handle_request env rq ep)"
  unfolding handle_request_def
  by (intro keeps_intros keeps_get_db_session run_endpoint_wf wf_intros) (simp add: wf_world_def)

lemma handle_request_owner: "keeps owner_inv (handle_request env rq ep)"
  unfolding handle_request_def
  by (intro keeps_intros keeps_get_db_session run_endpoint_owner core_intros) (simp add: core_inv_def)

end
