(* ===== verification/AppInvariant.thy ===== *)
theory AppInvariant
  imports App
begin

text \<open>
  The application and the worker as a step relation on the world: what holds of the committed
  database in every reachable state, and that the pages of the wizard answer in all of them.
\<close>

section \<open>Reachable states\<close>

text \<open>
  One step is a request, served from start to end, one round of the worker, or time that
  passes. An installation starts from the empty database of the migrations.
\<close>

inductive app_step :: "env \<Rightarrow> world \<Rightarrow> world \<Rightarrow> bool" for env where
  request: "app_step env w w'" if "handle_request env rq ep w = (r, w')"
| worker: "app_step env w w'" if "worker_iteration env fuel w = (r, w')"
| wait: "app_step env w (w\<lparr>w_slept := w_slept w + t\<rparr>)" if "0 \<le> t"

inductive app_reachable :: "env \<Rightarrow> world \<Rightarrow> bool" for env where
  start: "app_reachable env w" if "w_db w = empty_db" "w_committed w = empty_db"
| step: "app_reachable env w'" if "app_reachable env w" "app_step env w w'"

inductive_cases app_stepE: "app_step env w w'"

lemma worker_iteration_keeps:
  "keeps wf_world (worker_iteration env fuel)" "keeps owner_inv (worker_iteration env fuel)"
  unfolding worker_iteration_def
  by (intro keeps_intros wf_intros core_intros keeps_with_session; simp add: wf_world_def core_inv_def)+

definition app_inv :: "world \<Rightarrow> bool" where
  "app_inv w \<longleftrightarrow> wf_world w \<and> owner_inv w"

lemma app_inv_start: "w_db w = empty_db \<Longrightarrow> w_committed w = empty_db \<Longrightarrow> app_inv w"
  by (simp add: app_inv_def wf_world_def core_inv_def core_def one_owner_def setup_ok_def wf_empty_db)
     (simp add: empty_db_def)

lemma app_inv_step: "app_step env w w' \<Longrightarrow> app_inv w \<Longrightarrow> app_inv w'"
  by (erule app_stepE)
    (auto simp: app_inv_def dest: keepsD [OF handle_request_wf] keepsD [OF handle_request_owner]
      keepsD [OF worker_iteration_keeps(1)] keepsD [OF worker_iteration_keeps(2)])

lemma app_inv_reachable: "app_reachable env w \<Longrightarrow> app_inv w"
  by (induction rule: app_reachable.induct) (auto intro: app_inv_start app_inv_step)

text \<open>What every reader of the committed database may rely on.\<close>

definition installation_ok :: "db \<Rightarrow> bool" where
  "installation_ok d \<longleftrightarrow> wf_db d \<and> length (users d) \<le> 1 \<and> setup_ok (setup_state d)"

text \<open>
  C1. Whatever requests arrive, by whomever, and whatever rounds the worker makes in between,
  the committed database of an installation satisfies all its constraints, holds at most one
  user, and its wizard is in one of its states: at a step of the wizard, and at \<open>complete\<close> with
  that step recorded when it counts as completed. Requests are taken one after the other.
\<close>

theorem app_invariant:
  assumes "app_reachable env w"
  shows "installation_ok (w_committed w)"
  using app_inv_reachable [OF assms]
  by (simp add: app_inv_def wf_world_def core_inv_def core_def one_owner_def installation_ok_def)

theorem app_invariant_witness:
  "installation_ok (w_committed (snd (handle_request demo_env demo_request (ApiSetupAdmin demo_admin_request)
     (world_of empty_db 0))))"
proof (rule app_invariant)
  have "app_reachable demo_env (world_of empty_db 0)" by (rule app_reachable.start) simp_all
  then show "app_reachable demo_env
      (snd (handle_request demo_env demo_request (ApiSetupAdmin demo_admin_request) (world_of empty_db 0)))"
    by (rule app_reachable.step) (rule app_step.request, rule prod.collapse [symmetric])
qed

section \<open>The pages of the wizard\<close>

text \<open>What the wizard shows: the step asked for when it was reached, else the current one.\<close>

definition wizard_shows :: "wizard \<Rightarrow> string \<Rightarrow> web_response" where
  "wizard_shows = (\<lambda>(completed, cur, steps) step.
     if completed then Redirect ''/machines'' KeepCookie
     else case index_of step WIZARD_STEPS of
       None \<Rightarrow> Redirect (''/setup/'' @ cur) KeepCookie
     | Some i \<Rightarrow> if i > the (index_of cur WIZARD_STEPS) then Redirect (''/setup/'' @ cur) KeepCookie
                 else Html 200 (SetupPage step i None None))"

lemma wp_setup_page:
  assumes "\<not> w_dead w" "owner_inv w"
  shows "wp (setup_page env step) (\<lambda>r v. r = wizard_shows (wizard_of w) step) (\<lambda>_ _. False) w"
proof -
  obtain c cur st where w: "wizard_of w = (c, cur, st)" by (cases "wizard_of w") auto
  have wf: "wf_setup (w_db w)" and inv: "wizard_inv (wizard_of w)" using owner_inv_wizard [OF assms(2)] by auto
  then obtain j where j: "index_of cur WIZARD_STEPS = Some j"
    using w index_of_None [of cur WIZARD_STEPS] by (cases "index_of cur WIZARD_STEPS") (auto simp: wizard_inv_def)
  show ?thesis
    unfolding setup_page_def wp_bind
  proof (rule wp_setup_is_complete [OF assms(1) wf])
    fix v assume v: "only_setup w v" "wizard_of v = wizard_of w"
    then have v': "\<not> w_dead v" "wf_setup (w_db v)" by (auto simp: only_setup_def)
    show "wp (if fst (wizard_of w) then redirect ''/machines''
        else bind_p (setup_get_state env) (\<lambda>state.
          let current_step = sv_current_step state in
          case index_of step WIZARD_STEPS of
            None \<Rightarrow> redirect (''/setup/'' @ current_step)
          | Some step_index \<Rightarrow>
              (case index_of current_step WIZARD_STEPS of
                 None \<Rightarrow> raise_p (ValueError (py_repr current_step @ '' is not in list''))
               | Some current_index \<Rightarrow>
                   if step_index > current_index then redirect (''/setup/'' @ current_step)
                   else return_p (Html 200 (SetupPage step step_index None None)))))
        (\<lambda>r v. r = wizard_shows (wizard_of w) step) (\<lambda>_ _. False) v"
    proof (cases c)
      case True
      with w show ?thesis by (simp add: redirect_def wizard_shows_def)
    next
      case False
      have "wp (setup_get env) (\<lambda>r v. wizard_row r = wizard_of w) (\<lambda>_ _. False) v"
        by (rule wp_setup_get [OF v']) (simp add: v(2))
      then have "wp (setup_get_state env) (\<lambda>s v. sv_current_step s = cur) (\<lambda>_ _. False) v"
        unfolding setup_get_state_def wp_bind by (rule wp_mono) (auto simp: w wizard_row_def)
      then show ?thesis
        using False unfolding w fst_conv if_False wp_bind
        by (simp) (erule wp_mono, auto simp: redirect_def wizard_shows_def j Let_def split: option.split)
    qed
  qed
qed

text \<open>
  In every reachable state, and whatever step a visitor asks for, the wizard's page answers:
  with the step asked for when the wizard got that far, else with a redirect to the current
  step, and to the machines once it is completed. It never fails.
\<close>

theorem wizard_page_total:
  assumes "app_reachable env w"
  shows "wp (setup_page env step) (\<lambda>r v. r = wizard_shows (wizard_of (w\<lparr>w_db := w_committed w\<rparr>)) step) (\<lambda>_ _. False)
           (w\<lparr>w_db := w_committed w, w_dead := False\<rparr>)"
proof -
  have "owner_inv (w\<lparr>w_db := w_committed w, w_dead := False\<rparr>)"
    using app_inv_reachable [OF assms] by (simp add: app_inv_def core_inv_def)
  from wp_setup_page [OF _ this] show ?thesis by (simp add: wizard_of_def)
qed

theorem wizard_page_total_witness:
  "wp (setup_page demo_env ''network'') (\<lambda>r v. r = Redirect ''/setup/welcome'' KeepCookie) (\<lambda>_ _. False)
     (world_of empty_db 0)"
proof -
  have "app_reachable demo_env (world_of empty_db 0)" by (rule app_reachable.start) simp_all
  from wizard_page_total [OF this, of "''network''"]
  have "wp (setup_page demo_env ''network'')
      (\<lambda>r v. r = wizard_shows (wizard_of (world_of empty_db 0\<lparr>w_db := empty_db\<rparr>)) ''network'') (\<lambda>_ _. False)
      (world_of empty_db 0\<lparr>w_db := empty_db, w_dead := False\<rparr>)" by simp
  moreover have "world_of empty_db 0\<lparr>w_db := empty_db, w_dead := False\<rparr> = world_of empty_db 0"
    by (simp add: world_of_def)
  moreover have "wizard_shows (wizard_of (world_of empty_db 0\<lparr>w_db := empty_db\<rparr>)) ''network'' =
      Redirect ''/setup/welcome'' KeepCookie"
    by (simp add: wizard_of_def empty_db_def wizard_start_def wizard_shows_def WIZARD_STEPS_def)
  ultimately show ?thesis by simp
qed

end
