(* ===== verification/AppSecurity.thy ===== *)
theory AppSecurity
  imports App
begin

text \<open>
  What the application answers when it does not serve a request: requests without credentials,
  handlers that raise, and the error handlers and headers of \<open>app/main.py\<close>.
\<close>

section \<open>Requests without credentials\<close>

fun guarded :: "endpoint \<Rightarrow> bool" where
  "guarded Health = False"
| "guarded (ApiLogin _) = False"
| "guarded ApiSetupStatus = False"
| "guarded (ApiSetupAdmin _) = False"
| "guarded (ApiSetupNetwork _) = False"
| "guarded ApiSetupComplete = False"
| "guarded WebRoot = False"
| "guarded (WebSetupPage _) = False"
| "guarded WebWelcome = False"
| "guarded (WebAdmin _ _) = False"
| "guarded (WebNetwork _ _ _) = False"
| "guarded (WebBack _) = False"
| "guarded WebSkipMachine = False"
| "guarded WebLoginPage = False"
| "guarded (WebLogin _ _) = False"
| "guarded WebLogout = False"
| "guarded (NoRoute _) = False"
| "guarded _ = True"

text \<open>Neither the cookie of a good session nor the bearer token of a live API token.\<close>

definition no_credentials :: "env \<Rightarrow> world \<Rightarrow> request \<Rightarrow> bool" where
  "no_credentials env w rq \<longleftrightarrow>
     cookie_session env (w_db w) (clock env (w_tick w) + w_slept w) rq = None \<and> (\<nexists>tok. bearer_token (w_db w) rq tok)"

text \<open>A refusal: a 401, with nothing committed and nothing sent.\<close>

definition unchanged :: "world \<Rightarrow> world \<Rightarrow> bool" where
  "unchanged w v \<longleftrightarrow> w_committed v = w_committed w \<and> w_sent v = w_sent w"

definition refused :: "world \<Rightarrow> exn \<Rightarrow> world \<Rightarrow> bool" where
  "refused w e v \<longleftrightarrow> (\<exists>d. e = HTTPException 401 d) \<and> unchanged w v"

lemma unchanged_simps [simp]: "unchanged w w" "unchanged w (w\<lparr>w_tick := n\<rparr>)" "session_free (unchanged w)"
  by (simp_all add: unchanged_def session_free_def)

lemma wp_keeps_conj:
  assumes "keeps I m" "I w" "wp m Q E w"
  shows "wp m (\<lambda>x v. Q x v \<and> I v) (\<lambda>e v. E e v \<and> I v) w"
  unfolding wp_conj using assms by (simp add: keeps_wp)

definition good_start :: "env \<Rightarrow> world \<Rightarrow> bool" where
  "good_start env w \<longleftrightarrow> \<not> w_dead w \<and> wf_db (w_db w) \<and> canonical_users env (w_db w)"

text \<open>Each of the guards refuses.\<close>

lemma guards_refuse:
  assumes start: "good_start env w" and none: "no_credentials env w rq"
  shows "wp (get_current_session_and_user env rq) (\<lambda>_ _. False) (refused w) w"
    "wp (get_current_user env rq) (\<lambda>_ _. False) (refused w) w"
    "wp (csrf_protected_user env rq) (\<lambda>_ _. False) (refused w) w"
    "wp (get_user_from_session_or_token env rq) (\<lambda>_ _. False) (refused w) w"
    "wp (get_api_token env rq) (\<lambda>_ _. False) (refused w) w"
proof -
  have ok: "\<not> w_dead w" "wf_db (w_db w)" "canonical_users env (w_db w)"
    using start by (simp_all add: good_start_def)
  show session: "wp (get_current_session_and_user env rq) (\<lambda>_ _. False) (refused w) w"
    by (rule wp_current_session [OF ok]) (use none in \<open>simp_all add: no_credentials_def refused_def not_authenticated_def\<close>)
  show "wp (get_current_user env rq) (\<lambda>_ _. False) (refused w) w"
    unfolding get_current_user_def wp_bind by (rule wp_mono [OF session]) simp_all
  show "wp (csrf_protected_user env rq) (\<lambda>_ _. False) (refused w) w"
    unfolding csrf_protected_user_def wp_bind by (rule wp_mono [OF session]) simp_all
  have "keeps (unchanged w) (get_user_from_session_or_token env rq)" by (rule dependency_session_free) simp
  from wp_keeps_conj [OF this unchanged_simps(1) wp_session_or_token [OF ok]]
  show "wp (get_user_from_session_or_token env rq) (\<lambda>_ _. False) (refused w) w"
    by (rule wp_mono) (use none in \<open>auto simp: no_credentials_def refused_def\<close>)
  have "keeps (unchanged w) (get_api_token env rq)" by (rule dependency_session_free) simp
  from wp_keeps_conj [OF this unchanged_simps(1)]
  have "wp (get_api_token env rq) (\<lambda>_ _. False) (\<lambda>e _. \<exists>d. e = HTTPException 401 d) w \<Longrightarrow>
      wp (get_api_token env rq) (\<lambda>_ v. False \<and> unchanged w v) (\<lambda>e v. (\<exists>d. e = HTTPException 401 d) \<and> unchanged w v) w" .
  moreover have "wp (get_api_token env rq) (\<lambda>_ _. False) (\<lambda>e _. \<exists>d. e = HTTPException 401 d) w"
    by (rule wp_get_api_token [OF ok(1,2)]) (use none in \<open>auto simp: no_credentials_def\<close>)
  ultimately show "wp (get_api_token env rq) (\<lambda>_ _. False) (refused w) w"
    by (simp add: refused_def [abs_def])
qed

lemma wp_guard_bind:
  "wp m (\<lambda>_ _. False) E w \<Longrightarrow> wp (bind_p m f) Q E w"
  "wp m (\<lambda>_ _. False) E w \<Longrightarrow> wp (then_p m k) Q E w"
  unfolding wp_bind wp_then by (erule wp_mono; simp)+

text \<open>A page behind the session: the redirect to the login, with nothing changed in the session.\<close>

definition to_login :: "world \<Rightarrow> int \<times> content \<Rightarrow> world \<Rightarrow> bool" where
  "to_login w x v \<longleftrightarrow> x = (303, Page (Redirect ''/login'' KeepCookie)) \<and> w_db v = w_db w \<and> \<not> w_dead v \<and> unchanged w v"

lemma wp_page_refused:
  assumes "good_start env w" "no_credentials env w rq"
  shows "wp (answer_page (web_gated env rq body)) (to_login w) E w"
  unfolding answer_page_def wp_bind wp_return
  by (rule wp_web_gated_refused)
    (use assms in \<open>simp_all add: good_start_def no_credentials_def to_login_def web_status_def\<close>)

lemma wp_run_endpoint_refused:
  assumes "guarded ep" "good_start env w" "no_credentials env w rq"
  shows "wp (run_endpoint env rq ep) (to_login w) (refused w) w"
proof -
  note g = guards_refuse [OF assms(2,3)]
  note p = wp_page_refused [OF assms(2,3)]
  show ?thesis
    using assms(1)
    by (cases ep; simp only: run_endpoint.simps guarded.simps answer_def auth_api_defs machine_api_defs
        logout_def wake_machine_def wake_machine_direct_def get_attempt_status_def machine_status_def
        list_interfaces_def discover_hosts_def web_page_defs)
      (rule g p wp_guard_bind | assumption | simp only: csrf_protected_user_def [symmetric])+
qed

text \<open>How a refusal looks from outside.\<close>

definition turned_away :: "response \<Rightarrow> bool" where
  "turned_away r \<longleftrightarrow> rs_status r = 401 \<or> rs_content r = Page (Redirect ''/login'' KeepCookie)"

text \<open>
  C2. Everything but the login, the wizard and the health check is closed to a request that
  shows neither the cookie of a valid session nor the token of a live API token: it is turned
  away, with 401 or to the login page, it commits nothing and sends nothing.
\<close>

theorem guarded_endpoints_closed:
  assumes "guarded ep" and "wf_db (w_committed w)" and "canonical_users env (w_committed w)"
    and "no_credentials env (w\<lparr>w_db := w_committed w\<rparr>) rq"
  shows "wp (handle_request env rq ep)
     (\<lambda>r v. turned_away r \<and> w_committed v = w_committed w \<and> w_sent v = w_sent w) (\<lambda>_ _. False) w"
proof -
  let ?w = "w\<lparr>w_db := w_committed w, w_dead := False\<rparr>"
  have "good_start env ?w" "no_credentials env ?w rq"
    using assms(2-4) by (simp_all add: good_start_def no_credentials_def)
  from wp_run_endpoint_refused [OF assms(1) this]
  show ?thesis
    unfolding handle_request_def get_db_session_def wp_catch wp_bind wp_then wp_modify
    by (rule wp_mono)
      (auto simp: to_login_def refused_def unchanged_def turned_away_def dispatch_def error_response_def)
qed

theorem guarded_endpoints_closed_witness:
  "wp (handle_request demo_env (demo_request\<lparr>rq_session := Some uuid_a, rq_authorization := None\<rparr>)
        (ApiWakeDirect uuid_a demo_wake_request))
     (\<lambda>r v. turned_away r \<and> w_committed v = demo_db_auth \<and> w_sent v = []) (\<lambda>_ _. False) (world_of demo_db_auth 0)"
proof -
  have "no_credentials demo_env (world_of demo_db_auth 0\<lparr>w_db := demo_db_auth\<rparr>)
      (demo_request\<lparr>rq_session := Some uuid_a, rq_authorization := None\<rparr>)"
    by (simp add: no_credentials_def cookie_session_def bearer_token_def session_of_def)
  then show ?thesis
    using guarded_endpoints_closed [of "ApiWakeDirect uuid_a demo_wake_request" "world_of demo_db_auth 0" demo_env
        "demo_request\<lparr>rq_session := Some uuid_a, rq_authorization := None\<rparr>"] by simp
qed

section \<open>Requests that fail\<close>

text \<open>The contents of the error responses.\<close>

fun is_error :: "content \<Rightarrow> bool" where
  "is_error (JDetail _) = True"
| "is_error JInvalid = True"
| "is_error (ErrorPage _ _) = True"
| "is_error _ = False"

fun queues_wake :: "endpoint \<Rightarrow> bool" where
  "queues_wake (ApiWake _ _) = True"
| "queues_wake _ = False"

lemma wp_answer_any:
  "(\<And>x v. Q (st, f x) v) \<Longrightarrow> (\<And>e v. E e v) \<Longrightarrow> wp (answer st f m) Q E w"
  "(\<And>r v. Q (web_status r, Page r) v) \<Longrightarrow> (\<And>e v. E e v) \<Longrightarrow> wp (answer_page p) Q E w"
  by (simp_all add: answer_def answer_page_def wp_any)

lemma answers_no_error: "wp (run_endpoint env rq ep) (\<lambda>x _. \<not> is_error (snd x)) (\<lambda>_ _. True) w"
  by (cases ep; simp only: run_endpoint.simps) ((rule wp_answer_any; simp split: prod.split) | simp)+

lemma system_session_free:
  assumes I: "session_free I"
  shows "keeps I (list_interfaces env rq)" "keeps I (discover_hosts env rq)"
  unfolding list_interfaces_def discover_hosts_def list_interfaces_of_def read_proc_def
  by (intro keeps_intros session_free_keeps [OF I] dependency_session_free [OF I])+

lemma wake_reads_uncommitting:
  "keeps (\<lambda>w. w_committed w = c) (get_attempt_status env rq i a)" "keeps (\<lambda>w. w_committed w = c) (machine_status env rq i)"
  unfolding get_attempt_status_def machine_status_def Let_def
  by (intro keeps_intros repo_session_free dependency_session_free session_free_simps keeps_probe; simp)+

lemma run_endpoint_uncommitting:
  "\<not> queues_wake ep \<Longrightarrow> keeps (\<lambda>w. w_committed w = c) (run_endpoint env rq ep)"
  by (cases ep; simp only: run_endpoint.simps queues_wake.simps)
    (intro keeps_intros auth_api_uncommitting machine_api_session_free setup_api_session_free web_auth_session_free
      web_setup_session_free web_pages_session_free direct_wake_uncommitting wake_reads_uncommitting
      system_session_free session_free_simps | simp)+



section \<open>Error handlers and headers\<close>


lemma answers_not_404:
  "starts_with (endpoint_path ep) ''/api/'' \<Longrightarrow> \<nexists>p. ep = NoRoute p \<Longrightarrow>
   wp (run_endpoint env rq ep) (\<lambda>x _. fst x \<noteq> 404) (\<lambda>_ _. True) w"
  by (cases ep; simp only: run_endpoint.simps endpoint_path.simps machine_path_def)
    ((rule wp_answer_any; simp) | simp add: starts_with_iff)+

text \<open>
  A 404 of the API always has the detail of the global handler, \<open>Not found\<close>: the details the
  endpoints raise, \<open>Machine not found\<close> and \<open>Attempt not found\<close>, never reach the client.
\<close>

theorem api_404_is_uniform:
  assumes "starts_with (endpoint_path ep) ''/api/''"
  shows "wp (handle_request env rq ep) (\<lambda>r _. rs_status r = 404 \<longrightarrow> rs_content r = JDetail ''Not found'') (\<lambda>_ _. False) w"
proof (cases "\<exists>p. ep = NoRoute p")
  case True
  with assms show ?thesis
    by (auto simp: handle_request_def get_db_session_def not_found_def error_response_def dispatch_def
        not_found_handler_def split: if_splits)
next
  case False
  have "wp (run_endpoint env rq ep) (\<lambda>x _. fst x \<noteq> 404) (\<lambda>_ _. True) v" for v
    using answers_not_404 [OF assms] False by blast
  then show ?thesis
    unfolding handle_request_def get_db_session_def wp_catch wp_bind wp_then wp_modify
    by (rule wp_mono) (use assms in \<open>auto simp: dispatch_def error_response_def internal_error_handler_def
        not_found_handler_def split: prod.split exn.split\<close>)
qed

theorem api_404_is_uniform_witness:
  "wp (handle_request demo_env demo_request (ApiGetMachine uuid_c))
     (\<lambda>r _. rs_status r = 404 \<longrightarrow> rs_content r = JDetail ''Not found'') (\<lambda>_ _. False) (world_of demo_db_auth 0)"
  by (rule api_404_is_uniform) (simp add: machine_path_def starts_with_iff)

end
