(* ===== verification/SetupRace.thy ===== *)
theory SetupRace
  imports AuthService
begin

text \<open>
  Two requests that create the admin at the same time. \<open>create_admin\<close> counts the users and then
  inserts one, two statements of one transaction at PostgreSQL's default isolation, so that
  another request's commit may fall in between. The states pair the world with the stage each
  request is at; with the two statements run back to back there is only ever one user.
\<close>

section \<open>The two halves of create_admin\<close>

definition create_admin_rest :: "env \<Rightarrow> string \<Rightarrow> string \<Rightarrow> UserRecord io" where
  "create_admin_rest env username password =
     bind_p (hash_password env password) (\<lambda>pw_hash. user_create env username pw_hash ''admin'')"

lemma create_admin_halves:
  "auth_create_admin env username password =
     bind_p auth_admin_exists (\<lambda>exists_already.
       if exists_already then raise_p (AuthenticationError ''Admin account already exists'')
       else create_admin_rest env username password)"
  unfolding auth_create_admin_def create_admin_rest_def by (rule refl)

datatype setup_stage = Asking | Admitted | Closed

text \<open>
  \<open>name i\<close> is the name request \<open>i\<close> gives. A request asks whether there is a user yet, in what
  was committed then; when there was none it inserts its user and commits.
\<close>

inductive setup_step :: "env \<Rightarrow> (nat \<Rightarrow> string) \<Rightarrow> world \<times> (nat \<Rightarrow> setup_stage) \<Rightarrow>
    world \<times> (nat \<Rightarrow> setup_stage) \<Rightarrow> bool" for env name where
  ask: "setup_step env name (w, st) (w', st(i := if b then Closed else Admitted))"
    if "st i = Asking" "get_db_session auth_admin_exists w = (Inr b, w')"
| create: "setup_step env name (w, st) (w', st(i := Closed))"
    if "st i = Admitted" "get_db_session (create_admin_rest env (name i) pw) w = (r, w')"

inductive setup_steps :: "env \<Rightarrow> (nat \<Rightarrow> string) \<Rightarrow> world \<times> (nat \<Rightarrow> setup_stage) \<Rightarrow>
    world \<times> (nat \<Rightarrow> setup_stage) \<Rightarrow> bool" for env name where
  stop: "setup_steps env name s s"
| more: "setup_steps env name s u" if "setup_step env name s t" "setup_steps env name t u"

section \<open>What each half does\<close>

lemma run_ask:
  "get_db_session auth_admin_exists w = (Inr (users (w_committed w) \<noteq> []), w\<lparr>w_db := w_committed w, w_dead := False\<rparr>)"
  by (simp add: get_db_session_def auth_admin_exists_def user_count_def)

definition fresh_ids :: "env \<Rightarrow> bool" where
  "fresh_ids env \<longleftrightarrow> inj (uuid4 env) \<and> (\<forall>n. pg_uuid env (uuid4 env n) = Some (uuid4 env n))"

definition admin_row :: "env \<Rightarrow> string \<Rightarrow> string \<Rightarrow> world \<Rightarrow> UserRecord" where
  "admin_row env username password w =
     \<lparr>u_id = uuid4 env (Suc (w_tick w)), u_username = username, u_password_hash = ph_hash env password (w_tick w),
      u_role = ''admin'', u_created_at = clock env (Suc (Suc (w_tick w))) + w_slept w, u_last_login_at = None\<rparr>"

text \<open>The second half inserts whatever users there are by now, if only the name and id are new.\<close>

lemma run_create:
  assumes "fresh_ids env" "varchar 150 username" "username \<notin> u_username ` set (users (w_committed w))"
    and "uuid4 env (Suc (w_tick w)) \<notin> u_id ` set (users (w_committed w))"
  shows "\<exists>v u. get_db_session (create_admin_rest env username password) w = (Inr u, v) \<and>
     u = admin_row env username password w \<and> w_tick v = Suc (Suc (Suc (w_tick w))) \<and>
     w_committed v = (w_committed w)\<lparr>users := users (w_committed w) @ [u]\<rparr>"
  using assms
  by (simp add: get_db_session_def create_admin_rest_def hash_password_def user_create_def insert_user_def Let_def
      fresh_ids_def uuid_param_def conv_def check_def and_then_def admin_row_def varchar_def)

section \<open>Two admins\<close>


definition race_env :: env where
  "race_env = demo_env\<lparr>uuid4 := \<lambda>n. show_int (int n), pg_uuid := Some\<rparr>"


end
