(* ===== verification/Ddl.thy ===== *)
theory Ddl
  imports Schema
begin

text \<open>
  The catalogue that \<open>migrations/versions\<close> changes: tables with their columns and constraints, and
  indexes; and the Alembic operations the revisions use, each as PostgreSQL accepts or refuses
  it. Of the rows only the columns that some revision rewrites are kept (\<open>stored\<close>).
\<close>

section \<open>The catalogue\<close>

datatype sql_type =
    TUuid | TVarchar nat | TText | TJsonb | TTimestamptz | TBigint | TInteger | TBoolean | TInet | TMacaddr

record column =
  c_name :: string
  c_type :: sql_type
  c_nullable :: bool
  c_server_default :: "string option"
  c_autoincrement :: bool

datatype check_expr =
    ColumnIn string "string list"
  | ColumnBetween string int int
  | ColumnIs string int

text \<open>A constraint; one without a name gets its name from the database.\<close>

datatype constr =
    PrimaryKey "string list"
  | Unique "string option" "string list"
  | Check string check_expr
  | ForeignKey "string option" "string list" string "string list" string

record table =
  tb_columns :: "column list"
  tb_constraints :: "constr list"

record index =
  ix_name :: string
  ix_table :: string
  ix_columns :: "string list"

record schema =
  sch_tables :: "(string \<times> table) list"
  sch_indexes :: "index list"

definition empty_schema :: schema where
  "empty_schema = \<lparr>sch_tables = [], sch_indexes = []\<rparr>"

text \<open>\<open>sa.Column\<close>, the plain one and the nullable one.\<close>

definition col :: "string \<Rightarrow> sql_type \<Rightarrow> column" where
  "col n t = \<lparr>c_name = n, c_type = t, c_nullable = False, c_server_default = None, c_autoincrement = False\<rparr>"

definition null_col :: "string \<Rightarrow> sql_type \<Rightarrow> column" where
  "null_col n t = (col n t)\<lparr>c_nullable := True\<rparr>"

section \<open>Rows\<close>

text \<open>
  The users with the instant they were created, the user of each API token, the strategy of each
  machine and attempt, and the settings.
\<close>

record stored =
  st_users :: "(string \<times> datetime) list"
  st_token_users :: "string option list"
  st_machine_strategies :: "string list"
  st_attempt_strategies :: "string list"
  st_settings :: "(string \<times> jval) list"

definition no_rows :: stored where
  "no_rows = \<lparr>st_users = [], st_token_users = [], st_machine_strategies = [], st_attempt_strategies = [], st_settings = []\<rparr>"

type_synonym database = "schema \<times> stored"

section \<open>Operations\<close>

datatype ddl_error =
    DuplicateObject string
  | UndefinedObject string
  | DependentObjects string
  | UnnamedConstraint
  | NotNullViolation string
  | CheckViolation string
  | ForeignKeyViolation string

datatype operation =
    CreateTable string table
  | DropTable string
  | CreateIndex string string "string list"
  | DropIndex string string
  | AddColumn string column
  | AlterNullable string string bool
  | DropColumn string string
  | CreateForeignKey "string option" string string "string list" "string list" string
  | DropConstraint "string option" string
  | CreateCheck string string check_expr
  | Execute "stored \<Rightarrow> stored"

definition table_names :: "schema \<Rightarrow> string list" where
  "table_names s = map fst (sch_tables s)"

definition update_table :: "string \<Rightarrow> (table \<Rightarrow> table) \<Rightarrow> schema \<Rightarrow> schema" where
  "update_table n f s = s\<lparr>sch_tables := map (\<lambda>(m, t). if m = n then (m, f t) else (m, t)) (sch_tables s)\<rparr>"

text \<open>The tables a constraint refers to, and the name it is dropped by.\<close>

fun refers_to :: "constr \<Rightarrow> string option" where
  "refers_to (ForeignKey _ _ ref _ _) = Some ref"
| "refers_to _ = None"

fun constr_name :: "constr \<Rightarrow> string option" where
  "constr_name (PrimaryKey _) = None"
| "constr_name (Unique n _) = n"
| "constr_name (Check n _) = Some n"
| "constr_name (ForeignKey n _ _ _ _) = n"

fun constr_columns :: "constr \<Rightarrow> string list" where
  "constr_columns (PrimaryKey cs) = cs"
| "constr_columns (Unique _ cs) = cs"
| "constr_columns (Check _ e) = [case e of ColumnIn c _ \<Rightarrow> c | ColumnBetween c _ _ \<Rightarrow> c | ColumnIs c _ \<Rightarrow> c]"
| "constr_columns (ForeignKey _ cs _ _ _) = cs"

definition refs_of :: "table \<Rightarrow> string list" where
  "refs_of t = List.map_filter refers_to (tb_constraints t)"

definition need :: "bool \<Rightarrow> ddl_error \<Rightarrow> ddl_error + unit" where
  "need b e = (if b then Inr () else Inl e)"

text \<open>What the rows say to a new constraint.\<close>

definition has_nulls :: "string \<Rightarrow> string \<Rightarrow> stored \<Rightarrow> bool" where
  "has_nulls t c d \<longleftrightarrow> t = ''api_tokens'' \<and> c = ''user_id'' \<and> None \<in> set (st_token_users d)"

definition check_fails :: "string \<Rightarrow> check_expr \<Rightarrow> stored \<Rightarrow> bool" where
  "check_fails t e d \<longleftrightarrow> (case e of
     ColumnIn c vs \<Rightarrow> t = ''machines'' \<and> c = ''wake_strategy'' \<and> \<not> list_all (\<lambda>s. s \<in> set vs) (st_machine_strategies d)
   | _ \<Rightarrow> False)"

definition key_fails :: "string \<Rightarrow> string list \<Rightarrow> string \<Rightarrow> stored \<Rightarrow> bool" where
  "key_fails t cs ref d \<longleftrightarrow> t = ''api_tokens'' \<and> cs = [''user_id''] \<and> ref = ''users'' \<and>
     \<not> list_all (\<lambda>u. case u of None \<Rightarrow> True | Some i \<Rightarrow> i \<in> set (map fst (st_users d))) (st_token_users d)"

text \<open>A column added to, or dropped from, the tokens' table empties what is kept of it.\<close>

definition clear_column :: "string \<Rightarrow> string \<Rightarrow> stored \<Rightarrow> stored" where
  "clear_column t c d = (if t = ''api_tokens'' \<and> c = ''user_id'' then d\<lparr>st_token_users := map (\<lambda>_. None) (st_token_users d)\<rparr> else d)"

fun apply_op :: "operation \<Rightarrow> database \<Rightarrow> ddl_error + database" where
  "apply_op (CreateTable n t) (s, d) =
     and_then (need (n \<notin> set (table_names s)) (DuplicateObject n)) (\<lambda>_.
     and_then (need (list_all (\<lambda>r. r \<in> set (table_names s)) (refs_of t)) (UndefinedObject n)) (\<lambda>_.
       Inr (s\<lparr>sch_tables := sch_tables s @ [(n, t)]\<rparr>, d)))"
| "apply_op (DropTable n) (s, d) =
     and_then (need (n \<in> set (table_names s)) (UndefinedObject n)) (\<lambda>_.
     and_then (need (list_all (\<lambda>(m, t). m = n \<or> n \<notin> set (refs_of t)) (sch_tables s)) (DependentObjects n)) (\<lambda>_.
       Inr (s\<lparr>sch_tables := filter (\<lambda>(m, t). m \<noteq> n) (sch_tables s),
              sch_indexes := filter (\<lambda>i. ix_table i \<noteq> n) (sch_indexes s)\<rparr>, d)))"
| "apply_op (CreateIndex n t cs) (s, d) =
     and_then (need (t \<in> set (table_names s)) (UndefinedObject t)) (\<lambda>_.
     and_then (need (n \<notin> set (map ix_name (sch_indexes s))) (DuplicateObject n)) (\<lambda>_.
       Inr (s\<lparr>sch_indexes := sch_indexes s @ [\<lparr>ix_name = n, ix_table = t, ix_columns = cs\<rparr>]\<rparr>, d)))"
| "apply_op (DropIndex n t) (s, d) =
     and_then (need (n \<in> set (map ix_name (sch_indexes s))) (UndefinedObject n)) (\<lambda>_.
       Inr (s\<lparr>sch_indexes := filter (\<lambda>i. ix_name i \<noteq> n) (sch_indexes s)\<rparr>, d))"
| "apply_op (AddColumn t c) (s, d) =
     (case map_of (sch_tables s) t of
        None \<Rightarrow> Inl (UndefinedObject t)
      | Some tb \<Rightarrow>
          and_then (need (c_name c \<notin> set (map c_name (tb_columns tb))) (DuplicateObject (c_name c))) (\<lambda>_.
            Inr (update_table t (\<lambda>tb. tb\<lparr>tb_columns := tb_columns tb @ [c]\<rparr>) s, clear_column t (c_name c) d)))"
| "apply_op (AlterNullable t c nullable) (s, d) =
     (case map_of (sch_tables s) t of
        None \<Rightarrow> Inl (UndefinedObject t)
      | Some tb \<Rightarrow>
          and_then (need (c \<in> set (map c_name (tb_columns tb))) (UndefinedObject c)) (\<lambda>_.
          and_then (need (nullable \<or> \<not> has_nulls t c d) (NotNullViolation c)) (\<lambda>_.
            Inr (update_table t (\<lambda>tb. tb\<lparr>tb_columns := map (\<lambda>k. if c_name k = c then k\<lparr>c_nullable := nullable\<rparr> else k)
                   (tb_columns tb)\<rparr>) s, d))))"
| "apply_op (DropColumn t c) (s, d) =
     (case map_of (sch_tables s) t of
        None \<Rightarrow> Inl (UndefinedObject t)
      | Some tb \<Rightarrow>
          and_then (need (c \<in> set (map c_name (tb_columns tb))) (UndefinedObject c)) (\<lambda>_.
            Inr (update_table t (\<lambda>tb. tb\<lparr>tb_columns := filter (\<lambda>k. c_name k \<noteq> c) (tb_columns tb),
                   tb_constraints := filter (\<lambda>k. c \<notin> set (constr_columns k)) (tb_constraints tb)\<rparr>)
                   (s\<lparr>sch_indexes := filter (\<lambda>i. ix_table i \<noteq> t \<or> c \<notin> set (ix_columns i)) (sch_indexes s)\<rparr>),
                 clear_column t c d)))"
| "apply_op (CreateForeignKey n t ref cs rcs ondelete) (s, d) =
     and_then (need (t \<in> set (table_names s) \<and> ref \<in> set (table_names s)) (UndefinedObject t)) (\<lambda>_.
     and_then (need (\<not> key_fails t cs ref d) (ForeignKeyViolation t)) (\<lambda>_.
       Inr (update_table t (\<lambda>tb. tb\<lparr>tb_constraints := tb_constraints tb @ [ForeignKey n cs ref rcs ondelete]\<rparr>) s, d)))"
| "apply_op (DropConstraint n t) (s, d) =
     (case n of
        None \<Rightarrow> Inl UnnamedConstraint
      | Some name \<Rightarrow>
          (case map_of (sch_tables s) t of
             None \<Rightarrow> Inl (UndefinedObject t)
           | Some tb \<Rightarrow>
               and_then (need (Some name \<in> set (map constr_name (tb_constraints tb))) (UndefinedObject name)) (\<lambda>_.
                 Inr (update_table t (\<lambda>tb. tb\<lparr>tb_constraints :=
                        filter (\<lambda>k. constr_name k \<noteq> Some name) (tb_constraints tb)\<rparr>) s, d))))"
| "apply_op (CreateCheck n t e) (s, d) =
     (case map_of (sch_tables s) t of
        None \<Rightarrow> Inl (UndefinedObject t)
      | Some tb \<Rightarrow>
          and_then (need (Some n \<notin> set (map constr_name (tb_constraints tb))) (DuplicateObject n)) (\<lambda>_.
          and_then (need (\<not> check_fails t e d) (CheckViolation n)) (\<lambda>_.
            Inr (update_table t (\<lambda>tb. tb\<lparr>tb_constraints := tb_constraints tb @ [Check n e]\<rparr>) s, d))))"
| "apply_op (Execute f) (s, d) = Inr (s, f d)"

fun apply_ops :: "operation list \<Rightarrow> database \<Rightarrow> ddl_error + database" where
  "apply_ops [] db = Inr db"
| "apply_ops (p # ps) db = and_then (apply_op p db) (apply_ops ps)"

lemma apply_ops_append: "apply_ops (ps @ qs) db = and_then (apply_ops ps db) (apply_ops qs)"
  by (induction ps arbitrary: db) (auto simp: and_then_def split: sum.split)

section \<open>Schemas up to order\<close>

definition same_elems :: "'a list \<Rightarrow> 'a list \<Rightarrow> bool" where
  "same_elems xs ys \<longleftrightarrow> list_all (\<lambda>x. x \<in> set ys) xs \<and> list_all (\<lambda>y. y \<in> set xs) ys"

definition same_table :: "table \<Rightarrow> table \<Rightarrow> bool" where
  "same_table t u \<longleftrightarrow> same_elems (tb_columns t) (tb_columns u) \<and> same_elems (tb_constraints t) (tb_constraints u)"

definition same_schema :: "schema \<Rightarrow> schema \<Rightarrow> bool" where
  "same_schema s r \<longleftrightarrow> same_elems (table_names s) (table_names r) \<and>
     list_all (\<lambda>(n, t). case map_of (sch_tables r) n of None \<Rightarrow> False | Some u \<Rightarrow> same_table t u) (sch_tables s) \<and>
     same_elems (sch_indexes s) (sch_indexes r)"

lemma same_elems_set: "same_elems xs ys \<longleftrightarrow> set xs = set ys"
  by (auto simp: same_elems_def list_all_iff)

end
