(* ===== verification/Migrations.thy ===== *)
theory Migrations
  imports Ddl
begin

text \<open>
  \<open>migrations/versions\<close>, the four revisions with their upgrades and downgrades, and the one
  transaction \<open>do_run_migrations\<close> of \<open>migrations/env.py\<close> runs them in.
\<close>

section \<open>The initial schema\<close>

definition created_column :: column where
  "created_column = col ''created_at'' TTimestamptz"

definition now_column :: "string \<Rightarrow> column" where
  "now_column n = (col n TTimestamptz)\<lparr>c_server_default := Some ''now()''\<rparr>"

text \<open>\<open>sa.ForeignKeyConstraint\<close> without a name, with \<open>ondelete\<close>.\<close>

definition fkey :: "string \<Rightarrow> string \<Rightarrow> string \<Rightarrow> constr" where
  "fkey c ref ondelete = ForeignKey None [c] ref [''id''] ondelete"

definition strategy_check :: "string list \<Rightarrow> check_expr" where
  "strategy_check vs = ColumnIn ''wake_strategy'' vs"

definition initial_tables :: "operation list" where
  "initial_tables =
     [CreateTable ''api_tokens''
        \<lparr>tb_columns = [col ''id'' TUuid, col ''name'' (TVarchar 255), col ''token_hash'' (TVarchar 128),
            col ''prefix'' (TVarchar 16), col ''scopes'' TJsonb, null_col ''last_used_at'' TTimestamptz,
            null_col ''revoked_at'' TTimestamptz, created_column],
         tb_constraints = [PrimaryKey [''id''], Unique (Some ''uq_api_tokens_hash'') [''token_hash'']]\<rparr>,
      CreateTable ''audit_events''
        \<lparr>tb_columns = [(col ''id'' TBigint)\<lparr>c_autoincrement := True\<rparr>, col ''actor_type'' (TVarchar 20),
            col ''actor_id'' (TVarchar 255), col ''action'' (TVarchar 100), null_col ''target_type'' (TVarchar 50),
            null_col ''target_id'' (TVarchar 255), null_col ''ip'' TInet, col ''metadata'' TJsonb, now_column ''created_at''],
         tb_constraints = [PrimaryKey [''id'']]\<rparr>,
      CreateIndex ''ix_audit_events_created'' ''audit_events'' [''created_at''],
      CreateTable ''machines''
        \<lparr>tb_columns = [col ''id'' TUuid, col ''name'' (TVarchar 255), null_col ''hostname'' (TVarchar 255),
            col ''ip_address'' TInet, col ''mac_address'' TMacaddr, col ''ssh_port'' TInteger,
            null_col ''wake_interface'' (TVarchar 50), col ''wake_strategy'' (TVarchar 20),
            null_col ''broadcast_address'' TInet, col ''enabled'' TBoolean, created_column,
            col ''updated_at'' TTimestamptz],
         tb_constraints = [Check ''ck_machines_wake_strategy'' (strategy_check [''etherwake'', ''udp_broadcast'']),
            Check ''ck_machines_ssh_port'' (ColumnBetween ''ssh_port'' 1 65535), PrimaryKey [''id''],
            Unique (Some ''uq_machines_mac_address'') [''mac_address'']]\<rparr>,
      CreateTable ''settings''
        \<lparr>tb_columns = [col ''key'' (TVarchar 100), col ''value'' TJsonb, col ''updated_at'' TTimestamptz],
         tb_constraints = [PrimaryKey [''key'']]\<rparr>,
      CreateTable ''setup_state''
        \<lparr>tb_columns = [col ''id'' TInteger, col ''completed'' TBoolean, col ''current_step'' (TVarchar 50),
            col ''completed_steps'' TJsonb, col ''updated_at'' TTimestamptz],
         tb_constraints = [Check ''ck_setup_state_singleton'' (ColumnIs ''id'' 1), PrimaryKey [''id'']]\<rparr>,
      CreateTable ''users''
        \<lparr>tb_columns = [col ''id'' TUuid, col ''username'' (TVarchar 150), col ''password_hash'' TText,
            col ''role'' (TVarchar 50), created_column, null_col ''last_login_at'' TTimestamptz],
         tb_constraints = [PrimaryKey [''id''], Unique (Some ''uq_users_username'') [''username'']]\<rparr>]"

definition initial_dependents :: "operation list" where
  "initial_dependents =
     [CreateTable ''probe_results''
        \<lparr>tb_columns = [col ''id'' TUuid, col ''machine_id'' TUuid, col ''ping_ok'' TBoolean, col ''tcp_ssh_ok'' TBoolean,
            col ''derived_state'' (TVarchar 20), now_column ''observed_at''],
         tb_constraints = [fkey ''machine_id'' ''machines'' ''CASCADE'', PrimaryKey [''id'']]\<rparr>,
      CreateIndex ''ix_probe_results_machine_observed'' ''probe_results'' [''machine_id'', ''observed_at''],
      CreateTable ''sessions''
        \<lparr>tb_columns = [col ''id'' TUuid, col ''user_id'' TUuid, col ''csrf_secret'' (TVarchar 128), null_col ''ip'' TInet,
            null_col ''user_agent'' TText, col ''expires_at'' TTimestamptz, col ''revoked'' TBoolean, created_column],
         tb_constraints = [fkey ''user_id'' ''users'' ''CASCADE'', PrimaryKey [''id'']]\<rparr>,
      CreateIndex ''ix_sessions_user_expires'' ''sessions'' [''user_id'', ''expires_at''],
      CreateTable ''wake_attempts''
        \<lparr>tb_columns = [col ''id'' TUuid, col ''machine_id'' TUuid, col ''actor_type'' (TVarchar 20),
            col ''actor_id'' (TVarchar 255), col ''strategy'' (TVarchar 20), col ''status'' (TVarchar 20),
            col ''ensure_online'' TBoolean, col ''poll_timeout_s'' TInteger, null_col ''error'' TText,
            col ''started_at'' TTimestamptz, null_col ''finished_at'' TTimestamptz],
         tb_constraints = [Check ''ck_wake_attempts_status''
              (ColumnIn ''status'' [''pending'', ''sent'', ''waking'', ''online'', ''failed'', ''timeout'']),
            fkey ''machine_id'' ''machines'' ''CASCADE'', PrimaryKey [''id'']]\<rparr>,
      CreateIndex ''ix_wake_attempts_machine_started'' ''wake_attempts'' [''machine_id'', ''started_at''],
      CreateTable ''wake_jobs''
        \<lparr>tb_columns = [col ''id'' TUuid, col ''machine_id'' TUuid, col ''attempt_id'' TUuid, col ''job_type'' (TVarchar 20),
            col ''status'' (TVarchar 20), col ''payload'' TJsonb, null_col ''claimed_at'' TTimestamptz, created_column],
         tb_constraints = [Check ''ck_wake_jobs_type'' (ColumnIn ''job_type'' [''wake'', ''ensure_online'']),
            Check ''ck_wake_jobs_status'' (ColumnIn ''status'' [''queued'', ''running'', ''done'', ''error'']),
            fkey ''attempt_id'' ''wake_attempts'' ''CASCADE'', fkey ''machine_id'' ''machines'' ''CASCADE'',
            PrimaryKey [''id''], Unique None [''attempt_id'']]\<rparr>,
      CreateIndex ''ix_wake_jobs_status_created'' ''wake_jobs'' [''status'', ''created_at'']]"

definition initial_upgrade :: "operation list" where
  "initial_upgrade = initial_tables @ initial_dependents"

definition initial_downgrade :: "operation list" where
  "initial_downgrade =
     [DropIndex ''ix_wake_jobs_status_created'' ''wake_jobs'', DropTable ''wake_jobs'',
      DropIndex ''ix_wake_attempts_machine_started'' ''wake_attempts'', DropTable ''wake_attempts'',
      DropIndex ''ix_sessions_user_expires'' ''sessions'', DropTable ''sessions'',
      DropIndex ''ix_probe_results_machine_observed'' ''probe_results'', DropTable ''probe_results'',
      DropTable ''users'', DropTable ''setup_state'', DropTable ''settings'', DropTable ''machines'',
      DropIndex ''ix_audit_events_created'' ''audit_events'', DropTable ''audit_events'', DropTable ''api_tokens'']"

section \<open>The later revisions\<close>

text \<open>\<open>SELECT id FROM users ORDER BY created_at LIMIT 1\<close>, \<open>NULL\<close> when there is none.\<close>

definition first_user :: "stored \<Rightarrow> string option" where
  "first_user d = (case sort_key snd (st_users d) of [] \<Rightarrow> None | (i, _) # _ \<Rightarrow> Some i)"

definition backfill_users :: "stored \<Rightarrow> stored" where
  "backfill_users d = d\<lparr>st_token_users := map (\<lambda>u. if u = None then first_user d else u) (st_token_users d)\<rparr>"

definition token_user_upgrade :: "operation list" where
  "token_user_upgrade =
     [AddColumn ''api_tokens'' (null_col ''user_id'' TUuid), Execute backfill_users,
      AlterNullable ''api_tokens'' ''user_id'' False,
      CreateForeignKey None ''api_tokens'' ''users'' [''user_id''] [''id''] ''CASCADE'']"

definition token_user_downgrade :: "operation list" where
  "token_user_downgrade = [DropConstraint None ''api_tokens'', DropColumn ''api_tokens'' ''user_id'']"

text \<open>The three \<open>UPDATE\<close>s of the renaming; the setting is compared as the JSON string it was once.\<close>

definition rename_text :: "string \<Rightarrow> string \<Rightarrow> string \<Rightarrow> string" where
  "rename_text old new s = (if s = old then new else s)"

definition rename_strategy :: "string \<Rightarrow> string \<Rightarrow> stored \<Rightarrow> stored" where
  "rename_strategy old new d =
     d\<lparr>st_machine_strategies := map (rename_text old new) (st_machine_strategies d),
       st_attempt_strategies := map (rename_text old new) (st_attempt_strategies d),
       st_settings := map (\<lambda>(k, v). if k = ''default_wake_strategy'' \<and> v = JStr old then (k, JStr new) else (k, v))
         (st_settings d)\<rparr>"

definition rename_upgrade :: "operation list" where
  "rename_upgrade =
     [DropConstraint (Some ''ck_machines_wake_strategy'') ''machines'', Execute (rename_strategy ''udp'' ''udp_broadcast''),
      CreateCheck ''ck_machines_wake_strategy'' ''machines'' (strategy_check [''etherwake'', ''udp_broadcast''])]"

definition rename_downgrade :: "operation list" where
  "rename_downgrade =
     [DropConstraint (Some ''ck_machines_wake_strategy'') ''machines'', Execute (rename_strategy ''udp_broadcast'' ''udp''),
      CreateCheck ''ck_machines_wake_strategy'' ''machines'' (strategy_check [''etherwake'', ''udp''])]"

definition token_machine_upgrade :: "operation list" where
  "token_machine_upgrade =
     [AddColumn ''api_tokens'' (null_col ''machine_id'' TUuid),
      CreateIndex ''ix_api_tokens_machine_id'' ''api_tokens'' [''machine_id''],
      CreateForeignKey None ''api_tokens'' ''machines'' [''machine_id''] [''id''] ''SET NULL'']"

definition token_machine_downgrade :: "operation list" where
  "token_machine_downgrade =
     [DropConstraint None ''api_tokens'', DropIndex ''ix_api_tokens_machine_id'' ''api_tokens'',
      DropColumn ''api_tokens'' ''machine_id'']"

section \<open>The chain of revisions\<close>

record revision =
  rv_id :: string
  rv_down :: "string option"
  rv_upgrade :: "operation list"
  rv_downgrade :: "operation list"

definition initial_revision :: revision where
  "initial_revision = \<lparr>rv_id = ''a079c458d58b'', rv_down = None,
     rv_upgrade = initial_upgrade, rv_downgrade = initial_downgrade\<rparr>"

definition token_user_revision :: revision where
  "token_user_revision = \<lparr>rv_id = ''09d75b0dfde5'', rv_down = Some ''a079c458d58b'',
     rv_upgrade = token_user_upgrade, rv_downgrade = token_user_downgrade\<rparr>"

definition rename_revision :: revision where
  "rename_revision = \<lparr>rv_id = ''7da1313001d6'', rv_down = Some ''09d75b0dfde5'',
     rv_upgrade = rename_upgrade, rv_downgrade = rename_downgrade\<rparr>"

definition token_machine_revision :: revision where
  "token_machine_revision = \<lparr>rv_id = ''1409d10906fb'', rv_down = Some ''7da1313001d6'',
     rv_upgrade = token_machine_upgrade, rv_downgrade = token_machine_downgrade\<rparr>"

definition revisions :: "revision list" where
  "revisions = [initial_revision, token_user_revision, rename_revision, token_machine_revision]"

text \<open>
  \<open>do_run_migrations\<close>: the revisions to apply run in one transaction, so that an error in any of
  them leaves the database as it was.
\<close>

definition run_migrations :: "operation list list \<Rightarrow> database \<Rightarrow> ddl_error option \<times> database" where
  "run_migrations steps db = (case apply_ops (List.concat steps) db of Inl e \<Rightarrow> (Some e, db) | Inr db' \<Rightarrow> (None, db'))"

definition upgrade_head :: "database \<Rightarrow> ddl_error option \<times> database" where
  "upgrade_head = run_migrations (map rv_upgrade revisions)"

definition downgrade_base :: "database \<Rightarrow> ddl_error option \<times> database" where
  "downgrade_base = run_migrations (map rv_downgrade (rev revisions))"

end
