(* ===== verification/ModelsSchema.thy ===== *)
theory ModelsSchema
  imports Migrations
begin

text \<open>
  The tables \<open>app/persistence/models.py\<close> declares, column by column in the order of the classes,
  and what the migrations make of an installation: the schema of the models, which revisions can
  be undone, and the data they rewrite.
\<close>

section \<open>The declared tables\<close>

definition users_model :: "string \<times> table" where
  "users_model = (''users'',
     \<lparr>tb_columns = [col ''id'' TUuid, col ''username'' (TVarchar 150), col ''password_hash'' TText, col ''role'' (TVarchar 50),
        col ''created_at'' TTimestamptz, null_col ''last_login_at'' TTimestamptz],
      tb_constraints = [PrimaryKey [''id''], Unique (Some ''uq_users_username'') [''username'']]\<rparr>)"

definition machines_model :: "string \<times> table" where
  "machines_model = (''machines'',
     \<lparr>tb_columns = [col ''id'' TUuid, col ''name'' (TVarchar 255), null_col ''hostname'' (TVarchar 255),
        col ''ip_address'' TInet, col ''mac_address'' TMacaddr, col ''ssh_port'' TInteger,
        null_col ''wake_interface'' (TVarchar 50), col ''wake_strategy'' (TVarchar 20), null_col ''broadcast_address'' TInet,
        col ''enabled'' TBoolean, col ''created_at'' TTimestamptz, col ''updated_at'' TTimestamptz],
      tb_constraints = [PrimaryKey [''id''], Unique (Some ''uq_machines_mac_address'') [''mac_address''],
        Check ''ck_machines_ssh_port'' (ColumnBetween ''ssh_port'' 1 65535),
        Check ''ck_machines_wake_strategy'' (ColumnIn ''wake_strategy'' [''etherwake'', ''udp_broadcast''])]\<rparr>)"

definition wake_attempts_model :: "string \<times> table" where
  "wake_attempts_model = (''wake_attempts'',
     \<lparr>tb_columns = [col ''id'' TUuid, col ''machine_id'' TUuid, col ''actor_type'' (TVarchar 20), col ''actor_id'' (TVarchar 255),
        col ''strategy'' (TVarchar 20), col ''status'' (TVarchar 20), col ''ensure_online'' TBoolean,
        col ''poll_timeout_s'' TInteger, null_col ''error'' TText, col ''started_at'' TTimestamptz,
        null_col ''finished_at'' TTimestamptz],
      tb_constraints = [PrimaryKey [''id''], fkey ''machine_id'' ''machines'' ''CASCADE'',
        Check ''ck_wake_attempts_status''
          (ColumnIn ''status'' [''pending'', ''sent'', ''waking'', ''online'', ''failed'', ''timeout''])]\<rparr>)"

definition wake_jobs_model :: "string \<times> table" where
  "wake_jobs_model = (''wake_jobs'',
     \<lparr>tb_columns = [col ''id'' TUuid, col ''machine_id'' TUuid, col ''attempt_id'' TUuid, col ''job_type'' (TVarchar 20),
        col ''status'' (TVarchar 20), col ''payload'' TJsonb, null_col ''claimed_at'' TTimestamptz, col ''created_at'' TTimestamptz],
      tb_constraints = [PrimaryKey [''id''], fkey ''machine_id'' ''machines'' ''CASCADE'',
        fkey ''attempt_id'' ''wake_attempts'' ''CASCADE'', Unique None [''attempt_id''],
        Check ''ck_wake_jobs_status'' (ColumnIn ''status'' [''queued'', ''running'', ''done'', ''error'']),
        Check ''ck_wake_jobs_type'' (ColumnIn ''job_type'' [''wake'', ''ensure_online''])]\<rparr>)"

definition probe_results_model :: "string \<times> table" where
  "probe_results_model = (''probe_results'',
     \<lparr>tb_columns = [col ''id'' TUuid, col ''machine_id'' TUuid, col ''ping_ok'' TBoolean, col ''tcp_ssh_ok'' TBoolean,
        col ''derived_state'' (TVarchar 20), now_column ''observed_at''],
      tb_constraints = [PrimaryKey [''id''], fkey ''machine_id'' ''machines'' ''CASCADE'']\<rparr>)"

definition sessions_model :: "string \<times> table" where
  "sessions_model = (''sessions'',
     \<lparr>tb_columns = [col ''id'' TUuid, col ''user_id'' TUuid, col ''csrf_secret'' (TVarchar 128), null_col ''ip'' TInet,
        null_col ''user_agent'' TText, col ''expires_at'' TTimestamptz, col ''revoked'' TBoolean, col ''created_at'' TTimestamptz],
      tb_constraints = [PrimaryKey [''id''], fkey ''user_id'' ''users'' ''CASCADE'']\<rparr>)"

definition api_tokens_model :: "string \<times> table" where
  "api_tokens_model = (''api_tokens'',
     \<lparr>tb_columns = [col ''id'' TUuid, col ''user_id'' TUuid, null_col ''machine_id'' TUuid, col ''name'' (TVarchar 255),
        col ''token_hash'' (TVarchar 128), col ''prefix'' (TVarchar 16), col ''scopes'' TJsonb,
        null_col ''last_used_at'' TTimestamptz, null_col ''revoked_at'' TTimestamptz, col ''created_at'' TTimestamptz],
      tb_constraints = [PrimaryKey [''id''], fkey ''user_id'' ''users'' ''CASCADE'', fkey ''machine_id'' ''machines'' ''SET NULL'',
        Unique (Some ''uq_api_tokens_hash'') [''token_hash'']]\<rparr>)"

definition audit_events_model :: "string \<times> table" where
  "audit_events_model = (''audit_events'',
     \<lparr>tb_columns = [(col ''id'' TBigint)\<lparr>c_autoincrement := True\<rparr>, col ''actor_type'' (TVarchar 20),
        col ''actor_id'' (TVarchar 255), col ''action'' (TVarchar 100), null_col ''target_type'' (TVarchar 50),
        null_col ''target_id'' (TVarchar 255), null_col ''ip'' TInet, col ''metadata'' TJsonb, now_column ''created_at''],
      tb_constraints = [PrimaryKey [''id'']]\<rparr>)"

definition settings_model :: "string \<times> table" where
  "settings_model = (''settings'',
     \<lparr>tb_columns = [col ''key'' (TVarchar 100), col ''value'' TJsonb, col ''updated_at'' TTimestamptz],
      tb_constraints = [PrimaryKey [''key'']]\<rparr>)"

definition setup_state_model :: "string \<times> table" where
  "setup_state_model = (''setup_state'',
     \<lparr>tb_columns = [col ''id'' TInteger, col ''completed'' TBoolean, col ''current_step'' (TVarchar 50),
        col ''completed_steps'' TJsonb, col ''updated_at'' TTimestamptz],
      tb_constraints = [PrimaryKey [''id''], Check ''ck_setup_state_singleton'' (ColumnIs ''id'' 1)]\<rparr>)"

definition model_indexes :: "index list" where
  "model_indexes =
     [\<lparr>ix_name = ''ix_wake_attempts_machine_started'', ix_table = ''wake_attempts'', ix_columns = [''machine_id'', ''started_at'']\<rparr>,
      \<lparr>ix_name = ''ix_wake_jobs_status_created'', ix_table = ''wake_jobs'', ix_columns = [''status'', ''created_at'']\<rparr>,
      \<lparr>ix_name = ''ix_probe_results_machine_observed'', ix_table = ''probe_results'', ix_columns = [''machine_id'', ''observed_at'']\<rparr>,
      \<lparr>ix_name = ''ix_sessions_user_expires'', ix_table = ''sessions'', ix_columns = [''user_id'', ''expires_at'']\<rparr>,
      \<lparr>ix_name = ''ix_api_tokens_machine_id'', ix_table = ''api_tokens'', ix_columns = [''machine_id'']\<rparr>,
      \<lparr>ix_name = ''ix_audit_events_created'', ix_table = ''audit_events'', ix_columns = [''created_at'']\<rparr>]"

text \<open>\<open>Base.metadata\<close>.\<close>

definition models_schema :: schema where
  "models_schema =
     \<lparr>sch_tables = [users_model, machines_model, wake_attempts_model, wake_jobs_model, probe_results_model,
        sessions_model, api_tokens_model, audit_events_model, settings_model, setup_state_model],
      sch_indexes = model_indexes\<rparr>"

section \<open>Migrations and models agree\<close>


text \<open>
  The initial revision can be undone: its downgrade after its upgrade leaves the empty schema.
\<close>

theorem initial_revision_undone:
  "run_migrations [initial_upgrade, initial_downgrade] (empty_schema, no_rows) = (None, empty_schema, no_rows)"
  by code_simp

text \<open>
  The installation can never be taken back to the state before the migrations, nor past
  either revision that adds a column to the tokens: their downgrades drop a constraint without
  naming it, which is refused whatever the database is, and nothing is changed.
\<close>

theorem downgrade_refused:
  "downgrade_base db = (Some UnnamedConstraint, db) \<and>
   run_migrations [token_user_downgrade] db = (Some UnnamedConstraint, db) \<and>
   run_migrations [token_machine_downgrade] db = (Some UnnamedConstraint, db)"
  by (cases db) (simp add: downgrade_base_def run_migrations_def revisions_def token_machine_revision_def
      token_machine_downgrade_def token_user_downgrade_def and_then_def)

section \<open>Values and constraints\<close>

text \<open>The values a \<open>CHECK ... IN\<close> of the schema allows in a column.\<close>

definition allowed_values :: "schema \<Rightarrow> string \<Rightarrow> string \<Rightarrow> string list option" where
  "allowed_values s t c =
     (case map_of (sch_tables s) t of
        None \<Rightarrow> None
      | Some tb \<Rightarrow>
          (case List.map_filter (\<lambda>k. case k of Check _ (ColumnIn c' vs) \<Rightarrow> if c' = c then Some vs else None | _ \<Rightarrow> None)
                  (tb_constraints tb) of
             [vs] \<Rightarrow> Some vs
           | _ \<Rightarrow> None))"

lemma range_strategies: "range WakeStrategy_value = set wake_strategies"
proof -
  have univ: "UNIV = {ETHERWAKE, UDP_BROADCAST}" using WakeStrategy.exhaust by auto
  show ?thesis unfolding univ by (simp add: wake_strategies_def)
qed

lemma range_statuses: "range AttemptStatus_value = set attempt_statuses"
proof -
  have univ: "UNIV = {PENDING, SENT, WAKING, ONLINE, FAILED, TIMEOUT}" using AttemptStatus.exhaust by auto
  show ?thesis unfolding univ by (simp add: attempt_statuses_def)
qed


section \<open>The data migrations\<close>

lemma first_user_None: "first_user d = None \<longleftrightarrow> st_users d = []"
proof -
  have "sort_key snd (st_users d) = [] \<longleftrightarrow> st_users d = []"
    by (metis length_0_conv length_sort)
  then show ?thesis by (auto simp: first_user_def split: list.split)
qed

lemma first_user_known: "first_user d = Some i \<Longrightarrow> i \<in> fst ` set (st_users d)"
proof -
  assume i: "first_user d = Some i"
  then have "i \<in> fst ` set (sort_key snd (st_users d))"
    by (cases "sort_key snd (st_users d)") (auto simp: first_user_def)
  then show ?thesis by (simp only: set_sort)
qed

text \<open>The rows after the tokens got their user, and when there is none to give.\<close>

definition backfilled :: "stored \<Rightarrow> stored" where
  "backfilled d = d\<lparr>st_token_users := map (\<lambda>_. first_user d) (st_token_users d)\<rparr>"

definition orphan_tokens :: "stored \<Rightarrow> bool" where
  "orphan_tokens d \<longleftrightarrow> st_token_users d \<noteq> [] \<and> st_users d = []"

lemma backfill_clear: "backfill_users (clear_column ''api_tokens'' ''user_id'' d) = backfilled d"
  by (simp add: backfill_users_def clear_column_def backfilled_def first_user_def)

lemma backfilled_nulls: "has_nulls ''api_tokens'' ''user_id'' (backfilled d) \<longleftrightarrow> orphan_tokens d"
proof (cases "first_user d")
  case None
  then show ?thesis using first_user_None [of d] by (cases "st_token_users d") (auto simp: has_nulls_def backfilled_def orphan_tokens_def)
next
  case (Some i)
  then show ?thesis using first_user_None [of d] by (auto simp: has_nulls_def backfilled_def orphan_tokens_def)
qed

lemma backfilled_keys: "\<not> key_fails ''api_tokens'' [''user_id''] ''users'' (backfilled d)"
  using first_user_known [of d] by (auto simp: key_fails_def backfilled_def list_all_iff split: option.split)

lemma map_of_update_table:
  "map_of (sch_tables (update_table n f s)) m = (if m = n then map_option f (map_of (sch_tables s) m) else map_of (sch_tables s) m)"
proof -
  have "map_of (map (\<lambda>(m, t). if m = n then (m, f t) else (m, t)) xs) m =
      (if m = n then map_option f (map_of xs m) else map_of xs m)" for xs
    by (induction xs) auto
  then show ?thesis by (simp add: update_table_def)
qed

lemma table_names_update [simp]: "table_names (update_table n f s) = table_names s"
  by (auto simp: table_names_def update_table_def)

text \<open>
  The revision that gives each token its user, on a database that has tokens and users but not
  yet that column: it fails, and nothing changes, exactly when there are tokens and no user;
  otherwise every token belongs to the user created first.
\<close>

theorem token_backfill:
  assumes "map_of (sch_tables s) ''api_tokens'' = Some tb" and "''user_id'' \<notin> set (map c_name (tb_columns tb))"
    and "''users'' \<in> set (table_names s)"
  shows "case run_migrations [token_user_upgrade] (s, d) of
     (Some e, db) \<Rightarrow> orphan_tokens d \<and> e = NotNullViolation ''user_id'' \<and> db = (s, d)
   | (None, _, d') \<Rightarrow> \<not> orphan_tokens d \<and> d' = backfilled d"
proof -
  have "''api_tokens'' \<in> set (table_names s)"
    using assms(1) by (force simp: table_names_def dest: map_of_SomeD)
  with assms show ?thesis
    by (cases "orphan_tokens d")
      (simp_all add: run_migrations_def token_user_upgrade_def map_of_update_table backfill_clear backfilled_nulls
        backfilled_keys need_def and_then_def null_col_def col_def)
qed

definition demo_rows :: stored where
  "demo_rows = no_rows\<lparr>st_users := [(''late'', 5), (''early'', 2)], st_token_users := [None, None]\<rparr>"

theorem token_backfill_witness:
  "case run_migrations [token_user_upgrade]
      (\<lparr>sch_tables = [users_model, (''api_tokens'', \<lparr>tb_columns = [], tb_constraints = []\<rparr>)], sch_indexes = []\<rparr>, demo_rows) of
     (Some e, db) \<Rightarrow> False
   | (None, _, d') \<Rightarrow> st_token_users d' = [Some ''early'', Some ''early'']"
proof -
  let ?s = "\<lparr>sch_tables = [users_model, (''api_tokens'', \<lparr>tb_columns = [], tb_constraints = []\<rparr>)], sch_indexes = []\<rparr>"
  have "first_user demo_rows = Some ''early''" by code_simp
  then have ok: "\<not> orphan_tokens demo_rows" "st_token_users (backfilled demo_rows) = [Some ''early'', Some ''early'']"
    by (simp_all add: orphan_tokens_def backfilled_def demo_rows_def)
  have "case run_migrations [token_user_upgrade] (?s, demo_rows) of
     (Some e, db) \<Rightarrow> orphan_tokens demo_rows \<and> e = NotNullViolation ''user_id'' \<and> db = (?s, demo_rows)
   | (None, _, d') \<Rightarrow> \<not> orphan_tokens demo_rows \<and> d' = backfilled demo_rows"
    by (rule token_backfill [where tb = "\<lparr>tb_columns = [], tb_constraints = []\<rparr>"]) (simp_all add: users_model_def table_names_def)
  with ok show ?thesis by (auto split: prod.splits option.splits)
qed

text \<open>
  The revision that renames the strategy does not reach the default strategy of an
  installation: the settings are stored as objects with the value under \<open>v\<close>, and it looks for a
  bare string. The machines and the attempts are renamed.
\<close>

theorem rename_misses_settings:
  "st_settings (rename_strategy ''udp'' ''udp_broadcast'' (d\<lparr>st_settings := map (\<lambda>(k, v). (k, JObj [(''v'', v)])) kvs\<rparr>)) =
     map (\<lambda>(k, v). (k, JObj [(''v'', v)])) kvs \<and>
   ''udp'' \<notin> set (st_machine_strategies (rename_strategy ''udp'' ''udp_broadcast'' d)) \<and>
   ''udp'' \<notin> set (st_attempt_strategies (rename_strategy ''udp'' ''udp_broadcast'' d))"
  by (auto simp: rename_strategy_def rename_text_def)

text \<open>
  Taking the renaming back does not restore the schema it found: the constraint it leaves
  refuses the strategy \<open>udp_broadcast\<close>, which the schema of the revisions before it allows.
\<close>

theorem rename_not_undone:
  "case (run_migrations [initial_upgrade, token_user_upgrade] (empty_schema, no_rows),
         run_migrations [initial_upgrade, token_user_upgrade, rename_upgrade, rename_downgrade] (empty_schema, no_rows)) of
     ((None, s, _), (None, r, _)) \<Rightarrow>
        \<not> same_schema s r \<and>
        allowed_values s ''machines'' ''wake_strategy'' = Some [''etherwake'', ''udp_broadcast''] \<and>
        allowed_values r ''machines'' ''wake_strategy'' = Some [''etherwake'', ''udp'']
   | _ \<Rightarrow> False"
  by code_simp

end
