(* ===== verification/WebSecurity.thy ===== *)
theory WebSecurity
  imports AppSecurity
begin

text \<open>
  What the pages do not ask for. The pages of the wizard take their forms from anybody and at any
  time, also when the wizard is completed, and the forms behind the session are taken without a
  CSRF token, which only the API checks.
\<close>

section \<open>Settings in the database\<close>

definition stored_setting :: "db \<Rightarrow> string \<Rightarrow> jval option" where
  "stored_setting d k = (case find_row sg_key k (settings d) of None \<Rightarrow> None | Some r \<Rightarrow> setting_value r)"

text \<open>A write of a setting, for what it leaves as it was.\<close>

definition setting_written :: "world \<Rightarrow> string \<Rightarrow> jval \<Rightarrow> world \<Rightarrow> bool" where
  "setting_written w k v w' \<longleftrightarrow>
     (\<exists>s. w' = w\<lparr>w_tick := Suc (w_tick w), w_db := (w_db w)\<lparr>settings := s\<rparr>\<rparr>) \<and>
     stored_setting (w_db w') = (stored_setting (w_db w))(k := (if v = JNull then None else Some v))"

lemma upsert_settings_only: "upsert_setting k v t d = Inr (x, d') \<Longrightarrow> \<exists>s. d' = d\<lparr>settings := s\<rparr>"
  by (auto simp: upsert_setting_def split: option.splits if_splits intro: exI [of _ "settings d"])

lemma wp_settings_set:
  assumes "\<not> w_dead w" "varchar 100 k" "\<And>w'. setting_written w k v w' \<Longrightarrow> Q () w'"
  shows "wp (settings_set (settings_repo_set env) k v) Q E w"
proof -
  let ?t = "clock env (w_tick w) + w_slept w"
  obtain d' where d': "upsert_setting k [(''v'', v)] ?t (w_db w) = Inr ((), d')"
    using upsert_accepts [OF assms(2)] by blast
  obtain s where s: "d' = (w_db w)\<lparr>settings := s\<rparr>" using upsert_settings_only [OF d'] by blast
  have "stored_setting d' = (stored_setting (w_db w))(k := (if v = JNull then None else Some v))"
    by (rule ext) (simp add: stored_setting_def find_upserted [OF d'])
  then have "setting_written w k v (w\<lparr>w_tick := Suc (w_tick w), w_db := d'\<rparr>)"
    unfolding setting_written_def s by (auto intro!: exI [of _ s])
  then show ?thesis
    unfolding settings_set_def settings_repo_set_def wp_bind wp_now wp_flush
    using assms(1) d' by (simp add: assms(3))
qed

lemma wp_settings_then:
  assumes "\<not> w_dead w" "varchar 100 k"
    and "\<And>s. stored_setting ((w_db w)\<lparr>settings := s\<rparr>) = (stored_setting (w_db w))(k := (if v = JNull then None else Some v)) \<Longrightarrow>
      wp m Q E (w\<lparr>w_tick := Suc (w_tick w), w_db := (w_db w)\<lparr>settings := s\<rparr>\<rparr>)"
  shows "wp (then_p (settings_set (settings_repo_set env) k v) m) Q E w"
  unfolding wp_then by (rule wp_settings_set [OF assms(1,2)]) (use assms(3) in \<open>auto simp: setting_written_def\<close>)

section \<open>The form of the network step\<close>

definition network_settings :: "string \<Rightarrow> string \<Rightarrow> int \<Rightarrow> (string \<Rightarrow> jval option) \<Rightarrow> string \<Rightarrow> jval option" where
  "network_settings wi st pt f = f(''wake_interface'' := Some (JStr wi), ''default_wake_strategy'' := Some (JStr st),
     ''default_poll_timeout_s'' := Some (JInt pt))"

lemma stored_setting_setup [simp]: "stored_setting (d\<lparr>setup_state := x\<rparr>) = stored_setting d"
  by (rule ext) (simp add: stored_setting_def)

lemma setup_done_wizard: "setup_done (w_db v) = fst (wizard_of v)"
  by (simp add: setup_done_def wizard_of_def wizard_row_def wizard_start_def split: option.split)

lemma advance_not_done: "step \<noteq> ''complete'' \<Longrightarrow> \<not> fst (wizard_advance step z)"
  by (simp add: wizard_advance_def split: prod.split)

lemma wf_setup_settings [simp]: "wf_setup (d\<lparr>settings := s\<rparr>) = wf_setup d"
  by (simp add: wf_setup_def)

lemma wp_setup_network_post:
  assumes "\<not> w_dead w" "wf_setup (w_db w)"
  shows "wp (setup_network_post env wi st pt)
    (\<lambda>r v. r = Redirect ''/setup/first_machine'' KeepCookie \<and> \<not> setup_done (w_db v) \<and> \<not> w_dead v \<and>
       stored_setting (w_db v) = network_settings wi st pt (stored_setting (w_db w))) (\<lambda>_ _. False) w"
  unfolding setup_network_post_def
proof (intro wp_settings_then, goal_cases)
  case (7 s1 s2 s3)
  then show ?case
    unfolding wp_then
    by (intro wp_setup_advance)
      (use assms advance_not_done in \<open>auto simp: redirect_def setup_done_wizard only_setup_def network_settings_def\<close>)
qed (use assms in \<open>simp_all add: varchar_def\<close>)

text \<open>What a page did is committed when its session is alive at the end.\<close>

lemma wp_page_committed:
  assumes "run_endpoint env rq ep = answer_page m"
    and "wp m (\<lambda>r v. R r (w_db v) \<and> \<not> w_dead v) (\<lambda>_ _. False) (w\<lparr>w_db := w_committed w, w_dead := False\<rparr>)"
    and "\<And>r v. R r (w_committed v) \<Longrightarrow> Q (dispatch \<lparr>rs_status = web_status r, rs_content = Page r, rs_headers = []\<rparr>) v"
  shows "wp (handle_request env rq ep) Q (\<lambda>_ _. False) w"
  unfolding handle_request_def get_db_session_def assms(1) answer_page_def wp_catch wp_bind wp_then wp_modify wp_return
  by (rule wp_mono [OF assms(2)]) (auto intro: assms(3))

text \<open>
  C38. The wizard of the pages stays open after it is completed: whoever posts the form of the
  network step, with no session and no token, is served, the wizard is committed as not completed
  and the three settings as the form says.
\<close>

theorem anybody_reconfigures:
  assumes "wf_db (w_committed w)"
  shows "wp (handle_request env rq (WebNetwork wi st pt))
     (\<lambda>r v. rs_status r = 303 \<and> rs_content r = Page (Redirect ''/setup/first_machine'' KeepCookie) \<and>
        \<not> setup_done (w_committed v) \<and>
        stored_setting (w_committed v) = network_settings wi st pt (stored_setting (w_committed w)))
     (\<lambda>_ _. False) w"
proof (rule wp_page_committed)
  let ?w = "w\<lparr>w_db := w_committed w, w_dead := False\<rparr>"
  show "wp (setup_network_post env wi st pt)
    (\<lambda>r v. (r = Redirect ''/setup/first_machine'' KeepCookie \<and> \<not> setup_done (w_db v) \<and>
       stored_setting (w_db v) = network_settings wi st pt (stored_setting (w_committed w))) \<and> \<not> w_dead v) (\<lambda>_ _. False) ?w"
    by (rule wp_mono [OF wp_setup_network_post]) (use assms in \<open>simp_all add: wf_db_def\<close>)
qed (simp_all add: dispatch_def web_status_def)

text \<open>The installation of the example, completed, reconfigured by a request without credentials.\<close>

theorem anybody_reconfigures_witness:
  "setup_done demo_db_done \<and>
   wp (handle_request demo_env (demo_request\<lparr>rq_session := None\<rparr>) (WebNetwork ''eth9'' ''etherwake'' 1))
     (\<lambda>r v. \<not> setup_done (w_committed v) \<and> stored_setting (w_committed v) ''wake_interface'' = Some (JStr ''eth9''))
     (\<lambda>_ _. False) (world_of demo_db_done 0)"
proof
  show "setup_done demo_db_done" by (simp add: setup_done_def demo_db_done_def)
  show "wp (handle_request demo_env (demo_request\<lparr>rq_session := None\<rparr>) (WebNetwork ''eth9'' ''etherwake'' 1))
     (\<lambda>r v. \<not> setup_done (w_committed v) \<and> stored_setting (w_committed v) ''wake_interface'' = Some (JStr ''eth9''))
     (\<lambda>_ _. False) (world_of demo_db_done 0)"
    by (rule wp_mono [OF anybody_reconfigures]) (simp_all add: network_settings_def)
qed

section \<open>The forms behind the session\<close>

definition form_settings :: "SettingsForm \<Rightarrow> (string \<Rightarrow> jval option) \<Rightarrow> string \<Rightarrow> jval option" where
  "form_settings f s = s(''wake_interface'' := Some (JStr (sf_wake_interface f)),
     ''default_wake_strategy'' := Some (JStr (sf_default_wake_strategy f)),
     ''default_poll_timeout_s'' := Some (JInt (sf_default_poll_timeout_s f)),
     ''allow_api_tokens'' := Some (JBool (sf_allow_api_tokens f = ''1'')),
     ''session_lifetime_hours'' := Some (JInt (sf_session_lifetime_hours f)))"

lemma get_csrf_reader: "keeps (only_clock w) (get_csrf env rq)"
  unfolding get_csrf_def generate_csrf_token_def auth_validate_session_def session_get_by_id_def user_get_by_id_def get_row_def
  by (intro keeps_intros only_clock_keeps)+

lemma wp_get_csrf:
  assumes "\<And>x n. Q x (w\<lparr>w_tick := n\<rparr>)"
  shows "wp (get_csrf env rq) Q E w"
proof -
  have total: "wp (get_csrf env rq) (\<lambda>_ _. True) (\<lambda>_ _. False) w"
    unfolding get_csrf_def by (auto simp: wp_def catch_p_def return_p_def split: sum.split prod.split)
  have "wp (get_csrf env rq) (\<lambda>_. only_clock w) (\<lambda>_. only_clock w) w" using get_csrf_reader by (simp add: keeps_wp)
  with total have "wp (get_csrf env rq) (\<lambda>_ v. True \<and> only_clock w v) (\<lambda>_ v. False \<and> only_clock w v) w"
    unfolding wp_conj by simp
  then show ?thesis by (rule wp_mono) (auto simp: only_clock_def assms)
qed

lemma wp_settings_post:
  assumes "\<not> w_dead w" "wf_db (w_db w)" "canonical_users env (w_db w)"
    and "cookie_session env (w_db w) (clock env (w_tick w) + w_slept w) rq = Some su"
  shows "wp (settings_post env rq f)
    (\<lambda>r v. (\<exists>shown csrf. r = Html 200 (SettingsPage shown csrf True)) \<and> \<not> w_dead v \<and>
       stored_setting (w_db v) = form_settings f (stored_setting (w_db w))) (\<lambda>_ _. False) w"
  unfolding settings_post_def web_gated_def wp_bind
proof (rule wp_require_web_auth [OF assms(1-3)], goal_cases)
  case (1 su' n)
  show ?case
    unfolding option.case prod.case_eq_if
  proof (intro wp_settings_then, goal_cases)
    case (11 s1 s2 s3 s4 s5)
    then show ?case
      using assms(1) unfolding settings_get_all_def settings_repo_get_all_def wp_bind wp_query
      by (auto simp: form_settings_def intro!: wp_get_csrf)
  qed (use assms in \<open>simp_all add: varchar_def\<close>)
next
  case (2 n)
  with assms(4) show ?case by simp
qed

text \<open>The endpoints of the API that ask for the token of the session, and a request that has none.\<close>

fun csrf_endpoint :: "endpoint \<Rightarrow> bool" where
  "csrf_endpoint (ApiCreateToken _) = True"
| "csrf_endpoint (ApiRevokeToken _) = True"
| "csrf_endpoint (ApiCreateMachine _) = True"
| "csrf_endpoint (ApiUpdateMachine _ _) = True"
| "csrf_endpoint (ApiDeleteMachine _) = True"
| "csrf_endpoint (ApiWake _ _) = True"
| "csrf_endpoint _ = False"

definition csrf_token_of :: "request \<Rightarrow> string" where
  "csrf_token_of rq = str_or (rq_csrf_header rq) (case rq_csrf_form rq of None \<Rightarrow> [] | Some t \<Rightarrow> t)"

definition opens_session :: "env \<Rightarrow> request \<Rightarrow> SessionRecord \<Rightarrow> datetime \<Rightarrow> bool" where
  "opens_session env rq s t \<longleftrightarrow> csrf_token_of rq \<noteq> [] \<and>
     (\<exists>data. its_loads env (app_secret env) CSRF_SALT (csrf_token_of rq) t MAX_AGE = Inr (JObj data) \<and>
        dict_get data ''sid'' = Some (JStr (s_id s)) \<and> dict_get data ''sec'' = Some (JStr (s_csrf_secret s)))"

definition forged :: "world \<Rightarrow> exn \<Rightarrow> world \<Rightarrow> bool" where
  "forged w e v \<longleftrightarrow> e = HTTPException 403 ''CSRF validation failed'' \<and> unchanged w v"

lemma wp_require_csrf_forged:
  assumes "\<nexists>t. opens_session env rq (fst su) t" "unchanged w v"
  shows "wp (require_csrf env rq su) (\<lambda>_ _. False) (forged w) v"
  using assms
  by (auto simp: require_csrf_def Let_def csrf_token_of_def [symmetric] opens_session_def forged_def unchanged_def
      validate_csrf_token_def split: sum.split jval.split)

lemma wp_csrf_guard_forged:
  assumes "good_start env w" "cookie_session env (w_db w) (clock env (w_tick w) + w_slept w) rq = Some su"
    and "\<nexists>t. opens_session env rq (fst su) t"
  shows "wp (csrf_protected_user env rq) (\<lambda>_ _. False) (forged w) w"
  unfolding csrf_protected_user_def wp_bind
  by (rule wp_current_session)
    (use assms in \<open>auto simp: good_start_def intro: wp_guard_bind wp_require_csrf_forged\<close>)

lemma wp_csrf_endpoint_forged:
  assumes "csrf_endpoint ep" "wp (csrf_protected_user env rq) (\<lambda>_ _. False) E w"
  shows "wp (run_endpoint env rq ep) (\<lambda>_ _. False) E w"
  using assms(1)
  by (cases ep; simp only: run_endpoint.simps csrf_endpoint.simps answer_def create_token_def revoke_token_def
      create_machine_def patch_machine_def delete_machine_def wake_machine_def)
    (rule wp_guard_bind assms(2))+

text \<open>
  C17. The CSRF token of the session guards the API and only the API. With a valid session and no
  token that opens it, neither in the header nor in the form, every endpoint of the API that asks
  for one answers 403, commits nothing and sends nothing; the settings page takes the same request,
  answers 200 and commits the five settings of the form.
\<close>

theorem csrf_guards_api_only:
  assumes "wf_db (w_committed w)" and "canonical_users env (w_committed w)"
    and "cookie_session env (w_committed w) (clock env (w_tick w) + w_slept w) rq = Some su"
    and "\<nexists>t. opens_session env rq (fst su) t"
  shows "(csrf_endpoint ep \<longrightarrow>
     wp (handle_request env rq ep) (\<lambda>r v. rs_status r = 403 \<and> unchanged w v) (\<lambda>_ _. False) w) \<and>
   wp (handle_request env rq (WebSettingsPost f))
     (\<lambda>r v. rs_status r = 200 \<and> stored_setting (w_committed v) = form_settings f (stored_setting (w_committed w)))
     (\<lambda>_ _. False) w"
proof
  let ?w = "w\<lparr>w_db := w_committed w, w_dead := False\<rparr>"
  have start: "good_start env ?w" using assms by (simp add: good_start_def)
  show "csrf_endpoint ep \<longrightarrow> wp (handle_request env rq ep) (\<lambda>r v. rs_status r = 403 \<and> unchanged w v) (\<lambda>_ _. False) w"
  proof
    assume "csrf_endpoint ep"
    from wp_csrf_endpoint_forged [OF this wp_csrf_guard_forged [OF start, of rq su]] assms(3,4)
    have "wp (run_endpoint env rq ep) (\<lambda>_ _. False) (forged ?w) ?w" by simp
    then show "wp (handle_request env rq ep) (\<lambda>r v. rs_status r = 403 \<and> unchanged w v) (\<lambda>_ _. False) w"
      unfolding handle_request_def get_db_session_def wp_catch wp_bind wp_then wp_modify
      by (rule wp_mono) (auto simp: forged_def unchanged_def dispatch_def error_response_def)
  qed
  show "wp (handle_request env rq (WebSettingsPost f))
     (\<lambda>r v. rs_status r = 200 \<and> stored_setting (w_committed v) = form_settings f (stored_setting (w_committed w)))
     (\<lambda>_ _. False) w"
  proof (rule wp_page_committed)
    show "wp (settings_post env rq f)
      (\<lambda>r v. ((\<exists>shown csrf. r = Html 200 (SettingsPage shown csrf True)) \<and>
         stored_setting (w_db v) = form_settings f (stored_setting (w_committed w))) \<and> \<not> w_dead v) (\<lambda>_ _. False) ?w"
      by (rule wp_mono [OF wp_settings_post]) (use assms in auto)
  qed (auto simp: dispatch_def web_status_def)
qed

text \<open>A request with the cookie of the example's session and no token.\<close>

theorem csrf_guards_api_only_witness:
  "wp (handle_request demo_env demo_request (ApiDeleteMachine uuid_a))
     (\<lambda>r v. rs_status r = 403 \<and> w_committed v = demo_db_auth) (\<lambda>_ _. False) (world_of demo_db_auth 0) \<and>
   wp (handle_request demo_env demo_request (WebSettingsPost \<lparr>sf_wake_interface = ''eth9'', sf_default_wake_strategy = ''etherwake'',
        sf_default_poll_timeout_s = 1, sf_allow_api_tokens = ''1'', sf_session_lifetime_hours = 24\<rparr>))
     (\<lambda>r v. rs_status r = 200 \<and> stored_setting (w_committed v) ''wake_interface'' = Some (JStr ''eth9''))
     (\<lambda>_ _. False) (world_of demo_db_auth 0)"
proof -
  have "cookie_session demo_env demo_db_auth 0 demo_request = Some (session_to_record demo_session, demo_user)"
    by (simp add: cookie_session_def demo_request_def session_of_def seconds_def)
  moreover have "\<not> opens_session demo_env demo_request s t" for s t
    by (simp add: opens_session_def csrf_token_of_def demo_request_def)
  ultimately have applied: "(csrf_endpoint ep \<longrightarrow>
     wp (handle_request demo_env demo_request ep) (\<lambda>r v. rs_status r = 403 \<and> unchanged (world_of demo_db_auth 0) v)
       (\<lambda>_ _. False) (world_of demo_db_auth 0)) \<and>
   wp (handle_request demo_env demo_request (WebSettingsPost f))
     (\<lambda>r v. rs_status r = 200 \<and> stored_setting (w_committed v) = form_settings f (stored_setting demo_db_auth))
     (\<lambda>_ _. False) (world_of demo_db_auth 0)" for ep f
    using csrf_guards_api_only [of "world_of demo_db_auth 0" demo_env demo_request _ ep f] by simp
  have "csrf_endpoint (ApiDeleteMachine uuid_a)" by simp
  with applied have "wp (handle_request demo_env demo_request (ApiDeleteMachine uuid_a))
      (\<lambda>r v. rs_status r = 403 \<and> unchanged (world_of demo_db_auth 0) v) (\<lambda>_ _. False) (world_of demo_db_auth 0)"
    by blast
  then show ?thesis
    by (intro conjI)
      (erule wp_mono, simp_all add: unchanged_def, rule wp_mono [OF conjunct2 [OF applied]], simp_all add: form_settings_def)
qed

end
