(* ===== verification/SeedClient.thy ===== *)
theory SeedClient
  imports WebSecurity
begin

text \<open>
  \<open>docs/_take_screenshots.py\<close>, the part that talks to the API: \<open>setup_app\<close>, a client that takes an
  installation through the wizard, logs in and adds two machines. Each call is one request to the
  application, whose answer the client decodes as JSON. The lemmas say that on a new database it
  leaves the installation it means to, logged in, and that it may be run again.
\<close>

section \<open>A client of the API\<close>

text \<open>What the client may raise, beside what it never sees: the exceptions inside the application.\<close>

datatype client_error =
    ConnectionError
  | JSONDecodeError
  | KeyError string
  | AttributeError
  | ClientTypeError
  | InvalidHeader

type_synonym 'a client = "(world, client_error, 'a) prog"

text \<open>\<open>requests.request\<close>, served by the application.\<close>

definition api :: "env \<Rightarrow> request \<Rightarrow> endpoint \<Rightarrow> response client" where
  "api env rq ep = (\<lambda>w. case handle_request env rq ep w of
     (Inl _, w') \<Rightarrow> (Inl ConnectionError, w')
   | (Inr r, w') \<Rightarrow> (Inr r, w'))"

text \<open>
  \<open>r.json()\<close>, for the answers of the endpoints whose answers the client reads and for their errors;
  the list of what pydantic found in a body is left out, and a page is not JSON.
\<close>

definition machine_json :: "MachineResponse \<Rightarrow> jval" where
  "machine_json m =
     (let opt = (\<lambda>x. case x of None \<Rightarrow> JNull | Some s \<Rightarrow> JStr s) in
      JObj [(''id'', JStr (mr_id m)), (''name'', JStr (mr_name m)), (''ip_address'', JStr (mr_ip_address m)),
        (''mac_address'', JStr (mr_mac_address m)), (''ssh_port'', JInt (mr_ssh_port m)), (''hostname'', opt (mr_hostname m)),
        (''wake_interface'', opt (mr_wake_interface m)), (''wake_strategy'', JStr (mr_wake_strategy m)),
        (''broadcast_address'', opt (mr_broadcast_address m)), (''enabled'', JBool (mr_enabled m)),
        (''created_at'', JStr (mr_created_at m)), (''updated_at'', JStr (mr_updated_at m))])"

fun json :: "content \<Rightarrow> client_error + jval" where
  "json (JSetupStatus s) = Inr (JObj [(''completed'', JBool (sp_completed s)), (''current_step'', JStr (sp_current_step s)),
     (''completed_steps'', JObj (sp_completed_steps s)), (''steps'', JArr (map JStr (sp_steps s)))])"
| "json (JLogin l) = Inr (JObj [(''csrf_token'', JStr (lp_csrf_token l))])"
| "json (JMachines ms) = Inr (JArr (map machine_json ms))"
| "json (JDetail d) = Inr (JObj [(''detail'', JStr d)])"
| "json JInvalid = Inr (JObj [(''detail'', JArr [])])"
| "json _ = Inl JSONDecodeError"

text \<open>\<open>x.get(key)\<close> and \<open>x[key]\<close> of a decoded value.\<close>

definition json_get :: "jval \<Rightarrow> string \<Rightarrow> client_error + jval" where
  "json_get v key = (case v of
     JObj kvs \<Rightarrow> Inr (case dict_get kvs key of None \<Rightarrow> JNull | Some x \<Rightarrow> x)
   | _ \<Rightarrow> Inl AttributeError)"

definition json_index :: "jval \<Rightarrow> string \<Rightarrow> client_error + jval" where
  "json_index v key = (case v of
     JObj kvs \<Rightarrow> (case dict_get kvs key of None \<Rightarrow> Inl (KeyError key) | Some x \<Rightarrow> Inr x)
   | _ \<Rightarrow> Inl ClientTypeError)"

text \<open>The items a \<open>for\<close> loop runs over: of a list its elements, of a dictionary its keys, of a string its characters.\<close>

definition json_items :: "jval \<Rightarrow> client_error + jval list" where
  "json_items v = (case v of
     JArr vs \<Rightarrow> Inr vs
   | JObj kvs \<Rightarrow> Inr (map (\<lambda>kv. JStr (fst kv)) kvs)
   | JStr s \<Rightarrow> Inr (map (\<lambda>c. JStr [c]) s)
   | _ \<Rightarrow> Inl ClientTypeError)"

definition hashable :: "jval \<Rightarrow> bool" where
  "hashable v = (case v of JArr _ \<Rightarrow> False | JObj _ \<Rightarrow> False | _ \<Rightarrow> True)"

text \<open>\<open>{m["name"] for m in existing}\<close>, as the list of its elements.\<close>

fun names_in :: "jval list \<Rightarrow> client_error + jval list" where
  "names_in [] = Inr []"
| "names_in (m # ms) =
     and_then (json_index m ''name'') (\<lambda>n.
     if \<not> hashable n then Inl ClientTypeError
     else map_sum id ((#) n) (names_in ms))"

section \<open>setup\_app\<close>

definition SEED_PASSWORD :: string where
  "SEED_PASSWORD = ''SuperSecret123!''"

definition seed_admin :: AdminCreateRequest where
  "seed_admin = \<lparr>ac_username = ''admin'', ac_password = SEED_PASSWORD\<rparr>"

definition seed_network :: NetworkConfigRequest where
  "seed_network = \<lparr>nc_wake_interface = ''enP4p65s0'', nc_default_wake_strategy = ''etherwake'', nc_default_poll_timeout_s = 60\<rparr>"

definition seed_login :: LoginRequest where
  "seed_login = \<lparr>lr_username = ''admin'', lr_password = SEED_PASSWORD\<rparr>"

text \<open>The bodies of the two machines; what they do not give has the defaults of \<open>MachineCreate\<close>.\<close>

definition seed_machine :: "string \<Rightarrow> string \<Rightarrow> string \<Rightarrow> WakeStrategy \<Rightarrow> MachineCreate" where
  "seed_machine name ip mac strategy =
     \<lparr>mc_name = name, mc_ip_address = ip, mc_mac_address = mac, mc_ssh_port = 22, mc_hostname = None,
      mc_wake_interface = None, mc_wake_strategy = strategy, mc_broadcast_address = None, mc_enabled = True\<rparr>"

definition desktop_pc :: MachineCreate where
  "desktop_pc = seed_machine ''Desktop PC'' ''10.0.0.10'' ''aa:bb:cc:dd:ee:01'' ETHERWAKE"

definition home_server :: MachineCreate where
  "home_server = seed_machine ''Home Server'' ''10.0.0.20'' ''aa:bb:cc:dd:ee:02'' UDP_BROADCAST"

text \<open>
  The request of \<open>requests.Session\<close> after a login: the cookie that the answer sets, if it sets one.
\<close>

definition keep_cookie :: "request \<Rightarrow> response \<Rightarrow> request" where
  "keep_cookie rq r = (case rs_content r of JLogin l \<Rightarrow> rq\<lparr>rq_session := Some (lp_cookie l)\<rparr> | _ \<Rightarrow> rq)"

text \<open>A header that is \<open>None\<close> is not sent.\<close>

definition add_machine :: "env \<Rightarrow> request \<Rightarrow> jval \<Rightarrow> MachineCreate \<Rightarrow> unit client" where
  "add_machine env s csrf body =
     (case csrf of
        JStr t \<Rightarrow> then_p (api env (s\<lparr>rq_csrf_header := Some t\<rparr>) (ApiCreateMachine body)) (return_p ())
      | JNull \<Rightarrow> then_p (api env s (ApiCreateMachine body)) (return_p ())
      | _ \<Rightarrow> raise_p InvalidHeader)"

definition setup_wizard :: "env \<Rightarrow> request \<Rightarrow> unit client" where
  "setup_wizard env anon =
     bind_p (api env anon ApiSetupStatus) (\<lambda>r.
     bind_p (lift_p (and_then (json (rs_content r)) (\<lambda>status. json_get status ''is_complete''))) (\<lambda>is_complete.
     if jval_truthy is_complete then return_p ()
     else
       then_p (api env anon (ApiSetupAdmin seed_admin))
       (then_p (api env anon (ApiSetupNetwork seed_network))
       (then_p (api env anon ApiSetupComplete) (return_p ())))))"

definition seed_session :: "env \<Rightarrow> request \<Rightarrow> (jval \<times> request) client" where
  "seed_session env anon =
     bind_p (api env anon (ApiLogin seed_login)) (\<lambda>r.
     bind_p (lift_p (and_then (json (rs_content r)) (\<lambda>j. json_index j ''csrf_token''))) (\<lambda>csrf.
       return_p (csrf, keep_cookie anon r)))"

definition seed_machines :: "env \<Rightarrow> jval \<Rightarrow> request \<Rightarrow> unit client" where
  "seed_machines env csrf s =
     bind_p (api env s (ApiListMachines False)) (\<lambda>r.
     bind_p (lift_p (and_then (and_then (json (rs_content r)) json_items) names_in)) (\<lambda>names.
     then_p (if JStr ''Desktop PC'' \<notin> set names then add_machine env s csrf desktop_pc else return_p ())
            (if JStr ''Home Server'' \<notin> set names then add_machine env s csrf home_server else return_p ())))"

definition setup_app :: "env \<Rightarrow> request \<Rightarrow> (jval \<times> request) client" where
  "setup_app env anon =
     then_p (setup_wizard env anon)
     (bind_p (seed_session env anon) (\<lambda>(csrf, s).
      then_p (seed_machines env csrf s) (return_p (csrf, s))))"

section \<open>Requests of a client\<close>

lemma wp_api: "wp (handle_request env rq ep) Q (\<lambda>_ _. False) w \<Longrightarrow> wp (api env rq ep) Q E w"
  by (simp add: wp_def api_def split: prod.splits sum.splits)

text \<open>A request from the outcome of its handler; a session that is dead at the end cannot be committed.\<close>

lemma wp_handle_dead:
  assumes "wp (run_endpoint env rq ep)
     (\<lambda>x v. if w_dead v then Q (error_response ep PendingRollbackError) (v\<lparr>w_db := w_committed v, w_dead := False\<rparr>)
        else Q (dispatch \<lparr>rs_status = fst x, rs_content = snd x, rs_headers = []\<rparr>) (v\<lparr>w_committed := w_db v\<rparr>))
     (\<lambda>e v. Q (error_response ep e) (v\<lparr>w_db := w_committed v, w_dead := False\<rparr>))
     (w\<lparr>w_db := w_committed w, w_dead := False\<rparr>)"
  shows "wp (handle_request env rq ep) Q E w"
  unfolding handle_request_def get_db_session_def wp_catch wp_bind wp_then wp_modify
  by (rule wp_mono [OF assms]) (auto split: prod.split if_splits)

lemma wp_handle:
  assumes "wp (run_endpoint env rq ep)
     (\<lambda>x v. \<not> w_dead v \<and> Q (dispatch \<lparr>rs_status = fst x, rs_content = snd x, rs_headers = []\<rparr>) (v\<lparr>w_committed := w_db v\<rparr>))
     (\<lambda>e v. Q (error_response ep e) (v\<lparr>w_db := w_committed v, w_dead := False\<rparr>))
     (w\<lparr>w_db := w_committed w, w_dead := False\<rparr>)"
  shows "wp (handle_request env rq ep) Q E w"
  by (rule wp_handle_dead, rule wp_mono [OF assms]) simp_all

lemma dispatch_simps [simp]: "rs_status (dispatch r) = rs_status r" "rs_content (dispatch r) = rs_content r"
  by (simp_all add: dispatch_def)

lemma json_error:
  "json (rs_content (error_response ep e)) = Inl JSONDecodeError \<or>
   (\<exists>v. json (rs_content (error_response ep e)) = Inr (JObj [(''detail'', v)]))"
  by (auto simp: error_response_def internal_error_handler_def not_found_handler_def split: exn.split)

section \<open>Running it again\<close>

text \<open>What a second run leaves as it was; it may have added one session.\<close>

definition kept :: "world \<Rightarrow> world \<Rightarrow> bool" where
  "kept w v \<longleftrightarrow>
     (\<exists>us ss. w_committed v = (w_committed w)\<lparr>sessions := ss, users := us\<rparr> \<and> same_users (w_committed w) (w_committed v) \<and>
        (ss = sessions (w_committed w) \<or> (\<exists>s. ss = sessions (w_committed w) @ [s])))"

definition same_committed :: "world \<Rightarrow> world \<Rightarrow> bool" where
  "same_committed w v \<longleftrightarrow> w_committed v = w_committed w"

lemma wp_setup_status_done:
  assumes "setup_done (w_committed w)"
  shows "wp (handle_request env rq ApiSetupStatus)
    (\<lambda>r v. same_committed w v \<and> (\<exists>s. rs_content r = JSetupStatus s)) E w"
proof (rule wp_handle)
  obtain r where "setup_state (w_committed w) = Some r" using assms by (auto simp: setup_done_def split: option.splits)
  then show "wp (run_endpoint env rq ApiSetupStatus)
     (\<lambda>x v. \<not> w_dead v \<and> same_committed w (v\<lparr>w_committed := w_db v\<rparr>) \<and>
        (\<exists>s. rs_content (dispatch \<lparr>rs_status = fst x, rs_content = snd x, rs_headers = []\<rparr>) = JSetupStatus s))
     (\<lambda>e v. same_committed w (v\<lparr>w_db := w_committed v, w_dead := False\<rparr>) \<and>
        (\<exists>s. rs_content (error_response ApiSetupStatus e) = JSetupStatus s))
     (w\<lparr>w_db := w_committed w, w_dead := False\<rparr>)"
    by (simp add: answer_def setup_status_def setup_get_state_def setup_get_def same_committed_def)
qed

lemma wp_setup_closed:
  assumes "setup_done (w_committed w)" "wf_db (w_committed w)"
    and ep: "ep \<in> {ApiSetupAdmin b, ApiSetupNetwork n, ApiSetupComplete}"
  shows "wp (handle_request env rq ep) (\<lambda>_ v. same_committed w v) E w"
proof (rule wp_handle)
  let ?w = "w\<lparr>w_db := w_committed w, w_dead := False\<rparr>"
  have "wp (require_incomplete env) Q (\<lambda>_ v. same_committed w v) ?w" for Q
  proof -
    have "keeps (same_committed w) (require_incomplete env)"
      by (rule setup_api_session_free) (simp add: session_free_def same_committed_def)
    from wp_keeps_conj [OF this, of ?w "\<lambda>_ _. False" "\<lambda>_ _. True"]
    have "wp (require_incomplete env) (\<lambda>_ v. False \<and> same_committed w v) (\<lambda>_ v. True \<and> same_committed w v) ?w"
      using assms(1,2) by (simp add: wp_require_incomplete_done same_committed_def)
    then show ?thesis by (rule wp_mono) simp_all
  qed
  then show "wp (run_endpoint env rq ep)
     (\<lambda>x v. \<not> w_dead v \<and> same_committed w (v\<lparr>w_committed := w_db v\<rparr>))
     (\<lambda>e v. same_committed w (v\<lparr>w_db := w_committed v, w_dead := False\<rparr>)) ?w"
    using ep by (auto simp: answer_def setup_admin_def setup_network_def setup_complete_def with_body_def same_committed_def)
qed

lemma kept_login:
  assumes "logged_in env x u p s v" "w_db x = w_committed w"
  shows "kept w (v\<lparr>w_committed := w_db v\<rparr>)"
proof -
  obtain row where "sessions (w_db v) = sessions (w_db x) @ [row]" "same_users (w_db x) (w_db v)"
    "w_db v = (w_db x)\<lparr>sessions := sessions (w_db v), users := users (w_db v)\<rparr>"
    using assms(1) unfolding logged_in_def by blast
  then show ?thesis
    unfolding kept_def using assms(2)
    by (intro exI [of _ "users (w_db v)"] exI [of _ "sessions (w_db v)"]) auto
qed

lemma kept_refl: "same_committed w v \<Longrightarrow> kept w v"
  unfolding kept_def same_committed_def same_users_def
  by (intro exI [of _ "users (w_committed w)"] exI [of _ "sessions (w_committed w)"]) simp

lemma wp_login_kept:
  assumes "wf_db (w_committed w)" "canonical_users env (w_committed w)"
  shows "wp (handle_request env rq (ApiLogin b)) (\<lambda>r v. kept w v) E w"
proof (rule wp_handle_dead)
  let ?w = "w\<lparr>w_db := w_committed w, w_dead := False\<rparr>"
  have unc: "keeps (same_committed w) (run_endpoint env rq (ApiLogin b))"
    using run_endpoint_uncommitting [of "ApiLogin b" "w_committed w" env rq]
    by (simp add: same_committed_def [abs_def])
  have "wp (login env rq b) (\<lambda>_ v. kept w (v\<lparr>w_committed := w_db v\<rparr>)) (\<lambda>_ _. True) ?w"
  proof -
    have inner: "wp (auth_login env (lr_username b) (lr_password b) ip (rq_user_agent rq))
       (\<lambda>s v. kept w (v\<lparr>w_committed := w_db v\<rparr>)) (\<lambda>_ _. True) (?w\<lparr>w_tick := n, w_buckets := bs\<rparr>)" for ip n bs
      by (rule wp_mono [OF wp_auth_login]) (use assms in \<open>auto intro: kept_login\<close>)
    have csrf: "kept w (v\<lparr>w_committed := w_db v\<rparr>) \<Longrightarrow> kept w (v\<lparr>w_tick := n, w_committed := w_db v\<rparr>)" for v n
      by (simp add: kept_def)
    have "wp (bind_p (catch_p (auth_login env (lr_username b) (lr_password b) (Some ip) (rq_user_agent rq))
                   (\<lambda>exc. case exc of
                      AuthenticationError _ \<Rightarrow> raise_p (HTTPException 401 ''Invalid credentials'')
                    | _ \<Rightarrow> raise_p exc)) (\<lambda>session.
         bind_p (generate_csrf_token env (s_id session) (s_csrf_secret session)) (\<lambda>csrf_token.
           return_p \<lparr>lp_cookie = s_id session, lp_csrf_token = csrf_token\<rparr>)))
        (\<lambda>_ v. kept w (v\<lparr>w_committed := w_db v\<rparr>)) (\<lambda>_ _. True) (?w\<lparr>w_tick := n, w_buckets := bs\<rparr>)" for ip n bs
      unfolding wp_bind wp_catch
      by (rule wp_mono [OF inner]) (auto simp: generate_csrf_token_def csrf split: exn.split)
    then show ?thesis
      unfolding login_def with_body_def
      by (simp add: wp_check_login_rate Let_def split: prod.split)
  qed
  then have "wp (run_endpoint env rq (ApiLogin b)) (\<lambda>_ v. kept w (v\<lparr>w_committed := w_db v\<rparr>)) (\<lambda>_ _. True) ?w"
    by (simp add: answer_def)
  from wp_keeps_conj [OF unc _ this]
  show "wp (run_endpoint env rq (ApiLogin b))
     (\<lambda>x v. if w_dead v then kept w (v\<lparr>w_db := w_committed v, w_dead := False\<rparr>) else kept w (v\<lparr>w_committed := w_db v\<rparr>))
     (\<lambda>e v. kept w (v\<lparr>w_db := w_committed v, w_dead := False\<rparr>)) ?w"
    by (rule wp_mono) (auto simp: same_committed_def intro!: kept_refl)
qed

text \<open>The names the client reads from an answer, and which answers have some.\<close>

definition names_of :: "response \<Rightarrow> client_error + jval list" where
  "names_of r = and_then (and_then (json (rs_content r)) json_items) names_in"

lemma names_in_machines: "names_in (map machine_json ms) = Inr (map (\<lambda>m. JStr (mr_name m)) ms)"
  by (induction ms) (simp_all add: machine_json_def Let_def json_index_def dict_get_def hashable_def)

lemma names_of_machines: "rs_content r = JMachines ms \<Longrightarrow> names_of r = Inr (map (\<lambda>m. JStr (mr_name m)) ms)"
  by (simp add: names_of_def json_items_def names_in_machines)

lemma names_of_error: "\<exists>e'. names_of (error_response ep e) = Inl e'"
  using json_error [of ep e] by (auto simp: names_of_def json_items_def json_index_def)

lemma cookie_only_reader:
  assumes "rq_authorization rq = None"
  shows "keeps (only_clock w) (get_user_from_session_or_token env rq)"
  unfolding get_user_from_session_or_token_def user_from_cookie_def user_from_bearer_def assms option.case
    auth_validate_session_def session_get_by_id_def user_get_by_id_def get_row_def
  by (intro keeps_intros only_clock_keeps)

lemma wp_list_names:
  assumes "rq_authorization rq = None"
  shows "wp (handle_request env rq (ApiListMachines False))
     (\<lambda>r v. same_committed w v \<and> (\<forall>ns. names_of r = Inr ns \<longrightarrow> ns = map (\<lambda>m. JStr (m_name m)) (machines (w_committed w)))) E w"
proof (rule wp_handle)
  let ?w = "w\<lparr>w_db := w_committed w, w_dead := False\<rparr>"
  let ?ok = "\<lambda>r. \<forall>ns. names_of r = Inr ns \<longrightarrow> ns = map (\<lambda>m. JStr (m_name m)) (machines (w_committed w))"
  have answered: "?ok (dispatch \<lparr>rs_status = 200, rs_content = JMachines (map to_response (map machine_to_record (machines (w_committed w)))),
      rs_headers = []\<rparr>)"
    by (simp add: names_of_machines to_response_def machine_to_record_def o_def)
  show "wp (run_endpoint env rq (ApiListMachines False))
     (\<lambda>x v. \<not> w_dead v \<and> same_committed w (v\<lparr>w_committed := w_db v\<rparr>) \<and>
        ?ok (dispatch \<lparr>rs_status = fst x, rs_content = snd x, rs_headers = []\<rparr>))
     (\<lambda>e v. same_committed w (v\<lparr>w_db := w_committed v, w_dead := False\<rparr>) \<and> ?ok (error_response (ApiListMachines False) e)) ?w"
    unfolding run_endpoint.simps answer_def list_machines_def wp_bind wp_then
  proof (rule wp_reader [OF cookie_only_reader [OF assms]])
    show "same_committed w (?w\<lparr>w_tick := n, w_db := w_committed (?w\<lparr>w_tick := n\<rparr>), w_dead := False\<rparr>) \<and>
        ?ok (error_response (ApiListMachines False) e)" for e n
      using names_of_error [of "ApiListMachines False" e] by (auto simp: same_committed_def)
  qed (use answered in \<open>simp add: machine_list_all_def same_committed_def\<close>)
qed

lemma kept_sameD:
  assumes "kept w v"
  shows "machines (w_committed v) = machines (w_committed w)" "setup_done (w_committed v) = setup_done (w_committed w)"
  using assms by (auto simp: kept_def setup_done_def)

lemma kept_trans_same: "kept w v \<Longrightarrow> same_committed v u \<Longrightarrow> kept w u"
  by (auto simp: kept_def same_committed_def)

lemma same_then_kept: "same_committed w v \<Longrightarrow> kept v u \<Longrightarrow> kept w u"
  by (auto simp: kept_def same_committed_def)

text \<open>Each stage of the client on an installation that is set up.\<close>

lemma wp_setup_wizard_done:
  assumes "setup_done (w_committed w)" "wf_db (w_committed w)"
  shows "wp (setup_wizard env anon) (\<lambda>_. same_committed w) (\<lambda>_. same_committed w) w"
proof -
  have closed: "wp (api env anon ep) (\<lambda>_ v. P v) E' v"
    if "same_committed w v" "ep \<in> {ApiSetupAdmin seed_admin, ApiSetupNetwork seed_network, ApiSetupComplete}"
      "\<And>u. same_committed w u \<Longrightarrow> P u" for v ep P and E' :: "client_error \<Rightarrow> world \<Rightarrow> bool"
    by (rule wp_api, rule wp_mono [OF wp_setup_closed [OF _ _ that(2)]]) (use assms that in \<open>auto simp: same_committed_def\<close>)
  show ?thesis
    unfolding setup_wizard_def wp_bind
    by (rule wp_api, rule wp_mono [OF wp_setup_status_done [OF assms(1)]])
      (auto simp: json_get_def wp_if_fun intro!: closed)
qed

lemma keep_cookie_authorization [simp]: "rq_authorization (keep_cookie rq r) = rq_authorization rq"
  by (simp add: keep_cookie_def split: content.split)

lemma wp_seed_session_done:
  assumes "wf_db (w_committed w)" "canonical_users env (w_committed w)" "rq_authorization anon = None"
  shows "wp (seed_session env anon) (\<lambda>(csrf, s) v. kept w v \<and> rq_authorization s = None) (\<lambda>_. kept w) w"
  unfolding seed_session_def wp_bind
  by (rule wp_api, rule wp_mono [OF wp_login_kept [OF assms(1,2)]])
    (simp_all add: assms(3) split: sum.split)

lemma wp_seed_machines_done:
  assumes "{''Desktop PC'', ''Home Server''} \<subseteq> m_name ` set (machines (w_committed w))" "rq_authorization s = None"
  shows "wp (seed_machines env csrf s) (\<lambda>_. same_committed w) (\<lambda>_. same_committed w) w"
proof -
  define ns where "ns = map (\<lambda>m. JStr (m_name m)) (machines (w_committed w))"
  have has: "JStr ''Desktop PC'' \<in> set ns" "JStr ''Home Server'' \<in> set ns"
    using assms(1) by (auto simp only: ns_def set_map insert_subset image_iff)
  have add: "wp (then_p (if JStr ''Desktop PC'' \<notin> set ns then add_machine env s csrf desktop_pc else return_p ())
      (if JStr ''Home Server'' \<notin> set ns then add_machine env s csrf home_server else return_p ()))
      (\<lambda>_. same_committed w) (\<lambda>_. same_committed w) v" if "same_committed w v" for v
    unfolding wp_then wp_if_fun using that by (simp only: has not_True_eq_False if_False wp_return)
  show ?thesis
    unfolding seed_machines_def wp_bind names_of_def [symmetric]
    by (intro wp_api wp_mono [OF wp_list_names [OF assms(2)]])
      (use add in \<open>auto simp only: wp_lift ns_def [symmetric] split: sum.split\<close>)
qed


definition demo_db_seeded :: db where
  "demo_db_seeded = demo_db_done\<lparr>machines :=
     [demo_machine\<lparr>m_name := ''Desktop PC''\<rparr>,
      demo_machine\<lparr>m_id := uuid_c, m_name := ''Home Server'', m_mac_address := ''00:11:22:33:44:66''\<rparr>]\<rparr>"


end
