(* ===== verification/SeedRun.thy ===== *)
theory SeedRun
  imports SeedClient
begin

text \<open>
  A first run of \<open>setup_app\<close>, request by request: on a new database each of the nine requests does what
  the script expects of it. Every request is followed exactly, down to the readings of the clock and
  of the random source it makes, since the session, the CSRF token and the ids of a later request
  depend on those of an earlier one. The rules for a request with a live session serve other
  journeys too.
\<close>

section \<open>The wizard\<close>

text \<open>A number of readings later, with nothing slept and no login counted.\<close>

definition at_tick :: "world \<Rightarrow> nat \<Rightarrow> world \<Rightarrow> bool" where
  "at_tick w n v \<longleftrightarrow> w_tick v = w_tick w + n \<and> w_slept v = w_slept w \<and> w_buckets v = w_buckets w"

definition wizard_open :: "SetupStateRecord \<Rightarrow> bool" where
  "wizard_open r \<longleftrightarrow> \<not> ss_completed r \<and> ss_id r = 1"

lemma seed_status:
  assumes "w_committed w = empty_db"
  shows "wp (handle_request env rq ApiSetupStatus)
     (\<lambda>r v. (\<exists>row. w_committed v = empty_db\<lparr>setup_state := Some row\<rparr> \<and> wizard_open row) \<and>
        at_tick w 1 v \<and> (\<exists>s. rs_content r = JSetupStatus s)) E w"
  by (rule wp_handle)
    (simp add: assms answer_def setup_status_def setup_get_state_def setup_get_def empty_db_def write_setup_def
      default_setup_row_def varchar_def at_tick_def wizard_open_def)

lemma wp_advance_row:
  assumes "\<not> w_dead w" "setup_state (w_db w) = Some r" "ss_id r = 1" "step \<in> set WIZARD_STEPS"
    and "\<And>row. ss_id row = 1 \<Longrightarrow> ss_completed row = (step = ''complete'') \<Longrightarrow>
      Q () (w\<lparr>w_tick := Suc (w_tick w), w_db := (w_db w)\<lparr>setup_state := Some row\<rparr>\<rparr>)"
  shows "wp (setup_advance env step) Q E w"
proof -
  have stored: "wp (then_p (setup_update env (step = ''complete'') st cs) (return_p ())) Q E w" if st: "length st \<le> 50" for st cs
  proof -
    let ?new = "r\<lparr>ss_completed := (step = ''complete''), ss_current_step := st, ss_completed_steps := cs\<rparr>"
    show ?thesis
    proof (cases "?new = r")
      case True
      have "ss_completed r = (step = ''complete'')" "length (ss_current_step r) \<le> 50"
        using st arg_cong [OF True, of ss_completed] arg_cong [OF True, of ss_current_step] by simp_all
      with assms(1-3,5) True show ?thesis
        by (simp add: setup_update_def write_setup_def varchar_def Let_def)
    next
      case False
      with assms(1-3,5) st show ?thesis
        by (simp add: setup_update_def write_setup_def varchar_def Let_def eq_commute [of r])
    qed
  qed
  have "length (case index_of step WIZARD_STEPS of None \<Rightarrow> step
      | Some idx \<Rightarrow> if idx + 1 < length WIZARD_STEPS then WIZARD_STEPS ! (idx + 1) else step) \<le> 50"
    using wizard_step_length [OF assms(4)] steps_nth_length by (auto split: option.split)
  then show ?thesis
    using stored [of _ "dict_set (ss_completed_steps r) step (JBool True)"] wizard_step_length [OF assms(4)] assms(1,2)
    by (cases "step = ''complete''") (simp_all add: setup_advance_def setup_get_def setup_to_record_def Let_def)
qed

lemma in_wizard [simp]: "''admin_account'' \<in> set WIZARD_STEPS" "''network'' \<in> set WIZARD_STEPS" "''complete'' \<in> set WIZARD_STEPS"
  by (simp_all add: WIZARD_STEPS_def)

lemma wp_incomplete:
  assumes "\<not> w_dead w" "setup_state (w_db w) = Some r" "wizard_open r" "Q () w"
  shows "wp (require_incomplete env) Q E w"
  using assms by (simp add: require_incomplete_def setup_is_complete_def setup_get_def setup_to_record_def wizard_open_def)

lemma wp_create_first_admin:
  assumes "\<not> w_dead w" "users (w_db w) = []" "pg_uuid env (uuid4 env (Suc (w_tick w))) = Some i" "length name \<le> 150"
    and "\<And>u. u_id u = i \<Longrightarrow> u_username u = name \<Longrightarrow> u_role u = ''admin'' \<Longrightarrow> u_password_hash u = ph_hash env p (w_tick w) \<Longrightarrow>
      Q u (w\<lparr>w_tick := w_tick w + 3, w_db := (w_db w)\<lparr>users := [u]\<rparr>\<rparr>)"
  shows "wp (auth_create_admin env name p) Q E w"
  using assms
  by (simp add: auth_create_admin_def auth_admin_exists_def user_count_def hash_password_def user_create_def insert_user_def
      user_to_record_def varchar_def and_then_def uuid_param_def conv_def check_def Let_def numeral_3_eq_3)

lemma wp_with_body: "ok \<Longrightarrow> wp m Q E w \<Longrightarrow> wp (with_body ok m) Q E w"
  by (simp add: with_body_def)

lemma seed_bodies [simp]:
  "admin_request_ok seed_admin" "ac_username seed_admin = ''admin''" "ac_password seed_admin = SEED_PASSWORD"
  "login_request_ok seed_login" "lr_username seed_login = ''admin''" "lr_password seed_login = SEED_PASSWORD"
  "network_request_ok seed_network"
  by (simp_all add: admin_request_ok_def seed_admin_def SEED_PASSWORD_def len_between_def login_request_ok_def seed_login_def
      network_request_ok_def seed_network_def)

lemma seed_admin_created:
  assumes "users (w_committed w) = []" "setup_state (w_committed w) = Some r" "wizard_open r"
    and "pg_uuid env (uuid4 env (Suc (w_tick w))) = Some i"
  shows "wp (handle_request env rq (ApiSetupAdmin seed_admin))
     (\<lambda>_ v. (\<exists>u row. w_committed v = (w_committed w)\<lparr>users := [u], setup_state := Some row\<rparr> \<and> wizard_open row \<and>
         u_id u = i \<and> u_username u = ''admin'' \<and> u_role u = ''admin'' \<and> u_password_hash u = ph_hash env SEED_PASSWORD (w_tick w)) \<and>
        at_tick w 4 v) E w"
proof (rule wp_handle, goal_cases)
  case 1
  show ?case
    unfolding run_endpoint.simps answer_def setup_admin_def seed_bodies(2,3) wp_bind wp_then wp_catch wp_return
  proof (rule wp_with_body [OF seed_bodies(1)], unfold wp_bind wp_then wp_catch wp_return, rule wp_incomplete [where r = r], goal_cases)
    case 4
    show ?case
    proof (rule wp_create_first_admin [where i = i], goal_cases)
      case (5 u)
      then show ?case
        by (intro wp_advance_row [where r = r]) (use assms(2,3) in \<open>auto simp: wizard_open_def at_tick_def\<close>)
    qed (use assms in simp_all)
  qed (use assms in simp_all)
qed

lemma seed_network_stored:
  assumes "setup_state (w_committed w) = Some r" "wizard_open r"
  shows "wp (handle_request env rq (ApiSetupNetwork seed_network))
     (\<lambda>_ v. (\<exists>s row. w_committed v = (w_committed w)\<lparr>settings := s, setup_state := Some row\<rparr> \<and> wizard_open row \<and>
         stored_setting (w_committed v) = network_settings ''enP4p65s0'' ''etherwake'' 60 (stored_setting (w_committed w))) \<and>
        at_tick w 4 v) E w"
proof (rule wp_handle, goal_cases)
  case 1
  show ?case
    unfolding run_endpoint.simps answer_def setup_network_def wp_bind wp_then wp_return
  proof (rule wp_with_body [OF seed_bodies(7)], unfold wp_then, rule wp_incomplete [where r = r], goal_cases)
    case 4
    show ?case
      unfolding wp_then [symmetric]
    proof (intro wp_settings_then, goal_cases)
      case (7 s1 s2 s3)
      then show ?case
        by (intro wp_advance_row [where r = r])
          (use assms in \<open>auto simp: wizard_open_def at_tick_def network_settings_def seed_network_def\<close>)
    qed (use assms in \<open>simp_all add: varchar_def\<close>)
  qed (use assms in simp_all)
qed

lemma seed_completed:
  assumes "setup_state (w_committed w) = Some r" "wizard_open r"
  shows "wp (handle_request env rq ApiSetupComplete)
     (\<lambda>_ v. (\<exists>row. w_committed v = (w_committed w)\<lparr>setup_state := Some row\<rparr> \<and> ss_completed row \<and> ss_id row = 1) \<and>
        at_tick w 1 v) E w"
proof (rule wp_handle, goal_cases)
  case 1
  show ?case
    unfolding run_endpoint.simps answer_def setup_complete_def wp_bind wp_then wp_return
    by (rule wp_incomplete [where r = r], simp_all add: assms, rule wp_advance_row [where r = r])
      (use assms in \<open>auto simp: wizard_open_def at_tick_def\<close>)
qed

section \<open>Logging in\<close>

lemma tick_simps:
  "n + 2 = Suc (Suc n)" "n + 3 = Suc (Suc (Suc n))" "n + 4 = Suc (Suc (Suc (Suc n)))" "n + 5 = Suc (Suc (Suc (Suc (Suc n))))"
  "n + 6 = Suc (Suc (Suc (Suc (Suc (Suc n)))))" "n + 7 = Suc (Suc (Suc (Suc (Suc (Suc (Suc n))))))"
  by simp_all

text \<open>The session a login makes: its columns, and the token the client is answered.\<close>

definition session_row :: "env \<Rightarrow> world \<Rightarrow> string \<Rightarrow> string \<Rightarrow> SessionRecord \<Rightarrow> bool" where
  "session_row env w k uid row \<longleftrightarrow>
     s_id row = k \<and> s_user_id row = uid \<and> s_csrf_secret row = token_hex env 32 (w_tick w + 2) \<and> \<not> s_revoked row \<and>
     s_expires_at row = clock env (w_tick w + 1) + w_slept w + seconds (12 * 3600)"

definition login_answer :: "env \<Rightarrow> world \<Rightarrow> string \<Rightarrow> LoginResponse" where
  "login_answer env w k = \<lparr>lp_cookie = k, lp_csrf_token = its_dumps env (app_secret env) CSRF_SALT
     (csrf_payload k (token_hex env 32 (w_tick w + 2))) (clock env (w_tick w + 6) + w_slept w)\<rparr>"

lemma wp_login_first:
  assumes d: "users (w_committed w) = [u]" "sessions (w_committed w) = []" "u_username u = ''admin''"
      "pg_uuid env (u_id u) = Some (u_id u)"
    and pw: "ph_verify env (u_password_hash u) SEED_PASSWORD = Verified" "\<not> ph_needs_rehash env (u_password_hash u)"
    and id: "pg_uuid env (uuid4 env (w_tick w + 3)) = Some k" and hex: "token_hex_ok env"
    and client: "rq_client rq = Some host" "pg_inet env host = Some ip" "w_buckets w host = []"
  shows "wp (handle_request env rq (ApiLogin seed_login))
     (\<lambda>r v. (\<exists>u' row. w_committed v = (w_committed w)\<lparr>sessions := [row], users := [u']\<rparr> \<and>
         u_id u' = u_id u \<and> u_username u' = u_username u \<and> u_role u' = u_role u \<and> u_password_hash u' = u_password_hash u \<and>
         session_row env w k (u_id u) row) \<and>
        rs_content r = JLogin (login_answer env w k) \<and> w_tick v = w_tick w + 7 \<and> w_slept v = w_slept w) E w"
proof (rule wp_handle, goal_cases)
  case 1
  have rate: "rate_step t [] = (True, [t])" for t
    by (simp add: rate_step_def LOGIN_MAX_ATTEMPTS_def)
  have secret: "length (token_hex env 32 n) \<le> 128" for n using hex by (simp add: token_hex_ok_def)
  show ?case
    unfolding run_endpoint.simps answer_def login_def wp_bind
  proof (rule wp_with_body [OF seed_bodies(4)], goal_cases)
    case 1
    show ?case
      using d pw id client secret
      by (simp add: Let_def wp_check_login_rate rate auth_login_def user_get_by_username_def scalar_one_or_none_def
        verify_password_def auth_rehash_def needs_rehash_def generate_csrf_secret_def session_create_def insert_session_def
        conv_opt_def user_update_last_login_def generate_csrf_token_def varchar_def and_then_def uuid_param_def conv_def check_def
        session_row_def login_answer_def tick_simps SESSION_LIFETIME_HOURS_def update_rows_def)
        (intro exI conjI, rule refl, simp_all)
  qed
qed

section \<open>Requests with the session\<close>

lemma wp_session_exact:
  assumes "\<not> w_dead w" "cookie_session env (w_db w) (clock env (w_tick w) + w_slept w) rq = Some su" "canonical env (u_id (snd su))"
    and "Q su (w\<lparr>w_tick := Suc (w_tick w)\<rparr>)"
  shows "wp (get_current_session_and_user env rq) Q E w"
proof -
  obtain i k row u where i: "rq_session rq = Some i" "is_valid_uuid i" "pg_uuid env i = Some k"
    and row: "find_row s_id k (sessions (w_db w)) = Some row" "\<not> s_revoked row"
      "\<not> s_expires_at row < clock env (w_tick w) + w_slept w"
    and u: "find_row u_id (s_user_id row) (users (w_db w)) = Some u" "su = (session_to_record row, u)"
    using assms(2) by (auto simp: cookie_session_def session_of_def split: option.splits if_splits)
  have "canonical env (s_user_id row)" using assms(3) u find_row_SomeD [OF u(1)] by simp
  then show ?thesis
    using assms(1,4) i row u
    by (simp add: get_current_session_and_user_def auth_validate_session_def wp_session_get_by_id wp_user_get_by_id canonical_def)
qed

lemma wp_csrf_user_exact:
  assumes "\<not> w_dead w" "cookie_session env (w_db w) (clock env (w_tick w) + w_slept w) rq = Some su" "canonical env (u_id (snd su))"
    and "opens_session env rq (fst su) (clock env (Suc (w_tick w)) + w_slept w)"
    and "Q (snd su) (w\<lparr>w_tick := w_tick w + 2\<rparr>)"
  shows "wp (csrf_protected_user env rq) Q E w"
  unfolding csrf_protected_user_def wp_bind wp_then wp_return
proof (rule wp_session_exact [OF assms(1-3)])
  show "wp (require_csrf env rq su) (\<lambda>_. Q (snd su)) E (w\<lparr>w_tick := Suc (w_tick w)\<rparr>)"
    using assms(4,5)
    by (auto simp: require_csrf_def Let_def csrf_token_of_def [symmetric] opens_session_def wp_validate_csrf csrf_accepts_def)
qed

lemma wp_session_user_exact:
  assumes "\<not> w_dead w" "cookie_session env (w_db w) (clock env (w_tick w) + w_slept w) rq = Some su" "canonical env (u_id (snd su))"
    and "Q (snd su) (w\<lparr>w_tick := Suc (w_tick w)\<rparr>)"
  shows "wp (get_user_from_session_or_token env rq) Q E w"
proof -
  have "wp (get_current_session_and_user env rq) (\<lambda>su v. Q (snd su) v) (\<lambda>_ _. False) w"
    by (rule wp_session_exact) (use assms in simp_all)
  then show ?thesis
    using assms(2)
    by (auto simp: get_user_from_session_or_token_def user_from_cookie_def get_current_session_and_user_def
        cookie_session_def elim!: wp_mono split: option.splits)
qed

text \<open>A machine is stored when PostgreSQL takes its addresses and no machine has its MAC address.\<close>

lemma wp_create_accepted:
  assumes "cookie_session env (w_committed w) (clock env (w_tick w) + w_slept w) rq = Some su" "canonical env (u_id (snd su))"
    and "opens_session env rq (fst su) (clock env (Suc (w_tick w)) + w_slept w)"
    and "machine_create_dump body = Some f" "f_broadcast_address f = None" "f_wake_interface f = None" "f_hostname f = None"
      "length (f_name f) \<le> 255" "f_ssh_port f = 22" "f_wake_strategy f \<in> set wake_strategies"
    and "pg_uuid env (uuid4 env (w_tick w + 2)) = Some i" "i \<notin> m_id ` set (machines (w_committed w))"
    and "pg_inet env (f_ip_address f) = Some ip" "pg_macaddr env (f_mac_address f) = Some mac"
      "mac \<notin> m_mac_address ` set (machines (w_committed w))"
  shows "wp (handle_request env rq (ApiCreateMachine body))
     (\<lambda>_ v. (\<exists>m. w_committed v = (w_committed w)\<lparr>machines := machines (w_committed w) @ [m]\<rparr> \<and>
         m_id m = i \<and> m_name m = f_name f \<and> m_ip_address m = ip \<and> m_mac_address m = mac \<and>
         m_wake_strategy m = f_wake_strategy f \<and> m_enabled m = f_enabled f) \<and>
        w_tick v = w_tick w + 4 \<and> w_slept v = w_slept w) E w"
proof (rule wp_handle, goal_cases)
  case 1
  have strategy: "length (f_wake_strategy f) \<le> 20" using assms(10) by (auto simp: wake_strategies_def)
  show ?case
    unfolding run_endpoint.simps answer_def create_machine_def wp_bind wp_then
  proof (rule wp_csrf_user_exact [where su = su], goal_cases)
    case 5
    show ?case
      using assms(4-) strategy
      by (simp add: machine_create_def new_machine_row_def insert_machine_def check_machine_def and_then_def uuid_param_def conv_def
        conv_opt_def check_def varchar_def varchar_opt_def int4_def tick_simps)
        (intro exI conjI, rule refl, simp_all)
  qed (use assms in simp_all)
qed

section \<open>A new installation\<close>

text \<open>The UUIDs drawn at the ticks of a window are ones PostgreSQL takes and differ; the window is at most an hour long.\<close>

definition fresh_draws :: "env \<Rightarrow> nat \<Rightarrow> nat \<Rightarrow> bool" where
  "fresh_draws env t n \<longleftrightarrow> (\<forall>i < n. pg_uuid env (uuid4 env (t + i)) \<noteq> None) \<and>
     (\<forall>j < n. \<forall>i < j. pg_uuid env (uuid4 env (t + i)) \<noteq> pg_uuid env (uuid4 env (t + j)))"

definition within_hour :: "env \<Rightarrow> nat \<Rightarrow> nat \<Rightarrow> bool" where
  "within_hour env t n \<longleftrightarrow> (\<forall>j < n. \<forall>i \<le> j. clock env (t + i) \<le> clock env (t + j) \<and>
     clock env (t + j) \<le> clock env (t + i) + seconds MAX_AGE)"

text \<open>The libraries behave as documented.\<close>

definition libraries_ok :: "env \<Rightarrow> bool" where
  "libraries_ok env \<longleftrightarrow> pg_canonical env \<and> hasher_ok env \<and> serializer_ok env \<and> token_hex_ok env \<and>
     (\<forall>p n. \<not> ph_needs_rehash env (ph_hash env p n)) \<and>
     (\<forall>sid sec t. its_dumps env (app_secret env) CSRF_SALT (csrf_payload sid sec) t \<noteq> [])"

text \<open>
  What a run relies on: PostgreSQL takes the client's address and those of the two machines, whose
  MAC addresses differ, and the client has not logged in before. The run makes fewer than 32
  readings.
\<close>

definition seeding_env :: "env \<Rightarrow> request \<Rightarrow> world \<Rightarrow> bool" where
  "seeding_env env anon w \<longleftrightarrow>
     libraries_ok env \<and> fresh_draws env (w_tick w) 32 \<and> within_hour env (w_tick w) 32 \<and>
     rq_authorization anon = None \<and>
     (\<exists>host. rq_client anon = Some host \<and> pg_inet env host \<noteq> None \<and> w_buckets w host = []) \<and>
     pg_inet env ''10.0.0.10'' \<noteq> None \<and> pg_inet env ''10.0.0.20'' \<noteq> None \<and>
     pg_macaddr env ''aa:bb:cc:dd:ee:01'' \<noteq> None \<and> pg_macaddr env ''aa:bb:cc:dd:ee:02'' \<noteq> None \<and>
     pg_macaddr env ''aa:bb:cc:dd:ee:01'' \<noteq> pg_macaddr env ''aa:bb:cc:dd:ee:02''"

lemma fresh_draw:
  assumes "fresh_draws env t n" "libraries_ok env" "i < n"
  obtains k where "pg_uuid env (uuid4 env (t + i)) = Some k" "canonical env k"
  using assms unfolding fresh_draws_def libraries_ok_def pg_canonical_def by blast

lemma fresh_draws_differ:
  "fresh_draws env t n \<Longrightarrow> i < j \<Longrightarrow> j < n \<Longrightarrow> pg_uuid env (uuid4 env (t + i)) \<noteq> pg_uuid env (uuid4 env (t + j))"
  unfolding fresh_draws_def by blast

lemma within_hourD:
  assumes "within_hour env t n" "i \<le> j" "j < n"
  shows "clock env (t + i) \<le> clock env (t + j)" "clock env (t + j) \<le> clock env (t + i) + seconds MAX_AGE"
  using assms unfolding within_hour_def by blast+

definition seeded_admin :: "env \<Rightarrow> UserRecord \<Rightarrow> bool" where
  "seeded_admin env u \<longleftrightarrow> u_username u = ''admin'' \<and> u_role u = ''admin'' \<and> canonical env (u_id u) \<and>
     ph_verify env (u_password_hash u) SEED_PASSWORD = Verified \<and> \<not> ph_needs_rehash env (u_password_hash u)"

definition set_up :: "env \<Rightarrow> UserRecord \<Rightarrow> db \<Rightarrow> bool" where
  "set_up env u d \<longleftrightarrow> (\<exists>s row. d = empty_db\<lparr>users := [u], settings := s, setup_state := Some row\<rparr> \<and> ss_completed row) \<and>
     stored_setting d = network_settings ''enP4p65s0'' ''etherwake'' 60 (\<lambda>_. None)"

lemma stored_setting_other [simp]: "stored_setting (d\<lparr>users := us\<rparr>) = stored_setting d" "stored_setting empty_db = (\<lambda>_. None)"
  by (simp_all add: stored_setting_def [abs_def] empty_db_def)

lemma wp_setup_wizard_new:
  assumes "seeding_env env anon w" "w_committed w = empty_db"
  shows "wp (setup_wizard env anon) (\<lambda>_ v. (\<exists>u. set_up env u (w_committed v) \<and> seeded_admin env u) \<and> at_tick w 10 v) (\<lambda>_ _. False) w"
proof -
  obtain i where i: "pg_uuid env (uuid4 env (w_tick w + 2)) = Some i" and can: "canonical env i"
    by (rule fresh_draw [of env "w_tick w" 32 2]) (use assms(1) in \<open>simp_all add: seeding_env_def\<close>)
  have posts: "wp (then_p (api env anon (ApiSetupAdmin seed_admin))
       (then_p (api env anon (ApiSetupNetwork seed_network))
       (then_p (api env anon ApiSetupComplete) (return_p ()))))
     (\<lambda>_ v. (\<exists>u. set_up env u (w_committed v) \<and> seeded_admin env u) \<and> at_tick w 10 v) (\<lambda>_ _. False) v"
    if v: "w_committed v = empty_db\<lparr>setup_state := Some row\<rparr>" "wizard_open row" "at_tick w 1 v" for v row
    unfolding wp_then wp_return
  proof (rule wp_api, rule wp_mono [OF seed_admin_created [where i = i and r = row]])
    fix x v1
    assume "(\<exists>u row. w_committed v1 = (w_committed v)\<lparr>users := [u], setup_state := Some row\<rparr> \<and> wizard_open row \<and>
        u_id u = i \<and> u_username u = ''admin'' \<and> u_role u = ''admin'' \<and>
        u_password_hash u = ph_hash env SEED_PASSWORD (w_tick v)) \<and> at_tick v 4 v1"
    then obtain u row1 where v1: "w_committed v1 = (w_committed v)\<lparr>users := [u], setup_state := Some row1\<rparr>" "wizard_open row1"
      "u_id u = i" "u_username u = ''admin''" "u_role u = ''admin''" "u_password_hash u = ph_hash env SEED_PASSWORD (w_tick v)"
      "at_tick v 4 v1" by blast
    have admin: "seeded_admin env u"
      using v1 can assms(1) by (simp add: seeded_admin_def seeding_env_def libraries_ok_def hasher_ok_def)
    show "wp (api env anon (ApiSetupNetwork seed_network))
        (\<lambda>_. wp (api env anon ApiSetupComplete) (\<lambda>_ v. (\<exists>u. set_up env u (w_committed v) \<and> seeded_admin env u) \<and> at_tick w 10 v) (\<lambda>_ _. False))
        (\<lambda>_ _. False) v1"
    proof (rule wp_api, rule wp_mono [OF seed_network_stored [where r = row1]])
      fix x v2
      assume "(\<exists>s row. w_committed v2 = (w_committed v1)\<lparr>settings := s, setup_state := Some row\<rparr> \<and> wizard_open row \<and>
         stored_setting (w_committed v2) = network_settings ''enP4p65s0'' ''etherwake'' 60 (stored_setting (w_committed v1))) \<and>
        at_tick v1 4 v2"
      then obtain s row2 where v2: "w_committed v2 = (w_committed v1)\<lparr>settings := s, setup_state := Some row2\<rparr>" "wizard_open row2"
         "stored_setting (w_committed v2) = network_settings ''enP4p65s0'' ''etherwake'' 60 (stored_setting (w_committed v1))"
         "at_tick v1 4 v2" by blast
      show "wp (api env anon ApiSetupComplete) (\<lambda>_ v. (\<exists>u. set_up env u (w_committed v) \<and> seeded_admin env u) \<and> at_tick w 10 v)
          (\<lambda>_ _. False) v2"
        by (rule wp_api, rule wp_mono [OF seed_completed [where r = row2]])
          (use v v1 v2 admin in \<open>auto simp: set_up_def at_tick_def intro!: exI [of _ u]\<close>)
    qed (use v v1 in simp_all)
  qed (use v i in \<open>simp_all add: at_tick_def empty_db_def\<close>)
  show ?thesis
    unfolding setup_wizard_def wp_bind
    by (rule wp_api, rule wp_mono [OF seed_status [OF assms(2)]])
      (auto simp: json_get_def dict_get_def wp_if_fun simp del: wp_then wp_if intro!: posts)
qed

text \<open>The session of the run, in the database and in the hands of the client, at any of the later readings.\<close>

definition logged_db :: "env \<Rightarrow> world \<Rightarrow> string \<Rightarrow> UserRecord \<Rightarrow> db \<Rightarrow> bool" where
  "logged_db env w k u d \<longleftrightarrow> users d = [u] \<and> canonical env (u_id u) \<and> canonical env k \<and>
     (\<exists>row. sessions d = [row] \<and> s_id row = k \<and> s_user_id row = u_id u \<and> s_csrf_secret row = token_hex env 32 (w_tick w + 12) \<and>
        \<not> s_revoked row \<and> s_expires_at row = clock env (w_tick w + 11) + w_slept w + seconds (12 * 3600))"

definition client_token :: "env \<Rightarrow> world \<Rightarrow> string \<Rightarrow> string" where
  "client_token env w k = its_dumps env (app_secret env) CSRF_SALT
     (csrf_payload k (token_hex env 32 (w_tick w + 12))) (clock env (w_tick w + 16) + w_slept w)"

lemma live_session:
  assumes "seeding_env env anon w" "logged_db env w k u d" "11 \<le> j" "j < 32" "rq_session rq = Some k"
  obtains s where "cookie_session env d (clock env (w_tick w + j) + w_slept w) rq = Some (s, u)"
    "s_id s = k" "s_csrf_secret s = token_hex env 32 (w_tick w + 12)"
proof -
  obtain row where row: "sessions d = [row]" "s_id row = k" "s_user_id row = u_id u" "\<not> s_revoked row"
    "s_csrf_secret row = token_hex env 32 (w_tick w + 12)"
    "s_expires_at row = clock env (w_tick w + 11) + w_slept w + seconds (12 * 3600)"
    using assms(2) by (auto simp: logged_db_def)
  have "within_hour env (w_tick w) 32" using assms(1) by (simp add: seeding_env_def)
  from within_hourD(2) [OF this assms(3,4)]
  have "\<not> s_expires_at row < clock env (w_tick w + j) + w_slept w"
    using row(6) by (simp add: MAX_AGE_def seconds_def)
  with assms(2,5) row have "cookie_session env d (clock env (w_tick w + j) + w_slept w) rq = Some (session_to_record row, u)"
    by (simp add: cookie_session_def session_of_def logged_db_def canonical_def)
  then show ?thesis by (rule that) (use row in simp_all)
qed

lemma live_token:
  assumes "seeding_env env anon w" "16 \<le> j" "j < 32" "s_id s = k" "s_csrf_secret s = token_hex env 32 (w_tick w + 12)"
    and "rq_csrf_header rq = Some (client_token env w k)"
  shows "opens_session env rq s (clock env (w_tick w + j) + w_slept w)"
proof -
  let ?tok = "client_token env w k" and ?t = "clock env (w_tick w + j) + w_slept w"
  have env: "within_hour env (w_tick w) 32" "serializer_ok env" "?tok \<noteq> []"
    using assms(1) by (simp_all add: seeding_env_def libraries_ok_def client_token_def)
  have "its_loads env (app_secret env) CSRF_SALT ?tok ?t MAX_AGE = Inr (csrf_payload k (token_hex env 32 (w_tick w + 12)))"
    using within_hourD [OF env(1) assms(2,3)] env(2) unfolding serializer_ok_def Let_def client_token_def by simp
  moreover have "csrf_token_of rq = ?tok" using assms(6) env(3) by (cases ?tok) (simp_all add: csrf_token_of_def)
  ultimately show ?thesis
    using env(3) assms(4,5) by (simp add: opens_session_def csrf_payload_def dict_get_def)
qed

lemma wp_seed_session_new:
  assumes env: "seeding_env env anon w" and v: "set_up env u (w_committed v)" "seeded_admin env u" "at_tick w 10 v"
  shows "wp (seed_session env anon)
     (\<lambda>(csrf, s) v'. \<exists>k u' row. w_committed v' = (w_committed v)\<lparr>sessions := [row], users := [u']\<rparr> \<and> seeded_admin env u' \<and>
        logged_db env w k u' (w_committed v') \<and> csrf = JStr (client_token env w k) \<and> s = anon\<lparr>rq_session := Some k\<rparr> \<and>
        w_tick v' = w_tick w + 17 \<and> w_slept v' = w_slept w) (\<lambda>_ _. False) v"
proof -
  obtain k where k: "pg_uuid env (uuid4 env (w_tick w + 13)) = Some k" "canonical env k"
    by (rule fresh_draw [of env "w_tick w" 32 13]) (use env in \<open>simp_all add: seeding_env_def\<close>)
  obtain host ip where client: "rq_client anon = Some host" "pg_inet env host = Some ip" "w_buckets w host = []"
    using env by (auto simp: seeding_env_def)
  have tick: "w_tick v = w_tick w + 10" "w_slept v = w_slept w" "w_buckets v host = []"
    using v(3) client(3) by (simp_all add: at_tick_def)
  have d: "users (w_committed v) = [u]" "sessions (w_committed v) = []"
    using v(1) by (auto simp: set_up_def empty_db_def)
  have u: "u_username u = ''admin''" "pg_uuid env (u_id u) = Some (u_id u)"
    "ph_verify env (u_password_hash u) SEED_PASSWORD = Verified" "\<not> ph_needs_rehash env (u_password_hash u)"
    using v(2) by (simp_all add: seeded_admin_def canonical_def)
  have hex: "token_hex_ok env" using env by (simp add: seeding_env_def libraries_ok_def)
  have id: "pg_uuid env (uuid4 env (w_tick v + 3)) = Some k" using k(1) by (simp add: tick add.commute)
  have answer: "lp_csrf_token (login_answer env v k) = client_token env w k" "lp_cookie (login_answer env v k) = k"
    by (simp_all add: login_answer_def client_token_def tick add.commute)
  show ?thesis
    unfolding seed_session_def wp_bind
  proof (rule wp_api, rule wp_mono [OF wp_login_first [OF d u id hex client(1,2) tick(3)]])
    fix r :: response and v' :: world
    assume "(\<exists>u' row. w_committed v' = (w_committed v)\<lparr>sessions := [row], users := [u']\<rparr> \<and>
         u_id u' = u_id u \<and> u_username u' = u_username u \<and> u_role u' = u_role u \<and> u_password_hash u' = u_password_hash u \<and>
         session_row env v k (u_id u) row) \<and>
        rs_content r = JLogin (login_answer env v k) \<and> w_tick v' = w_tick v + 7 \<and> w_slept v' = w_slept v"
    then obtain u' row where v': "w_committed v' = (w_committed v)\<lparr>sessions := [row], users := [u']\<rparr>"
        "u_id u' = u_id u" "u_username u' = u_username u" "u_role u' = u_role u" "u_password_hash u' = u_password_hash u"
        "session_row env v k (u_id u) row" "rs_content r = JLogin (login_answer env v k)" "w_tick v' = w_tick v + 7" "w_slept v' = w_slept v"
      by blast
    have "seeded_admin env u'" using v(2) v' by (simp add: seeded_admin_def)
    moreover have "logged_db env w k u' (w_committed v')"
      using v' v(2) k(2) tick by (simp add: logged_db_def session_row_def seeded_admin_def add.commute)
    ultimately show "wp (lift_p (and_then (json (rs_content r)) (\<lambda>j. json_index j ''csrf_token'')))
        (\<lambda>csrf. wp (return_p (csrf, keep_cookie anon r)) (\<lambda>(csrf, s) v'. \<exists>k u' row. w_committed v' = (w_committed v)\<lparr>sessions := [row], users := [u']\<rparr> \<and> seeded_admin env u' \<and>
        logged_db env w k u' (w_committed v') \<and> csrf = JStr (client_token env w k) \<and> s = anon\<lparr>rq_session := Some k\<rparr> \<and>
        w_tick v' = w_tick w + 17 \<and> w_slept v' = w_slept w) (\<lambda>_ _. False)) (\<lambda>_ _. False) v'"
      using v'(7-9) tick(1,2) v'(1)
      by (auto simp: json_index_def dict_get_def keep_cookie_def answer intro!: exI [of _ k])
  qed
qed

lemma seed_dumps:
  "machine_create_dump desktop_pc = Some \<lparr>f_name = ''Desktop PC'', f_ip_address = ''10.0.0.10'', f_mac_address = ''aa:bb:cc:dd:ee:01'',
     f_ssh_port = 22, f_hostname = None, f_wake_interface = None, f_wake_strategy = ''etherwake'', f_broadcast_address = None, f_enabled = True\<rparr>"
  "machine_create_dump home_server = Some \<lparr>f_name = ''Home Server'', f_ip_address = ''10.0.0.20'', f_mac_address = ''aa:bb:cc:dd:ee:02'',
     f_ssh_port = 22, f_hostname = None, f_wake_interface = None, f_wake_strategy = ''udp_broadcast'', f_broadcast_address = None, f_enabled = True\<rparr>"
  by code_simp+

lemma wp_list_new:
  assumes "cookie_session env (w_committed w) (clock env (w_tick w) + w_slept w) rq = Some su" "canonical env (u_id (snd su))"
    and "machines (w_committed w) = []"
  shows "wp (handle_request env rq (ApiListMachines False))
     (\<lambda>r v. names_of r = Inr [] \<and> w_committed v = w_committed w \<and> w_tick v = w_tick w + 1 \<and> w_slept v = w_slept w) E w"
proof (rule wp_handle, goal_cases)
  case 1
  show ?case
    unfolding run_endpoint.simps answer_def list_machines_def wp_bind wp_then
    by (rule wp_session_user_exact [where su = su])
      (use assms in \<open>simp_all add: machine_list_all_def names_of_machines\<close>)
qed

text \<open>What the two machines are stored as.\<close>

definition machine_summary :: "MachineRecord \<Rightarrow> string \<times> string option \<times> string option \<times> string \<times> bool" where
  "machine_summary m = (m_name m, Some (m_ip_address m), Some (m_mac_address m), m_wake_strategy m, m_enabled m)"

definition seed_summaries :: "env \<Rightarrow> (string \<times> string option \<times> string option \<times> string \<times> bool) list" where
  "seed_summaries env =
     [(''Desktop PC'', pg_inet env ''10.0.0.10'', pg_macaddr env ''aa:bb:cc:dd:ee:01'', ''etherwake'', True),
      (''Home Server'', pg_inet env ''10.0.0.20'', pg_macaddr env ''aa:bb:cc:dd:ee:02'', ''udp_broadcast'', True)]"

lemma logged_machines [simp]: "logged_db env w k u (d\<lparr>machines := ms\<rparr>) = logged_db env w k u d"
  by (simp add: logged_db_def)

lemma wp_add_machine_new:
  assumes env: "seeding_env env anon w" and d: "logged_db env w k u (w_committed v)" "seeded_admin env u"
    and tick: "w_tick v = w_tick w + j" "w_slept v = w_slept w" "18 \<le> j" "j + 2 < 32"
    and body: "machine_create_dump body = Some f" "f_broadcast_address f = None" "f_wake_interface f = None" "f_hostname f = None"
      "length (f_name f) \<le> 255" "f_ssh_port f = 22" "f_wake_strategy f \<in> set wake_strategies"
    and i: "pg_uuid env (uuid4 env (w_tick w + (j + 2))) = Some i" "i \<notin> m_id ` set (machines (w_committed v))"
    and addr: "pg_inet env (f_ip_address f) = Some ip" "pg_macaddr env (f_mac_address f) = Some mac"
      "mac \<notin> m_mac_address ` set (machines (w_committed v))"
    and Q: "\<And>m v'. w_committed v' = (w_committed v)\<lparr>machines := machines (w_committed v) @ [m]\<rparr> \<Longrightarrow> m_id m = i \<Longrightarrow>
      machine_summary m = (f_name f, Some ip, Some mac, f_wake_strategy f, f_enabled f) \<Longrightarrow>
      w_tick v' = w_tick w + (j + 4) \<Longrightarrow> w_slept v' = w_slept w \<Longrightarrow> Q () v'"
  shows "wp (add_machine env (anon\<lparr>rq_session := Some k\<rparr>) (JStr (client_token env w k)) body) Q E v"
proof -
  let ?rq = "anon\<lparr>rq_session := Some k, rq_csrf_header := Some (client_token env w k)\<rparr>"
  obtain s where s: "cookie_session env (w_committed v) (clock env (w_tick w + j) + w_slept w) ?rq = Some (s, u)"
    "s_id s = k" "s_csrf_secret s = token_hex env 32 (w_tick w + 12)"
    by (rule live_session [OF env d(1), where j = j and rq = ?rq]) (use tick in simp_all)
  have "opens_session env ?rq s (clock env (w_tick w + Suc j) + w_slept w)"
    by (rule live_token [OF env _ _ s(2,3)]) (use tick in simp_all)
  then have tok: "opens_session env ?rq (fst (s, u)) (clock env (Suc (w_tick v)) + w_slept v)" using tick by simp
  have can: "canonical env (u_id (snd (s, u)))" using d(2) by (simp add: seeded_admin_def)
  have su: "cookie_session env (w_committed v) (clock env (w_tick v) + w_slept v) ?rq = Some (s, u)" using s(1) tick by simp
  have id: "pg_uuid env (uuid4 env (w_tick v + 2)) = Some i" using i(1) tick(1) by (simp add: add.assoc)
  show ?thesis
    unfolding add_machine_def jval.case wp_then wp_return
    by (rule wp_api, rule wp_mono [OF wp_create_accepted [OF su can tok body id i(2) addr]])
      (use tick Q in \<open>auto simp: machine_summary_def add.assoc\<close>)
qed

lemma wp_seed_machines_new:
  assumes env: "seeding_env env anon w" and d: "logged_db env w k u (w_committed v)" "seeded_admin env u" "machines (w_committed v) = []"
    and tick: "w_tick v = w_tick w + 17" "w_slept v = w_slept w"
  shows "wp (seed_machines env (JStr (client_token env w k)) (anon\<lparr>rq_session := Some k\<rparr>))
     (\<lambda>_ v'. \<exists>ms. w_committed v' = (w_committed v)\<lparr>machines := ms\<rparr> \<and> map machine_summary ms = seed_summaries env \<and>
        w_tick v' = w_tick w + 26 \<and> w_slept v' = w_slept w) (\<lambda>_ _. False) v"
proof -
  let ?s = "anon\<lparr>rq_session := Some k\<rparr>" and ?csrf = "JStr (client_token env w k)"
  have fresh: "fresh_draws env (w_tick w) 32" "libraries_ok env" using env by (simp_all add: seeding_env_def)
  obtain i1 where i1: "pg_uuid env (uuid4 env (w_tick w + 20)) = Some i1" by (rule fresh_draw [OF fresh, of 20]) simp_all
  obtain i2 where i2: "pg_uuid env (uuid4 env (w_tick w + 24)) = Some i2" by (rule fresh_draw [OF fresh, of 24]) simp_all
  have neq: "i1 \<noteq> i2" using fresh_draws_differ [OF fresh(1), of 20 24] i1 i2 by simp
  obtain ip1 ip2 mac1 mac2 where addr: "pg_inet env ''10.0.0.10'' = Some ip1" "pg_inet env ''10.0.0.20'' = Some ip2"
    "pg_macaddr env ''aa:bb:cc:dd:ee:01'' = Some mac1" "pg_macaddr env ''aa:bb:cc:dd:ee:02'' = Some mac2" "mac1 \<noteq> mac2"
    using env by (auto simp: seeding_env_def)
  obtain s where s: "cookie_session env (w_committed v) (clock env (w_tick w + 17) + w_slept w) ?s = Some (s, u)"
    by (rule live_session [OF env d(1), where j = 17 and rq = ?s]) simp_all
  have adds: "wp (then_p (add_machine env ?s ?csrf desktop_pc) (add_machine env ?s ?csrf home_server))
     (\<lambda>_ v'. \<exists>ms. w_committed v' = (w_committed v)\<lparr>machines := ms\<rparr> \<and> map machine_summary ms = seed_summaries env \<and>
        w_tick v' = w_tick w + 26 \<and> w_slept v' = w_slept w) (\<lambda>_ _. False) v1"
    if v1: "w_committed v1 = w_committed v" "w_tick v1 = w_tick w + 18" "w_slept v1 = w_slept w" for v1
    unfolding wp_then
  proof (rule wp_add_machine_new [OF env, where j = 18 and u = u and i = i1 and ip = ip1 and mac = mac1, OF _ _ _ _ _ _ seed_dumps(1)], goal_cases)
    case (18 m1 v2)
    show ?case
      by (rule wp_add_machine_new [OF env, where j = 22 and u = u and i = i2 and ip = ip2 and mac = mac2, OF _ _ _ _ _ _ seed_dumps(2)])
        (use 18 v1 d i2 addr neq in \<open>auto simp: wake_strategies_def seed_summaries_def machine_summary_def\<close>)
  qed (use v1 d i1 addr in \<open>simp_all add: wake_strategies_def\<close>)
  show ?thesis
    unfolding seed_machines_def wp_bind names_of_def [symmetric]
    by (rule wp_api, rule wp_mono [OF wp_list_new [where su = "(s, u)"]])
      (use s d tick adds in \<open>auto simp: seeded_admin_def simp del: wp_then\<close>)
qed

text \<open>What the script is for, and the session it hands to its caller.\<close>

definition seeded :: "env \<Rightarrow> db \<Rightarrow> bool" where
  "seeded env d \<longleftrightarrow> (\<exists>u. users d = [u] \<and> seeded_admin env u) \<and> setup_done d \<and>
     stored_setting d = network_settings ''enP4p65s0'' ''etherwake'' 60 (\<lambda>_. None) \<and>
     map machine_summary (machines d) = seed_summaries env \<and> attempts d = [] \<and> jobs d = [] \<and> tokens d = []"

definition usable :: "env \<Rightarrow> jval \<Rightarrow> request \<Rightarrow> world \<Rightarrow> bool" where
  "usable env csrf s v \<longleftrightarrow>
     (\<exists>t su. csrf = JStr t \<and> cookie_session env (w_committed v) (time_of env v) s = Some su \<and>
        opens_session env (s\<lparr>rq_csrf_header := Some t\<rparr>) (fst su) (time_of env v))"

lemma wp_setup_app_new:
  assumes "seeding_env env anon w" and "w_committed w = empty_db"
  shows "wp (setup_app env anon) (\<lambda>(csrf, s) v. seeded env (w_committed v) \<and> usable env csrf s v) (\<lambda>_ _. False) w"
  unfolding setup_app_def wp_then wp_bind
proof (rule wp_mono [OF wp_setup_wizard_new [OF assms]])
  fix x :: unit and v assume "(\<exists>u. set_up env u (w_committed v) \<and> seeded_admin env u) \<and> at_tick w 10 v"
  then obtain u where v: "set_up env u (w_committed v)" "seeded_admin env u" "at_tick w 10 v" by blast
  show "wp (seed_session env anon)
      (\<lambda>x. wp (case x of (csrf, s) \<Rightarrow> then_p (seed_machines env csrf s) (return_p (csrf, s)))
         (\<lambda>(csrf, s) v. seeded env (w_committed v) \<and> usable env csrf s v) (\<lambda>_ _. False)) (\<lambda>_ _. False) v"
  proof (rule wp_mono [OF wp_seed_session_new [OF assms(1) v]])
    fix x :: "jval \<times> request" and v1 :: world
    assume "(\<lambda>(csrf, s) v'. \<exists>k u' row. w_committed v' = (w_committed v)\<lparr>sessions := [row], users := [u']\<rparr> \<and> seeded_admin env u' \<and>
        logged_db env w k u' (w_committed v') \<and> csrf = JStr (client_token env w k) \<and> s = anon\<lparr>rq_session := Some k\<rparr> \<and>
        w_tick v' = w_tick w + 17 \<and> w_slept v' = w_slept w) x v1"
    then obtain k u' row where v1: "w_committed v1 = (w_committed v)\<lparr>sessions := [row], users := [u']\<rparr>" "seeded_admin env u'"
        "logged_db env w k u' (w_committed v1)" "x = (JStr (client_token env w k), anon\<lparr>rq_session := Some k\<rparr>)"
        "w_tick v1 = w_tick w + 17" "w_slept v1 = w_slept w" by (cases x) auto
    have none: "machines (w_committed v1) = []" using v(1) v1(1) by (auto simp: set_up_def empty_db_def)
    have done_all: "seeded env ((w_committed v1)\<lparr>machines := ms\<rparr>)" if "map machine_summary ms = seed_summaries env" for ms
      using v(1) v1(1,2) that by (auto simp: seeded_def set_up_def setup_done_def empty_db_def stored_setting_def [abs_def])
    have "usable env (JStr (client_token env w k)) (anon\<lparr>rq_session := Some k\<rparr>) v2"
      if "w_committed v2 = (w_committed v1)\<lparr>machines := ms\<rparr>" "w_tick v2 = w_tick w + 26" "w_slept v2 = w_slept w" for v2 ms
    proof -
      let ?rq = "anon\<lparr>rq_session := Some k\<rparr>"
      have "logged_db env w k u' (w_committed v2)" using v1(3) that(1) by simp
      then obtain s where s: "cookie_session env (w_committed v2) (clock env (w_tick w + 26) + w_slept w) ?rq = Some (s, u')"
        "s_id s = k" "s_csrf_secret s = token_hex env 32 (w_tick w + 12)"
        by (rule live_session [OF assms(1), where j = 26 and rq = ?rq]) simp_all
      have "opens_session env (?rq\<lparr>rq_csrf_header := Some (client_token env w k)\<rparr>) s (clock env (w_tick w + 26) + w_slept w)"
        by (rule live_token [OF assms(1) _ _ s(2,3)]) simp_all
      with s(1) that show ?thesis by (simp add: usable_def time_of_def)
    qed
    then show "wp (case x of (csrf, s) \<Rightarrow> then_p (seed_machines env csrf s) (return_p (csrf, s)))
         (\<lambda>(csrf, s) v. seeded env (w_committed v) \<and> usable env csrf s v) (\<lambda>_ _. False) v1"
      unfolding v1(4) prod.case wp_then wp_return
      by (intro wp_mono [OF wp_seed_machines_new [OF assms(1) v1(3,2) none v1(5,6)]]) (use done_all in auto)
  qed
qed

text \<open>
  C7. From a database just migrated, a run of \<open>setup_app\<close> that takes less than an hour ends with the
  wizard completed, one user, the admin, whose stored hash verifies the password, the three network
  settings, and exactly the two machines under the addresses given; and the cookie and the CSRF
  token it returns are those of a live session.
\<close>

theorem setup_app_seeds:
  assumes "seeding_env env anon w" and "w_committed w = empty_db"
  shows "wp (setup_app env anon) (\<lambda>(csrf, s) v. seeded env (w_committed v) \<and> usable env csrf s v) (\<lambda>_ _. False) w"
  by (rule wp_setup_app_new [OF assms])

text \<open>An environment that draws 32 different UUIDs.\<close>

definition hex_char :: "nat \<Rightarrow> char" where
  "hex_char n = ''0123456789abcdef'' ! n"

definition seed_uuid :: "nat \<Rightarrow> string" where
  "seed_uuid n = ''00000000-0000-0000-0000-0000000000'' @ [hex_char (n div 16 mod 16), hex_char (n mod 16)]"

definition seed_env :: env where
  "seed_env = demo_env\<lparr>uuid4 := seed_uuid\<rparr>"

definition seed_request :: request where
  "seed_request = demo_request\<lparr>rq_session := None, rq_client := Some ''127.0.0.1''\<rparr>"

lemma seed_uuids_valid: "list_all is_valid_uuid (map seed_uuid [0..<32])"
  by code_simp

lemma seed_uuids_differ:
  "list_all (\<lambda>j. list_all (\<lambda>i. [hex_char (i div 16 mod 16), hex_char (i mod 16)] \<noteq> [hex_char (j div 16 mod 16), hex_char (j mod 16)]) [0..<j]) [0..<32]"
  by code_simp

lemma seed_env_fields:
  "pg_uuid seed_env = pg_uuid demo_env" "ph_hash seed_env = ph_hash demo_env" "ph_verify seed_env = ph_verify demo_env"
  "ph_needs_rehash seed_env = ph_needs_rehash demo_env" "its_dumps seed_env = its_dumps demo_env" "its_loads seed_env = its_loads demo_env"
  "app_secret seed_env = app_secret demo_env" "token_hex seed_env = token_hex demo_env"
  by (simp_all add: seed_env_def)

lemma seed_env_ok: "seeding_env seed_env seed_request (world_of empty_db 0)"
proof -
  have "is_valid_uuid (seed_uuid i)" if "i < 32" for i
    using seed_uuids_valid that by (auto simp: list_all_iff)
  moreover have "seed_uuid i \<noteq> seed_uuid j" if "i < j" "j < 32" for i j
    using seed_uuids_differ that by (auto simp: list_all_iff seed_uuid_def)
  ultimately have "fresh_draws seed_env 0 32"
    by (simp add: fresh_draws_def seed_env_def demo_env_def)
  moreover have "libraries_ok seed_env"
    unfolding libraries_ok_def
  proof (intro conjI)
    show "pg_canonical seed_env"
      using demo_pg_canonical unfolding pg_canonical_def canonical_def seed_env_fields .
    show "hasher_ok seed_env" using demo_hasher_ok unfolding hasher_ok_def seed_env_fields .
    show "serializer_ok seed_env" using demo_serializer_ok unfolding serializer_ok_def seed_env_fields .
    show "token_hex_ok seed_env" using demo_token_hex_ok unfolding token_hex_ok_def seed_env_fields .
    show "\<forall>p n. \<not> ph_needs_rehash seed_env (ph_hash seed_env p n)"
      by (simp add: seed_env_fields)
    show "\<forall>sid sec t. its_dumps seed_env (app_secret seed_env) CSRF_SALT (csrf_payload sid sec) t \<noteq> []"
      by (simp only: seed_env_fields) (simp add: demo_env_def demo_dumps_def csrf_payload_def mark_def)
  qed
  ultimately show ?thesis
    by (simp add: seeding_env_def within_hour_def seed_env_def seed_request_def demo_request_def demo_env_def seconds_def MAX_AGE_def)
qed

theorem setup_app_seeds_witness:
  "wp (setup_app seed_env seed_request) (\<lambda>(csrf, s) v. map m_name (machines (w_committed v)) = [''Desktop PC'', ''Home Server''])
     (\<lambda>_ _. False) (world_of empty_db 0)"
  by (rule wp_mono [OF setup_app_seeds [OF seed_env_ok]])
    (auto simp: seeded_def machine_summary_def [abs_def] seed_summaries_def)

end
