(* ===== verification/WakeDelivery.thy ===== *)
theory WakeDelivery
  imports ApiWake
begin

text \<open>
  Wakes that arrive. Where the other theories say what a wake does however it ends, this one says
  when it does not fail: with a network that takes the packet, a stored and enabled machine and a
  MAC address that can be sent, the direct wake is answered and the queued one is served, and the
  packet goes out.
\<close>

section \<open>The network takes the packet\<close>

definition network_up :: "env \<Rightarrow> bool" where
  "network_up env \<longleftrightarrow> (\<forall>n. udp_send env n = None) \<and> (\<forall>cmd n. \<exists>err. wake_exec env cmd n = ExecDone 0 err)"

text \<open>
  A stored, enabled machine under the id of the request, with a MAC address of twelve hexadecimal
  digits.
\<close>

definition wakeable :: "env \<Rightarrow> db \<Rightarrow> string \<Rightarrow> MachineRecord \<Rightarrow> bool" where
  "wakeable env d machine_id m \<longleftrightarrow>
     is_valid_uuid machine_id \<and> pg_uuid env machine_id = Some (m_id m) \<and> m \<in> set (machines d) \<and> m_enabled m \<and>
     (\<exists>packet. build_magic_packet (m_mac_address m) = Inr packet)"

lemma wp_strategy_up:
  assumes s: "get_strategy env name = Inr s" and up: "network_up env" and packet: "build_magic_packet mac = Inr packet"
    and ok: "\<And>n p. wakes name mac i b p \<Longrightarrow> Q () (w\<lparr>w_tick := n, w_sent := p # w_sent w\<rparr>)"
  shows "wp (sp_wake s mac i b) Q E w"
proof -
  have udp: "udp_send env n = None" for n using up by (simp add: network_up_def)
  obtain err where exec: "wake_exec env cmd n = ExecDone 0 (err cmd n)" for cmd n
    using up unfolding network_up_def by metis
  have "Q () (w\<lparr>w_tick := n, w_sent := SentCommand (etherwake_cmd i mac) # w_sent w\<rparr>)" if "name = ''etherwake''" for n
    by (rule ok) (simp add: wakes_def that)
  moreover have "Q () (w\<lparr>w_tick := n, w_sent := SentDatagram packet (str_or b MAGIC_BROADCAST) MAGIC_PORT # w_sent w\<rparr>)"
    if "name = ''udp_broadcast''" for n
    by (rule ok) (simp add: wakes_def that packet)
  ultimately show ?thesis
    using get_strategy_cases [OF s] packet
    by (auto simp: EtherwakeStrategy_def UdpBroadcastStrategy_def strategy_defs udp exec)
qed

section \<open>The service succeeds\<close>

definition woken :: "world \<Rightarrow> MachineRecord \<Rightarrow> string \<Rightarrow> string \<Rightarrow> world \<Rightarrow> bool" where
  "woken w m st aid v \<longleftrightarrow>
     (\<exists>a p. w_db v = (w_db w)\<lparr>attempts := attempts (w_db w) @ [a]\<rparr> \<and> wa_id a = aid \<and> wa_status a = ''sent'' \<and>
        wa_machine_id a = m_id m \<and> wa_strategy a = st \<and> w_sent v = p # w_sent w \<and> wakes_machine st m p \<and>
        w_committed v = w_committed w \<and> \<not> w_dead v)"

lemma wp_attempt_create_ok:
  assumes "pg_uuid env (uuid4 env (w_tick w)) = Some aid" "aid \<notin> wa_id ` set (attempts (w_db w))"
    and "pg_uuid env mid = Some k" "k \<in> m_id ` set (machines (w_db w))"
    and "varchar 20 at" "varchar 255 ai" "varchar 20 st" "int4 pt" "\<not> w_dead w"
    and "\<And>a :: WakeAttemptRecord. wa_id a = aid \<Longrightarrow> wa_machine_id a = k \<Longrightarrow> wa_strategy a = st \<Longrightarrow> wa_status a = ''pending'' \<Longrightarrow>
      Q a (w\<lparr>w_tick := Suc (Suc (w_tick w)), w_db := (w_db w)\<lparr>attempts := attempts (w_db w) @ [a]\<rparr>\<rparr>)"
  shows "wp (attempt_create env mid at ai st eo pt) Q E w"
  using assms
  by (simp add: attempt_create_def insert_attempt_def attempt_to_record_def attempt_statuses_def varchar_def Let_def
      and_then_def uuid_param_def conv_def check_def)

lemma wp_wake_service_up:
  assumes canonical: "pg_canonical env" and dead: "\<not> w_dead w" and up: "network_up env" and m: "wakeable env (w_db w) mid m"
    and wf: "wf_machines (w_db w)" and st: "st = str_or ov (m_wake_strategy m)" "st \<in> set wake_strategies"
    and row: "varchar 20 at" "varchar 255 ai" "int4 pt"
    and id: "pg_uuid env (uuid4 env (w_tick w)) = Some aid" "aid \<notin> wa_id ` set (attempts (w_db w))"
  shows "wp (wake_service_wake env mid at ai eo pt ov) (woken w m st) (\<lambda>_ _. False) w"
proof -
  have found: "find_row m_id (m_id m) (machines (w_db w)) = Some m"
    using m wf by (simp add: wakeable_def wf_machines_def find_row_distinct)
  obtain s where s: "get_strategy env st = Inr s"
    using st(2) get_strategy_known [of env st] by (auto simp: wake_strategies_def)
  obtain packet where packet: "build_magic_packet (m_mac_address m) = Inr packet" using m by (auto simp: wakeable_def)
  have aid: "pg_uuid env aid = Some aid" using canonical id(1) by (auto simp: pg_canonical_def canonical_def)
  have create: "wp (attempt_create env mid at ai st eo pt)
      (\<lambda>a. wp (then_p (send_and_record env (machine_to_record m) a s) (return_p (wa_id a))) (woken w m st) (\<lambda>_ _. False))
      (\<lambda>_ _. False) w"
  proof (rule wp_attempt_create_ok [OF id _ _ row(1,2) _ row(3) dead])
    fix a :: WakeAttemptRecord assume a: "wa_id a = aid" "wa_machine_id a = m_id m" "wa_strategy a = st" "wa_status a = ''pending''"
    show "wp (then_p (send_and_record env (machine_to_record m) a s) (return_p (wa_id a))) (woken w m st) (\<lambda>_ _. False)
        (w\<lparr>w_tick := Suc (Suc (w_tick w)), w_db := (w_db w)\<lparr>attempts := attempts (w_db w) @ [a]\<rparr>\<rparr>)"
      unfolding wp_then wp_return send_and_record_def wp_catch
    proof (rule wp_strategy_up [OF s up])
      fix n p
      assume p: "wakes st (m_mac_address (machine_to_record m)) (m_wake_interface (machine_to_record m))
          (m_broadcast_address (machine_to_record m)) p"
      then have "wakes_machine st m p" using wakes_machine_record by (simp add: wakes_machine_def)
      with a aid id(2) dead show "wp (attempt_update_status env (wa_id a) (AttemptStatus_value SENT) None None)
          (\<lambda>_. woken w m st (wa_id a)) E
          (w\<lparr>w_tick := Suc (Suc (w_tick w)), w_db := (w_db w)\<lparr>attempts := attempts (w_db w) @ [a]\<rparr>,
             w_tick := n, w_sent := p # w_sent (w\<lparr>w_tick := Suc (Suc (w_tick w)),
               w_db := (w_db w)\<lparr>attempts := attempts (w_db w) @ [a]\<rparr>\<rparr>)\<rparr>)" for E
        by (intro wp_update_last [where a = a and rows = "attempts (w_db w)"])
           (auto simp: attempt_statuses_def woken_def set_status_def)
    qed (simp add: machine_to_record_def packet)
  qed (use m st(2) in \<open>auto simp: wakeable_def wake_strategies_def varchar_def\<close>)
  have rec: "m_enabled (machine_to_record m)" "m_wake_strategy (machine_to_record m) = m_wake_strategy m"
    using m by (simp_all add: machine_to_record_def wakeable_def)
  have lookup: "lift_p (get_strategy env st) = return_p s" unfolding s by (rule ext) simp
  have "wp (bind_p (attempt_create env mid at ai st eo pt) (\<lambda>attempt.
      bind_p (lift_p (get_strategy env st)) (\<lambda>strategy.
      then_p (send_and_record env (machine_to_record m) attempt strategy) (return_p (wa_id attempt)))))
      (woken w m st) (\<lambda>_ _. False) w"
    unfolding lookup wp_bind wp_return by (rule create)
  with m found dead rec st(1) show ?thesis
    unfolding wake_service_wake_def wp_bind [of "machine_get_by_id env mid"] wp_machine_get_by_id
    by (simp add: wakeable_def Let_def)
qed

section \<open>Direct wakes\<close>

text \<open>The ids that will be drawn are UUIDs no attempt has.\<close>

definition fresh_attempt_ids :: "env \<Rightarrow> world \<Rightarrow> bool" where
  "fresh_attempt_ids env w \<longleftrightarrow>
     (\<forall>n \<ge> w_tick w. \<exists>i. pg_uuid env (uuid4 env n) = Some i \<and> i \<notin> wa_id ` set (attempts (w_committed w)))"

lemma wp_get_api_token_ok:
  assumes tok: "bearer_token (w_db w) rq tok" and wf: "wf_db (w_db w)" and dead: "\<not> w_dead w"
    and id: "pg_uuid env (t_id tok) = Some k"
    and ok: "\<And>n ts. w_tick w \<le> n \<Longrightarrow> Q tok (w\<lparr>w_tick := n, w_db := (w_db w)\<lparr>tokens := ts\<rparr>\<rparr>)"
  shows "wp (get_api_token env rq) Q E w"
proof -
  obtain raw where raw: "rq_authorization rq = Some (BEARER_PREFIX @ raw)" "tok \<in> set (tokens (w_db w))"
      "t_token_hash tok = sha256_hex raw" "t_revoked_at tok = None"
    using tok by (auto simp: bearer_token_def)
  have "find_row t_token_hash (t_token_hash tok) (tokens (w_db w)) = Some tok"
    by (rule find_row_distinct) (use wf raw(2) in \<open>simp_all add: wf_db_def wf_tokens_def\<close>)
  then have live: "live_token (hash_token raw) (w_db w) = Some tok"
    using raw by (simp add: live_token_def hash_token_def)
  have "wp (auth_validate_api_token env raw) Q (\<lambda>_. wp (raise_p (HTTPException 401 ''Invalid or revoked API token'')) Q E) w"
    unfolding auth_validate_api_token_def Let_def wp_bind wp_token_get_by_hash [OF dead wf] live
    using raw(4) id dead by (simp add: token_touch_last_used_def ok)
  then show ?thesis
    using raw(1) by (simp add: get_api_token_def starts_with_iff Let_def)
qed

text \<open>What a direct wake that is answered leaves committed, and what it sent.\<close>

definition delivered :: "MachineRecord \<Rightarrow> string \<Rightarrow> world \<Rightarrow> string \<Rightarrow> world \<Rightarrow> bool" where
  "delivered m st w aid v \<longleftrightarrow>
     (\<exists>a p. attempts (w_committed v) = attempts (w_committed w) @ [a] \<and> wa_id a = aid \<and> wa_status a = ''sent'' \<and>
        wa_machine_id a = m_id m \<and> wa_strategy a = st \<and> w_sent v = p # w_sent w \<and> wakes_machine st m p)"

definition requested_strategy :: "WakeRequest \<Rightarrow> MachineRecord \<Rightarrow> string" where
  "requested_strategy body m = (case wr_strategy body of Some s \<Rightarrow> WakeStrategy_value s | None \<Rightarrow> m_wake_strategy m)"

lemma requested_strategy_or:
  "requested_strategy body m = str_or (map_option WakeStrategy_value (wr_strategy body)) (m_wake_strategy m)"
proof (cases "wr_strategy body")
  case (Some s)
  then show ?thesis by (cases s) (simp_all add: requested_strategy_def str_or_def)
qed (simp add: requested_strategy_def str_or_def)

lemma requested_strategy_known:
  assumes "wf_db d" "m \<in> set (machines d)"
  shows "requested_strategy body m \<in> set wake_strategies"
proof (cases "wr_strategy body")
  case None
  with assms show ?thesis by (simp add: requested_strategy_def wf_db_def wf_machines_def)
next
  case (Some s)
  then show ?thesis by (cases s) (simp_all add: requested_strategy_def wake_strategies_def)
qed

lemma wp_direct_wake_up:
  assumes "pg_canonical env" "network_up env" and m: "wakeable env (w_committed w) machine_id m"
    and wf: "wf_db (w_committed w)" and tok: "bearer_token (w_committed w) rq tok"
    and id: "pg_uuid env (t_id tok) = Some k" "varchar 255 (t_id tok)" and ids: "fresh_attempt_ids env w"
    and body: "wake_request_ok body"
  shows "wp (get_db_session (wake_machine_direct env rq machine_id body))
     (\<lambda>r v. delivered m (requested_strategy body m) w (wp_attempt_id r) v \<and> wp_status r = ''sent'') (\<lambda>_ _. False) w"
proof -
  let ?w = "w\<lparr>w_db := w_committed w, w_dead := False\<rparr>" and ?st = "requested_strategy body m"
  let ?Q = "\<lambda>r v. (\<exists>a p. attempts (w_db v) = attempts (w_committed w) @ [a] \<and> wa_id a = wp_attempt_id r \<and>
      wa_status a = ''sent'' \<and> wa_machine_id a = m_id m \<and> wa_strategy a = ?st \<and> w_sent v = p # w_sent w \<and>
      wakes_machine ?st m p) \<and> wp_status r = ''sent'' \<and> \<not> w_dead v"
  have "wp (wake_machine_direct env rq machine_id body) ?Q (\<lambda>_ _. False) ?w"
    unfolding wake_machine_direct_def wp_bind
  proof (rule wp_get_api_token_ok)
    fix n ts assume n: "w_tick ?w \<le> n"
    let ?v = "?w\<lparr>w_tick := n, w_db := (w_db ?w)\<lparr>tokens := ts\<rparr>\<rparr>"
    obtain aid where aid: "pg_uuid env (uuid4 env n) = Some aid" "aid \<notin> wa_id ` set (attempts (w_committed w))"
      using ids n by (auto simp: fresh_attempt_ids_def)
    have "wp (wake_service_wake env machine_id ''api_token'' (t_id tok) (wr_ensure_online body)
        (wr_poll_timeout_s body) (map_option WakeStrategy_value (wr_strategy body))) (woken ?v m ?st) (\<lambda>_ _. False) ?v"
      using assms(1,2) m wf id(2) aid body requested_strategy_known [OF wf, of m body]
      by (intro wp_wake_service_up [where aid = aid])
         (auto simp: wakeable_def wf_db_def wf_machines_def requested_strategy_or varchar_def int4_def wake_request_ok_def)
    then show "wp (with_body (wake_request_ok body)
       (bind_p (catch_p
            (wake_service_wake env machine_id ''api_token'' (t_id tok) (wr_ensure_online body)
               (wr_poll_timeout_s body) (map_option WakeStrategy_value (wr_strategy body)))
            (\<lambda>exc. case exc of WakeError m \<Rightarrow> raise_p (HTTPException 422 (exn_str exc)) | _ \<Rightarrow> raise_p exc)) (\<lambda>attempt_id.
        return_p \<lparr>wp_attempt_id = attempt_id, wp_status = AttemptStatus_value SENT,
                    wp_message = ''Wake packet sent''\<rparr>))) ?Q (\<lambda>_ _. False) ?v"
      unfolding with_body_def wp_if wp_bind wp_catch wp_return
      using body by (auto elim!: wp_mono simp: woken_def)
  qed (use tok wf id in simp_all)
  then show ?thesis
    unfolding get_db_session_def wp_then wp_modify wp_catch wp_bind
    by (rule wp_mono) (auto simp: delivered_def)
qed

section \<open>Queued wakes\<close>

lemma wake_payload_job:
  "job_machine_id (wake_payload mid aid body uid) = mid" "job_ensure_online (wake_payload mid aid body uid) = wr_ensure_online body"
  "job_poll_timeout_s (wake_payload mid aid body uid) = Inr (wr_poll_timeout_s body)"
  "job_strategy_override (wake_payload mid aid body uid) = map_option WakeStrategy_value (wr_strategy body)"
  "payload_get (wake_payload mid aid body uid) ''actor_type'' v = JStr ''user''"
  "payload_get (wake_payload mid aid body uid) ''actor_id'' v = JStr uid"
proof -
  show "job_strategy_override (wake_payload mid aid body uid) = map_option WakeStrategy_value (wr_strategy body)"
  proof (cases "wr_strategy body")
    case (Some s)
    then show ?thesis by (cases s) (simp_all add: job_strategy_override_def dict_get_def wake_payload_def)
  qed (simp add: job_strategy_override_def dict_get_def wake_payload_def)
qed (simp_all add: job_machine_id_def job_ensure_online_def job_poll_timeout_s_def payload_get_def dict_get_def
      wake_payload_def py_int_show_int)

lemma wp_queued_round_up:
  assumes "pg_canonical env" "network_up env" and m: "wakeable env (w_committed w) machine_id m"
    and wf: "wf_db (w_committed w)" and ids: "fresh_attempt_ids env w"
    and j: "next_queued (\<lambda>_. False) (jobs (w_committed w)) = Some j" "pg_uuid env (j_id j) = Some (j_id j)"
      "j_payload j = wake_payload machine_id aid0 body uid"
    and body: "wake_request_ok body" "\<not> wr_ensure_online body" "varchar 255 uid"
  shows "wp (worker_iteration env fuel)
     (\<lambda>ended v. ended \<and> status_of (jobs (w_committed v)) (j_id j) = Some ''done'' \<and>
        (\<exists>aid. delivered m (requested_strategy body m) w aid v)) (\<lambda>_ _. False) w"
proof -
  let ?st = "requested_strategy body m"
  obtain v where v: "claim_next env w = (Inr (Some (j_id j, j_payload j)), v)"
      "attempts (w_committed v) = attempts (w_committed w) \<and> machines (w_committed v) = machines (w_committed w) \<and>
       w_sent v = w_sent w \<and> w_tick v = Suc (w_tick w)"
      "\<exists>t. jobs (w_committed v) = update_rows j_id (j_id j) (claim_row t) (jobs (w_committed w))"
    using run_claim_next [OF j(1)] by auto
  let ?v = "v\<lparr>w_db := w_committed v, w_dead := False\<rparr>"
  obtain aid where aid: "pg_uuid env (uuid4 env (w_tick v)) = Some aid" "aid \<notin> wa_id ` set (attempts (w_committed w))"
    using ids v(2) by (auto simp: fresh_attempt_ids_def dest!: spec [of _ "Suc (w_tick w)"])
  have "wp (wake_service_wake env machine_id ''user'' uid (wr_ensure_online body) (wr_poll_timeout_s body)
      (map_option WakeStrategy_value (wr_strategy body))) (woken ?v m ?st) (\<lambda>_ _. False) ?v"
    using assms(1,2) m wf aid v(2) body requested_strategy_known [OF wf, of m body]
    by (intro wp_wake_service_up [where aid = aid])
       (auto simp: wakeable_def wf_db_def wf_machines_def requested_strategy_or varchar_def int4_def wake_request_ok_def)
  then have job: "wp (process_job env fuel (j_payload j)) (\<lambda>r u. r \<and> (\<exists>aid. woken ?v m ?st aid u)) (\<lambda>_ _. False) ?v"
    unfolding j(3) process_job_def wake_payload_job Let_def
    using body(2) by (auto elim!: wp_mono)
  have "j \<in> set (jobs (w_committed w))" using next_queued_SomeD [OF j(1)] by (simp add: oldest_waiting_def)
  then have "status_of (jobs (w_committed w)) (j_id j) \<noteq> None"
    by (auto simp: status_of_def find_row_None simp flip: not_None_eq)
  with v(3) have row: "\<exists>s. status_of (jobs (w_committed v)) (j_id j) = Some s" by (auto simp: status_of_rows)
  show ?thesis
    unfolding worker_iteration_def wp_catch wp_bind wp_run [where m = "claim_next env" and s = w, OF v(1)]
      option.case prod.case wp_with_session
    by (rule wp_mono [OF job])
       (use j(2) v(2) row in \<open>auto simp: mark_done_def woken_def delivered_def status_of_rows\<close>)
qed

section \<open>Properties\<close>


text \<open>Two machines, and a token that was made for the second one.\<close>

definition demo_machine2 :: MachineRecord where
  "demo_machine2 = demo_machine\<lparr>m_id := uuid_b, m_mac_address := ''00:11:22:33:44:66''\<rparr>"

definition demo_token :: ApiTokenRecord where
  "demo_token = \<lparr>t_id = uuid_c, t_user_id = uuid_a, t_machine_id = Some uuid_b, t_name = ''nas2'',
     t_token_hash = sha256_hex ''wm_k'', t_prefix = ''wm_k'', t_scopes = [], t_last_used_at = None,
     t_revoked_at = None, t_created_at = 0\<rparr>"

definition demo_db_token :: db where
  "demo_db_token = demo_db_auth\<lparr>machines := [demo_machine, demo_machine2], tokens := [demo_token]\<rparr>"

lemma demo_uuid_length: "length uuid_a = 36" "length uuid_c = 36"
  by (simp_all add: uuid_a_def uuid_c_def)

lemma demo_db_token_wf: "wf_db demo_db_token"
  using demo_wf_auth
  by (simp add: demo_db_token_def demo_token_def demo_machine2_def wf_db_def wf_table_defs wake_strategies_def)

lemma demo_packet: "\<exists>packet. build_magic_packet ''00:11:22:33:44:55'' = Inr packet"
proof -
  have "mac_text CHR '':'' [0x00, 0x11, 0x22, 0x33, 0x44, 0x55] = ''00:11:22:33:44:55''" by code_simp
  with build_magic_packet_mac_text [of "[0x00, 0x11, 0x22, 0x33, 0x44, 0x55]" "CHR '':''"] show ?thesis by auto
qed


text \<open>
  A wake that was queued is served: with the network up, a round of the worker takes the
  oldest job, and if that is what \<open>POST /machines/{id}/wake\<close> queued for a machine that is stored
  and enabled and has a sendable MAC address, it marks the job done, commits exactly one attempt,
  as sent, by the strategy the request asked for, and sends exactly one packet, which wakes that
  machine.
\<close>

theorem queued_wake_delivers:
  assumes "pg_canonical env" and "network_up env" and "wakeable env (w_committed w) machine_id m"
    and "wf_db (w_committed w)" and "fresh_attempt_ids env w"
    and "next_queued (\<lambda>_. False) (jobs (w_committed w)) = Some j" and "pg_uuid env (j_id j) = Some (j_id j)"
    and "j_payload j = wake_payload machine_id attempt_id body user_id"
    and "wake_request_ok body" and "\<not> wr_ensure_online body" and "varchar 255 user_id"
  shows "wp (worker_iteration env fuel)
     (\<lambda>ended v. ended \<and> status_of (jobs (w_committed v)) (j_id j) = Some ''done'' \<and>
        (\<exists>aid. delivered m (requested_strategy body m) w aid v)) (\<lambda>_ _. False) w"
  by (rule wp_queued_round_up [OF assms])

definition demo_wake_job :: WakeJob where
  "demo_wake_job = demo_job\<lparr>j_payload := wake_payload uuid_a uuid_b demo_wake_request uuid_a\<rparr>"

theorem queued_wake_delivers_witness:
  "wp (worker_iteration demo_env 0)
     (\<lambda>ended v. ended \<and> status_of (jobs (w_committed v)) uuid_c = Some ''done'' \<and>
        (\<exists>aid. delivered demo_machine ''udp_broadcast'' (world_of (demo_db_attempt\<lparr>jobs := [demo_wake_job]\<rparr>) 10) aid v))
     (\<lambda>_ _. False) (world_of (demo_db_attempt\<lparr>jobs := [demo_wake_job]\<rparr>) 10)"
proof -
  let ?w = "world_of (demo_db_attempt\<lparr>jobs := [demo_wake_job]\<rparr>) 10"
  have "wf_db (w_committed ?w)"
    using demo_wf(2) by (simp add: wf_db_def wf_table_defs demo_wake_job_def demo_job_def job_statuses_def job_types_def)
  then have "wp (worker_iteration demo_env 0)
     (\<lambda>ended v. ended \<and> status_of (jobs (w_committed v)) (j_id demo_wake_job) = Some ''done'' \<and>
        (\<exists>aid. delivered demo_machine (requested_strategy demo_wake_request demo_machine) ?w aid v)) (\<lambda>_ _. False) ?w"
    using demo_packet
    by (intro queued_wake_delivers [where machine_id = uuid_a and attempt_id = uuid_b and user_id = uuid_a])
       (simp_all add: network_up_def wakeable_def fresh_attempt_ids_def wake_request_ok_def demo_wake_request_def
         demo_wake_job_def demo_job_def next_queued_def order_asc_def varchar_def demo_uuid_length)
  then show ?thesis by (simp add: requested_strategy_def demo_wake_request_def demo_wake_job_def demo_job_def)
qed

end
