(* ===== verification/WakeJourney.thy ===== *)
theory WakeJourney
  imports SeedRun WakeDelivery
begin

text \<open>
  A wake from the browser to the network: the request to \<open>POST /api/machines/{id}/wake\<close>, as the
  application serves it, and the round of the worker that takes the job off the queue.
\<close>

section \<open>The request\<close>

definition queued_row :: "WakeJob \<Rightarrow> bool" where
  "queued_row j \<longleftrightarrow> j_status j = ''queued''"

text \<open>The attempt and the job that a request adds.\<close>

definition wake_accepted :: "env \<Rightarrow> world \<Rightarrow> string \<Rightarrow> MachineRecord \<Rightarrow> WakeRequest \<Rightarrow> UserRecord \<Rightarrow> WakeAttemptRecord \<Rightarrow> WakeJob \<Rightarrow> bool" where
  "wake_accepted env w machine_id m body u a j \<longleftrightarrow>
     pg_uuid env (uuid4 env (w_tick w + 2)) = Some (wa_id a) \<and> wa_status a = ''pending'' \<and> wa_machine_id a = m_id m \<and>
     pg_uuid env (uuid4 env (w_tick w + 4)) = Some (j_id j) \<and> queued_row j \<and>
     j_payload j = wake_payload machine_id (wa_id a) body (u_id u)"

lemma wp_enqueue_ok:
  assumes "pg_uuid env (uuid4 env (w_tick w)) = Some k" "k \<notin> j_id ` set (jobs (w_committed w))"
    and "pg_uuid env mid = Some i" "i \<in> m_id ` set (machines (w_committed w))"
    and "pg_uuid env aid = Some aid" "aid \<in> wa_id ` set (attempts (w_committed w))" "aid \<notin> j_attempt_id ` set (jobs (w_committed w))"
    and "\<And>j. j_id j = k \<Longrightarrow> queued_row j \<Longrightarrow> j_payload j = payload \<Longrightarrow>
      Q (j_id j) (w\<lparr>w_tick := w_tick w + 2, w_committed := (w_committed w)\<lparr>jobs := jobs (w_committed w) @ [j]\<rparr>,
        w_db := (w_db w)\<lparr>jobs := jobs (w_db w) @ [j]\<rparr>\<rparr>)"
  shows "wp (enqueue env mid aid ''wake'' payload) Q E w"
  using assms
  by (simp add: enqueue_def insert_job_def and_then_def uuid_param_def conv_def check_def varchar_def job_statuses_def job_types_def
      Let_def queued_row_def tick_simps)

lemma wp_wake_accepted:
  assumes canonical: "pg_canonical env" and m: "wakeable env (w_committed w) machine_id m" and wf: "wf_db (w_committed w)"
    and su: "cookie_session env (w_committed w) (clock env (w_tick w) + w_slept w) rq = Some su" "canonical env (u_id (snd su))"
      "opens_session env rq (fst su) (clock env (Suc (w_tick w)) + w_slept w)"
    and body: "wake_request_ok body" and uid: "varchar 255 (u_id (snd su))"
    and i: "pg_uuid env (uuid4 env (w_tick w + 2)) = Some i" "i \<notin> wa_id ` set (attempts (w_committed w))"
    and k: "pg_uuid env (uuid4 env (w_tick w + 4)) = Some k" "k \<notin> j_id ` set (jobs (w_committed w))"
  shows "wp (handle_request env rq (ApiWake machine_id body))
     (\<lambda>r v. (\<exists>a j. w_committed v = (w_committed w)\<lparr>attempts := attempts (w_committed w) @ [a], jobs := jobs (w_committed w) @ [j]\<rparr> \<and>
          wake_accepted env w machine_id m body (snd su) a j \<and>
          rs_content r = JWake \<lparr>wp_attempt_id = wa_id a, wp_status = ''pending'', wp_message = ''Wake job queued''\<rparr>) \<and>
        rs_status r = 200 \<and> w_tick v = w_tick w + 6 \<and> w_slept v = w_slept w \<and> w_sent v = w_sent w) E w"
proof (rule wp_handle, goal_cases)
  case 1
  have found: "find_row m_id (m_id m) (machines (w_committed w)) = Some m" "m \<in> set (machines (w_committed w))"
    using m wf by (simp_all add: wakeable_def wf_db_def wf_machines_def find_row_distinct)
  have mid: "is_valid_uuid machine_id" "pg_uuid env machine_id = Some (m_id m)" using m by (simp_all add: wakeable_def)
  have aid: "pg_uuid env i = Some i" using canonical i(1) by (auto simp: pg_canonical_def canonical_def)
  have unused: "i \<notin> j_attempt_id ` set (jobs (w_committed w))"
    using wf i(2) by (auto simp: wf_db_def wf_jobs_def)
  have st: "(case wr_strategy body of Some s \<Rightarrow> WakeStrategy_value s | None \<Rightarrow> m_wake_strategy m) \<in> set wake_strategies"
    using requested_strategy_known [OF wf found(2), of body] by (simp add: requested_strategy_def)
  then have st_len: "length (case wr_strategy body of Some s \<Rightarrow> WakeStrategy_value s | None \<Rightarrow> m_wake_strategy m) \<le> 20"
    by (auto simp: wake_strategies_def)
  have timeout: "int4 (wr_poll_timeout_s body)" using body by (simp add: wake_request_ok_def int4_def)
  show ?case
    unfolding run_endpoint.simps answer_def wake_machine_def wp_bind
  proof (rule wp_csrf_user_exact [where su = su], goal_cases)
    case 5
    show ?case
    proof (rule wp_with_body [OF body], unfold wp_bind wp_machine_get_by_id, simp add: mid found(1),
        rule wp_attempt_create_ok [where aid = i and k = "m_id m"], goal_cases)
      case (10 a)
      have rows: "m_id m \<in> m_id ` set (machines (w_committed w))" using found(2) by simp
      show ?case
        by (simp, rule wp_enqueue_ok [where k = k and i = "m_id m"])
          (use 10 i(1) k mid aid unused rows in \<open>auto simp: wake_accepted_def tick_simps intro!: exI [of _ a]\<close>)
    qed (use i mid found st_len timeout uid in \<open>simp_all add: varchar_def machine_to_record_def tick_simps split: option.splits\<close>)
  qed (use su in simp_all)
qed

section \<open>The whole way\<close>

text \<open>The request and, once it is answered, a round of the worker.\<close>

definition wake_journey :: "env \<Rightarrow> nat \<Rightarrow> request \<Rightarrow> string \<Rightarrow> WakeRequest \<Rightarrow> (response \<times> bool) io" where
  "wake_journey env fuel rq machine_id body =
     bind_p (handle_request env rq (ApiWake machine_id body)) (\<lambda>r.
     bind_p (worker_iteration env fuel) (\<lambda>ended. return_p (r, ended)))"

text \<open>
  The ids drawn for the attempt, the job and the worker's attempt: ones PostgreSQL takes and no row
  has, the last two not that of the attempt.
\<close>

definition fresh_wake_ids :: "env \<Rightarrow> world \<Rightarrow> bool" where
  "fresh_wake_ids env w \<longleftrightarrow>
     (\<forall>n \<ge> w_tick w. \<exists>i. pg_uuid env (uuid4 env n) = Some i \<and> i \<notin> wa_id ` set (attempts (w_committed w)) \<and>
        i \<notin> j_id ` set (jobs (w_committed w))) \<and>
     (\<forall>n > w_tick w + 2. pg_uuid env (uuid4 env n) \<noteq> pg_uuid env (uuid4 env (w_tick w + 2)))"

text \<open>What the client was told, what is stored and what was sent.\<close>

definition journey_done :: "world \<Rightarrow> MachineRecord \<Rightarrow> string \<Rightarrow> response \<Rightarrow> world \<Rightarrow> bool" where
  "journey_done w m st r v \<longleftrightarrow>
     (\<exists>a b p j. attempts (w_committed v) = attempts (w_committed w) @ [a, b] \<and>
        rs_status r = 200 \<and> rs_content r = JWake \<lparr>wp_attempt_id = wa_id a, wp_status = ''pending'', wp_message = ''Wake job queued''\<rparr> \<and>
        wa_status a = ''pending'' \<and> wa_status b = ''sent'' \<and> wa_machine_id b = m_id m \<and> wa_strategy b = st \<and>
        status_of (jobs (w_committed v)) j = Some ''done'' \<and> w_sent v = p # w_sent w \<and> wakes_machine st m p)"

lemma next_queued_only:
  assumes "\<forall>j \<in> set rows. \<not> queued_row j" "queued_row j"
  shows "next_queued (\<lambda>_. False) (rows @ [j]) = Some j"
proof -
  have "filter (\<lambda>j. j_status j = ''queued'') rows = []" using assms(1) by (simp add: queued_row_def filter_empty_conv)
  then show ?thesis using assms(2) by (simp add: next_queued_def queued_row_def order_asc_def)
qed

lemma wp_wake_journey:
  assumes env: "pg_canonical env" "network_up env" and m: "wakeable env (w_committed w) machine_id m" and wf: "wf_db (w_committed w)"
    and su: "cookie_session env (w_committed w) (clock env (w_tick w) + w_slept w) rq = Some su" "canonical env (u_id (snd su))"
      "opens_session env rq (fst su) (clock env (Suc (w_tick w)) + w_slept w)" "varchar 255 (u_id (snd su))"
    and body: "wake_request_ok body" "\<not> wr_ensure_online body"
    and idle: "\<forall>j \<in> set (jobs (w_committed w)). \<not> queued_row j" and ids: "fresh_wake_ids env w"
  shows "wp (wake_journey env fuel rq machine_id body)
     (\<lambda>(r, ended) v. ended \<and> journey_done w m (requested_strategy body m) r v) (\<lambda>_ _. False) w"
proof -
  have draw: "\<exists>i. pg_uuid env (uuid4 env n) = Some i \<and> i \<notin> wa_id ` set (attempts (w_committed w)) \<and> i \<notin> j_id ` set (jobs (w_committed w))"
    if "w_tick w \<le> n" for n using ids that by (simp add: fresh_wake_ids_def)
  obtain i where i: "pg_uuid env (uuid4 env (w_tick w + 2)) = Some i" "i \<notin> wa_id ` set (attempts (w_committed w))"
    using draw [of "w_tick w + 2"] by auto
  obtain k where k: "pg_uuid env (uuid4 env (w_tick w + 4)) = Some k" "k \<notin> j_id ` set (jobs (w_committed w))"
    using draw [of "w_tick w + 4"] by auto
  have later: "pg_uuid env (uuid4 env n) \<noteq> Some i" if "n > w_tick w + 2" for n
    using ids that i(1) by (auto simp: fresh_wake_ids_def)
  let ?w = "w\<lparr>w_db := w_committed w\<rparr>"
  have keeps: "keeps wf_world (handle_request env rq (ApiWake machine_id body))" by (rule handle_request_wf)
  have "handle_request env rq (ApiWake machine_id body) w = handle_request env rq (ApiWake machine_id body) ?w"
    by (simp add: handle_request_def get_db_session_def)
  then have same: "wp (handle_request env rq (ApiWake machine_id body)) Q E w = wp (handle_request env rq (ApiWake machine_id body)) Q E ?w" for Q E
    by (simp add: wp_def)
  note accepted = wp_wake_accepted [where w = ?w and env = env and rq = rq and machine_id = machine_id and m = m and body = body
      and su = su and i = i and k = k and E = "\<lambda>_ _. False"]
  have wf_w: "wf_world ?w" using wf by (simp add: wf_world_def)
  have acc: "wp (handle_request env rq (ApiWake machine_id body))
     (\<lambda>r v. (\<exists>a j. w_committed v = (w_committed w)\<lparr>attempts := attempts (w_committed w) @ [a], jobs := jobs (w_committed w) @ [j]\<rparr> \<and>
          wake_accepted env w machine_id m body (snd su) a j \<and>
          rs_content r = JWake \<lparr>wp_attempt_id = wa_id a, wp_status = ''pending'', wp_message = ''Wake job queued''\<rparr>) \<and>
        rs_status r = 200 \<and> w_tick v = w_tick w + 6 \<and> w_slept v = w_slept w \<and> w_sent v = w_sent w) (\<lambda>_ _. False) ?w"
    using accepted env m wf su body i k by (simp add: wake_accepted_def)
  have wf_later: "wp (handle_request env rq (ApiWake machine_id body)) (\<lambda>_. wf_world) (\<lambda>_. wf_world) ?w"
    using keeps wf_w by (simp add: keeps_wp)
  have both: "wp (handle_request env rq (ApiWake machine_id body))
     (\<lambda>r v. ((\<exists>a j. w_committed v = (w_committed w)\<lparr>attempts := attempts (w_committed w) @ [a], jobs := jobs (w_committed w) @ [j]\<rparr> \<and>
          wake_accepted env w machine_id m body (snd su) a j \<and>
          rs_content r = JWake \<lparr>wp_attempt_id = wa_id a, wp_status = ''pending'', wp_message = ''Wake job queued''\<rparr>) \<and>
        rs_status r = 200 \<and> w_tick v = w_tick w + 6 \<and> w_slept v = w_slept w \<and> w_sent v = w_sent w) \<and> wf_world v)
     (\<lambda>e v. False \<and> wf_world v) w"
    unfolding same wp_conj using acc wf_later by blast
  show ?thesis
    unfolding wake_journey_def wp_bind wp_return
  proof (rule wp_mono [OF both], goal_cases)
    case (1 r v)
    then obtain a j where v: "w_committed v = (w_committed w)\<lparr>attempts := attempts (w_committed w) @ [a], jobs := jobs (w_committed w) @ [j]\<rparr>"
        "wake_accepted env w machine_id m body (snd su) a j"
        "rs_content r = JWake \<lparr>wp_attempt_id = wa_id a, wp_status = ''pending'', wp_message = ''Wake job queued''\<rparr>"
        "rs_status r = 200" "w_tick v = w_tick w + 6" "w_sent v = w_sent w" "wf_db (w_committed v)" by (auto simp: wf_world_def)
    have a: "wa_id a = i" "wa_status a = ''pending''" "queued_row j" "pg_uuid env (j_id j) = Some (j_id j)"
        "j_payload j = wake_payload machine_id (wa_id a) body (u_id (snd su))"
      using v(2) i(1) env(1) by (auto simp: wake_accepted_def pg_canonical_def canonical_def)
    have fresh: "fresh_attempt_ids env v"
      unfolding fresh_attempt_ids_def
    proof (intro allI impI)
      fix n assume "w_tick v \<le> n"
      then have n: "w_tick w \<le> n" "n > w_tick w + 2" using v(5) by simp_all
      from draw [OF n(1)] later [OF n(2)] show "\<exists>i. pg_uuid env (uuid4 env n) = Some i \<and> i \<notin> wa_id ` set (attempts (w_committed v))"
        using v(1) a(1) by auto
    qed
    have nxt: "next_queued (\<lambda>_. False) (jobs (w_committed v)) = Some j"
      using next_queued_only [OF idle a(3)] v(1) by simp
    have m': "wakeable env (w_committed v) machine_id m" using m v(1) by (simp add: wakeable_def)
    show ?case
      by (rule wp_mono [OF wp_queued_round_up [OF env m' v(7) fresh nxt a(4,5) body su(4)]])
        (use v a in \<open>auto simp: delivered_def journey_done_def\<close>)
  qed simp
qed

text \<open>
  C10. A wake from the browser to the network. With an idle queue and the commands in place, a
  signed-in user who asks, with the CSRF token, for a stored and enabled machine with a sendable MAC
  address to be woken is answered 200 with the id of an attempt that is pending; the next round of
  the worker ends normally, marks the job done and sends exactly one packet, which wakes that
  machine, by the strategy the request names or else the machine's own. Two attempts are added, and
  the one the client was given stays pending: the worker records the outcome in the other.
\<close>

theorem wake_journey_delivers:
  assumes "pg_canonical env" and "network_up env" and "wakeable env (w_committed w) machine_id m" and "wf_db (w_committed w)"
    and "cookie_session env (w_committed w) (clock env (w_tick w) + w_slept w) rq = Some su"
    and "canonical env (u_id (snd su))" and "opens_session env rq (fst su) (clock env (Suc (w_tick w)) + w_slept w)"
    and "varchar 255 (u_id (snd su))" and "wake_request_ok body" and "\<not> wr_ensure_online body"
    and "\<forall>j \<in> set (jobs (w_committed w)). \<not> queued_row j" and "fresh_wake_ids env w"
  shows "wp (wake_journey env fuel rq machine_id body)
     (\<lambda>(r, ended) v. ended \<and> journey_done w m (requested_strategy body m) r v) (\<lambda>_ _. False) w"
  by (rule wp_wake_journey [OF assms])

theorem wake_journey_delivers_witness:
  "wp (wake_journey demo_env 0 demo_csrf_request uuid_a demo_wake_request)
     (\<lambda>(r, ended) v. ended \<and> length (attempts (w_committed v)) = 2 \<and> length (w_sent v) = 1)
     (\<lambda>_ _. False) (world_of demo_db_auth 7)"
proof -
  let ?w = "world_of demo_db_auth 7"
  have su: "cookie_session demo_env (w_committed ?w) (clock demo_env (w_tick ?w) + w_slept ?w) demo_csrf_request =
      Some (session_to_record demo_session, demo_user)"
    by (simp add: cookie_session_def session_of_def demo_csrf_request_def demo_request_def seconds_def)
  have opens: "opens_session demo_env demo_csrf_request (session_to_record demo_session) (clock demo_env (Suc (w_tick ?w)) + w_slept ?w)"
  proof -
    let ?tok = "its_dumps demo_env (app_secret demo_env) CSRF_SALT (csrf_payload uuid_b ''k'') 0"
    have tok: "?tok \<noteq> []" by (simp add: csrf_payload_def demo_dumps_def mark_def)
    then have "csrf_token_of demo_csrf_request = ?tok"
      by (simp add: csrf_token_of_def demo_csrf_request_def demo_request_def str_or_def)
    moreover have "its_loads demo_env (app_secret demo_env) CSRF_SALT ?tok 8 MAX_AGE = Inr (csrf_payload uuid_b ''k'')"
      by (simp add: csrf_payload_def MAX_AGE_def seconds_def)
    ultimately show ?thesis
      using tok by (simp add: opens_session_def csrf_payload_def dict_get_def session_to_record_def)
  qed
  have "wp (wake_journey demo_env 0 demo_csrf_request uuid_a demo_wake_request)
     (\<lambda>(r, ended) v. ended \<and> journey_done ?w demo_machine (requested_strategy demo_wake_request demo_machine) r v) (\<lambda>_ _. False) ?w"
    by (rule wake_journey_delivers [OF _ _ _ _ su])
      (use opens demo_packet in \<open>simp_all add: network_up_def wakeable_def fresh_wake_ids_def wake_request_ok_def demo_wake_request_def
        varchar_def demo_uuid_length\<close>)
  then show ?thesis
    by (rule wp_mono) (auto simp: journey_done_def)
qed

end
