(* ===== verification/Processes.thy ===== *)
theory Processes
  imports Worker Bootstrap
begin

text \<open>
  The two processes from their start: the log level, the part of \<open>create_app\<close> and of \<open>run_worker\<close>
  before the first request or job, the signal handler, and the worker's loop, which may run for
  ever. The lemmas say when the worker returns, and that it works its queue off before it does.
\<close>

section \<open>Logging\<close>

text \<open>The names of the levels in Python's \<open>logging\<close>.\<close>

definition level_names :: "(string \<times> int) list" where
  "level_names = [(''CRITICAL'', 50), (''FATAL'', 50), (''ERROR'', 40), (''WARN'', 30), (''WARNING'', 30),
     (''INFO'', 20), (''DEBUG'', 10), (''NOTSET'', 0)]"

text \<open>
  \<open>logging.basicConfig\<close> in a process whose root logger has no handler yet; the level found is the
  one structlog filters by.
\<close>

definition configure_logging :: "Settings \<Rightarrow> exn + int" where
  "configure_logging s =
     (case map_of level_names (upper (log_level s)) of
        Some level \<Rightarrow> Inr level
      | None \<Rightarrow> Inl (ValueError (''Unknown level: '' @ py_repr (upper (log_level s)))))"

text \<open>What \<open>create_app\<close> does before it builds the application.\<close>

definition create_app_start :: "Settings \<Rightarrow> singletons \<Rightarrow> (exn + int) \<times> singletons" where
  "create_app_start read g = (let (s, g) = get_settings read g in (configure_logging s, g))"

text \<open>
  What \<open>run_worker\<close> does before its loop; the worker makes an engine and a session factory of its
  own, beside those of the module \<open>database\<close>.
\<close>

definition run_worker_start :: "Settings \<Rightarrow> singletons \<Rightarrow> (exn + int \<times> session_factory) \<times> singletons" where
  "run_worker_start read g =
     (let (s, g) = get_settings read g in
      (and_then (configure_logging s) (\<lambda>level.
         let e = \<lparr>eng_url = database_url s, eng_echo = False, eng_pool_pre_ping = True\<rparr>
         in Inr (level, \<lparr>sf_engine = e, sf_expire_on_commit = False\<rparr>)), g))"

lemma start_same_errors:
  "(\<exists>e. fst (create_app_start read g) = Inl e) = (\<exists>e. fst (run_worker_start read g) = Inl e)"
  by (auto simp: create_app_start_def run_worker_start_def and_then_def Let_def split: prod.splits sum.splits)

section \<open>The process of the worker\<close>

text \<open>\<open>_handle_signal\<close>, which \<open>main\<close> registers for both signals, and the flag \<open>_shutdown\<close>.\<close>

datatype signal = SIGTERM | SIGINT

definition handle_signal :: "signal \<Rightarrow> bool \<Rightarrow> bool" where
  "handle_signal signum shutdown = True"

text \<open>
  The loop: \<open>sigs k\<close> are the signals that arrive during round \<open>k\<close>, the sleep at its end included.
  The result is how the loop was left, after how many rounds; \<open>None\<close> stands for a loop that does not
  return.
\<close>

partial_function (option) worker_loop ::
    "env \<Rightarrow> nat \<Rightarrow> (nat \<Rightarrow> signal list) \<Rightarrow> nat \<Rightarrow> bool \<Rightarrow> world \<Rightarrow> ((exn + nat) \<times> world) option" where
  "worker_loop env fuel sigs k shutdown w =
     (if shutdown then Some (Inr k, w)
      else case worker_iteration env fuel w of
        (Inl e, v) \<Rightarrow> Some (Inl e, v)
      | (Inr ended, v) \<Rightarrow>
          if ended
          then worker_loop env fuel sigs (Suc k) (fold handle_signal (sigs k) shutdown)
                 (snd (sleep (seconds WORKER_POLL_INTERVAL_S) v))
          else None)"

text \<open>\<open>main\<close>: \<open>early\<close> are the signals that arrive between the registration of the handler and the loop.\<close>

definition worker_main ::
    "env \<Rightarrow> nat \<Rightarrow> Settings \<Rightarrow> signal list \<Rightarrow> (nat \<Rightarrow> signal list) \<Rightarrow> world \<Rightarrow> ((exn + nat) \<times> world) option" where
  "worker_main env fuel read early sigs w =
     (case fst (run_worker_start read no_singletons) of
        Inl e \<Rightarrow> Some (Inl e, w)
      | Inr _ \<Rightarrow> worker_loop env fuel sigs 0 (fold handle_signal early False) w)"

lemma handled [simp]: "fold handle_signal ss b = (ss \<noteq> [] \<or> b)"
  by (induction ss arbitrary: b) (simp_all add: handle_signal_def)

lemma loop_shutdown: "worker_loop env fuel sigs k True w = Some (Inr k, w)"
  by (simp add: worker_loop.simps)

lemma loop_round:
  "worker_loop env fuel sigs k False w =
     (case worker_iteration env fuel w of
        (Inl e, v) \<Rightarrow> Some (Inl e, v)
      | (Inr ended, v) \<Rightarrow>
          if ended then worker_loop env fuel sigs (Suc k) (sigs k \<noteq> []) (v\<lparr>w_slept := w_slept v + seconds WORKER_POLL_INTERVAL_S\<rparr>)
          else None)"
  by (subst worker_loop.simps) (simp split: prod.split sum.split)

section \<open>When the worker returns\<close>

text \<open>Without a signal it does not.\<close>

lemma loop_needs_signal:
  assumes "worker_loop env fuel sigs k shutdown w = Some r"
  shows "shutdown \<or> (\<exists>e v. r = (Inl e, v)) \<or> (\<exists>i \<ge> k. sigs i \<noteq> [])"
proof (rule worker_loop.raw_induct [where P = "\<lambda>env fuel sigs k shutdown w r. shutdown \<or> (\<exists>e v. r = (Inl e, v)) \<or> (\<exists>i \<ge> k. sigs i \<noteq> [])",
      OF _ assms], goal_cases)
  case (1 loop env fuel sigs k shutdown w r)
  obtain x v where it: "worker_iteration env fuel w = (x, v)" by (cases "worker_iteration env fuel w")
  show ?case
  proof (cases "shutdown \<or> (\<exists>e. x = Inl e) \<or> x = Inr False")
    case False
    then have "x = Inr True" "\<not> shutdown" by (cases x, auto)+
    with 1(2) it have "loop env fuel sigs (Suc k) (sigs k \<noteq> []) (snd (sleep (seconds WORKER_POLL_INTERVAL_S) v)) = Some r" by simp
    from 1(1) [OF this] show ?thesis by (auto dest: Suc_leD)
  qed (use 1(2) it in auto)
qed


lemma loop_never_raises:
  assumes "worker_loop env fuel sigs k shutdown w = Some r"
  shows "\<exists>n v. r = (Inr n, v)"
proof (rule worker_loop.raw_induct [where P = "\<lambda>env fuel sigs k shutdown w r. \<exists>n v. r = (Inr n, v)", OF _ assms], goal_cases)
  case (1 loop env fuel sigs k shutdown w r)
  obtain x v where it: "worker_iteration env fuel w = (x, v)" by (cases "worker_iteration env fuel w")
  have "x \<noteq> Inl e" for e using worker_iteration_never_raises [of env fuel w] it by (auto simp: wp_def)
  then obtain b where "x = Inr b" by (cases x) auto
  with 1(2) it 1(1) show ?case by (auto split: if_splits)
qed

text \<open>With one, it runs the rounds up to the one it arrives in.\<close>

definition loop_result :: "nat \<Rightarrow> (exn + bool) \<times> world \<Rightarrow> ((exn + nat) \<times> world) option" where
  "loop_result n r =
     (case r of
        (Inl e, v) \<Rightarrow> Some (Inl e, v)
      | (Inr ended, v) \<Rightarrow> if ended then Some (Inr n, v) else None)"

lemma loop_until_signal:
  assumes "sigs (k + n) \<noteq> []" "\<And>i. i < n \<Longrightarrow> sigs (k + i) = []"
  shows "worker_loop env fuel sigs k False w = loop_result (k + Suc n) (run_worker env fuel (Suc n) w)"
  using assms
proof (induction n arbitrary: k w)
  case 0
  then show ?case
    by (simp add: loop_round loop_shutdown run_worker_Suc run_worker_0 bind_p_def then_p_def return_p_def loop_result_def
        split: prod.split sum.split)
next
  case (Suc n)
  have "sigs k = []" using Suc.prems(2) [of 0] by simp
  moreover have "worker_loop env fuel sigs (Suc k) False v = loop_result (k + Suc (Suc n)) (run_worker env fuel (Suc n) v)" for v
    using Suc.IH [of "Suc k" v] Suc.prems by (metis Suc_less_eq add_Suc add_Suc_right)
  ultimately show ?case
    by (subst loop_round, subst run_worker_Suc)
      (simp add: bind_p_def then_p_def return_p_def loop_result_def del: add_Suc_right split: prod.split sum.split)
qed


text \<open>
  C21. The worker returns when it is told to and only then: if no signal ever arrives, the loop does
  not return; and if the first arrives in round \<open>n\<close>, counted from 0, the loop is left after that
  round's sleep, having done \<open>n + 1\<close> rounds, if each of these ends.
\<close>

theorem worker_returns_on_signal:
  "worker_loop env fuel sigs 0 False w =
     (if \<exists>n. sigs n \<noteq> [] then
        (let rounds = Suc (LEAST n. sigs n \<noteq> []) in loop_result rounds (run_worker env fuel rounds w))
      else None)"
proof (cases "\<exists>n. sigs n \<noteq> []")
  case True
  then have "sigs (LEAST n. sigs n \<noteq> []) \<noteq> []" by (rule LeastI_ex)
  moreover have "sigs i = []" if "i < (LEAST n. sigs n \<noteq> [])" for i
    using not_less_Least [OF that] by simp
  ultimately show ?thesis
    using loop_until_signal [where sigs = sigs and k = 0 and n = "LEAST n. sigs n \<noteq> []" and env = env and fuel = fuel and w = w]
    unfolding if_P [OF True] Let_def add_0 by blast
next
  case False
  have none: "worker_loop env fuel sigs 0 False w \<noteq> Some r" for r
    using loop_needs_signal [of env fuel sigs 0 False w r] loop_never_raises [of env fuel sigs 0 False w r] False by auto
  show ?thesis
    unfolding if_not_P [OF False] using none by (cases "worker_loop env fuel sigs 0 False w") auto
qed

section \<open>The queue is worked off\<close>

text \<open>The ids of the jobs that wait.\<close>

definition waiting_ids :: "WakeJob list \<Rightarrow> string list" where
  "waiting_ids rows = filter (\<lambda>i. status_of rows i = Some ''queued'') (map j_id rows)"

text \<open>Of the rows \<open>c\<close> some were claimed, finished or marked; those still queued are as they were.\<close>

definition from_rows :: "WakeJob list \<Rightarrow> WakeJob list \<Rightarrow> bool" where
  "from_rows c rows \<longleftrightarrow> map j_id rows = map j_id c \<and> (\<forall>r \<in> set rows. j_status r = ''queued'' \<longrightarrow> r \<in> set c)"

definition jobs_from :: "WakeJob list \<Rightarrow> world \<Rightarrow> bool" where
  "jobs_from c w \<longleftrightarrow> from_rows c (jobs (w_committed w)) \<and> from_rows c (jobs (w_db w))"

lemma from_rows_update:
  assumes "from_rows c rows" "\<And>r. j_id (f r) = j_id r" "\<And>r. j_status (f r) \<noteq> ''queued''"
  shows "from_rows c (update_rows j_id i f rows)"
proof -
  have "map j_id (update_rows j_id i f rows) = map j_id rows"
    by (simp add: update_rows_def assms(2))
  moreover have "r \<in> set c" if "r \<in> set (update_rows j_id i f rows)" "j_status r = ''queued''" for r
    using that assms(1,3) by (auto simp: from_rows_def update_rows_def split: if_splits)
  ultimately show ?thesis using assms(1) by (simp add: from_rows_def)
qed

lemma queue_jobs_from:
  "keeps (jobs_from c) (claim_next env)" "keeps (jobs_from c) (mark_done env i)" "keeps (jobs_from c) (mark_error env i e)"
proof -
  have own: "keeps (jobs_from c) (own_session (update_rows j_id k f))"
    if "\<And>r. j_id (f r) = j_id r" "\<And>r. j_status (f r) \<noteq> ''queued''" for k f
    using that by (auto simp: keeps_def jobs_from_def intro: from_rows_update)
  show "keeps (jobs_from c) (claim_next env)" "keeps (jobs_from c) (mark_done env i)" "keeps (jobs_from c) (mark_error env i e)"
    unfolding claim_next_def mark_done_def mark_error_def
    by (intro keeps_intros keeps_now own; simp add: jobs_from_def)+
qed

lemma iteration_jobs_from: "keeps (jobs_from c) (worker_iteration env fuel)"
proof -
  have free: "attempt_free (jobs_from c)" by (simp add: attempt_free_def jobs_from_def)
  have "keeps (jobs_from c) commit" "keeps (jobs_from c) rollback"
    by (auto simp: keeps_def jobs_from_def)
  then show ?thesis
    unfolding worker_iteration_def
    by (intro keeps_intros queue_jobs_from keeps_with_session process_job_attempts_only free) (simp_all add: jobs_from_def)
qed

text \<open>The jobs a worker can finish without polling.\<close>

definition settled_at_once :: "env \<Rightarrow> WakeJob list \<Rightarrow> bool" where
  "settled_at_once env c \<longleftrightarrow> distinct (map j_id c) \<and>
     (\<forall>r \<in> set c. pg_uuid env (j_id r) = Some (j_id r) \<and> (j_status r = ''queued'' \<longrightarrow> \<not> job_ensure_online (j_payload r)))"

text \<open>Whatever was queued is done or in error, the other jobs are as they were.\<close>

definition worked_off :: "world \<Rightarrow> world \<Rightarrow> bool" where
  "worked_off w v \<longleftrightarrow>
     (\<forall>i. (status_of (jobs (w_committed w)) i = Some ''queued'' \<longrightarrow>
             status_of (jobs (w_committed v)) i \<in> set [Some ''done'', Some ''error'']) \<and>
          (status_of (jobs (w_committed w)) i \<noteq> Some ''queued'' \<longrightarrow>
             status_of (jobs (w_committed v)) i = status_of (jobs (w_committed w)) i))"

lemma status_of_id: "status_of rows i = Some st \<Longrightarrow> i \<in> set (map j_id rows)"
  by (auto simp: status_of_def dest!: find_row_SomeD)

lemma waiting_ids_mem: "i \<in> set (waiting_ids rows) \<longleftrightarrow> status_of rows i = Some ''queued''"
  using status_of_id [of rows i] by (auto simp: waiting_ids_def)

lemma worked_off_refl: "waiting_ids (jobs (w_committed w)) = [] \<Longrightarrow> worked_off w w"
  using waiting_ids_mem [where rows = "jobs (w_committed w)"] by (auto simp: worked_off_def)

lemma worked_off_step:
  assumes "status_of (jobs (w_committed w)) i = Some ''queued''" "job_settled i w v" "worked_off v u"
  shows "worked_off w u"
proof -
  have i: "status_of (jobs (w_committed v)) i \<in> set [Some ''done'', Some ''error'']" "status_of (jobs (w_committed v)) i \<noteq> Some ''queued''"
    and k: "\<And>k. k \<noteq> i \<Longrightarrow> status_of (jobs (w_committed v)) k = status_of (jobs (w_committed w)) k"
    using assms(2) by (auto simp: job_settled_def)
  show ?thesis
    unfolding worked_off_def
  proof
    fix k'
    show "(status_of (jobs (w_committed w)) k' = Some ''queued'' \<longrightarrow> status_of (jobs (w_committed u)) k' \<in> set [Some ''done'', Some ''error'']) \<and>
      (status_of (jobs (w_committed w)) k' \<noteq> Some ''queued'' \<longrightarrow> status_of (jobs (w_committed u)) k' = status_of (jobs (w_committed w)) k')"
    proof (cases "k' = i")
      case True
      then show ?thesis using assms(1,3) i unfolding worked_off_def by metis
    next
      case False
      then show ?thesis using assms(3) k [OF False] unfolding worked_off_def by metis
    qed
  qed
qed

lemma waiting_ids_settled:
  assumes "job_settled i w v" "map j_id (jobs (w_committed v)) = map j_id (jobs (w_committed w))"
    "status_of (jobs (w_committed w)) i = Some ''queued''"
  shows "length (waiting_ids (jobs (w_committed v))) < length (waiting_ids (jobs (w_committed w)))"
proof -
  have "(status_of (jobs (w_committed v)) k = Some ''queued'') = (k \<noteq> i \<and> status_of (jobs (w_committed w)) k = Some ''queued'')" for k
    using assms(1) by (cases "k = i") (auto simp: job_settled_def)
  then have "waiting_ids (jobs (w_committed v)) = filter (\<lambda>k. k \<noteq> i) (waiting_ids (jobs (w_committed w)))"
    using assms(2) by (simp add: waiting_ids_def conj_commute)
  moreover have "i \<in> set (waiting_ids (jobs (w_committed w)))" using assms(3) by (simp add: waiting_ids_mem)
  ultimately show ?thesis by (simp add: length_filter_less)
qed

text \<open>A round on an idle queue does nothing.\<close>

lemma idle_round:
  assumes "next_queued (\<lambda>_. False) (jobs (w_committed w)) = None"
  shows "worker_iteration env fuel w = (Inr True, w)" "waiting_ids (jobs (w_committed w)) = []"
proof -
  show "worker_iteration env fuel w = (Inr True, w)"
    using assms by (simp add: worker_iteration_def claim_next_def)
  have "status_of (jobs (w_committed w)) i \<noteq> Some ''queued''" for i
    using next_queued_NoneD [OF assms] by (auto simp: status_of_def none_waiting_def waiting_def dest: find_row_SomeD)
  then show "waiting_ids (jobs (w_committed w)) = []" by (simp add: waiting_ids_def)
qed

lemma wp_run_worker_works_off:
  assumes "pg_canonical env" "settled_at_once env c" "jobs_from c w" "length (waiting_ids (jobs (w_committed w))) \<le> n"
  shows "wp (run_worker env fuel n) (\<lambda>ended v. ended \<and> worked_off w v) (\<lambda>_ _. False) w"
  using assms(3,4)
proof (induction n arbitrary: w)
  case 0
  then show ?case unfolding run_worker_0 wp_return by (simp add: worked_off_refl)
next
  case (Suc n)
  have later: "worked_off (v\<lparr>w_slept := t\<rparr>) u = worked_off v u" for v u t
    by (simp add: worked_off_def)
  show ?case
  proof (cases "next_queued (\<lambda>_. False) (jobs (w_committed w))")
    case None
    from Suc.IH [of "w\<lparr>w_slept := w_slept w + seconds WORKER_POLL_INTERVAL_S\<rparr>"] Suc.prems(1) idle_round(2) [OF None]
    show ?thesis
      unfolding run_worker_Suc wp_bind wp_run [where m = "worker_iteration env fuel" and s = w, OF idle_round(1) [OF None]]
      by (simp add: later jobs_from_def)
  next
    case (Some j)
    have old: "oldest_waiting (\<lambda>_. False) (jobs (w_committed w)) j" by (rule next_queued_SomeD [OF Some])
    then have j: "j \<in> set (jobs (w_committed w))" "j_status j = ''queued''" by (simp_all add: oldest_waiting_def waiting_def)
    with Suc.prems(1) have c: "j \<in> set c" by (simp add: jobs_from_def from_rows_def)
    with assms(2) j have id: "pg_uuid env (j_id j) = Some (j_id j)" "\<not> job_ensure_online (j_payload j)"
      by (simp_all add: settled_at_once_def)
    have "distinct (map j_id (jobs (w_committed w)))"
      using Suc.prems(1) assms(2) by (simp add: jobs_from_def from_rows_def settled_at_once_def)
    then have st: "status_of (jobs (w_committed w)) (j_id j) = Some ''queued''" by (rule status_of_SomeD [OF old])
    have "wp (worker_iteration env fuel) (\<lambda>r v. (r \<and> attempts_extended w v \<and> job_settled (j_id j) w v) \<and> jobs_from c v)
        (\<lambda>_ v. False \<and> jobs_from c v) w"
      unfolding wp_conj using wp_no_poll_round [OF assms(1) Some id] iteration_jobs_from [of c env fuel] Suc.prems(1)
      by (simp add: keeps_wp)
    then show ?thesis
      unfolding run_worker_Suc wp_bind
    proof (rule wp_mono, goal_cases)
      case (1 r v)
      then have v: "r" "job_settled (j_id j) w v" "jobs_from c v" by simp_all
      have "map j_id (jobs (w_committed v)) = map j_id (jobs (w_committed w))"
        using v(3) Suc.prems(1) by (simp add: jobs_from_def from_rows_def)
      from waiting_ids_settled [OF v(2) this st] Suc.prems(2) have "length (waiting_ids (jobs (w_committed v))) \<le> n" by simp
      with v(3) Suc.IH [of "v\<lparr>w_slept := w_slept v + seconds WORKER_POLL_INTERVAL_S\<rparr>"]
      have "wp (run_worker env fuel n) (\<lambda>ended u. ended \<and> worked_off v u) (\<lambda>_ _. False)
          (v\<lparr>w_slept := w_slept v + seconds WORKER_POLL_INTERVAL_S\<rparr>)"
        by (simp add: later jobs_from_def)
      then show ?case
        using v(1) worked_off_step [OF st v(2)] by (auto intro: wp_mono)
    qed simp
  qed
qed

text \<open>
  C13. The queue is worked off before the worker stops. If the log level is one Python knows, the
  queued jobs ask for no polling, and the first signal arrives in round \<open>n\<close>, late enough to leave a
  round for each of them, then the worker returns after \<open>n + 1\<close> rounds, every job that was queued is
  done or in error, and the others are as they were, whatever fails in between.
\<close>

theorem worker_works_off_queue:
  assumes "pg_canonical env" and "settled_at_once env (jobs (w_committed w))" and "w_db w = w_committed w"
    and "sigs n \<noteq> []" and "\<forall>i < n. sigs i = []" and "length (waiting_ids (jobs (w_committed w))) \<le> Suc n"
    and "upper (log_level read) \<in> fst ` set level_names"
  shows "\<exists>v. worker_main env fuel read [] sigs w = Some (Inr (Suc n), v) \<and> worked_off w v"
proof -
  have "jobs_from (jobs (w_committed w)) w" by (simp add: jobs_from_def from_rows_def assms(3))
  then have "wp (run_worker env fuel (Suc n)) (\<lambda>ended v. ended \<and> worked_off w v) (\<lambda>_ _. False) w"
    using assms(1,2,6) by (intro wp_run_worker_works_off)
  then obtain v where v: "run_worker env fuel (Suc n) w = (Inr True, v)" "worked_off w v"
    by (auto simp: wp_def split: prod.splits sum.splits)
  have "worker_loop env fuel sigs 0 False w = Some (Inr (Suc n), v)"
    using loop_until_signal [where sigs = sigs and k = 0 and n = n and env = env and fuel = fuel and w = w] assms(4,5) v(1)
    by (simp add: loop_result_def)
  moreover have "\<exists>x. fst (run_worker_start read no_singletons) = Inr x"
  proof -
    have "map_of level_names (upper (log_level read)) \<noteq> None" using assms(7) by (simp add: map_of_eq_None_iff)
    then show ?thesis
      by (auto simp: run_worker_start_def get_settings_def no_singletons_def configure_logging_def and_then_def Let_def)
  qed
  ultimately show ?thesis using v(2) by (auto simp: worker_main_def)
qed

theorem worker_works_off_queue_witness:
  "\<exists>v. worker_main demo_env 0 default_settings [] (\<lambda>n. if n = 2 then [SIGTERM] else []) (world_of (demo_db_attempt\<lparr>jobs := [demo_job]\<rparr>) 0)
       = Some (Inr 3, v) \<and> status_of (jobs (w_committed v)) uuid_c \<in> set [Some ''done'', Some ''error'']"
proof -
  let ?w = "world_of (demo_db_attempt\<lparr>jobs := [demo_job]\<rparr>) 0"
  have level: "upper (log_level default_settings) \<in> fst ` set level_names"
    by code_simp
  have "\<exists>v. worker_main demo_env 0 default_settings [] (\<lambda>n. if n = 2 then [SIGTERM] else []) ?w = Some (Inr (Suc 2), v) \<and> worked_off ?w v"
    by (rule worker_works_off_queue [OF _ _ _ _ _ _ level])
      (simp_all add: settled_at_once_def demo_job_def job_ensure_online_def payload_get_def dict_get_def waiting_ids_def)
  moreover have "status_of (jobs (w_committed ?w)) uuid_c = Some ''queued''"
    by (simp add: status_of_def demo_job_def)
  ultimately show ?thesis unfolding worked_off_def by (simp only: eval_nat_numeral) blast
qed

end
