(* ===== verification/Ports.thy ===== *)
theory Ports
  imports Example
begin

text \<open>
  The repository interfaces of \<open>app/domain/ports.py\<close>, each abstract class as a record of its methods
  with the methods of the SQL class of \<open>app/persistence/repositories.py\<close> that implements it, and what
  the interfaces promise: the machines and the users are finite maps from ids to records, which the
  SQL methods read and change as a map is read and changed.
\<close>

section \<open>The interfaces\<close>

record UserRepository =
  ur_get_by_id :: "string \<Rightarrow> UserRecord option io"
  ur_get_by_username :: "string \<Rightarrow> UserRecord option io"
  ur_create :: "string \<Rightarrow> string \<Rightarrow> string \<Rightarrow> UserRecord io"
  ur_update_last_login :: "string \<Rightarrow> unit io"
  ur_update_password_hash :: "string \<Rightarrow> string \<Rightarrow> unit io"
  ur_count :: "int io"

record MachineRepository =
  mr_get_by_id :: "string \<Rightarrow> MachineRecord option io"
  mr_list_all :: "bool \<Rightarrow> MachineRecord list io"
  mr_create :: "MachineFields \<Rightarrow> MachineRecord io"
  mr_update :: "string \<Rightarrow> machine_kwarg list \<Rightarrow> MachineRecord option io"
  mr_delete :: "string \<Rightarrow> bool io"
  mr_count :: "int io"

record WakeAttemptRepository =
  wr_create :: "string \<Rightarrow> string \<Rightarrow> string \<Rightarrow> string \<Rightarrow> bool \<Rightarrow> int \<Rightarrow> WakeAttemptRecord io"
  wr_get_by_id :: "string \<Rightarrow> WakeAttemptRecord option io"
  wr_update_status :: "string \<Rightarrow> string \<Rightarrow> string option \<Rightarrow> datetime option \<Rightarrow> unit io"
  wr_list_for_machine :: "string \<Rightarrow> nat \<Rightarrow> WakeAttemptRecord list io"
  wr_get_active_for_machine :: "string \<Rightarrow> WakeAttemptRecord option io"

record SessionRepository =
  sr_create :: "string \<Rightarrow> string \<Rightarrow> datetime \<Rightarrow> string option \<Rightarrow> string option \<Rightarrow> SessionRecord io"
  sr_get_by_id :: "string \<Rightarrow> SessionRecord option io"
  sr_revoke :: "string \<Rightarrow> unit io"
  sr_revoke_all_for_user :: "string \<Rightarrow> unit io"
  sr_delete_expired :: "int io"

record ApiTokenRepository =
  tr_create :: "string \<Rightarrow> string \<Rightarrow> string \<Rightarrow> dict \<Rightarrow> string \<Rightarrow> string option \<Rightarrow> ApiTokenRecord io"
  tr_get_by_hash :: "string \<Rightarrow> ApiTokenRecord option io"
  tr_list_active :: "ApiTokenRecord list io"
  tr_list_for_machine :: "string \<Rightarrow> ApiTokenRecord list io"
  tr_revoke :: "string \<Rightarrow> unit io"
  tr_touch_last_used :: "string \<Rightarrow> unit io"

record SetupStateRepository =
  ssr_get :: "SetupStateRecord io"
  ssr_update :: "bool \<Rightarrow> string \<Rightarrow> dict \<Rightarrow> SetupStateRecord io"

record SettingsRepository =
  str_get :: "string \<Rightarrow> jval option io"
  str_set :: "string \<Rightarrow> jval \<Rightarrow> unit io"
  str_get_all :: "(string \<times> jval option) list io"

text \<open>The SQL classes; their one attribute, the session, is the session of the world.\<close>

definition SqlUserRepository :: "env \<Rightarrow> UserRepository" where
  "SqlUserRepository env =
     \<lparr>ur_get_by_id = user_get_by_id env, ur_get_by_username = user_get_by_username, ur_create = user_create env,
      ur_update_last_login = user_update_last_login env, ur_update_password_hash = user_update_password_hash env,
      ur_count = user_count\<rparr>"

definition SqlMachineRepository :: "env \<Rightarrow> MachineRepository" where
  "SqlMachineRepository env =
     \<lparr>mr_get_by_id = machine_get_by_id env, mr_list_all = machine_list_all, mr_create = machine_create env,
      mr_update = machine_update env, mr_delete = machine_delete env, mr_count = machine_count\<rparr>"

definition SqlWakeAttemptRepository :: "env \<Rightarrow> WakeAttemptRepository" where
  "SqlWakeAttemptRepository env =
     \<lparr>wr_create = attempt_create env, wr_get_by_id = attempt_get_by_id env, wr_update_status = attempt_update_status env,
      wr_list_for_machine = attempt_list_for_machine env, wr_get_active_for_machine = attempt_get_active_for_machine env\<rparr>"

definition SqlSessionRepository :: "env \<Rightarrow> SessionRepository" where
  "SqlSessionRepository env =
     \<lparr>sr_create = session_create env, sr_get_by_id = session_get_by_id env, sr_revoke = session_revoke env,
      sr_revoke_all_for_user = session_revoke_all_for_user env, sr_delete_expired = session_delete_expired env\<rparr>"

definition SqlApiTokenRepository :: "env \<Rightarrow> ApiTokenRepository" where
  "SqlApiTokenRepository env =
     \<lparr>tr_create = token_create env, tr_get_by_hash = token_get_by_hash, tr_list_active = token_list_active,
      tr_list_for_machine = token_list_for_machine env, tr_revoke = token_revoke env, tr_touch_last_used = token_touch_last_used env\<rparr>"

definition SqlSetupStateRepository :: "env \<Rightarrow> SetupStateRepository" where
  "SqlSetupStateRepository env = \<lparr>ssr_get = setup_get env, ssr_update = setup_update env\<rparr>"

definition SqlSettingsRepository :: "env \<Rightarrow> SettingsRepository" where
  "SqlSettingsRepository env =
     \<lparr>str_get = settings_repo_get, str_set = settings_repo_set env, str_get_all = settings_repo_get_all\<rparr>"

section \<open>A table as a map\<close>

text \<open>A table with a primary key, which the constraints keep unique.\<close>

locale keyed_table =
  fixes rows :: "db \<Rightarrow> 'r list"
    and key :: "'r \<Rightarrow> string"
  assumes unique_keys: "wf_db d \<Longrightarrow> distinct (map key (rows d))"
begin

definition view :: "db \<Rightarrow> string \<rightharpoonup> 'r" where
  "view d = (\<lambda>k. find_row key k (rows d))"

lemma view_key: "view d k = Some r \<Longrightarrow> key r = k"
  by (auto simp: view_def dest: find_row_SomeD)

lemma view_rows: "wf_db d \<Longrightarrow> ran (view d) = set (rows d)"
  using unique_keys [of d] by (auto simp: view_def ran_def find_row_iff)

lemma view_dom: "dom (view d) = key ` set (rows d)"
  by (auto simp: view_def dom_def find_row_None simp flip: not_None_eq)

lemma view_absent: "k \<notin> key ` set (rows d) \<Longrightarrow> view d k = None"
  by (simp add: view_def find_row_None)

lemma view_count: "wf_db d \<Longrightarrow> card (dom (view d)) = length (rows d)"
  using distinct_card [OF unique_keys [of d]] by (simp add: view_dom)

lemma view_insert:
  assumes "rows d' = rows d @ [r]" "key r \<notin> key ` set (rows d)"
  shows "view d' = (view d)(key r \<mapsto> r)"
proof
  fix k
  have "find_row key (key r) (rows d) = None" using assms(2) by (simp add: find_row_None)
  then show "view d' k = ((view d)(key r \<mapsto> r)) k"
    using assms(1) by (cases "k = key r") (simp_all add: view_def find_row_append split: option.split)
qed

lemma view_delete:
  assumes "rows d' = filter (\<lambda>r. key r \<noteq> k) (rows d)"
  shows "view d' = (view d)(k := None)"
proof
  fix i
  have "find_row key i (filter (\<lambda>r. key r \<noteq> k) rs) = (if i = k then None else find_row key i rs)" for rs
    by (induction rs) auto
  then show "view d' i = ((view d)(k := None)) i" using assms by (simp add: view_def)
qed

lemma view_update:
  assumes "rows d' = update_rows key k f (rows d)" "\<And>r. key r = k \<Longrightarrow> key (f r) = k"
  shows "view d' = (case view d k of None \<Rightarrow> view d | Some r \<Rightarrow> (view d)(k \<mapsto> f r))"
proof
  fix i
  have "find_row key i (update_rows key k f rs) = (if i = k then map_option f (find_row key k rs) else find_row key i rs)" for rs
    using assms(2) by (induction rs) auto
  then show "view d' i = (case view d k of None \<Rightarrow> view d | Some r \<Rightarrow> (view d)(k \<mapsto> f r)) i"
    using assms(1) by (auto simp: view_def split: option.split)
qed

lemma view_same: "rows d' = rows d \<Longrightarrow> view d' = view d"
  by (simp add: view_def)

end

text \<open>The tables with their ids.\<close>

interpretation user_table: keyed_table users u_id
  by unfold_locales (simp add: wf_db_def wf_users_def)

interpretation machine_table: keyed_table machines m_id
  by unfold_locales (simp add: wf_db_def wf_machines_def)

section \<open>Sequences of calls\<close>

text \<open>Calls one after the other, the first exception ending them; and what an abstract repository allows.\<close>

primrec calls :: "('c \<Rightarrow> 'a io) \<Rightarrow> 'c list \<Rightarrow> 'a list io" where
  "calls call [] = return_p []"
| "calls call (c # cs) = bind_p (call c) (\<lambda>a. bind_p (calls call cs) (\<lambda>as. return_p (a # as)))"

fun spec_run :: "('m \<Rightarrow> 'c \<Rightarrow> 'a \<Rightarrow> 'm \<Rightarrow> bool) \<Rightarrow> 'm \<Rightarrow> 'c list \<Rightarrow> 'a list \<Rightarrow> 'm \<Rightarrow> bool" where
  "spec_run spec m [] [] m' \<longleftrightarrow> m' = m"
| "spec_run spec m (c # cs) (a # as) m' \<longleftrightarrow> (\<exists>n. spec m c a n \<and> spec_run spec n cs as m')"
| "spec_run spec m _ _ m' \<longleftrightarrow> False"

text \<open>
  A repository whose calls each do what the abstract one allows, or raise and leave the abstract
  state alone.
\<close>

locale repository_refinement =
  fixes call :: "'c \<Rightarrow> 'a io"
    and spec :: "'m \<Rightarrow> 'c \<Rightarrow> 'a \<Rightarrow> 'm \<Rightarrow> bool"
    and abs_of :: "db \<Rightarrow> 'm"
  assumes call_step: "wf_db (w_db w) \<Longrightarrow>
      wp (call c) (\<lambda>a v. spec (abs_of (w_db w)) c a (abs_of (w_db v))) (\<lambda>_ v. w_db v = w_db w) w"
    and call_wf: "keeps wf_world (call c)"
begin

lemma calls_refine:
  assumes "wf_world w"
  shows "wp (calls call cs) (\<lambda>as v. spec_run spec (abs_of (w_db w)) cs as (abs_of (w_db v)))
     (\<lambda>_ v. \<exists>n as. n < length cs \<and> spec_run spec (abs_of (w_db w)) (take n cs) as (abs_of (w_db v))) w"
  using assms
proof (induction cs arbitrary: w)
  case Nil
  show ?case unfolding calls.simps wp_return by simp
next
  case (Cons c cs)
  have "wf_db (w_db w)" using Cons.prems by (simp add: wf_world_def)
  then have "wp (call c) (\<lambda>a v. spec (abs_of (w_db w)) c a (abs_of (w_db v)) \<and> wf_world v) (\<lambda>_ v. w_db v = w_db w \<and> wf_world v) w"
    unfolding wp_conj using call_step [of w c] call_wf [of c] Cons.prems by (simp add: keeps_wp)
  then show ?case
    unfolding calls.simps wp_bind wp_return
  proof (rule wp_mono, goal_cases)
    case (1 a v)
    then have "wf_world v" by simp
    show ?case
    proof (rule wp_mono [OF Cons.IH [OF \<open>wf_world v\<close>]], goal_cases)
      case (1 as u)
      with \<open>spec _ c a _ \<and> _\<close> show ?case by auto
    next
      case (2 e u)
      then obtain n as where "n < length cs" "spec_run spec (abs_of (w_db v)) (take n cs) as (abs_of (w_db u))" by blast
      with \<open>spec _ c a _ \<and> _\<close> show ?case
        by (intro exI [of _ "Suc n"] exI [of _ "a # as"]) auto
    qed
  next
    case (2 e v)
    then show ?case by (intro exI [of _ 0] exI [of _ "[]"]) simp
  qed
qed

end

section \<open>The users as a map\<close>

text \<open>A call of the interface and its answer.\<close>

datatype user_call =
    UGetById string
  | UGetByUsername string
  | UCreate string string string
  | UUpdateLastLogin string
  | UUpdatePasswordHash string string
  | UCount

datatype user_answer = AUser "UserRecord option" | ADone | AInt int

fun call_users :: "UserRepository \<Rightarrow> user_call \<Rightarrow> user_answer io" where
  "call_users p (UGetById i) = bind_p (ur_get_by_id p i) (\<lambda>r. return_p (AUser r))"
| "call_users p (UGetByUsername n) = bind_p (ur_get_by_username p n) (\<lambda>r. return_p (AUser r))"
| "call_users p (UCreate n h r) = bind_p (ur_create p n h r) (\<lambda>u. return_p (AUser (Some u)))"
| "call_users p (UUpdateLastLogin i) = then_p (ur_update_last_login p i) (return_p ADone)"
| "call_users p (UUpdatePasswordHash i h) = then_p (ur_update_password_hash p i h) (return_p ADone)"
| "call_users p UCount = bind_p (ur_count p) (\<lambda>n. return_p (AInt n))"

text \<open>The id a text stands for, where the code asks Python first.\<close>

definition id_of :: "env \<Rightarrow> string \<Rightarrow> string option" where
  "id_of env i = (if is_valid_uuid i then pg_uuid env i else None)"

text \<open>One record of the map changed, if it is there.\<close>

definition map_change :: "string option \<Rightarrow> ('r \<Rightarrow> 'r) \<Rightarrow> (string \<rightharpoonup> 'r) \<Rightarrow> (string \<rightharpoonup> 'r)" where
  "map_change k f m = (case Option.bind k m of None \<Rightarrow> m | Some r \<Rightarrow> m(the k \<mapsto> f r))"

text \<open>What the interface promises of a call, by the map before and the map after it.\<close>

fun users_spec :: "env \<Rightarrow> (string \<rightharpoonup> UserRecord) \<Rightarrow> user_call \<Rightarrow> user_answer \<Rightarrow> (string \<rightharpoonup> UserRecord) \<Rightarrow> bool" where
  "users_spec env m (UGetById i) a m' \<longleftrightarrow> m' = m \<and> a = AUser (Option.bind (id_of env i) m)"
| "users_spec env m (UGetByUsername n) a m' \<longleftrightarrow> m' = m \<and>
     (case a of AUser (Some u) \<Rightarrow> m (u_id u) = Some u \<and> u_username u = n
      | AUser None \<Rightarrow> \<forall>u \<in> ran m. u_username u \<noteq> n | _ \<Rightarrow> False)"
| "users_spec env m (UCreate n h r) a m' \<longleftrightarrow>
     (\<exists>u. a = AUser (Some u) \<and> m (u_id u) = None \<and> (\<forall>v \<in> ran m. u_username v \<noteq> n) \<and> m' = m(u_id u \<mapsto> u) \<and>
        u_username u = n \<and> u_password_hash u = h \<and> u_role u = r \<and> u_last_login_at u = None)"
| "users_spec env m (UUpdateLastLogin i) a m' \<longleftrightarrow> a = ADone \<and>
     (\<exists>t. m' = map_change (pg_uuid env i) (\<lambda>u. u\<lparr>u_last_login_at := Some t\<rparr>) m)"
| "users_spec env m (UUpdatePasswordHash i h) a m' \<longleftrightarrow> a = ADone \<and>
     m' = map_change (pg_uuid env i) (\<lambda>u. u\<lparr>u_password_hash := h\<rparr>) m"
| "users_spec env m UCount a m' \<longleftrightarrow> m' = m \<and> a = AInt (int (card (dom m)))"

lemma wp_flush_insert_user:
  assumes "wf_db (w_db w)"
  shows "wp (flush (insert_user env r)) (\<lambda>u v. u_username u = u_username r \<and> u_password_hash u = u_password_hash r \<and> u_role u = u_role r \<and>
        u_last_login_at u = u_last_login_at r \<and>
        u_id u \<notin> u_id ` set (users (w_db w)) \<and> (\<forall>v \<in> set (users (w_db w)). u_username v \<noteq> u_username r) \<and>
        w_db v = (w_db w)\<lparr>users := users (w_db w) @ [u]\<rparr>) (\<lambda>_ v. w_db v = w_db w) w"
  by (auto simp: insert_user_def Let_def image_iff split: sum.split prod.split)

lemma user_repository_calls:
  assumes wf: "wf_db (w_db w)"
  shows "wp (call_users (SqlUserRepository env) c)
     (\<lambda>a v. users_spec env (user_table.view (w_db w)) c a (user_table.view (w_db v)))
     (\<lambda>_ v. w_db v = w_db w) w"
proof (cases c)
  case (UGetById i)
  then show ?thesis
    by (auto simp: SqlUserRepository_def wp_user_get_by_id id_of_def user_table.view_def split: option.split)
next
  case (UGetByUsername n)
  show ?thesis
  proof (cases "w_dead w")
    case True
    then show ?thesis using UGetByUsername by (simp add: SqlUserRepository_def user_get_by_username_def)
  next
    case False
    have "users_spec env (user_table.view (w_db w)) c (AUser (find_row u_username n (users (w_db w)))) (user_table.view (w_db w))"
      using UGetByUsername wf user_table.view_rows [OF wf] user_table.unique_keys [OF wf]
      by (auto simp: user_table.view_def find_row_None find_row_iff dest: find_row_SomeD split: option.split)
    then show ?thesis
      using UGetByUsername by (simp add: SqlUserRepository_def wp_user_get_by_username [OF False wf])
  qed
next
  case (UCreate n h r)
  show ?thesis
    unfolding UCreate SqlUserRepository_def call_users.simps UserRepository.simps user_create_def wp_bind wp_return wp_effect wp_now
    by (rule wp_mono [OF wp_flush_insert_user])
      (use wf user_table.view_rows [OF wf] in \<open>auto simp: user_table.view_insert intro: user_table.view_absent\<close>)
next
  case (UUpdateLastLogin i)
  then show ?thesis
    by (auto simp: SqlUserRepository_def user_update_last_login_def map_change_def user_table.view_update [of _ _ "\<lambda>u. u\<lparr>u_last_login_at := Some _\<rparr>"]
        split: option.split)
next
  case (UUpdatePasswordHash i h)
  then show ?thesis
    by (auto simp: SqlUserRepository_def user_update_password_hash_def map_change_def user_table.view_update split: option.split)
next
  case UCount
  then show ?thesis
    by (simp add: SqlUserRepository_def user_count_def user_table.view_count [OF wf])
qed

interpretation user_port: repository_refinement "call_users (SqlUserRepository env)" "users_spec env" user_table.view for env
proof (unfold_locales, rule user_repository_calls)
  show "keeps wf_world (call_users (SqlUserRepository env) c)" for c
    by (cases c) (simp_all add: SqlUserRepository_def, (intro keeps_intros wf_intros)+)
qed

text \<open>
  C19. \<open>SqlUserRepository\<close> is a map from ids to users: any sequence of its calls answers and leaves what
  the same calls on a finite map would, an \<open>id\<close> being looked up as the UUID it denotes, and at the
  first call that raises the users are those the calls before it left.
\<close>

theorem user_repository_refines_map:
  assumes "wf_world w"
  shows "wp (calls (call_users (SqlUserRepository env)) cs)
     (\<lambda>as v. spec_run (users_spec env) (user_table.view (w_db w)) cs as (user_table.view (w_db v)))
     (\<lambda>_ v. \<exists>n as. n < length cs \<and> spec_run (users_spec env) (user_table.view (w_db w)) (take n cs) as (user_table.view (w_db v))) w"
  by (rule user_port.calls_refine [OF assms])

theorem user_repository_refines_map_witness:
  "wp (calls (call_users (SqlUserRepository demo_env)) [UUpdatePasswordHash uuid_a ''new'', UGetById uuid_a])
     (\<lambda>as _. as = [ADone, AUser (Some (demo_user\<lparr>u_password_hash := ''new''\<rparr>))]) (\<lambda>_ _. True) (world_of demo_db_auth 0)"
proof -
  have map: "user_table.view demo_db_auth = [uuid_a \<mapsto> demo_user]"
    by (simp add: user_table.view_def fun_eq_iff)
  have run: "spec_run (users_spec demo_env) [uuid_a \<mapsto> demo_user] [UUpdatePasswordHash uuid_a ''new'', UGetById uuid_a] as m \<Longrightarrow>
      as = [ADone, AUser (Some (demo_user\<lparr>u_password_hash := ''new''\<rparr>))]" for as m
    by (cases as; cases "tl as"; cases "tl (tl as)")
      (auto simp: map_change_def id_of_def)
  show ?thesis
    by (rule wp_mono [OF user_repository_refines_map]) (auto simp: wf_world_def map dest: run simp del: spec_run.simps)
qed

section \<open>The machines as a map\<close>

datatype machine_call =
    MGetById string
  | MListAll bool
  | MCreate MachineFields
  | MUpdate string "machine_kwarg list"
  | MDelete string
  | MCount

datatype machine_answer = AMachine "MachineRecord option" | AMachines "MachineRecord list" | ABool bool | ANumber int

fun call_machines :: "MachineRepository \<Rightarrow> machine_call \<Rightarrow> machine_answer io" where
  "call_machines p (MGetById i) = bind_p (mr_get_by_id p i) (\<lambda>r. return_p (AMachine r))"
| "call_machines p (MListAll b) = bind_p (mr_list_all p b) (\<lambda>rs. return_p (AMachines rs))"
| "call_machines p (MCreate f) = bind_p (mr_create p f) (\<lambda>r. return_p (AMachine (Some r)))"
| "call_machines p (MUpdate i kws) = bind_p (mr_update p i kws) (\<lambda>r. return_p (AMachine r))"
| "call_machines p (MDelete i) = bind_p (mr_delete p i) (\<lambda>b. return_p (ABool b))"
| "call_machines p MCount = bind_p (mr_count p) (\<lambda>n. return_p (ANumber n))"

text \<open>A record made of the fields given, and one changed by the keyword arguments given.\<close>

definition has_fields :: "env \<Rightarrow> MachineFields \<Rightarrow> MachineRecord \<Rightarrow> bool" where
  "has_fields env f r \<longleftrightarrow> m_name r = f_name f \<and> m_hostname r = f_hostname f \<and> m_ssh_port r = f_ssh_port f \<and>
     m_wake_interface r = f_wake_interface f \<and> m_wake_strategy r = f_wake_strategy f \<and> m_enabled r = f_enabled f \<and>
     pg_inet env (f_ip_address f) = Some (m_ip_address r) \<and> pg_macaddr env (f_mac_address f) = Some (m_mac_address r)"

definition has_changes :: "env \<Rightarrow> machine_kwarg list \<Rightarrow> MachineRecord \<Rightarrow> MachineRecord \<Rightarrow> bool" where
  "has_changes env kws old r \<longleftrightarrow>
     (let n = apply_kwargs kws old in
      m_id r = m_id old \<and> m_created_at r = m_created_at old \<and> m_name r = m_name n \<and> m_hostname r = m_hostname n \<and>
      m_ssh_port r = m_ssh_port n \<and> m_wake_interface r = m_wake_interface n \<and> m_wake_strategy r = m_wake_strategy n \<and>
      m_enabled r = m_enabled n \<and>
      (r = old \<or> pg_inet env (m_ip_address n) = Some (m_ip_address r) \<and> pg_macaddr env (m_mac_address n) = Some (m_mac_address r)))"

fun machines_spec :: "env \<Rightarrow> (string \<rightharpoonup> MachineRecord) \<Rightarrow> machine_call \<Rightarrow> machine_answer \<Rightarrow> (string \<rightharpoonup> MachineRecord) \<Rightarrow> bool" where
  "machines_spec env m (MGetById i) a m' \<longleftrightarrow> m' = m \<and> a = AMachine (Option.bind (id_of env i) m)"
| "machines_spec env m (MListAll b) a m' \<longleftrightarrow> m' = m \<and>
     (\<exists>rs. a = AMachines rs \<and> distinct (map m_id rs) \<and> set rs = {r \<in> ran m. b \<longrightarrow> m_enabled r})"
| "machines_spec env m (MCreate f) a m' \<longleftrightarrow>
     (\<exists>r. a = AMachine (Some r) \<and> m (m_id r) = None \<and> (\<forall>s \<in> ran m. m_mac_address s \<noteq> m_mac_address r) \<and>
        m' = m(m_id r \<mapsto> r) \<and> has_fields env f r)"
| "machines_spec env m (MUpdate i kws) a m' \<longleftrightarrow>
     (case Option.bind (id_of env i) m of
        None \<Rightarrow> m' = m \<and> a = AMachine None
      | Some old \<Rightarrow> \<exists>r. a = AMachine (Some r) \<and> m' = m(m_id old \<mapsto> r) \<and> has_changes env kws old r)"
| "machines_spec env m (MDelete i) a m' \<longleftrightarrow>
     (case Option.bind (id_of env i) m of
        None \<Rightarrow> m' = m \<and> a = ABool False
      | Some old \<Rightarrow> m' = m(m_id old := None) \<and> a = ABool True)"
| "machines_spec env m MCount a m' \<longleftrightarrow> m' = m \<and> a = ANumber (int (card (dom m)))"

text \<open>The map of the records the interface hands out.\<close>

definition machine_map :: "db \<Rightarrow> string \<rightharpoonup> MachineRecord" where
  "machine_map d = (\<lambda>k. map_option machine_to_record (machine_table.view d k))"

lemma machine_map_ran: "wf_db d \<Longrightarrow> ran (machine_map d) = machine_to_record ` set (machines d)"
  using machine_table.view_rows [of d] by (simp add: machine_map_def ran_map_option)

lemma machine_map_dom: "dom (machine_map d) = dom (machine_table.view d)"
  by (auto simp: machine_map_def dom_def)

lemma machine_map_insert:
  assumes "machines d' = machines d @ [r]" "m_id r \<notin> m_id ` set (machines d)"
  shows "machine_map d' = (machine_map d)(m_id r \<mapsto> machine_to_record r)" "machine_map d (m_id r) = None"
  using machine_table.view_insert [OF assms] machine_table.view_absent [OF assms(2)] by (auto simp: machine_map_def fun_eq_iff)

lemma machine_map_delete:
  "machines d' = filter (\<lambda>r. m_id r \<noteq> k) (machines d) \<Longrightarrow> machine_map d' = (machine_map d)(k := None)"
  by (drule machine_table.view_delete) (auto simp: machine_map_def fun_eq_iff)

lemma machine_map_set:
  assumes "machines d' = update_rows m_id k (\<lambda>_. r) (machines d)" "m_id r = k" "machine_table.view d k = Some old"
  shows "machine_map d' = (machine_map d)(k \<mapsto> machine_to_record r)"
  using machine_table.view_update [OF assms(1)] assms(2,3) by (auto simp: machine_map_def fun_eq_iff)

text \<open>What the broadcast address is does not matter for the other columns.\<close>

lemma apply_kwargs_broadcast:
  "\<exists>c. apply_kwargs kws (m\<lparr>m_broadcast_address := b\<rparr>) = (apply_kwargs kws m)\<lparr>m_broadcast_address := c\<rparr>"
proof (induction kws arbitrary: m b)
  case Nil
  show ?case by (auto simp: apply_kwargs_def)
next
  case (Cons kw kws)
  have "\<exists>c. setattr_machine (m\<lparr>m_broadcast_address := b\<rparr>) kw = (setattr_machine m kw)\<lparr>m_broadcast_address := c\<rparr>"
    by (cases kw) (auto intro: exI [of _ b] simp: exI [of _ b])
  then show ?case using Cons by (auto simp: apply_kwargs_def)
qed

lemma apply_kwargs_record:
  "m_name (apply_kwargs kws (machine_to_record m)) = m_name (apply_kwargs kws m)"
  "m_hostname (apply_kwargs kws (machine_to_record m)) = m_hostname (apply_kwargs kws m)"
  "m_ssh_port (apply_kwargs kws (machine_to_record m)) = m_ssh_port (apply_kwargs kws m)"
  "m_wake_interface (apply_kwargs kws (machine_to_record m)) = m_wake_interface (apply_kwargs kws m)"
  "m_wake_strategy (apply_kwargs kws (machine_to_record m)) = m_wake_strategy (apply_kwargs kws m)"
  "m_enabled (apply_kwargs kws (machine_to_record m)) = m_enabled (apply_kwargs kws m)"
  "m_ip_address (apply_kwargs kws (machine_to_record m)) = m_ip_address (apply_kwargs kws m)"
  "m_mac_address (apply_kwargs kws (machine_to_record m)) = m_mac_address (apply_kwargs kws m)"
proof -
  have "machine_to_record m = m\<lparr>m_broadcast_address := if truthy (m_broadcast_address m) then m_broadcast_address m else None\<rparr>"
    by (simp add: machine_to_record_def)
  then obtain b where "machine_to_record m = m\<lparr>m_broadcast_address := b\<rparr>" by blast
  then obtain c where "apply_kwargs kws (machine_to_record m) = (apply_kwargs kws m)\<lparr>m_broadcast_address := c\<rparr>"
    using apply_kwargs_broadcast [where kws = kws and m = m and b = b] by auto
  then show
    "m_name (apply_kwargs kws (machine_to_record m)) = m_name (apply_kwargs kws m)"
    "m_hostname (apply_kwargs kws (machine_to_record m)) = m_hostname (apply_kwargs kws m)"
    "m_ssh_port (apply_kwargs kws (machine_to_record m)) = m_ssh_port (apply_kwargs kws m)"
    "m_wake_interface (apply_kwargs kws (machine_to_record m)) = m_wake_interface (apply_kwargs kws m)"
    "m_wake_strategy (apply_kwargs kws (machine_to_record m)) = m_wake_strategy (apply_kwargs kws m)"
    "m_enabled (apply_kwargs kws (machine_to_record m)) = m_enabled (apply_kwargs kws m)"
    "m_ip_address (apply_kwargs kws (machine_to_record m)) = m_ip_address (apply_kwargs kws m)"
    "m_mac_address (apply_kwargs kws (machine_to_record m)) = m_mac_address (apply_kwargs kws m)"
    by simp_all
qed

lemma apply_kwargs_created [simp]: "m_created_at (apply_kwargs kws m) = m_created_at m"
proof -
  have "m_created_at (setattr_machine m kw) = m_created_at m" for m kw by (cases kw) auto
  then show ?thesis unfolding apply_kwargs_def by (induction kws arbitrary: m) auto
qed

text \<open>What is inserted and what an update stores.\<close>

lemma check_machine_row:
  assumes "check_machine env others r = Inr x"
  shows "m_name x = m_name r" "m_hostname x = m_hostname r" "m_ssh_port x = m_ssh_port r" "m_wake_interface x = m_wake_interface r"
    "m_wake_strategy x = m_wake_strategy r" "m_enabled x = m_enabled r" "m_id x = m_id r" "m_created_at x = m_created_at r"
    "pg_inet env (m_ip_address r) = Some (m_ip_address x)" "pg_macaddr env (m_mac_address r) = Some (m_mac_address x)"
    "m_mac_address x \<notin> m_mac_address ` set others"
  using assms by (auto simp: check_machine_def)

lemma wp_flush_insert_machine:
  "wp (flush (insert_machine env (new_machine_row i t f))) (\<lambda>r v. has_fields env f r \<and> m_id r \<notin> m_id ` set (machines (w_db w)) \<and>
      m_mac_address r \<notin> m_mac_address ` set (machines (w_db w)) \<and>
      w_db v = (w_db w)\<lparr>machines := machines (w_db w) @ [r]\<rparr>) (\<lambda>_ v. w_db v = w_db w) w"
proof -
  have "has_fields env f r \<and> m_id r \<notin> m_id ` set (machines d) \<and> m_mac_address r \<notin> m_mac_address ` set (machines d) \<and>
      d' = d\<lparr>machines := machines d @ [r]\<rparr>" if ins: "insert_machine env (new_machine_row i t f) d = Inr (r, d')" for r d d'
  proof -
    from ins obtain k where k: "check_machine env (machines d) ((new_machine_row i t f)\<lparr>m_id := k\<rparr>) = Inr r" "k \<notin> m_id ` set (machines d)"
        "d' = d\<lparr>machines := machines d @ [r]\<rparr>"
      by (auto simp: insert_machine_def new_machine_row_def)
    with check_machine_row [OF k(1)] show ?thesis by (simp add: has_fields_def new_machine_row_def)
  qed
  then show ?thesis by (auto split: sum.split prod.split)
qed

lemma update_machine_stores:
  assumes "update_machine env k (apply_kwargs kws) t d = Inr (r, d')" "machine_table.view d k = Some old"
  shows "\<exists>x. r = Some x \<and> has_changes env kws (machine_to_record old) (machine_to_record x) \<and>
    machine_map d' = (machine_map d)(k \<mapsto> machine_to_record x)"
proof -
  have old: "find_row m_id k (machines d) = Some old" "m_id old = k"
    using assms(2) machine_table.view_key [OF assms(2)] by (simp_all add: machine_table.view_def)
  show ?thesis
  proof (cases "apply_kwargs kws old = old")
    case True
    with assms(1) old have "r = Some old" "d' = d" by (simp_all add: update_machine_def)
    moreover have "(machine_map d)(k \<mapsto> machine_to_record old) = machine_map d"
      using assms(2) by (auto simp: machine_map_def)
    ultimately show ?thesis
      using True by (simp add: has_changes_def apply_kwargs_record Let_def)
  next
    case False
    with assms(1) old obtain x where x: "check_machine env (filter (\<lambda>x. m_id x \<noteq> k) (machines d)) ((apply_kwargs kws old)\<lparr>m_updated_at := t\<rparr>) = Inr x"
        "r = Some x" "machines d' = update_rows m_id k (\<lambda>_. x) (machines d)"
      by (auto simp: update_machine_def Let_def)
    note row = check_machine_row [OF x(1)]
    have "machine_map d' = (machine_map d)(k \<mapsto> machine_to_record x)"
      using row(7) old(2) by (intro machine_map_set [OF x(3) _ assms(2)]) simp
    moreover have "has_changes env kws (machine_to_record old) (machine_to_record x)"
      using row by (simp add: has_changes_def apply_kwargs_record Let_def) (simp add: machine_to_record_def)
    ultimately show ?thesis using x(2) by blast
  qed
qed

lemma machine_repository_calls:
  assumes wf: "wf_db (w_db w)"
  shows "wp (call_machines (SqlMachineRepository env) c)
     (\<lambda>a v. machines_spec env (machine_map (w_db w)) c a (machine_map (w_db v))) (\<lambda>_ v. w_db v = w_db w) w"
proof (cases c)
  case (MGetById i)
  then show ?thesis
    by (auto simp: SqlMachineRepository_def wp_machine_get_by_id id_of_def machine_map_def machine_table.view_def split: option.split)
next
  case (MListAll b)
  have rows: "distinct (map m_id (machines (w_db w)))" using wf by (rule machine_table.unique_keys)
  have "machines_spec env (machine_map (w_db w)) c (AMachines (map machine_to_record (if b then filter m_enabled (machines (w_db w)) else machines (w_db w))))
      (machine_map (w_db w))"
    using MListAll rows machine_map_ran [OF wf] by (auto simp: comp_def distinct_map_filter)
  then show ?thesis
    using MListAll by (simp add: SqlMachineRepository_def machine_list_all_def)
next
  case (MCreate f)
  show ?thesis
    unfolding MCreate SqlMachineRepository_def call_machines.simps MachineRepository.simps machine_create_def wp_bind wp_return wp_effect wp_now
  proof (rule wp_mono [OF wp_flush_insert_machine], goal_cases)
    case (1 r v)
    have "has_fields env f (machine_to_record r)" using 1 by (simp add: has_fields_def)
    then show ?case
      using 1 machine_map_insert [of "w_db v" "w_db w" r] machine_map_ran [OF wf] by (auto simp: image_iff)
  qed simp
next
  case (MUpdate i kws)
  show ?thesis
  proof (cases "Option.bind (id_of env i) (machine_table.view (w_db w))")
    case None
    then show ?thesis
      using MUpdate by (auto simp: SqlMachineRepository_def machine_update_def id_of_def machine_map_def machine_table.view_def split: option.split)
  next
    case (Some old)
    then obtain k where k: "is_valid_uuid i" "pg_uuid env i = Some k" "machine_table.view (w_db w) k = Some old"
      by (auto simp: id_of_def split: if_splits option.splits bind_splits)
    then have "find_row m_id k (machines (w_db w)) = Some old" "m_id old = k"
      using machine_table.view_key by (simp_all add: machine_table.view_def)
    moreover have "Option.bind (id_of env i) (machine_map (w_db w)) = Some (machine_to_record old)"
      using k by (simp add: id_of_def machine_map_def)
    moreover have "\<forall>t a d'. update_machine env k (apply_kwargs kws) t (w_db w) = Inr (a, d') \<longrightarrow>
        (\<exists>x. a = Some x \<and> machine_map d' = (machine_map (w_db w))(k \<mapsto> machine_to_record x) \<and>
           has_changes env kws (machine_to_record old) (machine_to_record x))"
      using update_machine_stores [OF _ k(3)] by blast
    ultimately show ?thesis
      using MUpdate k by (auto simp: SqlMachineRepository_def machine_update_def split: sum.split prod.split) blast
  qed
next
  case (MDelete i)
  show ?thesis
  proof (cases "Option.bind (id_of env i) (machine_table.view (w_db w))")
    case None
    then show ?thesis
      using MDelete by (auto simp: SqlMachineRepository_def machine_delete_def id_of_def machine_map_def machine_table.view_def split: option.split)
  next
    case (Some old)
    then obtain k where k: "is_valid_uuid i" "pg_uuid env i = Some k" "machine_table.view (w_db w) k = Some old"
      by (auto simp: id_of_def split: if_splits option.splits bind_splits)
    then have "find_row m_id k (machines (w_db w)) = Some old" "m_id old = k"
      using machine_table.view_key by (simp_all add: machine_table.view_def)
    moreover have "Option.bind (id_of env i) (machine_map (w_db w)) = Some (machine_to_record old)"
      using k by (simp add: id_of_def machine_map_def)
    ultimately show ?thesis
      using MDelete k by (auto simp: SqlMachineRepository_def machine_delete_def split: sum.split dest!: delete_machine_row_InrD intro: machine_map_delete)
  qed
next
  case MCount
  then show ?thesis
    using machine_table.view_count [OF wf] by (simp add: SqlMachineRepository_def machine_count_def machine_map_dom)
qed

interpretation machine_port: repository_refinement "call_machines (SqlMachineRepository env)" "machines_spec env" machine_map for env
proof (unfold_locales, rule machine_repository_calls)
  show "keeps wf_world (call_machines (SqlMachineRepository env) c)" for c
    by (cases c) (simp_all add: SqlMachineRepository_def, (intro keeps_intros wf_intros)+)
qed



end
